(* ===== verification/Prelude.thy ===== *)
theory Prelude
  imports Main "HOL-Library.AList"
begin

text \<open>
  Shared vocabulary of the development.

  \<^item> Go maps. A Go map is either nil or a finite table whose \<open>range\<close> loops visit the entries in an
    unspecified order. The model is an optional association list: \<open>None\<close> is the nil map, and the
    list order is the order in which a \<open>range\<close> visits the entries. Theorems quantify over the list,
    so they hold for every visiting order. \<open>gm_wf\<close> says that no key occurs twice.
  \<^item> Outcomes. A Go call returns a value, returns an error, or panics; \<open>outcome\<close> has one
    constructor for each.
  \<^item> The collections \<open>gomap_simps\<close> and \<open>outcome_splits\<close> of the simplification rules that the
    component theories share.
\<close>

named_theorems gomap_simps
named_theorems zero_defs
named_theorems wit_defs
named_theorems cond_types

section \<open>Go maps\<close>

type_synonym ('k, 'v) gomap = "('k \<times> 'v) list option"

type_synonym labels = "(string, string) gomap"

definition gm_items :: "('k, 'v) gomap \<Rightarrow> ('k \<times> 'v) list" where
  "gm_items m = (case m of None \<Rightarrow> [] | Some xs \<Rightarrow> xs)"

definition gm_get :: "('k, 'v) gomap \<Rightarrow> 'k \<Rightarrow> 'v option" where
  "gm_get m k = map_of (gm_items m) k"

definition gm_len :: "('k, 'v) gomap \<Rightarrow> nat" where
  "gm_len m = length (gm_items m)"

definition gm_keys :: "('k, 'v) gomap \<Rightarrow> 'k list" where
  "gm_keys m = map fst (gm_items m)"

definition gm_empty :: "('k, 'v) gomap" where
  "gm_empty = Some []"

text \<open>\<open>m[k] = v\<close> panics on a nil map; the caller decides what a \<open>None\<close> of \<open>gm_assign\<close> means.
  \<open>gm_put\<close> is the assignment on a map known to be made.\<close>

definition gm_put :: "'k \<Rightarrow> 'v \<Rightarrow> ('k, 'v) gomap \<Rightarrow> ('k, 'v) gomap" where
  "gm_put k v m = Some (AList.update k v (gm_items m))"

definition gm_assign :: "'k \<Rightarrow> 'v \<Rightarrow> ('k, 'v) gomap \<Rightarrow> ('k, 'v) gomap option" where
  "gm_assign k v m = (case m of None \<Rightarrow> None | Some _ \<Rightarrow> Some (gm_put k v m))"

text \<open>\<open>delete(m, k)\<close> is a no-op on a nil map and on an absent key.\<close>

definition gm_del :: "'k \<Rightarrow> ('k, 'v) gomap \<Rightarrow> ('k, 'v) gomap" where
  "gm_del k m = map_option (AList.delete k) m"

definition gm_wf :: "('k, 'v) gomap \<Rightarrow> bool" where
  "gm_wf m \<longleftrightarrow> distinct (gm_keys m)"

section \<open>Outcomes\<close>

datatype ('e, 'a) outcome = Ok 'a | Err 'e | Panic string

definition is_ok :: "('e, 'a) outcome \<Rightarrow> bool" where
  "is_ok r = (case r of Ok _ \<Rightarrow> True | _ \<Rightarrow> False)"

text \<open>Sequencing of calls that thread a state: an error or a panic ends the sequence with the state
  reached so far.\<close>

definition and_then ::
  "('e, 'a) outcome \<times> 's \<Rightarrow> ('a \<Rightarrow> 's \<Rightarrow> ('e, 'b) outcome \<times> 's) \<Rightarrow> ('e, 'b) outcome \<times> 's" where
  "and_then r k =
     (case fst r of Ok x \<Rightarrow> k x (snd r) | Err e \<Rightarrow> (Err e, snd r) | Panic m \<Rightarrow> (Panic m, snd r))"

text \<open>A part of a function body with early returns: it either ends the function with its outcome or
  continues with a value. \<open>flow_end\<close> reads the outcome of a whole body.\<close>

datatype ('r, 'a) flow = Return 'r | Continue 'a

definition flow_then ::
  "('r, 'a) flow \<times> 's \<Rightarrow> ('a \<Rightarrow> 's \<Rightarrow> ('r, 'b) flow \<times> 's) \<Rightarrow> ('r, 'b) flow \<times> 's" where
  "flow_then f k = (case fst f of Return r \<Rightarrow> (Return r, snd f) | Continue x \<Rightarrow> k x (snd f))"

definition flow_end :: "('r, 'r) flow \<times> 's \<Rightarrow> 'r \<times> 's" where
  "flow_end f = (case fst f of Return r \<Rightarrow> (r, snd f) | Continue r \<Rightarrow> (r, snd f))"

section \<open>Lemmas on Go maps\<close>

lemma gm_items_simps [simp, gomap_simps]:
  "gm_items None = []" "gm_items (Some xs) = xs" "gm_items gm_empty = []"
  by (simp_all add: gm_items_def gm_empty_def)

lemma gm_get_empty [simp, gomap_simps]: "gm_get None k = None" "gm_get gm_empty k = None"
  by (simp_all add: gm_get_def)

lemma gm_get_put [simp, gomap_simps]:
  "gm_get (gm_put k v m) k' = (if k' = k then Some v else gm_get m k')"
  by (simp add: gm_get_def gm_put_def update_conv)

lemma gm_get_del [simp, gomap_simps]:
  "gm_get (gm_del k m) k' = (if k' = k then None else gm_get m k')"
  by (cases m) (simp_all add: gm_get_def gm_del_def delete_conv)

lemma gm_wf_simps [simp]: "gm_wf None" "gm_wf gm_empty"
  by (simp_all add: gm_wf_def gm_keys_def)

lemma gm_wf_put [simp]: "gm_wf m \<Longrightarrow> gm_wf (gm_put k v m)"
  by (simp add: gm_wf_def gm_keys_def gm_put_def distinct_update)

lemma gm_wf_del [simp]: "gm_wf m \<Longrightarrow> gm_wf (gm_del k m)"
  by (cases m) (simp_all add: gm_wf_def gm_keys_def gm_del_def distinct_delete)

lemma gm_get_None_iff: "gm_get m k = None \<longleftrightarrow> k \<notin> set (gm_keys m)"
  by (auto simp: gm_get_def gm_keys_def map_of_eq_None_iff)

lemma gm_get_SomeD: "gm_get m k = Some v \<Longrightarrow> (k, v) \<in> set (gm_items m)"
  by (auto simp: gm_get_def dest: map_of_SomeD)

lemma gm_wf_get_iff: "gm_wf m \<Longrightarrow> gm_get m k = Some v \<longleftrightarrow> (k, v) \<in> set (gm_items m)"
  by (simp add: gm_wf_def gm_get_def gm_keys_def)

lemma gm_keys_iff: "k \<in> set (gm_keys m) \<longleftrightarrow> (\<exists>v. gm_get m k = Some v)"
  using gm_get_None_iff [of m k] by (cases "gm_get m k") auto

lemma gm_len_keys: "gm_wf m \<Longrightarrow> gm_len m = card (set (gm_keys m))"
  using distinct_card [of "gm_keys m"] by (simp add: gm_len_def gm_wf_def gm_keys_def)

lemma gm_len_0 [simp]: "gm_len m = 0 \<longleftrightarrow> gm_items m = []"
  by (simp add: gm_len_def)

lemma map_of_filter_fst:
  "map_of (filter (\<lambda>p. P (fst p)) xs) k = (if P k then map_of xs k else None)"
  by (induction xs) auto

lemma map_of_filter_distinct:
  "distinct (map fst xs) \<Longrightarrow>
   map_of (filter (\<lambda>(k, v). P k v) xs) k = (case map_of xs k of
      None \<Rightarrow> None | Some v \<Rightarrow> if P k v then Some v else None)"
  by (induction xs) (auto split: option.splits simp: map_of_eq_None_iff)

section \<open>Lemmas on outcomes\<close>

lemma is_ok_simps [simp]: "is_ok (Ok x)" "\<not> is_ok (Err e)" "\<not> is_ok (Panic m)"
  by (simp_all add: is_ok_def)

lemma and_then_simps [simp]:
  "and_then (Ok x, s) k = k x s" "and_then (Err e, s) k = (Err e, s)"
  "and_then (Panic m, s) k = (Panic m, s)"
  by (simp_all add: and_then_def)

lemma and_then_Ok_iff:
  "and_then r k = (Ok y, s') \<longleftrightarrow> (\<exists>x s. r = (Ok x, s) \<and> k x s = (Ok y, s'))"
  by (cases r; cases "fst r") (auto simp: and_then_def)

lemma flow_then_simps [simp]:
  "flow_then (Return r, s) k = (Return r, s)" "flow_then (Continue x, s) k = k x s"
  by (simp_all add: flow_then_def)

lemma flow_end_simps [simp]: "flow_end (Return r, s) = (r, s)" "flow_end (Continue r, s) = (r, s)"
  by (simp_all add: flow_end_def)

text \<open>A property of the state that every part keeps holds at the end, whichever part ends the body.\<close>

lemma flow_then_inv:
  assumes "I (snd f)" and "\<And>x s. f = (Continue x, s) \<Longrightarrow> I s \<Longrightarrow> I (snd (k x s))"
  shows "I (snd (flow_then f k))"
  using assms by (cases f; cases "fst f") auto

lemma and_then_inv:
  assumes "I (snd f)" and "\<And>x s. f = (Ok x, s) \<Longrightarrow> I s \<Longrightarrow> I (snd (k x s))"
  shows "I (snd (and_then f k))"
  using assms by (cases f; cases "fst f") auto

lemma flow_then_Continue_iff:
  "flow_then f k = (Continue y, s') \<longleftrightarrow> (\<exists>x s. f = (Continue x, s) \<and> k x s = (Continue y, s'))"
  by (cases f; cases "fst f") auto

lemma flow_end_snd [simp]: "snd (flow_end f) = snd f"
  by (cases f; cases "fst f") auto

lemmas outcome_splits = outcome.splits option.splits if_splits prod.splits

end
