(* ===== verification/GoStd.thy ===== *)
theory GoStd
  imports Prelude Complex_Main "HOL-Library.Log_Nat" "HOL-Library.Sublist"
begin

text \<open>
  The parts of Go and of its standard library that the sources use: the increment of an
  \<open>int32\<close>, the conversion of an integer to \<open>float64\<close> and back, decimal formatting
  (\<open>%d\<close>), and the string functions \<open>strings.Contains\<close> and \<open>strings.TrimSuffix\<close>.

  A \<open>float64\<close> that is not a NaN or an infinity is a rational number, so finite floats are
  modelled as \<open>rat\<close>. \<open>float64 n\<close> rounds the integer to 53 significant bits, ties to even, as
  the conversion of the language does. The sources divide floats only by powers of two
  (1024 and 1073741824), which is exact on the values that arise, so division needs no rounding.
\<close>

section \<open>Definitions\<close>

definition int32_wrap :: "int \<Rightarrow> int" where
  "int32_wrap x = (x + 2 ^ 31) mod 2 ^ 32 - 2 ^ 31"

definition int32_range :: "int \<Rightarrow> bool" where
  "int32_range x \<longleftrightarrow> - (2 ^ 31) \<le> x \<and> x < 2 ^ 31"

definition f64_round :: "nat \<Rightarrow> int \<Rightarrow> int" where
  "f64_round e m =
     (let q = m div 2 ^ e; r = m mod 2 ^ e; h = 2 ^ (e - 1)
      in (if r < h \<or> r = h \<and> even q then q else q + 1) * 2 ^ e)"

definition f64_of_int :: "int \<Rightarrow> int" where
  "f64_of_int n =
     (let e = floorlog 2 (nat \<bar>n\<bar>) - 53
      in if e = 0 then n else sgn n * f64_round e \<bar>n\<bar>)"

definition float64 :: "int \<Rightarrow> rat" where
  "float64 n = of_int (f64_of_int n)"

text \<open>\<open>int(f)\<close> on a float truncates towards zero.\<close>

definition int_of_float :: "rat \<Rightarrow> int" where
  "int_of_float q = (if 0 \<le> q then \<lfloor>q\<rfloor> else \<lceil>q\<rceil>)"

definition digit_char :: "nat \<Rightarrow> char" where
  "digit_char d = char_of (48 + d)"

fun itoa_nat :: "nat \<Rightarrow> string" where
  "itoa_nat n = (if n < 10 then [digit_char n] else itoa_nat (n div 10) @ [digit_char (n mod 10)])"

declare itoa_nat.simps [simp del]

definition itoa :: "int \<Rightarrow> string" where
  "itoa i = (if i < 0 then ''-'' @ itoa_nat (nat (- i)) else itoa_nat (nat i))"

fun strings_Contains :: "string \<Rightarrow> string \<Rightarrow> bool" where
  "strings_Contains [] sub = (sub = [])"
| "strings_Contains (c # s) sub = (prefix sub (c # s) \<or> strings_Contains s sub)"

definition strings_TrimSuffix :: "string \<Rightarrow> string \<Rightarrow> string" where
  "strings_TrimSuffix s suf =
     (if suffix suf s then take (length s - length suf) s else s)"

section \<open>Facts\<close>

lemma int32_wrap_id: "int32_range x \<Longrightarrow> int32_wrap x = x"
  by (simp add: int32_wrap_def int32_range_def)

lemma int32_wrap_range [simp]: "int32_range (int32_wrap x)"
proof -
  have "0 \<le> (x + 2 ^ 31) mod 2 ^ 32" and "(x + 2 ^ 31) mod 2 ^ 32 < 2 ^ 32"
    by (rule pos_mod_sign, simp) (rule pos_mod_bound, simp)
  then show ?thesis by (simp add: int32_range_def int32_wrap_def)
qed

text \<open>Integers below \<open>2 ^ 53\<close> in absolute value convert exactly.\<close>

lemma floorlog_le_53: "\<bar>n\<bar> < 2 ^ 53 \<Longrightarrow> floorlog 2 (nat \<bar>n\<bar>) \<le> 53"
proof -
  assume "\<bar>n\<bar> < 2 ^ 53"
  then have "nat \<bar>n\<bar> < 2 ^ 53" by (simp add: nat_less_iff)
  then show ?thesis by (simp add: floorlog_le_iff)
qed

lemma f64_exact: "\<bar>n\<bar> < 2 ^ 53 \<Longrightarrow> f64_of_int n = n"
  using floorlog_le_53 [of n] by (simp add: f64_of_int_def)

lemma float64_exact: "\<bar>n\<bar> < 2 ^ 53 \<Longrightarrow> float64 n = of_int n"
  by (simp add: float64_def f64_exact)

lemma itoa_nat_nonempty [simp]: "itoa_nat n \<noteq> []"
  by (subst itoa_nat.simps) simp

lemma itoa_nonempty [simp]: "itoa n \<noteq> []"
  by (simp add: itoa_def)

lemma strings_Contains_iff: "strings_Contains s sub \<longleftrightarrow> sublist sub s"
  by (induction s) (auto simp: sublist_Cons_right)

lemma strings_TrimSuffix_append [simp]: "strings_TrimSuffix (s @ suf) suf = s"
  by (simp add: strings_TrimSuffix_def suffix_def)

end
