(* ===== verification/ApiTypes.thy ===== *)
theory ApiTypes
  imports GoStd
begin

text \<open>
  The data of the program: the custom resources of \<^verbatim>\<open>api/v1beta1\<close> and the fields of the
  Kubernetes and Metal3 objects that the sources read or write. A Go struct is a record; an
  embedded struct (\<open>OpenStackBaremetalSetTemplateSpec\<close> in \<open>OpenStackBaremetalSetSpec\<close>,
  \<open>IPStatus\<close> in \<open>HostStatus\<close>) is the parent of a record extension, so its fields are promoted
  as in Go. A pointer is an \<open>option\<close>; a map is a \<open>gomap\<close>. The zero value of a struct is the
  constant \<open>zero_...\<close>: it is what an index into a map returns for an absent key.

  Objects of third-party packages carry only the fields the sources touch; \<open>bs_Rest\<close> and
  \<open>res_Rest\<close> stand for the fields that are compared or copied as a whole and never inspected.
  The provisioning states of Metal3 are the two the sources compare with and all the others.
\<close>

section \<open>Errors\<close>

text \<open>One constructor for each place where an error is made. \<open>NotFound\<close> are the errors for
  which \<open>k8s_errors.IsNotFound\<close> is true; \<open>ApiError\<close> any other error of a client call.\<close>

datatype go_error =
    NotFound string
  | ApiError string
  | ErrScaleUp nat labels string nat nat bool
  | ErrScaleDown int int
  | ErrInvalidName string
  | ErrSecretNamespaces "(string \<times> string) list"
  | ErrTemplateChanged
  | ErrNotABaremetalSet
  | ErrInvalidBaremetalSetType
  | ErrInvalidProvisionServerType
  | ErrListProvServers go_error
  | ErrPortOutOfRange int int int
  | ErrNoAvailablePorts int int
  | ErrPortInUse int string
  | ErrParseCIDR string
  | ErrProvisioningAgent string
  | ErrReconciliationPanic string

definition IsNotFound :: "go_error \<Rightarrow> bool" where
  "IsNotFound e = (case e of NotFound _ \<Rightarrow> True | _ \<Rightarrow> False)"

type_synonym 'a result = "(go_error, 'a) outcome"

section \<open>Kubernetes objects\<close>

record ObjectMeta =
  om_Name :: string
  om_Namespace :: string
  om_UID :: string
  om_Labels :: labels
  om_Annotations :: labels
  om_Generation :: int
  om_Finalizers :: "string list"
  om_Deleting :: bool

record SecretReference =
  sr_Name :: string
  sr_Namespace :: string

record ObjectReference =
  or_Kind :: string
  or_Namespace :: string
  or_Name :: string

record Secret =
  sec_Name :: string
  sec_Data :: "(string, string) gomap"

section \<open>Metal3 bare metal hosts\<close>

datatype ProvState = StateAvailable | StateProvisioned | StateOther string

record Image =
  img_URL :: string
  img_Checksum :: string
  img_ChecksumType :: string

record Storage =
  st_Rotational :: bool
  st_SizeBytes :: int

record CPU =
  cpu_Arch :: string
  cpu_ClockMegahertz :: rat
  cpu_Count :: int

record HardwareDetails =
  hd_RAMMebibytes :: int
  hd_Storage :: "Storage list"
  hd_CPU :: CPU

record BareMetalHostStatus =
  bs_State :: ProvState
  bs_HardwareDetails :: "HardwareDetails option"
  bs_Rest :: string

record BareMetalHost =
  bmh_Meta :: ObjectMeta
  bmh_Online :: bool
  bmh_ExternallyProvisioned :: bool
  bmh_Image :: "Image option"
  bmh_CustomDeploy :: "string option"
  bmh_ConsumerRef :: "ObjectReference option"
  bmh_UserData :: "SecretReference option"
  bmh_NetworkData :: "SecretReference option"
  bmh_AutomatedCleaningMode :: string
  bmh_Status :: BareMetalHostStatus

abbreviation bmh_Name :: "BareMetalHost \<Rightarrow> string" where
  "bmh_Name b \<equiv> om_Name (bmh_Meta b)"

abbreviation bmh_Labels :: "BareMetalHost \<Rightarrow> labels" where
  "bmh_Labels b \<equiv> om_Labels (bmh_Meta b)"

abbreviation bmh_State :: "BareMetalHost \<Rightarrow> ProvState" where
  "bmh_State b \<equiv> bs_State (bmh_Status b)"

section \<open>Status conditions\<close>

datatype ConditionStatus = CTrue | CFalse | CUnknown

record Condition =
  c_Type :: string
  c_Status :: ConditionStatus
  c_Severity :: string
  c_LastTransitionTime :: int
  c_Reason :: string
  c_Message :: string

type_synonym Conditions = "Condition list"

section \<open>OpenStackBaremetalSet\<close>

record CPUCountReq =
  ccr_Count :: int
  ccr_ExactMatch :: bool

record CPUMhzReq =
  cmr_Mhz :: int
  cmr_ExactMatch :: bool

record CPUReqs =
  cr_Arch :: string
  cr_CountReq :: CPUCountReq
  cr_MhzReq :: CPUMhzReq

record MemGbReq =
  mgr_Gb :: int
  mgr_ExactMatch :: bool

record MemReqs =
  mr_GbReq :: MemGbReq

record DiskGbReq =
  dgr_Gb :: int
  dgr_ExactMatch :: bool

record DiskSSDReq =
  dsr_SSD :: bool
  dsr_ExactMatch :: bool

record DiskReqs =
  dr_GbReq :: DiskGbReq
  dr_SSDReq :: DiskSSDReq

record HardwareReqs =
  hr_CPUReqs :: CPUReqs
  hr_MemReqs :: MemReqs
  hr_DiskReqs :: DiskReqs

record BondConfig =
  bc_BondInterfaces :: "string list"
  bc_BondMode :: string
  bc_BondOptions :: "(string, string) gomap"

record InstanceSpec =
  is_BmhLabelSelector :: labels
  is_CtlPlaneIP :: string
  is_CtlplaneGateway :: string
  is_CtlplaneInterface :: string
  is_CtlplaneVlan :: "int option"
  is_UserData :: "SecretReference option"
  is_NetworkData :: "SecretReference option"

record OpenStackBaremetalSetTemplateSpec =
  ts_OSImage :: string
  ts_OSContainerImageURL :: string
  ts_OSImageDeploymentType :: string
  ts_ApacheImageURL :: string
  ts_AgentImageURL :: string
  ts_AutomatedCleaningMode :: string
  ts_ProvisionServerName :: string
  ts_ProvisonServerNodeSelector :: labels
  ts_ProvisioningInterface :: string
  ts_DeploymentSSHSecret :: string
  ts_CtlplaneInterface :: string
  ts_CtlplaneBond :: "BondConfig option"
  ts_BmhNamespace :: string
  ts_BmhLabelSelector :: labels
  ts_HardwareReqs :: HardwareReqs
  ts_PasswordSecret :: "SecretReference option"
  ts_CloudUserName :: string
  ts_DomainName :: string

record OpenStackBaremetalSetSpec = OpenStackBaremetalSetTemplateSpec +
  ss_BaremetalHosts :: "(string, InstanceSpec) gomap"
  ss_CtlplaneGateway :: string
  ss_CtlplaneVlan :: "int option"
  ss_BootstrapDNS :: "string list"
  ss_DNSSearchDomains :: "string list"

record IPStatus =
  ip_Hostname :: string
  ip_BmhRef :: string
  ip_IPAddresses :: "(string, string) gomap"

record HostStatus = IPStatus +
  hs_ProvisioningState :: ProvState
  hs_AnnotatedForDeletion :: bool
  hs_UserDataSecretName :: string
  hs_NetworkDataSecretName :: string

record OpenStackBaremetalSetStatus =
  sst_Conditions :: "Conditions option"
  sst_Hash :: "(string, string) gomap"
  sst_BaremetalHosts :: "(string, HostStatus) gomap"
  sst_ObservedGeneration :: int

record OpenStackBaremetalSet =
  set_Kind :: string
  set_Meta :: ObjectMeta
  set_Spec :: OpenStackBaremetalSetSpec
  set_Status :: OpenStackBaremetalSetStatus

abbreviation set_Name :: "OpenStackBaremetalSet \<Rightarrow> string" where
  "set_Name i \<equiv> om_Name (set_Meta i)"

abbreviation set_Namespace :: "OpenStackBaremetalSet \<Rightarrow> string" where
  "set_Namespace i \<equiv> om_Namespace (set_Meta i)"

abbreviation spec_hosts :: "OpenStackBaremetalSet \<Rightarrow> (string, InstanceSpec) gomap" where
  "spec_hosts i \<equiv> ss_BaremetalHosts (set_Spec i)"

abbreviation status_hosts :: "OpenStackBaremetalSet \<Rightarrow> (string, HostStatus) gomap" where
  "status_hosts i \<equiv> sst_BaremetalHosts (set_Status i)"

definition set_status_hosts ::
  "(string, HostStatus) gomap \<Rightarrow> OpenStackBaremetalSet \<Rightarrow> OpenStackBaremetalSet" where
  "set_status_hosts m i = i\<lparr>set_Status := (set_Status i)\<lparr>sst_BaremetalHosts := m\<rparr>\<rparr>"

text \<open>The constants of the API package.\<close>

definition OSImageDeploymentTypeSelfExtracting :: string where
  "OSImageDeploymentTypeSelfExtracting = ''SelfExtracting''"

definition OSImageDeploymentTypePassThrough :: string where
  "OSImageDeploymentTypePassThrough = ''PassThrough''"

definition ServiceName :: string where
  "ServiceName = ''openstackbaremetalset''"

definition CleaningModeDisabled :: string where
  "CleaningModeDisabled = ''disabled''"

definition CleaningModeMetadata :: string where
  "CleaningModeMetadata = ''metadata''"

section \<open>OpenStackProvisionServer\<close>

record ResourceRequirements =
  res_Rest :: string

record OpenStackProvisionServerSpec =
  pss_Port :: int
  pss_Interface :: string
  pss_OSImage :: string
  pss_OSImageDir :: "string option"
  pss_OSContainerImageURL :: string
  pss_ApacheImageURL :: string
  pss_AgentImageURL :: string
  pss_NodeSelector :: labels
  pss_Resources :: ResourceRequirements
  pss_PreserveJobs :: bool

record OpenStackProvisionServerStatus =
  pst_ReadyCount :: int
  pst_Conditions :: "Conditions option"
  pst_Hash :: "(string, string) gomap"
  pst_ProvisionIP :: string
  pst_ProvisionIPError :: string
  pst_LocalImageURL :: string
  pst_OSImageChecksumFilename :: string
  pst_OSImageChecksumType :: string
  pst_LocalImageChecksumURL :: string

record OpenStackProvisionServer =
  ps_Kind :: string
  ps_Meta :: ObjectMeta
  ps_Spec :: OpenStackProvisionServerSpec
  ps_Status :: OpenStackProvisionServerStatus

abbreviation ps_Name :: "OpenStackProvisionServer \<Rightarrow> string" where
  "ps_Name p \<equiv> om_Name (ps_Meta p)"

abbreviation ps_Namespace :: "OpenStackProvisionServer \<Rightarrow> string" where
  "ps_Namespace p \<equiv> om_Namespace (ps_Meta p)"

abbreviation ps_Port :: "OpenStackProvisionServer \<Rightarrow> int" where
  "ps_Port p \<equiv> pss_Port (ps_Spec p)"

record OpenStackProvisionServerDefaults =
  psd_OSContainerImageURL :: string
  psd_AgentImageURL :: string
  psd_ApacheImageURL :: string
  psd_OSImage :: string

definition ProvisionServerPortStart :: int where
  "ProvisionServerPortStart = 6190"

definition ProvisionServerPortEnd :: int where
  "ProvisionServerPortEnd = 6210"

definition ProvisioningNetworkManaged :: string where
  "ProvisioningNetworkManaged = ''Managed''"

definition ChecksumHash :: string where
  "ChecksumHash = ''checksum''"

section \<open>Zero values\<close>

definition zero_ObjectMeta :: ObjectMeta where [zero_defs]:
  "zero_ObjectMeta = \<lparr>om_Name = [], om_Namespace = [], om_UID = [], om_Labels = None,
     om_Annotations = None, om_Generation = 0, om_Finalizers = [], om_Deleting = False\<rparr>"

definition zero_InstanceSpec :: InstanceSpec where [zero_defs]:
  "zero_InstanceSpec = \<lparr>is_BmhLabelSelector = None, is_CtlPlaneIP = [], is_CtlplaneGateway = [],
     is_CtlplaneInterface = [], is_CtlplaneVlan = None, is_UserData = None, is_NetworkData = None\<rparr>"

definition zero_HostStatus :: HostStatus where [zero_defs]:
  "zero_HostStatus = \<lparr>ip_Hostname = [], ip_BmhRef = [], ip_IPAddresses = None,
     hs_ProvisioningState = StateOther [], hs_AnnotatedForDeletion = False,
     hs_UserDataSecretName = [], hs_NetworkDataSecretName = []\<rparr>"

definition zero_HardwareReqs :: HardwareReqs where [zero_defs]:
  "zero_HardwareReqs =
     \<lparr>hr_CPUReqs = \<lparr>cr_Arch = [], cr_CountReq = \<lparr>ccr_Count = 0, ccr_ExactMatch = False\<rparr>,
        cr_MhzReq = \<lparr>cmr_Mhz = 0, cmr_ExactMatch = False\<rparr>\<rparr>,
      hr_MemReqs = \<lparr>mr_GbReq = \<lparr>mgr_Gb = 0, mgr_ExactMatch = False\<rparr>\<rparr>,
      hr_DiskReqs = \<lparr>dr_GbReq = \<lparr>dgr_Gb = 0, dgr_ExactMatch = False\<rparr>,
        dr_SSDReq = \<lparr>dsr_SSD = False, dsr_ExactMatch = False\<rparr>\<rparr>\<rparr>"

definition zero_ProvisionServerSpec :: OpenStackProvisionServerSpec where [zero_defs]:
  "zero_ProvisionServerSpec = \<lparr>pss_Port = 0, pss_Interface = [], pss_OSImage = [],
     pss_OSImageDir = None, pss_OSContainerImageURL = [], pss_ApacheImageURL = [],
     pss_AgentImageURL = [], pss_NodeSelector = None, pss_Resources = \<lparr>res_Rest = []\<rparr>,
     pss_PreserveJobs = False\<rparr>"

definition zero_ProvisionServerStatus :: OpenStackProvisionServerStatus where [zero_defs]:
  "zero_ProvisionServerStatus = \<lparr>pst_ReadyCount = 0, pst_Conditions = None, pst_Hash = None,
     pst_ProvisionIP = [], pst_ProvisionIPError = [], pst_LocalImageURL = [],
     pst_OSImageChecksumFilename = [], pst_OSImageChecksumType = [],
     pst_LocalImageChecksumURL = []\<rparr>"

definition zero_ProvisionServer :: OpenStackProvisionServer where [zero_defs]:
  "zero_ProvisionServer = \<lparr>ps_Kind = [], ps_Meta = zero_ObjectMeta,
     ps_Spec = zero_ProvisionServerSpec, ps_Status = zero_ProvisionServerStatus\<rparr>"

text \<open>\<open>m[k]\<close> without the comma-ok form.\<close>

definition spec_host :: "OpenStackBaremetalSet \<Rightarrow> string \<Rightarrow> InstanceSpec" where
  "spec_host i h = (case gm_get (spec_hosts i) h of None \<Rightarrow> zero_InstanceSpec | Some s \<Rightarrow> s)"

definition label_of :: "labels \<Rightarrow> string \<Rightarrow> string" where
  "label_of m k = (case gm_get m k of None \<Rightarrow> [] | Some v \<Rightarrow> v)"

section \<open>Facts\<close>

lemma IsNotFound_simps [simp]:
  "IsNotFound (NotFound s)" "\<not> IsNotFound (ApiError s)"
  by (simp_all add: IsNotFound_def)

lemma set_status_hosts_simps [simp]:
  "status_hosts (set_status_hosts m i) = m"
  "set_Spec (set_status_hosts m i) = set_Spec i"
  "set_Meta (set_status_hosts m i) = set_Meta i"
  "set_Kind (set_status_hosts m i) = set_Kind i"
  by (simp_all add: set_status_hosts_def)

lemma set_status_hosts_same [simp]: "set_status_hosts (status_hosts i) i = i"
  by (simp add: set_status_hosts_def)

lemma set_status_hosts_twice [simp]:
  "set_status_hosts m (set_status_hosts m' i) = set_status_hosts m i"
  by (simp add: set_status_hosts_def)

lemma spec_host_status [simp]: "spec_host (set_status_hosts m i) h = spec_host i h"
  by (simp add: spec_host_def)

end
