(* ===== verification/External.thy ===== *)
theory External
  imports ApiTypes
begin

text \<open>
  Code the sources call and that is not part of the repository, as parameters of the model.

  \<^item> \<open>'w client\<close> is the Kubernetes API as the sources use it (controller-runtime's
    \<open>client.Client\<close>, \<open>controllerutil.CreateOrPatch\<close>, and lib-common's \<open>secret\<close>, \<open>helper\<close>
    packages): a record of operations over an abstract cluster state \<open>'w\<close>. A read returns an
    outcome; a write returns an outcome and the next cluster state. Nothing is assumed of it
    where a definition uses it.
  \<^item> \<open>lib\<close> holds the pure helpers (lib-common's \<open>labels\<close>, \<open>util\<close>, \<open>backup\<close>, \<open>annotations\<close>; the
    validator; \<open>types.NamespacedName.String\<close>; \<open>equality.Semantic\<close>).
  \<^item> \<open>cond_ops\<close> holds the operations of lib-common's \<open>condition\<close> package on a condition list, and
    the texts of its message constants: \<open>cond_text\<close> takes the name of a constant, \<open>cond_textf\<close> also
    the text to format into it.

  What the documentation of these packages promises and some theorem needs is stated as the laws
  of the locales \<open>lib_laws\<close> and \<open>cond_laws\<close>. Each locale is interpreted on a
  reference instance (\<open>ref_lib\<close>, \<open>ref_conds\<close>), so the laws can hold together; witnesses run the
  model on these instances.
\<close>

section \<open>The Kubernetes API\<close>

datatype list_option = InNamespace string | MatchingLabels labels

text \<open>Values of the template parameters that the host provisioning fills in.\<close>

datatype tval =
    TStr string
  | TStrPtr "string option"
  | TInt int
  | TStrs "string list"
  | TMap "(string, string) gomap"
  | TBytes "nat list"

datatype TType = TemplateTypeConfig | OtherTemplateType string

record Template =
  tpl_Name :: string
  tpl_Namespace :: string
  tpl_Type :: TType
  tpl_InstanceType :: string
  tpl_AdditionalTemplate :: "(string, string) gomap"
  tpl_Labels :: labels
  tpl_ConfigOptions :: "(string, tval) gomap"

type_synonym env_vars = "(string, string) gomap"

record 'w client =
  List_bmhs :: "'w \<Rightarrow> list_option list \<Rightarrow> BareMetalHost list result"
  Get_bmh :: "'w \<Rightarrow> string \<Rightarrow> string \<Rightarrow> BareMetalHost result"
  CreateOrPatch_bmh ::
    "'w \<Rightarrow> BareMetalHost \<Rightarrow> (BareMetalHost \<Rightarrow> BareMetalHost result) \<Rightarrow> BareMetalHost result \<times> 'w"
  Update_bmh :: "'w \<Rightarrow> BareMetalHost \<Rightarrow> unit result \<times> 'w"
  EnsureSecrets ::
    "'w \<Rightarrow> OpenStackBaremetalSet \<Rightarrow> Template list \<Rightarrow> env_vars \<Rightarrow> env_vars result \<times> 'w"
  DeleteSecretsWithName :: "'w \<Rightarrow> string \<Rightarrow> string \<Rightarrow> unit result \<times> 'w"
  GetSecret :: "'w \<Rightarrow> string \<Rightarrow> string \<Rightarrow> (Secret \<times> string) result"
  Get_set :: "'w \<Rightarrow> string \<Rightarrow> string \<Rightarrow> OpenStackBaremetalSet result"
  PatchInstance_set :: "'w \<Rightarrow> OpenStackBaremetalSet \<Rightarrow> unit result \<times> 'w"
  NewHelper_set :: "'w \<Rightarrow> OpenStackBaremetalSet \<Rightarrow> unit result"
  Get_ps :: "'w \<Rightarrow> string \<Rightarrow> string \<Rightarrow> OpenStackProvisionServer result"
  List_ps :: "'w \<Rightarrow> OpenStackProvisionServer list result"
  Delete_ps :: "'w \<Rightarrow> OpenStackProvisionServer \<Rightarrow> unit result \<times> 'w"
  CreateOrPatch_ps ::
    "'w \<Rightarrow> OpenStackProvisionServer \<Rightarrow>
     (OpenStackProvisionServer \<Rightarrow> OpenStackProvisionServer result) \<Rightarrow>
     OpenStackProvisionServer result \<times> 'w"
  SetControllerReference_ps ::
    "OpenStackBaremetalSet \<Rightarrow> OpenStackProvisionServer \<Rightarrow> OpenStackProvisionServer result"

section \<open>Pure helpers\<close>

record lib =
  NamespacedName_String :: "string \<Rightarrow> string \<Rightarrow> string"
  hostname_rfc1123 :: "string \<Rightarrow> bool"
  GetGroupLabel :: "string \<Rightarrow> string"
  GetOwnerUIDLabelSelector :: "string \<Rightarrow> string"
  GetOwnerNameSpaceLabelSelector :: "string \<Rightarrow> string"
  GetOwnerNameLabelSelector :: "string \<Rightarrow> string"
  GetLabels :: "ObjectMeta \<Rightarrow> string \<Rightarrow> labels \<Rightarrow> labels"
  MergeStringMaps :: "labels list \<Rightarrow> labels"
  MergeMaps ::
    "(string, BareMetalHost) gomap \<Rightarrow> (string, BareMetalHost) gomap \<Rightarrow> (string, BareMetalHost) gomap"
  GetBackupLabels :: labels
  GetRestoreLabels :: labels
  IsPaused :: "ObjectMeta \<Rightarrow> bool"
  SkipValidation :: "ObjectMeta \<Rightarrow> bool"
  SkipValidationAnnotation :: string
  Semantic_labels_equal :: "labels \<Rightarrow> labels \<Rightarrow> bool"
  Semantic_hw_equal :: "HardwareReqs \<Rightarrow> HardwareReqs \<Rightarrow> bool"
  GetFinalizer :: "ObjectMeta \<Rightarrow> string"
  AddFinalizer :: "ObjectMeta \<Rightarrow> string \<Rightarrow> bool \<times> ObjectMeta"
  RemoveFinalizer :: "ObjectMeta \<Rightarrow> string \<Rightarrow> ObjectMeta"
  Error_text :: "go_error \<Rightarrow> string"

section \<open>Status conditions\<close>

record cond_ops =
  cond_Init :: "Conditions \<Rightarrow> Condition list \<Rightarrow> Conditions"
  cond_Set :: "Conditions \<Rightarrow> Condition \<Rightarrow> Conditions"
  cond_MarkTrue :: "Conditions \<Rightarrow> string \<Rightarrow> string \<Rightarrow> Conditions"
  cond_MarkFalse :: "Conditions \<Rightarrow> string \<Rightarrow> string \<Rightarrow> string \<Rightarrow> string \<Rightarrow> Conditions"
  cond_Remove :: "Conditions \<Rightarrow> string \<Rightarrow> Conditions"
  cond_IsTrue :: "Conditions \<Rightarrow> string \<Rightarrow> bool"
  cond_IsUnknown :: "Conditions \<Rightarrow> string \<Rightarrow> bool"
  cond_Mirror :: "Conditions \<Rightarrow> string \<Rightarrow> Condition option"
  cond_AllSubConditionIsTrue :: "Conditions \<Rightarrow> bool"
  cond_RestoreLastTransitionTimes :: "Conditions \<Rightarrow> Conditions \<Rightarrow> Conditions"
  cond_FalseCondition :: "string \<Rightarrow> string \<Rightarrow> string \<Rightarrow> string \<Rightarrow> Condition"
  cond_UnknownCondition :: "string \<Rightarrow> string \<Rightarrow> string \<Rightarrow> Condition"
  cond_text :: "string \<Rightarrow> string"
  cond_textf :: "string \<Rightarrow> string \<Rightarrow> string"

definition cond_get :: "Conditions \<Rightarrow> string \<Rightarrow> Condition option" where
  "cond_get cs t = find (\<lambda>c. c_Type c = t) cs"

definition cond_status :: "Conditions \<Rightarrow> string \<Rightarrow> ConditionStatus option" where
  "cond_status cs t = map_option c_Status (cond_get cs t)"

definition ReadyCondition :: string where
  "ReadyCondition = ''Ready''"

section \<open>The documented laws of the helpers\<close>

text \<open>\<open>MergeStringMaps\<close> and \<open>MergeMaps\<close> keep the value of the first map when a key occurs in several.\<close>

fun first_get :: "('k, 'v) gomap list \<Rightarrow> 'k \<Rightarrow> 'v option" where
  "first_get [] k = None"
| "first_get (m # ms) k = (case gm_get m k of Some v \<Rightarrow> Some v | None \<Rightarrow> first_get ms k)"

locale lib_laws =
  fixes L :: lib
  assumes MergeStringMaps_get: "gm_get (MergeStringMaps L ms) k = first_get ms k"
    and MergeMaps_get: "gm_get (MergeMaps L m1 m2) k = first_get [m1, m2] k"
    and MergeMaps_wf: "gm_wf (MergeMaps L m1 m2)"
    and GetLabels_get: "gm_get (GetLabels L meta g custom) k =
      (if k = GetOwnerUIDLabelSelector L g then Some (om_UID meta)
       else if k = GetOwnerNameSpaceLabelSelector L g then Some (om_Namespace meta)
       else if k = GetOwnerNameLabelSelector L g then Some (om_Name meta)
       else gm_get custom k)"
    and GetLabels_wf: "gm_wf (GetLabels L meta g custom)"
    and owner_keys_distinct: "distinct [GetOwnerUIDLabelSelector L g,
      GetOwnerNameSpaceLabelSelector L g, GetOwnerNameLabelSelector L g]"
    and NamespacedName_inj:
      "CHR ''/'' \<notin> set ns \<Longrightarrow> CHR ''/'' \<notin> set ns' \<Longrightarrow>
       NamespacedName_String L ns n = NamespacedName_String L ns' n' \<Longrightarrow> ns = ns' \<and> n = n'"
    and AddFinalizer_eq: "AddFinalizer L meta f =
      (if f \<in> set (om_Finalizers meta) then (False, meta)
       else (True, meta\<lparr>om_Finalizers := om_Finalizers meta @ [f]\<rparr>))"
    and RemoveFinalizer_eq: "RemoveFinalizer L meta f =
      meta\<lparr>om_Finalizers := filter (\<lambda>g. g \<noteq> f) (om_Finalizers meta)\<rparr>"

locale cond_laws =
  fixes C :: cond_ops
  assumes status_Set: "cond_status (cond_Set C cs c) t =
      (if t = c_Type c then Some (c_Status c) else cond_status cs t)"
    and status_MarkTrue: "cond_status (cond_MarkTrue C cs t' m) t =
      (if t = t' then Some CTrue else cond_status cs t)"
    and status_MarkFalse: "cond_status (cond_MarkFalse C cs t' r s m) t =
      (if t = t' then Some CFalse else cond_status cs t)"
    and status_Remove: "cond_status (cond_Remove C cs t') t =
      (if t = t' then None else cond_status cs t)"
    and IsTrue_iff: "cond_IsTrue C cs t \<longleftrightarrow> cond_status cs t = Some CTrue"
    and IsUnknown_iff: "cond_IsUnknown C cs t \<longleftrightarrow>
      cond_status cs t = None \<or> cond_status cs t = Some CUnknown"
    and FalseCondition_simps: "c_Type (cond_FalseCondition C t r s m) = t"
      "c_Status (cond_FalseCondition C t r s m) = CFalse"
    and UnknownCondition_simps: "c_Type (cond_UnknownCondition C t r m) = t"
      "c_Status (cond_UnknownCondition C t r m) = CUnknown"
    and Mirror_type: "cond_Mirror C cs t = Some c \<Longrightarrow> c_Type c = t"
    and Mirror_true: "cond_Mirror C cs t = Some c \<Longrightarrow> c_Status c = CTrue \<Longrightarrow> t' \<noteq> t \<Longrightarrow>
      cond_status cs t' = Some st \<Longrightarrow> st = CTrue"
    and AllSub_iff: "cond_AllSubConditionIsTrue C cs \<longleftrightarrow>
      (\<forall>t s. t \<noteq> ReadyCondition \<longrightarrow> cond_status cs t = Some s \<longrightarrow> s = CTrue)"
    and status_Init: "distinct (map c_Type l) \<Longrightarrow> c \<in> set l \<Longrightarrow>
      cond_status (cond_Init C cs l) (c_Type c) = Some (c_Status c)"
    and Init_only: "cond_status (cond_Init C cs l) t = Some st \<Longrightarrow> t = ReadyCondition \<or> t \<in> c_Type ` set l"
    and Init_Ready: "ReadyCondition \<notin> c_Type ` set l \<Longrightarrow>
      cond_status (cond_Init C cs l) ReadyCondition = Some CUnknown"
    and status_Restore: "cond_status (cond_RestoreLastTransitionTimes C cs old) t = cond_status cs t"
begin

lemmas status_simps =
  status_Set status_MarkTrue status_MarkFalse status_Remove FalseCondition_simps
  UnknownCondition_simps status_Restore

end

section \<open>A reference instance of the helpers\<close>

fun merge_into :: "('k \<times> 'v) list \<Rightarrow> ('k \<times> 'v) list \<Rightarrow> ('k \<times> 'v) list" where
  "merge_into acc [] = acc"
| "merge_into acc ((k, v) # xs) =
     merge_into (if map_of acc k = None then acc @ [(k, v)] else acc) xs"

definition ref_merge :: "('k, 'v) gomap list \<Rightarrow> ('k, 'v) gomap" where
  "ref_merge ms = Some (merge_into [] (concat (map gm_items ms)))"

definition ref_labels :: "string \<Rightarrow> ObjectMeta \<Rightarrow> labels" where
  "ref_labels g meta = Some [(g @ ''/uid'', om_UID meta), (g @ ''/namespace'', om_Namespace meta),
                             (g @ ''/name'', om_Name meta)]"

definition ref_labels_equal :: "labels \<Rightarrow> labels \<Rightarrow> bool" where
  "ref_labels_equal m1 m2 \<longleftrightarrow>
     list_all (\<lambda>(k, v). gm_get m2 k = Some v) (gm_items m1)
     \<and> list_all (\<lambda>(k, v). gm_get m1 k = Some v) (gm_items m2)"

definition ref_lib :: lib where [wit_defs]:
  "ref_lib = \<lparr>NamespacedName_String = (\<lambda>ns n. ns @ ''/'' @ n),
     hostname_rfc1123 = (\<lambda>n. n \<noteq> [] \<and> list_all (\<lambda>c. c \<noteq> CHR ''_'') n),
     GetGroupLabel = (\<lambda>s. s @ ''.openstack.org''),
     GetOwnerUIDLabelSelector = (\<lambda>g. g @ ''/uid''),
     GetOwnerNameSpaceLabelSelector = (\<lambda>g. g @ ''/namespace''),
     GetOwnerNameLabelSelector = (\<lambda>g. g @ ''/name''),
     GetLabels = (\<lambda>meta g custom. ref_merge [ref_labels g meta, custom]),
     MergeStringMaps = ref_merge, MergeMaps = (\<lambda>m1 m2. ref_merge [m1, m2]),
     GetBackupLabels = Some [(''backup'', ''true'')],
     GetRestoreLabels = Some [(''restore'', ''true'')],
     IsPaused = (\<lambda>meta. gm_get (om_Annotations meta) ''paused'' = Some ''true''),
     SkipValidation = (\<lambda>meta. gm_get (om_Annotations meta) ''skip'' = Some ''true''),
     SkipValidationAnnotation = ''skip'',
     Semantic_labels_equal = ref_labels_equal, Semantic_hw_equal = (=),
     GetFinalizer = (\<lambda>_. ''finalizer''),
     AddFinalizer = (\<lambda>meta f. if f \<in> set (om_Finalizers meta) then (False, meta)
       else (True, meta\<lparr>om_Finalizers := om_Finalizers meta @ [f]\<rparr>)),
     RemoveFinalizer = (\<lambda>meta f. meta\<lparr>om_Finalizers := filter (\<lambda>g. g \<noteq> f) (om_Finalizers meta)\<rparr>),
     Error_text = (\<lambda>_. ''error'')\<rparr>"

lemma merge_into_map_of:
  "map_of (merge_into acc xs) k = (case map_of acc k of Some v \<Rightarrow> Some v | None \<Rightarrow> map_of xs k)"
  by (induction acc xs rule: merge_into.induct) (auto simp: map_add_def split: option.splits)

lemma merge_into_distinct:
  "distinct (map fst acc) \<Longrightarrow> distinct (map fst (merge_into acc xs))"
  by (induction acc xs rule: merge_into.induct) (auto simp: map_of_eq_None_iff)

lemma ref_merge_get: "gm_get (ref_merge ms) k = first_get ms k"
proof -
  have "map_of (concat (map gm_items ms)) k = first_get ms k"
    by (induction ms) (auto simp: gm_get_def map_add_def split: option.splits)
  then show ?thesis by (simp add: ref_merge_def gm_get_def merge_into_map_of)
qed

lemma ref_merge_wf: "gm_wf (ref_merge ms)"
  using merge_into_distinct [of "[]" "concat (map gm_items ms)"]
  by (simp add: ref_merge_def gm_wf_def gm_keys_def)

lemma ref_labels_get:
  "gm_get (ref_labels g meta) k =
     (if k = g @ ''/uid'' then Some (om_UID meta)
      else if k = g @ ''/namespace'' then Some (om_Namespace meta)
      else if k = g @ ''/name'' then Some (om_Name meta) else None)"
  by (auto simp: ref_labels_def gm_get_def)

lemma slash_split_inj:
  assumes "a @ ''/'' @ b = a' @ ''/'' @ b'" and "CHR ''/'' \<notin> set a" and "CHR ''/'' \<notin> set a'"
  shows "a = a' \<and> b = b'"
proof -
  have tw: "takeWhile (\<lambda>c. c \<noteq> CHR ''/'') (x @ ''/'' @ y) = x" if "CHR ''/'' \<notin> set x" for x y
    using that by (induction x) auto
  from arg_cong [OF assms(1), of "takeWhile (\<lambda>c. c \<noteq> CHR ''/'')"] tw assms(2,3)
  have "a = a'" by simp
  with assms(1) show ?thesis by simp
qed

interpretation rl: lib_laws ref_lib
proof unfold_locales
  fix m1 m2 :: "(string, BareMetalHost) gomap" and ms :: "labels list" and k g ns n ns' n'
    and meta :: ObjectMeta and custom :: labels
  show "gm_get (MergeStringMaps ref_lib ms) k = first_get ms k"
    by (simp add: ref_lib_def ref_merge_get)
  show "gm_get (MergeMaps ref_lib m1 m2) k = first_get [m1, m2] k"
    by (simp add: ref_lib_def ref_merge_get)
  show "gm_wf (MergeMaps ref_lib m1 m2)" by (simp add: ref_lib_def ref_merge_wf)
  show "gm_get (GetLabels ref_lib meta g custom) k =
      (if k = GetOwnerUIDLabelSelector ref_lib g then Some (om_UID meta)
       else if k = GetOwnerNameSpaceLabelSelector ref_lib g then Some (om_Namespace meta)
       else if k = GetOwnerNameLabelSelector ref_lib g then Some (om_Name meta)
       else gm_get custom k)"
    by (auto simp: ref_lib_def ref_merge_get ref_labels_get split: option.splits)
  show "gm_wf (GetLabels ref_lib meta g custom)" by (simp add: ref_lib_def ref_merge_wf)
  show "distinct [GetOwnerUIDLabelSelector ref_lib g,
      GetOwnerNameSpaceLabelSelector ref_lib g, GetOwnerNameLabelSelector ref_lib g]"
    by (simp add: ref_lib_def)
  show "ns = ns' \<and> n = n'"
    if "CHR ''/'' \<notin> set ns" "CHR ''/'' \<notin> set ns'"
      "NamespacedName_String ref_lib ns n = NamespacedName_String ref_lib ns' n'"
    using slash_split_inj [of ns n ns' n'] that by (simp add: ref_lib_def)
qed (simp_all add: ref_lib_def)

section \<open>A reference instance of the conditions\<close>

definition ref_cond :: "string \<Rightarrow> ConditionStatus \<Rightarrow> string \<Rightarrow> string \<Rightarrow> string \<Rightarrow> Condition" where
  "ref_cond t st sev r m = \<lparr>c_Type = t, c_Status = st, c_Severity = sev, c_LastTransitionTime = 0,
     c_Reason = r, c_Message = m\<rparr>"

fun ref_set :: "Conditions \<Rightarrow> Condition \<Rightarrow> Conditions" where
  "ref_set [] c = [c]"
| "ref_set (d # cs) c = (if c_Type d = c_Type c then c # cs else d # ref_set cs c)"

definition ref_conds :: cond_ops where [wit_defs]:
  "ref_conds = \<lparr>cond_Init = (\<lambda>cs l. if ReadyCondition \<in> set (map c_Type l) then l
       else ref_cond ReadyCondition CUnknown [] ''Requested'' [] # l),
     cond_Set = ref_set,
     cond_MarkTrue = (\<lambda>cs t m. ref_set cs (ref_cond t CTrue [] ''Ready'' m)),
     cond_MarkFalse = (\<lambda>cs t r s m. ref_set cs (ref_cond t CFalse s r m)),
     cond_Remove = (\<lambda>cs t. filter (\<lambda>c. c_Type c \<noteq> t) cs),
     cond_IsTrue = (\<lambda>cs t. cond_status cs t = Some CTrue),
     cond_IsUnknown = (\<lambda>cs t. cond_status cs t = None \<or> cond_status cs t = Some CUnknown),
     cond_Mirror = (\<lambda>cs t. if cs = [] then None
                      else case find (\<lambda>c. c_Status c \<noteq> CTrue \<and> c_Type c \<noteq> t) cs of
                             None \<Rightarrow> Some (ref_cond t CTrue [] ''Ready'' [])
                           | Some c \<Rightarrow> Some (c\<lparr>c_Type := t\<rparr>)),
     cond_AllSubConditionIsTrue = (\<lambda>cs. list_all (\<lambda>c. c_Type c \<noteq> ReadyCondition \<longrightarrow>
       cond_status cs (c_Type c) = Some CTrue) cs),
     cond_RestoreLastTransitionTimes = (\<lambda>cs old. cs),
     cond_FalseCondition = (\<lambda>t r s m. ref_cond t CFalse s r m),
     cond_UnknownCondition = (\<lambda>t r m. ref_cond t CUnknown [] r m),
     cond_text = (\<lambda>n. n), cond_textf = (\<lambda>n e. n @ e)\<rparr>"

lemma cond_status_ref_set [simp]:
  "cond_status (ref_set cs c) t = (if t = c_Type c then Some (c_Status c) else cond_status cs t)"
  by (induction cs c rule: ref_set.induct) (auto simp: cond_status_def cond_get_def)

lemma cond_status_filter:
  "cond_status (filter (\<lambda>c. c_Type c \<noteq> t') cs) t = (if t = t' then None else cond_status cs t)"
  by (induction cs) (auto simp: cond_status_def cond_get_def)

lemma cond_status_SomeD: "cond_status cs t = Some s \<Longrightarrow> \<exists>c \<in> set cs. c_Type c = t \<and> c_Status c = s"
  by (induction cs) (auto simp: cond_status_def cond_get_def split: if_splits)

lemma cond_status_None_iff: "cond_status cs t = None \<longleftrightarrow> (\<forall>c \<in> set cs. c_Type c \<noteq> t)"
  by (induction cs) (auto simp: cond_status_def cond_get_def)

lemma cond_status_member:
  "distinct (map c_Type cs) \<Longrightarrow> c \<in> set cs \<Longrightarrow> cond_status cs (c_Type c) = Some (c_Status c)"
  by (induction cs) (auto simp: cond_status_def cond_get_def image_iff)

lemma cond_status_Cons:
  "cond_status (c # cs) t = (if c_Type c = t then Some (c_Status c) else cond_status cs t)"
  by (simp add: cond_status_def cond_get_def)

interpretation rc: cond_laws ref_conds
proof unfold_locales
  fix cs l :: Conditions and t t' c s
  show "t = ReadyCondition \<or> t \<in> c_Type ` set l" if "cond_status (cond_Init ref_conds cs l) t = Some s"
    using cond_status_SomeD [OF that] by (auto simp: ref_conds_def ref_cond_def split: if_splits)
  show "s = CTrue"
    if "cond_Mirror ref_conds cs t = Some c" "c_Status c = CTrue" "t' \<noteq> t" "cond_status cs t' = Some s"
  proof -
    have "find (\<lambda>c. c_Status c \<noteq> CTrue \<and> c_Type c \<noteq> t) cs = None"
      using that(1,2) by (auto simp: ref_conds_def find_Some_iff split: option.splits if_splits)
    with that(3) cond_status_SomeD [OF that(4)] show ?thesis by (auto simp: find_None_iff)
  qed
  show "cond_AllSubConditionIsTrue ref_conds cs \<longleftrightarrow>
      (\<forall>t s. t \<noteq> ReadyCondition \<longrightarrow> cond_status cs t = Some s \<longrightarrow> s = CTrue)"
  proof
    assume a: "cond_AllSubConditionIsTrue ref_conds cs"
    show "\<forall>t s. t \<noteq> ReadyCondition \<longrightarrow> cond_status cs t = Some s \<longrightarrow> s = CTrue"
    proof (intro allI impI)
      fix t s assume t: "t \<noteq> ReadyCondition" "cond_status cs t = Some s"
      with cond_status_SomeD obtain c where "c \<in> set cs" "c_Type c = t" by blast
      with a t show "s = CTrue" by (auto simp: ref_conds_def list_all_iff)
    qed
  next
    assume a: "\<forall>t s. t \<noteq> ReadyCondition \<longrightarrow> cond_status cs t = Some s \<longrightarrow> s = CTrue"
    have "cond_status cs (c_Type c) = Some CTrue" if "c \<in> set cs" "c_Type c \<noteq> ReadyCondition" for c
      using a that cond_status_None_iff [of cs "c_Type c"] by (cases "cond_status cs (c_Type c)") auto
    then show "cond_AllSubConditionIsTrue ref_conds cs" by (auto simp: ref_conds_def list_all_iff)
  qed
qed (auto simp: ref_conds_def cond_status_filter ref_cond_def cond_status_member cond_status_Cons
    split: option.splits if_splits)

end
