(* ===== verification/Conditions.thy ===== *)
theory Conditions
  imports External
begin

text \<open>
  The condition types and messages of \<^verbatim>\<open>api/v1beta1/conditions.go\<close>, the types of lib-common's
  \<open>condition\<close> package that the controllers use, and the update of the condition list in the status
  of an object. A message that ends in the text of an error is a function of that text.
\<close>

section \<open>Condition types\<close>

definition OpenStackProvisionServerReadyCondition :: string where [cond_types]:
  "OpenStackProvisionServerReadyCondition = ''OpenStackProvisionServerReady''"

definition OpenStackProvisionServerProvIntfReadyCondition :: string where [cond_types]:
  "OpenStackProvisionServerProvIntfReadyCondition = ''OpenStackProvisionServerProvIntfReady''"

definition OpenStackProvisionServerLocalImageURLReadyCondition :: string where [cond_types]:
  "OpenStackProvisionServerLocalImageURLReadyCondition = ''OpenStackProvisionServerLocalImageURLReady''"

definition OpenStackProvisionServerChecksumReadyCondition :: string where [cond_types]:
  "OpenStackProvisionServerChecksumReadyCondition = ''OpenStackProvisionServerChecksumReady''"

definition OpenStackBaremetalSetReadyCondition :: string where [cond_types]:
  "OpenStackBaremetalSetReadyCondition = ''OpenStackBaremetalSetReady''"

definition OpenStackBaremetalSetProvServerReadyCondition :: string where [cond_types]:
  "OpenStackBaremetalSetProvServerReadyCondition = ''OpenStackBaremetalSetProvServerReady''"

definition OpenStackBaremetalSetBmhProvisioningReadyCondition :: string where [cond_types]:
  "OpenStackBaremetalSetBmhProvisioningReadyCondition = ''OpenStackBaremetalSetBmhProvisioningReady''"

text \<open>Types of lib-common.\<close>

definition InputReadyCondition :: string where [cond_types]:
  "InputReadyCondition = ''InputReady''"

definition DeploymentReadyCondition :: string where [cond_types]:
  "DeploymentReadyCondition = ''DeploymentReady''"

definition ServiceConfigReadyCondition :: string where [cond_types]:
  "ServiceConfigReadyCondition = ''ServiceConfigReady''"

definition ServiceAccountReadyCondition :: string where [cond_types]:
  "ServiceAccountReadyCondition = ''ServiceAccountReady''"

definition RoleReadyCondition :: string where [cond_types]:
  "RoleReadyCondition = ''RoleReady''"

definition RoleBindingReadyCondition :: string where [cond_types]:
  "RoleBindingReadyCondition = ''RoleBindingReady''"

section \<open>Messages\<close>

definition OpenStackProvisionServerReadyInitMessage :: string where
  "OpenStackProvisionServerReadyInitMessage = ''OpenStackProvisionServer not started''"

definition OpenStackProvisionServerReadyErrorMessage :: "string \<Rightarrow> string" where
  "OpenStackProvisionServerReadyErrorMessage e = ''OpenStackProvisionServer error occured '' @ e"

definition OpenStackProvisionServerProvIntfReadyInitMessage :: string where
  "OpenStackProvisionServerProvIntfReadyInitMessage = ''OpenStackProvisionServerProvIntf not started''"

definition OpenStackProvisionServerProvIntfReadyErrorMessage :: "string \<Rightarrow> string" where
  "OpenStackProvisionServerProvIntfReadyErrorMessage e = ''OpenStackProvisionServerProvIntf error occured '' @ e"

definition OpenStackProvisionServerProvIntfReadyRunningMessage :: string where
  "OpenStackProvisionServerProvIntfReadyRunningMessage = ''OpenStackProvisionServerProvIntf acquisition in progress''"

definition OpenStackProvisionServerProvIntfReadyMessage :: string where
  "OpenStackProvisionServerProvIntfReadyMessage = ''OpenStackProvisionServerProvIntf found and IP acquired''"

definition OpenStackProvisionServerLocalImageURLReadyInitMessage :: string where
  "OpenStackProvisionServerLocalImageURLReadyInitMessage = ''OpenStackProvisionServerLocalImageURL not started''"

definition OpenStackProvisionServerLocalImageURLReadyErrorMessage :: "string \<Rightarrow> string" where
  "OpenStackProvisionServerLocalImageURLReadyErrorMessage e = ''OpenStackProvisionServerLocalImageURL error occured '' @ e"

definition OpenStackProvisionServerLocalImageURLReadyRunningMessage :: string where
  "OpenStackProvisionServerLocalImageURLReadyRunningMessage = ''OpenStackProvisionServerLocalImageURL generation in progress''"

definition OpenStackProvisionServerLocalImageURLReadyMessage :: string where
  "OpenStackProvisionServerLocalImageURLReadyMessage = ''OpenStackProvisionServerLocalImageURL generated''"

definition OpenStackProvisionServerChecksumReadyInitMessage :: string where
  "OpenStackProvisionServerChecksumReadyInitMessage = ''OpenStackProvisionServerChecksum not started''"

definition OpenStackProvisionServerChecksumReadyErrorMessage :: "string \<Rightarrow> string" where
  "OpenStackProvisionServerChecksumReadyErrorMessage e = ''OpenStackProvisionServerChecksum error occured '' @ e"

definition OpenStackProvisionServerChecksumReadyRunningMessage :: string where
  "OpenStackProvisionServerChecksumReadyRunningMessage = ''OpenStackProvisionServerChecksum acquisition in progress''"

definition OpenStackProvisionServerChecksumReadyMessage :: string where
  "OpenStackProvisionServerChecksumReadyMessage = ''OpenStackProvisionServerChecksum acquired''"

definition OpenStackBaremetalSetReadyInitMessage :: string where
  "OpenStackBaremetalSetReadyInitMessage = ''OpenStackBaremetalSet not started''"

definition OpenStackBaremetalSetReadyErrorMessage :: "string \<Rightarrow> string" where
  "OpenStackBaremetalSetReadyErrorMessage e = ''OpenStackBaremetalSet error occured '' @ e"

definition OpenStackBaremetalSetProvServerReadyInitMessage :: string where
  "OpenStackBaremetalSetProvServerReadyInitMessage = ''OpenStackBaremetalSet provision server not started''"

definition OpenStackBaremetalSetProvServerReadyWaitingMessage :: string where
  "OpenStackBaremetalSetProvServerReadyWaitingMessage = ''OpenStackBaremetalSet waiting for provision server creation''"

definition OpenStackBaremetalSetProvServerReadyRunningMessage :: string where
  "OpenStackBaremetalSetProvServerReadyRunningMessage = ''OpenStackBaremetalSet provision server deployment in progress''"

definition OpenStackBaremetalSetProvServerReadyErrorMessage :: "string \<Rightarrow> string" where
  "OpenStackBaremetalSetProvServerReadyErrorMessage e = ''OpenStackBaremetalSet provision server error occured '' @ e"

definition OpenStackBaremetalSetProvServerReadyMessage :: string where
  "OpenStackBaremetalSetProvServerReadyMessage = ''OpenStackBaremetalSet provision server ready''"

definition OpenStackBaremetalSetBmhProvisioningReadyInitMessage :: string where
  "OpenStackBaremetalSetBmhProvisioningReadyInitMessage = ''OpenStackBaremetalSet BMH provisioning not started''"

definition OpenStackBaremetalSetBmhProvisioningReadyRunningMessage :: string where
  "OpenStackBaremetalSetBmhProvisioningReadyRunningMessage = ''OpenStackBaremetalSet BMH provisioning in progress''"

definition OpenStackBaremetalSetBmhProvisioningReadyErrorMessage :: "string \<Rightarrow> string" where
  "OpenStackBaremetalSetBmhProvisioningReadyErrorMessage e = ''OpenStackBaremetalSet BMH provisioning error occured '' @ e"

definition OpenStackBaremetalSetBmhProvisioningReadyMessage :: string where
  "OpenStackBaremetalSetBmhProvisioningReadyMessage = ''OpenStackBaremetalSet BMH provisioning completed''"

section \<open>Conditions in a status\<close>

text \<open>The list behind \<open>instance.Status.Conditions\<close>; a nil list is empty.\<close>

definition conds_of :: "Conditions option \<Rightarrow> Conditions" where
  "conds_of c = (case c of None \<Rightarrow> [] | Some cs \<Rightarrow> cs)"

definition set_conds :: "OpenStackBaremetalSet \<Rightarrow> Conditions" where
  "set_conds i = conds_of (sst_Conditions (set_Status i))"

definition upd_conds ::
  "(Conditions \<Rightarrow> Conditions) \<Rightarrow> OpenStackBaremetalSet \<Rightarrow> OpenStackBaremetalSet" where
  "upd_conds f i = i\<lparr>set_Status := (set_Status i)\<lparr>sst_Conditions := Some (f (set_conds i))\<rparr>\<rparr>"

definition ps_conds :: "OpenStackProvisionServer \<Rightarrow> Conditions" where
  "ps_conds p = conds_of (pst_Conditions (ps_Status p))"

definition upd_ps_conds ::
  "(Conditions \<Rightarrow> Conditions) \<Rightarrow> OpenStackProvisionServer \<Rightarrow> OpenStackProvisionServer" where
  "upd_ps_conds f p = p\<lparr>ps_Status := (ps_Status p)\<lparr>pst_Conditions := Some (f (ps_conds p))\<rparr>\<rparr>"

text \<open>\<open>Conditions.Set(condition.FalseCondition(...))\<close> with the reasons and severities of lib-common.\<close>

definition set_error :: "cond_ops \<Rightarrow> string \<Rightarrow> string \<Rightarrow> Conditions \<Rightarrow> Conditions" where
  "set_error C t msg cs = cond_Set C cs (cond_FalseCondition C t ''Error'' ''Warning'' msg)"

definition set_requested :: "cond_ops \<Rightarrow> string \<Rightarrow> string \<Rightarrow> Conditions \<Rightarrow> Conditions" where
  "set_requested C t msg cs = cond_Set C cs (cond_FalseCondition C t ''Requested'' ''Info'' msg)"

section \<open>What both controllers do at their ends\<close>

text \<open>\<open>if err != nil { return ctrlResult, err } else if ctrlResult is not empty { return ctrlResult, nil }\<close>\<close>

definition check_result :: "nat result \<Rightarrow> 's \<Rightarrow> (nat result, unit) flow \<times> 's" where
  "check_result r s =
     (case r of Ok n \<Rightarrow> if n \<noteq> 0 then (Return (Ok n), s) else (Continue (), s) | _ \<Rightarrow> (Return r, s))"

text \<open>The conditions that the deferred function of \<open>Reconcile\<close> patches.\<close>

definition deferredConditions ::
  "cond_ops \<Rightarrow> Conditions \<Rightarrow> Conditions \<Rightarrow> Conditions" where
  "deferredConditions C saved cs =
     (let cs = cond_RestoreLastTransitionTimes C cs saved
      in if cond_IsUnknown C cs ReadyCondition
         then (case cond_Mirror C cs ReadyCondition of None \<Rightarrow> cs | Some c \<Rightarrow> cond_Set C cs c)
         else cs)"

text \<open>While a body runs, \<open>Ready\<close> is unknown; only the end of \<open>reconcileNormal\<close> may set it.\<close>

definition ready_unknown :: "Conditions \<Rightarrow> bool" where
  "ready_unknown cs \<longleftrightarrow> cond_status cs ReadyCondition = Some CUnknown"

definition ready_sound :: "Conditions \<Rightarrow> bool" where
  "ready_sound cs \<longleftrightarrow>
     (cond_status cs ReadyCondition = Some CTrue \<longrightarrow> (\<forall>t st. cond_status cs t = Some st \<longrightarrow> st = CTrue))"

section \<open>Facts\<close>

lemma set_conds_upd [simp]:
  "set_conds (upd_conds f i) = f (set_conds i)" "set_Spec (upd_conds f i) = set_Spec i"
  "set_Meta (upd_conds f i) = set_Meta i" "status_hosts (upd_conds f i) = status_hosts i"
  "set_Kind (upd_conds f i) = set_Kind i"
  by (simp_all add: upd_conds_def set_conds_def conds_of_def)

lemma set_conds_status_hosts [simp]: "set_conds (set_status_hosts m i) = set_conds i"
  by (simp add: set_conds_def set_status_hosts_def)

lemma ps_conds_upd [simp]:
  "ps_conds (upd_ps_conds f p) = f (ps_conds p)" "ps_Spec (upd_ps_conds f p) = ps_Spec p"
  "ps_Meta (upd_ps_conds f p) = ps_Meta p"
  by (simp_all add: upd_ps_conds_def ps_conds_def conds_of_def)

text \<open>No two of the types are equal, and none is the overall \<open>Ready\<close>.\<close>

definition all_cond_types :: "string list" where
  "all_cond_types = [ReadyCondition, InputReadyCondition, OpenStackBaremetalSetProvServerReadyCondition,
     OpenStackBaremetalSetBmhProvisioningReadyCondition, DeploymentReadyCondition,
     ServiceConfigReadyCondition, OpenStackProvisionServerProvIntfReadyCondition,
     OpenStackProvisionServerLocalImageURLReadyCondition,
     OpenStackProvisionServerChecksumReadyCondition, ServiceAccountReadyCondition,
     RoleReadyCondition, RoleBindingReadyCondition]"

lemma cond_types_distinct: "distinct all_cond_types" "distinct (rev all_cond_types)"
  by (simp_all add: all_cond_types_def cond_types ReadyCondition_def)

lemmas cond_types_neq [simp] = cond_types_distinct [unfolded all_cond_types_def, simplified]

context cond_laws begin

lemma status_set_error [simp]:
  "cond_status (set_error C t m cs) t' = (if t' = t then Some CFalse else cond_status cs t')"
  by (simp add: set_error_def status_simps)

lemma status_set_requested [simp]:
  "cond_status (set_requested C t m cs) t' = (if t' = t then Some CFalse else cond_status cs t')"
  by (simp add: set_requested_def status_simps)

text \<open>If \<open>Ready\<close> is sound before the deferred function, it is sound after it.\<close>

lemma deferred_status:
  "cond_status (deferredConditions C saved cs) t \<noteq> cond_status cs t \<Longrightarrow> t = ReadyCondition"
  using Mirror_type [of "cond_RestoreLastTransitionTimes C cs saved" ReadyCondition]
  by (auto simp: deferredConditions_def Let_def status_Set status_Restore split: if_splits option.splits)

lemma deferred_sound:
  assumes "ready_sound cs"
  shows "ready_sound (deferredConditions C saved cs)"
proof (cases "cond_IsUnknown C (cond_RestoreLastTransitionTimes C cs saved) ReadyCondition")
  case False
  with assms show ?thesis by (simp add: deferredConditions_def ready_sound_def status_Restore)
next
  case True
  let ?cs = "cond_RestoreLastTransitionTimes C cs saved"
  show ?thesis
  proof (cases "cond_Mirror C ?cs ReadyCondition")
    case None
    with assms True show ?thesis by (simp add: deferredConditions_def ready_sound_def status_Restore)
  next
    case (Some c)
    with True have "deferredConditions C saved cs = cond_Set C ?cs c" by (simp add: deferredConditions_def)
    moreover have "st = CTrue" if "c_Status c = CTrue" "t \<noteq> ReadyCondition" "cond_status cs t = Some st" for t st
      using Mirror_true [OF Some that(1,2)] that(3) by (simp add: status_Restore)
    ultimately show ?thesis using Mirror_type [OF Some]
      by (simp add: ready_sound_def status_Set status_Restore)
  qed
qed

end

end
