(* ===== verification/HardwareMatch.thy ===== *)
theory HardwareMatch
  imports ApiTypes
begin

text \<open>
  Hardware requirements of an \<open>OpenStackBaremetalSet\<close>: the check
  \<open>verifyBaremetalSetHardwareMatch\<close> of \<^verbatim>\<open>api/v1beta1/openstackbaremetalset.go\<close>, and a
  declarative reading of the request (\<open>hw_satisfies\<close>) over exact integers. The check computes in
  \<open>float64\<close>; the two agree on every size below \<open>2 ^ 53\<close>.
\<close>

section \<open>The check\<close>

definition disk_size_matches :: "DiskGbReq \<Rightarrow> Storage \<Rightarrow> bool" where
  "disk_size_matches req disk =
     (let diskGbBms = float64 (dgr_Gb req);
          diskGbBmh = float64 (st_SizeBytes disk) / float64 1073741824
      in diskGbBmh = diskGbBms \<or> (\<not> dgr_ExactMatch req \<and> diskGbBmh > diskGbBms))"

definition cpu_matches :: "CPUReqs \<Rightarrow> CPU \<Rightarrow> bool" where
  "cpu_matches cpuReqs cpu =
     (if cr_Arch cpuReqs \<noteq> [] \<and> cpu_Arch cpu \<noteq> cr_Arch cpuReqs then False
      else if ccr_Count (cr_CountReq cpuReqs) \<noteq> 0
           \<and> cpu_Count cpu \<noteq> ccr_Count (cr_CountReq cpuReqs)
           \<and> (ccr_ExactMatch (cr_CountReq cpuReqs) \<or> ccr_Count (cr_CountReq cpuReqs) > cpu_Count cpu)
           then False
      else if cmr_Mhz (cr_MhzReq cpuReqs) \<noteq> 0
           \<and> (let clockSpeed = int_of_float (cpu_ClockMegahertz cpu)
              in cmr_Mhz (cr_MhzReq cpuReqs) \<noteq> clockSpeed
                 \<and> (cmr_ExactMatch (cr_MhzReq cpuReqs) \<or> cmr_Mhz (cr_MhzReq cpuReqs) > clockSpeed))
           then False
      else True)"

definition mem_matches :: "MemReqs \<Rightarrow> int \<Rightarrow> bool" where
  "mem_matches memReqs ram =
     (if mgr_Gb (mr_GbReq memReqs) \<noteq> 0
         \<and> (let memGbBms = float64 (mgr_Gb (mr_GbReq memReqs));
                memGbBmh = float64 ram / float64 1024
            in memGbBmh \<noteq> memGbBms \<and> (mgr_ExactMatch (mr_GbReq memReqs) \<or> memGbBms > memGbBmh))
      then False else True)"

definition disk_matches :: "DiskReqs \<Rightarrow> Storage list \<Rightarrow> bool" where
  "disk_matches diskReqs disks =
     (let foundDisk = (if dgr_Gb (dr_GbReq diskReqs) \<noteq> 0
                       then find (disk_size_matches (dr_GbReq diskReqs)) disks else None)
      in if dgr_Gb (dr_GbReq diskReqs) \<noteq> 0 \<and> foundDisk = None then False
         else if dsr_ExactMatch (dr_SSDReq diskReqs) \<or> dsr_SSD (dr_SSDReq diskReqs)
         then (case foundDisk of
                 Some disk \<Rightarrow> st_Rotational disk \<noteq> dsr_SSD (dr_SSDReq diskReqs)
               | None \<Rightarrow> list_ex (\<lambda>disk. st_Rotational disk \<noteq> dsr_SSD (dr_SSDReq diskReqs)) disks)
         else True)"

definition verifyBaremetalSetHardwareMatch :: "OpenStackBaremetalSet \<Rightarrow> BareMetalHost \<Rightarrow> bool" where
  "verifyBaremetalSetHardwareMatch inst bmh =
     (let reqs = ts_HardwareReqs (set_Spec inst)
      in if reqs = zero_HardwareReqs then True
         else case bs_HardwareDetails (bmh_Status bmh) of
                None \<Rightarrow> False
              | Some details \<Rightarrow>
                  if \<not> cpu_matches (hr_CPUReqs reqs) (hd_CPU details) then False
                  else if \<not> mem_matches (hr_MemReqs reqs) (hd_RAMMebibytes details) then False
                  else if \<not> disk_matches (hr_DiskReqs reqs) (hd_Storage details) then False
                  else True)"

section \<open>What a request means\<close>

text \<open>A numeric request of zero asks for nothing; otherwise the value is met exactly, or at least.\<close>

definition at_least_or_exact :: "int \<Rightarrow> bool \<Rightarrow> int \<Rightarrow> int \<Rightarrow> bool" where
  "at_least_or_exact unit exact want have \<longleftrightarrow>
     want = 0 \<or> (if exact then have = unit * want else unit * want \<le> have)"

definition disk_wants_type :: "DiskSSDReq \<Rightarrow> bool" where
  "disk_wants_type r \<longleftrightarrow> dsr_SSD r \<or> dsr_ExactMatch r"

definition disk_type_ok :: "DiskSSDReq \<Rightarrow> Storage \<Rightarrow> bool" where
  "disk_type_ok r d \<longleftrightarrow> st_Rotational d = (\<not> dsr_SSD r)"

definition disk_size_ok :: "DiskGbReq \<Rightarrow> Storage \<Rightarrow> bool" where
  "disk_size_ok r d \<longleftrightarrow> at_least_or_exact 1073741824 (dgr_ExactMatch r) (dgr_Gb r) (st_SizeBytes d)"

definition cpu_satisfies :: "CPUReqs \<Rightarrow> CPU \<Rightarrow> bool" where
  "cpu_satisfies r c \<longleftrightarrow>
     (cr_Arch r = [] \<or> cpu_Arch c = cr_Arch r)
     \<and> at_least_or_exact 1 (ccr_ExactMatch (cr_CountReq r)) (ccr_Count (cr_CountReq r)) (cpu_Count c)
     \<and> at_least_or_exact 1 (cmr_ExactMatch (cr_MhzReq r)) (cmr_Mhz (cr_MhzReq r))
         (int_of_float (cpu_ClockMegahertz c))"

definition disk_satisfies :: "DiskReqs \<Rightarrow> Storage list \<Rightarrow> bool" where
  "disk_satisfies r disks \<longleftrightarrow>
     (dgr_Gb (dr_GbReq r) \<noteq> 0 \<or> disk_wants_type (dr_SSDReq r) \<longrightarrow>
      (\<exists>d \<in> set disks. disk_size_ok (dr_GbReq r) d
         \<and> (disk_wants_type (dr_SSDReq r) \<longrightarrow> disk_type_ok (dr_SSDReq r) d)))"

definition hw_satisfies :: "HardwareReqs \<Rightarrow> HardwareDetails \<Rightarrow> bool" where
  "hw_satisfies r d \<longleftrightarrow>
     cpu_satisfies (hr_CPUReqs r) (hd_CPU d)
     \<and> at_least_or_exact 1024 (mgr_ExactMatch (mr_GbReq (hr_MemReqs r)))
         (mgr_Gb (mr_GbReq (hr_MemReqs r))) (hd_RAMMebibytes d)
     \<and> disk_satisfies (hr_DiskReqs r) (hd_Storage d)"

text \<open>Sizes for which the conversions to \<open>float64\<close> are exact.\<close>

definition f64_sized :: "int \<Rightarrow> bool" where
  "f64_sized n \<longleftrightarrow> \<bar>n\<bar> < 2 ^ 53"

definition hw_sized :: "HardwareReqs \<Rightarrow> HardwareDetails \<Rightarrow> bool" where
  "hw_sized r d \<longleftrightarrow>
     f64_sized (mgr_Gb (mr_GbReq (hr_MemReqs r))) \<and> f64_sized (hd_RAMMebibytes d)
     \<and> f64_sized (dgr_Gb (dr_GbReq (hr_DiskReqs r)))
     \<and> list_all (\<lambda>s. f64_sized (st_SizeBytes s)) (hd_Storage d)"

text \<open>With a size and a type request, the code looks at the type of the first disk of the
  requested size only. Hosts on which every disk of the requested size has the same type are
  not affected.\<close>

definition disks_uniform :: "DiskReqs \<Rightarrow> Storage list \<Rightarrow> bool" where
  "disks_uniform r disks \<longleftrightarrow>
     (\<forall>d \<in> set disks. \<forall>e \<in> set disks.
        disk_size_ok (dr_GbReq r) d \<and> disk_size_ok (dr_GbReq r) e
        \<longrightarrow> st_Rotational d = st_Rotational e)"

section \<open>Facts\<close>

lemma float64_sized: "f64_sized n \<Longrightarrow> float64 n = of_int n"
  by (simp add: f64_sized_def float64_exact)

lemma float64_units [simp]: "float64 1024 = 1024" "float64 1073741824 = 1073741824"
  by (simp_all add: float64_exact)

lemma rat_div_cmp:
  fixes a b u :: int
  assumes "u > 0"
  shows "(of_int a / of_int u = (of_int b :: rat)) = (a = u * b)"
    and "((of_int b :: rat) > of_int a / of_int u) = (u * b > a)"
    and "(of_int a / of_int u > (of_int b :: rat)) = (a > u * b)"
proof -
  have u: "(of_int u :: rat) > 0" using assms by simp
  have "(of_int a / of_int u = (of_int b :: rat)) = ((of_int a :: rat) = of_int (u * b))"
    using u by (simp add: field_simps)
  then show "(of_int a / of_int u = (of_int b :: rat)) = (a = u * b)"
    by (simp only: of_int_eq_iff)
  have "((of_int b :: rat) > of_int a / of_int u) = ((of_int (u * b) :: rat) > of_int a)"
    using u by (simp add: field_simps)
  then show "((of_int b :: rat) > of_int a / of_int u) = (u * b > a)"
    by (simp only: of_int_less_iff)
  have "(of_int a / of_int u > (of_int b :: rat)) = ((of_int a :: rat) > of_int (u * b))"
    using u by (simp add: field_simps)
  then show "(of_int a / of_int u > (of_int b :: rat)) = (a > u * b)"
    by (simp only: of_int_less_iff)
qed

lemmas rat_div_1024 = rat_div_cmp [of 1024, simplified]
lemmas rat_div_gib = rat_div_cmp [of 1073741824, simplified]

lemma cpu_matches_iff: "cpu_matches r c = cpu_satisfies r c"
  by (auto simp: cpu_matches_def cpu_satisfies_def at_least_or_exact_def Let_def)

lemma mem_matches_iff:
  assumes "f64_sized (mgr_Gb (mr_GbReq r))" and "f64_sized ram"
  shows "mem_matches r ram =
    at_least_or_exact 1024 (mgr_ExactMatch (mr_GbReq r)) (mgr_Gb (mr_GbReq r)) ram"
  using assms
  by (auto simp: mem_matches_def at_least_or_exact_def Let_def float64_sized rat_div_1024)

lemma disk_size_matches_iff:
  assumes "f64_sized (dgr_Gb r)" and "f64_sized (st_SizeBytes d)" and "dgr_Gb r \<noteq> 0"
  shows "disk_size_matches r d = disk_size_ok r d"
  using assms
  by (auto simp: disk_size_matches_def disk_size_ok_def at_least_or_exact_def Let_def
      float64_sized rat_div_gib)

text \<open>What the disk check computes when the conversions are exact.\<close>

lemma disk_matches_first:
  assumes "f64_sized (dgr_Gb (dr_GbReq r))" and "list_all (\<lambda>s. f64_sized (st_SizeBytes s)) disks"
  shows "disk_matches r disks =
    (if dgr_Gb (dr_GbReq r) = 0
     then disk_wants_type (dr_SSDReq r) \<longrightarrow> (\<exists>d \<in> set disks. disk_type_ok (dr_SSDReq r) d)
     else (case find (disk_size_ok (dr_GbReq r)) disks of
             None \<Rightarrow> False
           | Some d \<Rightarrow> disk_wants_type (dr_SSDReq r) \<longrightarrow> disk_type_ok (dr_SSDReq r) d))"
proof -
  have "dgr_Gb (dr_GbReq r) \<noteq> 0 \<Longrightarrow>
     find (disk_size_matches (dr_GbReq r)) disks = find (disk_size_ok (dr_GbReq r)) disks"
    using assms by (induction disks) (auto simp: disk_size_matches_iff)
  then show ?thesis
    by (auto simp: disk_matches_def Let_def disk_wants_type_def disk_type_ok_def list_ex_iff
        split: option.splits)
qed

lemma find_SomeD: "find P xs = Some x \<Longrightarrow> x \<in> set xs \<and> P x"
  by (induction xs) (auto split: if_splits)

lemma find_None_iff_ex: "find P xs = None \<longleftrightarrow> \<not> (\<exists>x \<in> set xs. P x)"
  by (induction xs) auto

lemma disk_matches_sound:
  assumes "f64_sized (dgr_Gb (dr_GbReq r))" and "list_all (\<lambda>s. f64_sized (st_SizeBytes s)) disks"
    and m: "disk_matches r disks"
  shows "disk_satisfies r disks"
proof (cases "dgr_Gb (dr_GbReq r) = 0")
  case True
  then have "disk_size_ok (dr_GbReq r) d" for d
    by (simp add: disk_size_ok_def at_least_or_exact_def)
  with m True show ?thesis
    unfolding disk_matches_first [OF assms(1,2)] disk_satisfies_def by auto
next
  case False
  with m obtain d where d: "find (disk_size_ok (dr_GbReq r)) disks = Some d"
    and t: "disk_wants_type (dr_SSDReq r) \<longrightarrow> disk_type_ok (dr_SSDReq r) d"
    unfolding disk_matches_first [OF assms(1,2)] by (auto split: option.splits)
  from find_SomeD [OF d] t show ?thesis unfolding disk_satisfies_def by blast
qed

lemma disk_matches_complete:
  assumes "f64_sized (dgr_Gb (dr_GbReq r))" and "list_all (\<lambda>s. f64_sized (st_SizeBytes s)) disks"
    and sat: "disk_satisfies r disks" and uni: "disks_uniform r disks"
  shows "disk_matches r disks"
proof (cases "dgr_Gb (dr_GbReq r) = 0")
  case True
  with sat show ?thesis
    unfolding disk_matches_first [OF assms(1,2)] by (auto simp: disk_satisfies_def)
next
  case False
  with sat obtain e where e: "e \<in> set disks" "disk_size_ok (dr_GbReq r) e"
    "disk_wants_type (dr_SSDReq r) \<longrightarrow> disk_type_ok (dr_SSDReq r) e"
    by (auto simp: disk_satisfies_def)
  then have "find (disk_size_ok (dr_GbReq r)) disks \<noteq> None"
    unfolding find_None_iff_ex by blast
  then obtain d where d: "find (disk_size_ok (dr_GbReq r)) disks = Some d" by blast
  from find_SomeD [OF d] e(1,2) uni have "st_Rotational d = st_Rotational e"
    unfolding disks_uniform_def by blast
  with e d False show ?thesis
    unfolding disk_matches_first [OF assms(1,2)] by (auto simp: disk_type_ok_def)
qed

lemma hw_match_iff_parts:
  assumes "bs_HardwareDetails (bmh_Status bmh) = Some d"
    and "ts_HardwareReqs (set_Spec inst) \<noteq> zero_HardwareReqs"
    and "hw_sized (ts_HardwareReqs (set_Spec inst)) d"
  shows "verifyBaremetalSetHardwareMatch inst bmh \<longleftrightarrow>
     cpu_satisfies (hr_CPUReqs (ts_HardwareReqs (set_Spec inst))) (hd_CPU d)
     \<and> at_least_or_exact 1024 (mgr_ExactMatch (mr_GbReq (hr_MemReqs (ts_HardwareReqs (set_Spec inst)))))
         (mgr_Gb (mr_GbReq (hr_MemReqs (ts_HardwareReqs (set_Spec inst))))) (hd_RAMMebibytes d)
     \<and> disk_matches (hr_DiskReqs (ts_HardwareReqs (set_Spec inst))) (hd_Storage d)"
  using assms
  by (simp add: verifyBaremetalSetHardwareMatch_def Let_def cpu_matches_iff mem_matches_iff
      hw_sized_def)

end
