(* ===== verification/LabelAssign.thy ===== *)
theory LabelAssign
  imports ApiTypes
begin

text \<open>
  The assignment of compute hosts to bare metal hosts by labels, from
  \<^verbatim>\<open>api/v1beta1/openstackbaremetalset.go\<close>: \<open>IsMapSubset\<close> and the backtracking search
  \<open>findValidBaremetalSetInstanceLabelAssignments\<close>.

  The search keeps two mutable maps, the assignment and the set of names in use; they are the
  state \<open>bt_state\<close> that \<open>backtrack\<close> passes along. The closure's \<open>index\<close> is the list of the
  computes that are still to be placed, so \<open>index == len(computes)\<close> is the empty list.
  \<open>computeArray\<close> is filled by a \<open>range\<close> in an unspecified order and then sorted by an unstable
  sort; since the model quantifies over the order of the map, a stable sort reaches every array
  the code can produce.

  \<open>placement\<close> says what a correct assignment is: every compute gets a host whose labels include
  its selector, and no host name is used twice. The search returns one exactly when there is one.
\<close>

section \<open>The code\<close>

definition IsMapSubset :: "('k, 'v) gomap \<Rightarrow> ('k, 'v) gomap \<Rightarrow> bool" where
  "IsMapSubset m sub =
     (case sub of
        None \<Rightarrow> True
      | Some _ \<Rightarrow>
          if gm_len sub > gm_len m then False
          else list_all (\<lambda>(k, vsub). case gm_get m k of None \<Rightarrow> False | Some vm \<Rightarrow> vm = vsub)
                 (gm_items sub))"

definition bmhs_of :: "(string, BareMetalHost list) gomap \<Rightarrow> string \<Rightarrow> BareMetalHost list" where
  "bmhs_of m k = (case gm_get m k of None \<Rightarrow> [] | Some bs \<Rightarrow> bs)"

fun addMatches ::
  "string \<Rightarrow> labels \<Rightarrow> BareMetalHost list \<Rightarrow> (string, BareMetalHost list) gomap \<Rightarrow>
   (string, BareMetalHost list) gomap" where
  "addMatches compName selector [] m = m"
| "addMatches compName selector (bmh # bmhs) m =
     addMatches compName selector bmhs
       (if IsMapSubset (bmh_Labels bmh) selector
        then gm_put compName (bmhs_of m compName @ [bmh]) m else m)"

fun matchComputes ::
  "(string \<times> InstanceSpec) list \<Rightarrow> BareMetalHost list \<Rightarrow> (string, BareMetalHost list) gomap \<Rightarrow>
   (string, BareMetalHost list) gomap" where
  "matchComputes [] bmhs m = m"
| "matchComputes ((compName, spec) # cs) bmhs m =
     matchComputes cs bmhs (addMatches compName (is_BmhLabelSelector spec) bmhs m)"

record bt_state =
  bt_assignment :: "(string, BareMetalHost) gomap"
  bt_assigned :: "(string, bool) gomap"

definition is_assigned :: "bt_state \<Rightarrow> string \<Rightarrow> bool" where
  "is_assigned s n \<longleftrightarrow> gm_get (bt_assigned s) n = Some True"

function (sequential) backtrack ::
  "(string, BareMetalHost list) gomap \<Rightarrow> string list \<Rightarrow> bt_state \<Rightarrow> bool \<times> bt_state"
and tryBmhs ::
  "(string, BareMetalHost list) gomap \<Rightarrow> string \<Rightarrow> string list \<Rightarrow> BareMetalHost list \<Rightarrow> bt_state \<Rightarrow>
   bool \<times> bt_state" where
  "backtrack ctb [] s = (True, s)"
| "backtrack ctb (cname # rest) s = tryBmhs ctb cname rest (bmhs_of ctb cname) s"
| "tryBmhs ctb cname rest [] s = (False, s)"
| "tryBmhs ctb cname rest (bmh # bmhs) s =
     (if \<not> is_assigned s (bmh_Name bmh) then
        (let s1 = s\<lparr>bt_assignment := gm_put cname bmh (bt_assignment s),
                    bt_assigned := gm_put (bmh_Name bmh) True (bt_assigned s)\<rparr>
         in case backtrack ctb rest s1 of
              (True, s2) \<Rightarrow> (True, s2)
            | (False, s2) \<Rightarrow>
                tryBmhs ctb cname rest bmhs
                  (s2\<lparr>bt_assignment := gm_del cname (bt_assignment s2),
                      bt_assigned := gm_put (bmh_Name bmh) False (bt_assigned s2)\<rparr>))
      else tryBmhs ctb cname rest bmhs s)"
  by pat_completeness auto
termination
  by (relation "measures
        [\<lambda>x. case x of Inl (ctb, cs, s) \<Rightarrow> length cs | Inr (ctb, c, rest, bs, s) \<Rightarrow> Suc (length rest),
         \<lambda>x. case x of Inl _ \<Rightarrow> 1 | Inr _ \<Rightarrow> 0,
         \<lambda>x. case x of Inl (ctb, cs, s) \<Rightarrow> 0 | Inr (ctb, c, rest, bs, s) \<Rightarrow> length bs]") auto

definition findValidBaremetalSetInstanceLabelAssignments ::
  "(string, InstanceSpec) gomap \<Rightarrow> BareMetalHost list \<Rightarrow> (string, BareMetalHost) gomap" where
  "findValidBaremetalSetInstanceLabelAssignments computes bmhs =
     (let computesToBmhs = matchComputes (gm_items computes) bmhs gm_empty;
          computeArray = sort_key (\<lambda>k. length (bmhs_of computesToBmhs k)) (gm_keys computes)
      in case backtrack computesToBmhs computeArray
                \<lparr>bt_assignment = gm_empty, bt_assigned = gm_empty\<rparr> of
           (True, s) \<Rightarrow> bt_assignment s
         | (False, s) \<Rightarrow> None)"

section \<open>What the search promises\<close>

definition placement ::
  "(string, InstanceSpec) gomap \<Rightarrow> BareMetalHost list \<Rightarrow> (string \<rightharpoonup> BareMetalHost) \<Rightarrow> bool" where
  "placement computes bmhs f \<longleftrightarrow>
     dom f = set (gm_keys computes)
     \<and> (\<forall>(c, spec) \<in> set (gm_items computes). \<forall>b. f c = Some b \<longrightarrow>
          b \<in> set bmhs \<and> IsMapSubset (bmh_Labels b) (is_BmhLabelSelector spec))
     \<and> (\<forall>c b c' b'. f c = Some b \<longrightarrow> f c' = Some b' \<longrightarrow> bmh_Name b = bmh_Name b' \<longrightarrow> c = c')"

text \<open>The interface its callers rely on.\<close>

locale label_assigner =
  fixes assign ::
    "(string, InstanceSpec) gomap \<Rightarrow> BareMetalHost list \<Rightarrow> (string, BareMetalHost) gomap"
  assumes assign_sound:
      "gm_wf computes \<Longrightarrow> assign computes bmhs = Some xs \<Longrightarrow> placement computes bmhs (map_of xs)"
    and assign_wf: "gm_wf computes \<Longrightarrow> gm_wf (assign computes bmhs)"
    and assign_complete:
      "gm_wf computes \<Longrightarrow> placement computes bmhs f \<Longrightarrow> assign computes bmhs \<noteq> None"
begin

lemma assign_iff:
  "gm_wf computes \<Longrightarrow> assign computes bmhs \<noteq> None \<longleftrightarrow> (\<exists>f. placement computes bmhs f)"
  using assign_sound assign_complete by (metis option.exhaust)

text \<open>A non-nil result has an entry for every compute, and a nil one has none.\<close>

lemma assign_len:
  assumes "gm_wf computes"
  shows "gm_len (assign computes bmhs) =
    (if \<exists>f. placement computes bmhs f then gm_len computes else 0)"
proof (cases "assign computes bmhs")
  case None
  with assign_iff [OF assms, of bmhs] show ?thesis by (simp add: gm_len_def)
next
  case (Some xs)
  then have "placement computes bmhs (map_of xs)" by (rule assign_sound [OF assms])
  moreover from this Some have "set (gm_keys (assign computes bmhs)) = set (gm_keys computes)"
    by (simp add: placement_def gm_keys_def dom_map_of_conv_image_fst)
  ultimately show ?thesis
    using assms assign_wf [OF assms, of bmhs] by (auto simp: gm_len_keys)
qed

lemma assign_keys:
  assumes "gm_wf computes" and "assign computes bmhs \<noteq> None"
  shows "set (gm_keys (assign computes bmhs)) = set (gm_keys computes)"
proof -
  from assms(2) obtain xs where xs: "assign computes bmhs = Some xs" by blast
  then have "placement computes bmhs (map_of xs)" by (rule assign_sound [OF assms(1)])
  with xs show ?thesis by (simp add: placement_def gm_keys_def dom_map_of_conv_image_fst)
qed

lemma assign_get:
  assumes "gm_wf computes" and "gm_get (assign computes bmhs) c = Some b"
  obtains spec where "gm_get computes c = Some spec" and "b \<in> set bmhs"
    and "IsMapSubset (bmh_Labels b) (is_BmhLabelSelector spec)"
proof -
  from assms(2) obtain xs where xs: "assign computes bmhs = Some xs"
    by (cases "assign computes bmhs") auto
  then have p: "placement computes bmhs (map_of xs)" by (rule assign_sound [OF assms(1)])
  from assms(2) xs have c: "map_of xs c = Some b" by (simp add: gm_get_def)
  with p have "c \<in> set (gm_keys computes)" by (auto simp: placement_def)
  then obtain spec where s: "gm_get computes c = Some spec" by (auto simp: gm_keys_iff)
  from p c gm_get_SomeD [OF s]
  have "b \<in> set bmhs \<and> IsMapSubset (bmh_Labels b) (is_BmhLabelSelector spec)"
    unfolding placement_def by fast
  with s that show thesis by blast
qed

lemma assign_inj:
  assumes "gm_wf computes" and "gm_get (assign computes bmhs) c = Some b"
    and "gm_get (assign computes bmhs) c' = Some b'" and "bmh_Name b = bmh_Name b'"
  shows "c = c'"
proof -
  from assms(2) obtain xs where xs: "assign computes bmhs = Some xs"
    by (cases "assign computes bmhs") auto
  then have "placement computes bmhs (map_of xs)" by (rule assign_sound [OF assms(1)])
  with assms(2-4) xs show ?thesis unfolding placement_def by (simp add: gm_get_def)
qed

end

section \<open>Label inclusion\<close>

lemma map_of_subset_length:
  assumes "distinct (map fst xs)" and "\<And>k v. (k, v) \<in> set xs \<Longrightarrow> map_of ys k = Some v"
  shows "length xs \<le> length ys"
proof -
  have "fst ` set xs \<subseteq> fst ` set ys"
    using assms(2) by (force dest: map_of_SomeD)
  then have "card (fst ` set xs) \<le> card (fst ` set ys)" by (simp add: card_mono)
  also have "\<dots> \<le> length ys" by (metis card_length length_map list.set_map)
  finally show ?thesis using assms(1) by (metis distinct_card length_map list.set_map)
qed

lemma IsMapSubset_iff:
  assumes "gm_wf sub"
  shows "IsMapSubset m sub \<longleftrightarrow> (\<forall>k v. gm_get sub k = Some v \<longrightarrow> gm_get m k = Some v)"
proof (cases sub)
  case None
  then show ?thesis by (simp add: IsMapSubset_def)
next
  case (Some xs)
  have eq: "(\<forall>k v. gm_get sub k = Some v \<longrightarrow> gm_get m k = Some v)
      \<longleftrightarrow> (\<forall>(k, v) \<in> set xs. gm_get m k = Some v)"
    using gm_wf_get_iff [OF assms] Some by auto
  have "(\<forall>(k, v) \<in> set xs. gm_get m k = Some v) \<Longrightarrow> length xs \<le> gm_len m"
    using assms Some unfolding gm_len_def
    by (intro map_of_subset_length) (auto simp: gm_wf_def gm_keys_def gm_get_def)
  with Some eq show ?thesis
    by (auto simp: IsMapSubset_def gm_len_def list_all_iff split: option.splits)
qed

section \<open>The table of candidate hosts\<close>

lemma bmhs_of_put [simp]:
  "bmhs_of (gm_put k bs m) k' = (if k' = k then bs else bmhs_of m k')"
  by (simp add: bmhs_of_def)

lemma bmhs_of_addMatches:
  "bmhs_of (addMatches n sel bmhs m) k =
     (if k = n then bmhs_of m k @ filter (\<lambda>b. IsMapSubset (bmh_Labels b) sel) bmhs
      else bmhs_of m k)"
  by (induction n sel bmhs m rule: addMatches.induct) auto

lemma bmhs_of_matchComputes:
  assumes "distinct (map fst cs)" and "(n, spec) \<in> set cs" and "bmhs_of m n = []"
  shows "bmhs_of (matchComputes cs bmhs m) n =
     filter (\<lambda>b. IsMapSubset (bmh_Labels b) (is_BmhLabelSelector spec)) bmhs"
proof -
  have other: "n \<notin> fst ` set cs \<Longrightarrow> bmhs_of (matchComputes cs bmhs m) n = bmhs_of m n" for n cs bmhs m
    by (induction cs bmhs m rule: matchComputes.induct) (auto simp: bmhs_of_addMatches)
  from assms show ?thesis
  proof (induction cs bmhs m rule: matchComputes.induct)
    case (2 c sp cs bmhs m)
    then have notin: "n = c \<Longrightarrow> n \<notin> fst ` set cs" by simp
    show ?case
    proof (cases "n = c")
      case True
      with 2 notin have "sp = spec" by (auto simp: image_iff)
      with True 2 notin show ?thesis by (simp add: other bmhs_of_addMatches)
    next
      case False
      with 2 show ?thesis by (simp add: bmhs_of_addMatches)
    qed
  qed simp
qed

section \<open>The search\<close>

text \<open>\<open>assigns ctb cs used f\<close>: \<open>f\<close> places the computes \<open>cs\<close> on candidates of \<open>ctb\<close> whose names
  are pairwise different and not in \<open>used\<close>.\<close>

fun assigns ::
  "(string, BareMetalHost list) gomap \<Rightarrow> string list \<Rightarrow> string set \<Rightarrow>
   (string \<Rightarrow> BareMetalHost) \<Rightarrow> bool" where
  "assigns ctb [] used f = True"
| "assigns ctb (c # cs) used f =
     (f c \<in> set (bmhs_of ctb c) \<and> bmh_Name (f c) \<notin> used
      \<and> assigns ctb cs (insert (bmh_Name (f c)) used) f)"

definition used_names :: "bt_state \<Rightarrow> string set" where
  "used_names s = {n. is_assigned s n}"

lemma used_names_upd [simp]:
  "used_names (s\<lparr>bt_assignment := a, bt_assigned := gm_put n True (bt_assigned s)\<rparr>)
     = insert n (used_names s)"
  "used_names (s\<lparr>bt_assignment := a, bt_assigned := gm_put n False (bt_assigned s)\<rparr>)
     = used_names s - {n}"
  by (auto simp: used_names_def is_assigned_def)

lemma assigns_cong:
  "(\<And>c. c \<in> set cs \<Longrightarrow> f c = g c) \<Longrightarrow> assigns ctb cs used f = assigns ctb cs used g"
  by (induction cs arbitrary: used) auto

lemma assigns_iff:
  "distinct cs \<Longrightarrow> assigns ctb cs used f \<longleftrightarrow>
     (\<forall>c \<in> set cs. f c \<in> set (bmhs_of ctb c) \<and> bmh_Name (f c) \<notin> used)
     \<and> inj_on (\<lambda>c. bmh_Name (f c)) (set cs)"
  by (induction cs arbitrary: used) (auto simp: image_iff)

text \<open>On failure the names in use are restored and nothing outside the given computes is
  changed; on success the assignment is extended by a placement of the given computes.\<close>

definition search_post ::
  "(string, BareMetalHost list) gomap \<Rightarrow> string list \<Rightarrow> BareMetalHost set option \<Rightarrow>
   bt_state \<Rightarrow> bool \<times> bt_state \<Rightarrow> bool" where
  "search_post ctb cs first s r \<longleftrightarrow>
     (let ok = (\<lambda>f. assigns ctb cs (used_names s) f
                 \<and> (case first of None \<Rightarrow> True | Some bs \<Rightarrow> f (hd cs) \<in> bs))
      in if fst r
         then \<exists>f. ok f \<and> gm_get (bt_assignment (snd r)) =
                (\<lambda>c. if c \<in> set cs then Some (f c) else gm_get (bt_assignment s) c)
         else used_names (snd r) = used_names s
              \<and> (\<forall>c. c \<notin> set cs \<longrightarrow>
                   gm_get (bt_assignment (snd r)) c = gm_get (bt_assignment s) c)
              \<and> (\<forall>f. \<not> ok f))"

lemma search_post_skip:
  assumes "is_assigned s (bmh_Name bmh)"
    and "search_post ctb (cname # rest) (Some (set bmhs)) s r"
  shows "search_post ctb (cname # rest) (Some (set (bmh # bmhs))) s r"
  using assms unfolding search_post_def Let_def by (auto simp: used_names_def)

lemma search_post_success:
  assumes "distinct (cname # rest)" and "bmh \<in> set (bmhs_of ctb cname)"
    and "\<not> is_assigned s (bmh_Name bmh)"
    and "search_post ctb rest None
      (s\<lparr>bt_assignment := gm_put cname bmh (bt_assignment s),
         bt_assigned := gm_put (bmh_Name bmh) True (bt_assigned s)\<rparr>) (True, s2)"
  shows "search_post ctb (cname # rest) (Some (set (bmh # bmhs))) s (True, s2)"
proof -
  from assms(4) obtain f where f: "assigns ctb rest (insert (bmh_Name bmh) (used_names s)) f"
    and g: "gm_get (bt_assignment s2) = (\<lambda>c. if c \<in> set rest then Some (f c)
              else gm_get (gm_put cname bmh (bt_assignment s)) c)"
    by (auto simp: search_post_def cong: if_cong)
  have "assigns ctb rest (insert (bmh_Name bmh) (used_names s)) f
      = assigns ctb rest (insert (bmh_Name bmh) (used_names s)) (f(cname := bmh))"
    by (rule assigns_cong) (use assms(1) in auto)
  with f have "assigns ctb rest (insert (bmh_Name bmh) (used_names s)) (f(cname := bmh))" by simp
  with assms(1-3) g show ?thesis
    unfolding search_post_def Let_def
    by (auto simp: used_names_def fun_eq_iff intro!: exI [of _ "f(cname := bmh)"])
qed

lemma search_post_failure:
  assumes "distinct (cname # rest)" and "\<not> is_assigned s (bmh_Name bmh)"
    and sub: "search_post ctb rest None
      (s\<lparr>bt_assignment := gm_put cname bmh (bt_assignment s),
         bt_assigned := gm_put (bmh_Name bmh) True (bt_assigned s)\<rparr>) (False, s2)"
    and rec: "search_post ctb (cname # rest) (Some (set bmhs))
      (s2\<lparr>bt_assignment := gm_del cname (bt_assignment s2),
          bt_assigned := gm_put (bmh_Name bmh) False (bt_assigned s2)\<rparr>) r"
  shows "search_post ctb (cname # rest) (Some (set (bmh # bmhs))) s r"
proof -
  from sub have used: "used_names s2 = insert (bmh_Name bmh) (used_names s)"
    and frame: "\<And>c. c \<notin> set rest \<Longrightarrow>
       gm_get (bt_assignment s2) c = gm_get (gm_put cname bmh (bt_assignment s)) c"
    and none: "\<And>f. \<not> assigns ctb rest (insert (bmh_Name bmh) (used_names s)) f"
    by (auto simp: search_post_def)
  from assms(2) have fresh: "bmh_Name bmh \<notin> used_names s" by (simp add: used_names_def)
  let ?s3 = "s2\<lparr>bt_assignment := gm_del cname (bt_assignment s2),
                 bt_assigned := gm_put (bmh_Name bmh) False (bt_assigned s2)\<rparr>"
  have used3: "used_names ?s3 = used_names s" using used fresh by auto
  have frame3: "gm_get (bt_assignment ?s3) c = gm_get (bt_assignment s) c"
    if "c \<notin> set (cname # rest)" for c
    using that frame [of c] by simp
  show ?thesis
  proof (cases "fst r")
    case True
    with rec obtain f where f: "assigns ctb (cname # rest) (used_names s) f" "f cname \<in> set bmhs"
      and g: "gm_get (bt_assignment (snd r)) = (\<lambda>c. if c \<in> set (cname # rest) then Some (f c)
                 else gm_get (bt_assignment ?s3) c)"
      unfolding search_post_def Let_def used3 by (auto cong: if_cong)
    have "gm_get (bt_assignment (snd r)) = (\<lambda>c. if c \<in> set (cname # rest) then Some (f c)
                 else gm_get (bt_assignment s) c)"
      unfolding g using frame3 by (simp add: fun_eq_iff)
    with f True show ?thesis
      unfolding search_post_def Let_def by (auto intro!: exI [of _ f])
  next
    case False
    with rec have "used_names (snd r) = used_names s"
      and "\<forall>c. c \<notin> set (cname # rest) \<longrightarrow>
             gm_get (bt_assignment (snd r)) c = gm_get (bt_assignment ?s3) c"
      and no: "\<And>f. \<not> (assigns ctb (cname # rest) (used_names s) f \<and> f cname \<in> set bmhs)"
      unfolding search_post_def Let_def used3 by auto
    moreover have "\<not> (assigns ctb (cname # rest) (used_names s) f \<and> f cname \<in> set (bmh # bmhs))" for f
      using none [of f] no [of f] by auto
    ultimately show ?thesis
      using False frame3 unfolding search_post_def Let_def by auto
  qed
qed

lemma backtrack_post:
  "distinct cs \<Longrightarrow> search_post ctb cs None s (backtrack ctb cs s)"
  "distinct (cname # rest) \<Longrightarrow> set bs \<subseteq> set (bmhs_of ctb cname) \<Longrightarrow>
     search_post ctb (cname # rest) (Some (set bs)) s (tryBmhs ctb cname rest bs s)"
proof (induction ctb cs s and ctb cname rest bs s rule: backtrack_tryBmhs.induct)
  case (1 ctb s)
  then show ?case by (simp add: search_post_def)
next
  case (2 ctb cname rest s)
  then have "search_post ctb (cname # rest) (Some (set (bmhs_of ctb cname))) s
      (tryBmhs ctb cname rest (bmhs_of ctb cname) s)" by simp
  then show ?case unfolding search_post_def Let_def by (auto split: if_splits)
next
  case (3 ctb cname rest s)
  then show ?case by (simp add: search_post_def)
next
  case (4 ctb cname rest bmh bmhs s)
  show ?case
  proof (cases "is_assigned s (bmh_Name bmh)")
    case True
    with 4 have "search_post ctb (cname # rest) (Some (set bmhs)) s
        (tryBmhs ctb cname rest bmhs s)" by simp
    from search_post_skip [OF True this] True show ?thesis by simp
  next
    case False
    let ?s1 = "s\<lparr>bt_assignment := gm_put cname bmh (bt_assignment s),
                 bt_assigned := gm_put (bmh_Name bmh) True (bt_assigned s)\<rparr>"
    obtain b s2 where bt: "backtrack ctb rest ?s1 = (b, s2)" by fastforce
    from "4.IH"(1) [OF False refl] "4.prems" bt
    have sub: "search_post ctb rest None ?s1 (b, s2)" by simp
    show ?thesis
    proof (cases b)
      case True
      with "4.prems" sub search_post_success [of cname rest bmh ctb s s2 bmhs] False
      have "search_post ctb (cname # rest) (Some (set (bmh # bmhs))) s (True, s2)" by simp
      with False bt True show ?thesis by (simp add: Let_def)
    next
      case b: False
      then have bf: "b = False" by simp
      from "4.IH"(2) [OF False refl bt [symmetric] bf] "4.prems"
      have "search_post ctb (cname # rest) (Some (set bmhs))
        (s2\<lparr>bt_assignment := gm_del cname (bt_assignment s2),
            bt_assigned := gm_put (bmh_Name bmh) False (bt_assigned s2)\<rparr>)
        (tryBmhs ctb cname rest bmhs (s2\<lparr>bt_assignment := gm_del cname (bt_assignment s2),
            bt_assigned := gm_put (bmh_Name bmh) False (bt_assigned s2)\<rparr>))" by auto
      from search_post_failure [OF "4.prems"(1) False sub [unfolded bf] this]
      show ?thesis using False bt b by (simp add: Let_def)
    qed
  qed
qed

text \<open>The assignment stays a made map without duplicate keys.\<close>

definition bt_wf :: "bt_state \<Rightarrow> bool" where
  "bt_wf s \<longleftrightarrow> bt_assignment s \<noteq> None \<and> gm_wf (bt_assignment s)"

lemma bt_wf_upd [simp]:
  "bt_wf s \<Longrightarrow> bt_wf (s\<lparr>bt_assignment := gm_put c b (bt_assignment s), bt_assigned := a\<rparr>)"
  "bt_wf s \<Longrightarrow> bt_wf (s\<lparr>bt_assignment := gm_del c (bt_assignment s), bt_assigned := a\<rparr>)"
  by (auto simp: bt_wf_def gm_put_def gm_del_def gm_wf_def gm_keys_def distinct_update
      distinct_delete)

lemma backtrack_wf:
  "bt_wf s \<Longrightarrow> bt_wf (snd (backtrack ctb cs s))"
  "bt_wf s \<Longrightarrow> bt_wf (snd (tryBmhs ctb cname rest bs s))"
  by (induction ctb cs s and ctb cname rest bs s rule: backtrack_tryBmhs.induct)
    (auto simp: Let_def split: prod.splits bool.splits)

section \<open>Correctness of the assignment\<close>

lemma compute_array:
  assumes "gm_wf computes"
  shows "distinct (sort_key g (gm_keys computes))"
    and "set (sort_key g (gm_keys computes)) = set (gm_keys computes)"
  using assms by (simp_all add: gm_wf_def)

abbreviation candidates ::
  "(string, InstanceSpec) gomap \<Rightarrow> BareMetalHost list \<Rightarrow> (string, BareMetalHost list) gomap" where
  "candidates computes bmhs \<equiv> matchComputes (gm_items computes) bmhs gm_empty"

lemma candidates_iff:
  assumes "gm_wf computes" and "(c, spec) \<in> set (gm_items computes)"
  shows "b \<in> set (bmhs_of (candidates computes bmhs) c) \<longleftrightarrow>
     b \<in> set bmhs \<and> IsMapSubset (bmh_Labels b) (is_BmhLabelSelector spec)"
  using assms bmhs_of_matchComputes [of "gm_items computes" c spec gm_empty bmhs]
  by (auto simp: gm_wf_def gm_keys_def bmhs_of_def)

lemma assigns_placement:
  assumes "gm_wf computes" and "distinct cs" and "set cs = set (gm_keys computes)"
    and "assigns (candidates computes bmhs) cs {} f"
  shows "placement computes bmhs (\<lambda>c. if c \<in> set cs then Some (f c) else None)"
proof -
  from assms(2,4) have c: "\<And>c. c \<in> set cs \<Longrightarrow> f c \<in> set (bmhs_of (candidates computes bmhs) c)"
    and i: "inj_on (\<lambda>c. bmh_Name (f c)) (set cs)"
    by (simp_all add: assigns_iff)
  have "f c \<in> set bmhs \<and> IsMapSubset (bmh_Labels (f c)) (is_BmhLabelSelector spec)"
    if "(c, spec) \<in> set (gm_items computes)" "c \<in> set cs" for c spec
    using c [OF that(2)] candidates_iff [OF assms(1) that(1)] by simp
  with i assms(3) show ?thesis
    unfolding placement_def by (auto simp: dom_def inj_on_def split: if_splits)
qed

lemma placement_assigns:
  assumes "gm_wf computes" and "distinct cs" and "set cs = set (gm_keys computes)"
    and "placement computes bmhs f"
  shows "assigns (candidates computes bmhs) cs {} (\<lambda>c. the (f c))"
proof -
  have "\<exists>b. f c = Some b \<and> b \<in> set (bmhs_of (candidates computes bmhs) c)" if "c \<in> set cs" for c
  proof -
    from that assms(3) obtain spec where s: "(c, spec) \<in> set (gm_items computes)"
      by (auto simp: gm_keys_def)
    from that assms(3,4) obtain b where b: "f c = Some b"
      unfolding placement_def by blast
    with assms(4) s have "b \<in> set bmhs \<and> IsMapSubset (bmh_Labels b) (is_BmhLabelSelector spec)"
      unfolding placement_def by fast
    with b candidates_iff [OF assms(1) s] show ?thesis by simp
  qed
  moreover from this assms(4) have "inj_on (\<lambda>c. bmh_Name (the (f c))) (set cs)"
    unfolding placement_def inj_on_def by (metis option.sel)
  ultimately show ?thesis using assms(2) by (fastforce simp: assigns_iff)
qed

lemma find_cases:
  fixes computes bmhs
  defines "r \<equiv> findValidBaremetalSetInstanceLabelAssignments computes bmhs"
  assumes "gm_wf computes"
  shows "(r \<noteq> None \<and> gm_wf r \<and> placement computes bmhs (gm_get r)) \<or>
     (r = None \<and> (\<forall>f. \<not> placement computes bmhs f))"
proof -
  let ?ctb = "candidates computes bmhs"
  let ?arr = "sort_key (\<lambda>k. length (bmhs_of ?ctb k)) (gm_keys computes)"
  let ?s0 = "\<lparr>bt_assignment = gm_empty, bt_assigned = gm_empty\<rparr> :: bt_state"
  note arr = compute_array [OF assms(2), of "\<lambda>k. length (bmhs_of ?ctb k)"]
  obtain b s where bt: "backtrack ?ctb ?arr ?s0 = (b, s)" by fastforce
  have r: "r = (if b then bt_assignment s else None)"
    using bt by (cases b) (simp_all add: r_def findValidBaremetalSetInstanceLabelAssignments_def Let_def)
  have used0: "used_names ?s0 = {}" by (simp add: used_names_def is_assigned_def)
  from backtrack_post(1) [OF arr(1), of ?ctb ?s0] bt
  have post: "search_post ?ctb ?arr None ?s0 (b, s)" by simp
  have wf: "bt_wf s"
    using backtrack_wf(1) [of ?s0 ?ctb ?arr] bt by (simp add: bt_wf_def gm_empty_def gm_wf_def gm_keys_def)
  show ?thesis
  proof (cases b)
    case True
    with post used0 obtain f where f: "assigns ?ctb ?arr {} f"
      and g: "gm_get (bt_assignment s) = (\<lambda>c. if c \<in> set ?arr then Some (f c) else None)"
      by (auto simp: search_post_def cong: if_cong)
    from assigns_placement [OF assms(2) arr f] g r True wf show ?thesis
      by (simp add: bt_wf_def)
  next
    case False
    with post used0 have "\<And>f. \<not> assigns ?ctb ?arr {} f" by (simp add: search_post_def)
    with placement_assigns [OF assms(2) arr] r False show ?thesis by auto
  qed
qed

interpretation lba: label_assigner findValidBaremetalSetInstanceLabelAssignments
proof unfold_locales
  fix computes :: "(string, InstanceSpec) gomap" and bmhs xs f
  assume wf: "gm_wf computes"
  show "gm_wf (findValidBaremetalSetInstanceLabelAssignments computes bmhs)"
    using find_cases [OF wf, of bmhs] by auto
  show "placement computes bmhs (map_of xs)"
    if "findValidBaremetalSetInstanceLabelAssignments computes bmhs = Some xs"
  proof -
    have "gm_get (Some xs) = map_of xs" by (simp add: gm_get_def fun_eq_iff)
    with find_cases [OF wf, of bmhs] that show ?thesis by simp
  qed
  show "findValidBaremetalSetInstanceLabelAssignments computes bmhs \<noteq> None"
    if "placement computes bmhs f"
    using find_cases [OF wf, of bmhs] that by auto
qed

end
