(* ===== verification/ScaleUp.thy ===== *)
theory ScaleUp
  imports HardwareMatch LabelAssign External
begin

text \<open>
  The selection of bare metal hosts, from \<^verbatim>\<open>api/v1beta1/openstackbaremetalset.go\<close>:
  \<open>GetBaremetalHosts\<close>, the synchronisation of the status with the hosts that still exist
  (\<open>VerifyAndSyncBaremetalStatusBmhRefs\<close>), the scale-up check that every reconciliation and the
  admission webhook run (\<open>VerifyBaremetalSetScaleUp\<close>), and the scale-down check.

  The scale-up check succeeds exactly when the new computes have a placement on the usable hosts
  (\<open>scaleUp_iff\<close>); the theory relies on the interface \<open>label_assigner\<close> of the search and on the
  pigeonhole principle for the test of the counts that guards it. The error carries the values
  that the message formats.
\<close>

section \<open>The code\<close>

definition GetBaremetalHosts ::
  "'w client \<Rightarrow> 'w \<Rightarrow> string \<Rightarrow> labels \<Rightarrow> BareMetalHost list result" where
  "GetBaremetalHosts cl w namespace labelSelector =
     (let listOpts = [InNamespace namespace];
          listOpts = (if gm_len labelSelector > 0 then listOpts @ [MatchingLabels labelSelector]
                      else listOpts)
      in List_bmhs cl w listOpts)"

text \<open>The loop ranges over the status map and deletes the entry it visits; \<open>todo\<close> are the entries
  that are still to be visited.\<close>

fun syncRefs ::
  "BareMetalHost list \<Rightarrow> (string \<times> HostStatus) list \<Rightarrow> (string, HostStatus) gomap \<Rightarrow>
   (string, HostStatus) gomap" where
  "syncRefs bmhs [] m = m"
| "syncRefs bmhs ((computeName, bmhStatus) # todo) m =
     (let found = list_ex (\<lambda>bmh. bmh_Name bmh = ip_BmhRef bmhStatus) bmhs
      in syncRefs bmhs todo (if \<not> found then gm_del computeName m else m))"

definition VerifyAndSyncBaremetalStatusBmhRefs ::
  "'w client \<Rightarrow> 'w \<Rightarrow> OpenStackBaremetalSet \<Rightarrow> unit result \<times> OpenStackBaremetalSet" where
  "VerifyAndSyncBaremetalStatusBmhRefs cl w inst =
     (case GetBaremetalHosts cl w (ts_BmhNamespace (set_Spec inst)) gm_empty of
        Err e \<Rightarrow> (Err e, inst)
      | Panic m \<Rightarrow> (Panic m, inst)
      | Ok bmhs \<Rightarrow>
          (Ok (), set_status_hosts (syncRefs bmhs (gm_items (status_hosts inst)) (status_hosts inst))
                    inst))"

definition newComputes :: "OpenStackBaremetalSet \<Rightarrow> (string, InstanceSpec) gomap" where
  "newComputes inst =
     Some (filter (\<lambda>(hostName, _). gm_get (status_hosts inst) hostName = None)
             (gm_items (spec_hosts inst)))"

definition bmhUsable :: "OpenStackBaremetalSet \<Rightarrow> BareMetalHost \<Rightarrow> bool" where
  "bmhUsable inst bmh =
     (let mismatch = False;
          mismatch = (if \<not> verifyBaremetalSetHardwareMatch inst bmh then True else mismatch);
          mismatch = (if bmh_State bmh \<noteq> StateAvailable then True else mismatch);
          mismatch = (if (case bmh_Image bmh of None \<Rightarrow> False | Some i \<Rightarrow> img_URL i \<noteq> [])
                      then True else mismatch);
          mismatch = (if bmh_ExternallyProvisioned bmh then True else mismatch);
          mismatch = (if bmh_CustomDeploy bmh \<noteq> None then True else mismatch);
          mismatch = (if bmh_ConsumerRef bmh \<noteq> None then True else mismatch)
      in \<not> mismatch)"

definition VerifyBaremetalSetScaleUp ::
  "OpenStackBaremetalSet \<Rightarrow> BareMetalHost list \<Rightarrow> BareMetalHost list \<Rightarrow>
   (string, BareMetalHost) gomap result" where
  "VerifyBaremetalSetScaleUp inst allBmhs existingBmhs =
     (let newC = newComputes inst;
          newBmhsNeededCount = gm_len newC;
          available = (if newBmhsNeededCount > 0 then filter (bmhUsable inst) allBmhs else []);
          searched = (newBmhsNeededCount > 0 \<and> length available \<ge> newBmhsNeededCount);
          selected = (if searched then findValidBaremetalSetInstanceLabelAssignments newC available
                      else None);
          errIndividualLabels = (searched \<and> gm_len selected < 1)
      in if newBmhsNeededCount > gm_len selected
         then Err (ErrScaleUp (gm_len (spec_hosts inst)) (ts_BmhLabelSelector (set_Spec inst))
                     (ts_BmhNamespace (set_Spec inst)) (length existingBmhs) (length available)
                     errIndividualLabels)
         else Ok selected)"

definition VerifyBaremetalSetScaleDown ::
  "OpenStackBaremetalSet \<Rightarrow> BareMetalHost list \<Rightarrow> int \<Rightarrow> unit result" where
  "VerifyBaremetalSetScaleDown inst existingBmhs removalAnnotatedBmhCount =
     (let bmhsToRemoveCount = int (length existingBmhs) - int (gm_len (spec_hosts inst))
      in if bmhsToRemoveCount > removalAnnotatedBmhCount
         then Err (ErrScaleDown removalAnnotatedBmhCount bmhsToRemoveCount)
         else Ok ())"

section \<open>Synchronisation of the status\<close>

lemma syncRefs_get:
  assumes "distinct (map fst todo)" and "\<And>h s. (h, s) \<in> set todo \<Longrightarrow> gm_get m h = Some s"
  shows "gm_get (syncRefs bmhs todo m) h =
    (case gm_get m h of None \<Rightarrow> None
     | Some s \<Rightarrow> if (h, s) \<in> set todo \<and> (\<forall>b \<in> set bmhs. bmh_Name b \<noteq> ip_BmhRef s) then None else Some s)"
  using assms
proof (induction bmhs todo m rule: syncRefs.induct)
  case (1 bmhs m)
  then show ?case by (simp split: option.split)
next
  case (2 bmhs n st todo m)
  let ?found = "list_ex (\<lambda>bmh. bmh_Name bmh = ip_BmhRef st) bmhs"
  let ?m = "if \<not> ?found then gm_del n m else m"
  have n: "n \<notin> fst ` set todo" using 2(2) by simp
  have "gm_get (syncRefs bmhs todo ?m) h = (case gm_get ?m h of None \<Rightarrow> None
     | Some s \<Rightarrow> if (h, s) \<in> set todo \<and> (\<forall>b \<in> set bmhs. bmh_Name b \<noteq> ip_BmhRef s) then None else Some s)"
    using 2(2,3) n by (intro 2(1) [OF refl]) (auto simp: image_iff split: if_splits)
  moreover have "gm_get m n = Some st" using 2(3) by simp
  ultimately show ?case using n
    by (auto simp: list_ex_iff image_iff split: option.splits if_splits)
qed

lemma syncRefs_wf: "gm_wf m \<Longrightarrow> gm_wf (syncRefs bmhs todo m)"
  by (induction bmhs todo m rule: syncRefs.induct) (simp_all add: Let_def)

lemma sync_status_get:
  assumes "gm_wf (status_hosts inst)"
  shows "gm_get (syncRefs bmhs (gm_items (status_hosts inst)) (status_hosts inst)) h =
    (case gm_get (status_hosts inst) h of None \<Rightarrow> None
     | Some s \<Rightarrow> if \<exists>b \<in> set bmhs. bmh_Name b = ip_BmhRef s then Some s else None)"
proof -
  have "distinct (map fst (gm_items (status_hosts inst)))"
    using assms by (simp add: gm_wf_def gm_keys_def)
  then have "gm_get (syncRefs bmhs (gm_items (status_hosts inst)) (status_hosts inst)) h =
    (case gm_get (status_hosts inst) h of None \<Rightarrow> None
     | Some s \<Rightarrow> if (h, s) \<in> set (gm_items (status_hosts inst))
                  \<and> (\<forall>b \<in> set bmhs. bmh_Name b \<noteq> ip_BmhRef s) then None else Some s)"
    by (rule syncRefs_get) (simp add: gm_wf_get_iff [OF assms])
  then show ?thesis by (simp add: gm_get_SomeD split: option.split)
qed

section \<open>Scale-up\<close>

lemma newComputes_wf: "gm_wf (spec_hosts inst) \<Longrightarrow> gm_wf (newComputes inst)"
  by (simp add: newComputes_def gm_wf_def gm_keys_def distinct_map_filter)

lemma newComputes_get:
  "gm_get (newComputes inst) h =
     (if gm_get (status_hosts inst) h = None then gm_get (spec_hosts inst) h else None)"
  using map_of_filter_fst [of "\<lambda>h. gm_get (status_hosts inst) h = None" "gm_items (spec_hosts inst)" h]
  by (simp add: newComputes_def gm_get_def case_prod_unfold)

lemma newComputes_keys:
  "set (gm_keys (newComputes inst)) =
     {h. h \<in> set (gm_keys (spec_hosts inst)) \<and> gm_get (status_hosts inst) h = None}"
  by (auto simp: gm_keys_iff newComputes_get split: if_splits)

lemma bmhUsable_iff:
  "bmhUsable inst b \<longleftrightarrow>
     verifyBaremetalSetHardwareMatch inst b \<and> bmh_State b = StateAvailable
     \<and> (\<forall>i. bmh_Image b = Some i \<longrightarrow> img_URL i = []) \<and> \<not> bmh_ExternallyProvisioned b
     \<and> bmh_CustomDeploy b = None \<and> bmh_ConsumerRef b = None"
  by (auto simp: bmhUsable_def Let_def split: option.splits)

text \<open>A placement needs as many hosts as computes, so the count test never hides one.\<close>

lemma placement_count:
  assumes "gm_wf computes" and "placement computes bmhs f"
  shows "gm_len computes \<le> length bmhs"
proof -
  let ?g = "\<lambda>c. bmh_Name (the (f c))"
  have some: "\<exists>b. f c = Some b" if "c \<in> set (gm_keys computes)" for c
    using that assms(2) unfolding placement_def by (metis domD)
  have "inj_on ?g (set (gm_keys computes))"
    using assms(2) some unfolding inj_on_def placement_def by (metis option.sel)
  moreover have "?g ` set (gm_keys computes) \<subseteq> set (map bmh_Name bmhs)"
  proof
    fix n assume "n \<in> ?g ` set (gm_keys computes)"
    then obtain c spec where c: "(c, spec) \<in> set (gm_items computes)" "n = ?g c"
      by (auto simp: gm_keys_def)
    then obtain b where "f c = Some b" using some [of c] by (force simp: gm_keys_def)
    with c assms(2) show "n \<in> set (map bmh_Name bmhs)" unfolding placement_def by fastforce
  qed
  ultimately have "card (set (gm_keys computes)) \<le> card (set (map bmh_Name bmhs))"
    by (metis card_inj_on_le List.finite_set)
  also have "\<dots> \<le> length bmhs" using card_length [of "map bmh_Name bmhs"] by simp
  finally show ?thesis using gm_len_keys [OF assms(1)] by simp
qed

lemma placement_empty: "gm_len computes = 0 \<Longrightarrow> placement computes bmhs Map.empty"
  by (simp add: placement_def gm_keys_def)

text \<open>The result of the check, by whether there is a placement.\<close>

lemma scaleUp_cases:
  assumes "gm_wf (spec_hosts inst)"
  shows "VerifyBaremetalSetScaleUp inst allBmhs existing =
    (let newC = newComputes inst;
         available = (if gm_len newC > 0 then filter (bmhUsable inst) allBmhs else [])
     in if \<exists>f. placement newC available f
        then Ok (if gm_len newC = 0 then None
                 else findValidBaremetalSetInstanceLabelAssignments newC available)
        else Err (ErrScaleUp (gm_len (spec_hosts inst)) (ts_BmhLabelSelector (set_Spec inst))
                   (ts_BmhNamespace (set_Spec inst)) (length existing) (length available)
                   (gm_len newC \<le> length available)))"
proof -
  let ?n = "newComputes inst"
  let ?a = "filter (bmhUsable inst) allBmhs"
  have wf: "gm_wf ?n" using assms by (rule newComputes_wf)
  consider (none) "gm_len ?n = 0"
    | (few) "gm_len ?n > 0" "length ?a < gm_len ?n"
    | (search) "gm_len ?n > 0" "length ?a \<ge> gm_len ?n" by linarith
  then show ?thesis
  proof cases
    case none
    have "\<exists>f. placement ?n [] f" using placement_empty [OF none] by blast
    with none show ?thesis by (simp add: VerifyBaremetalSetScaleUp_def Let_def gm_len_def)
  next
    case few
    have "\<nexists>f. placement ?n ?a f" using placement_count [OF wf] few(2) by fastforce
    moreover have "gm_len (None :: (string, BareMetalHost) gomap) = 0" by simp
    ultimately show ?thesis using few
      by (simp add: VerifyBaremetalSetScaleUp_def Let_def del: gm_len_0)
  next
    case search
    then show ?thesis using lba.assign_len [OF wf, of ?a]
      by (simp add: VerifyBaremetalSetScaleUp_def Let_def del: gm_len_0)
  qed
qed

lemma scaleUp_iff:
  assumes "gm_wf (spec_hosts inst)"
  shows "(\<exists>sel. VerifyBaremetalSetScaleUp inst allBmhs existing = Ok sel) \<longleftrightarrow>
    (\<exists>f. placement (newComputes inst) (filter (bmhUsable inst) allBmhs) f)"
  using placement_empty [of "newComputes inst"]
  by (auto simp: scaleUp_cases [OF assms] Let_def)

lemma scaleUp_placement:
  assumes "gm_wf (spec_hosts inst)" and "VerifyBaremetalSetScaleUp inst allBmhs existing = Ok sel"
  shows "placement (newComputes inst) (filter (bmhUsable inst) allBmhs) (gm_get sel) \<and> gm_wf sel"
proof (cases "gm_len (newComputes inst) = 0")
  case True
  with assms(2) have "sel = None"
    by (auto simp: scaleUp_cases [OF assms(1)] Let_def split: if_splits)
  moreover have "gm_get None = (Map.empty :: string \<rightharpoonup> BareMetalHost)" by (rule ext) simp
  ultimately show ?thesis using placement_empty [OF True] by simp
next
  case False
  let ?a = "filter (bmhUsable inst) allBmhs"
  from assms(2) False obtain f where f: "placement (newComputes inst) ?a f"
    and sel: "sel = findValidBaremetalSetInstanceLabelAssignments (newComputes inst) ?a"
    by (auto simp: scaleUp_cases [OF assms(1)] Let_def split: if_splits)
  from lba.assign_complete [OF newComputes_wf [OF assms(1)] f] sel
  obtain xs where xs: "sel = Some xs" by auto
  with lba.assign_sound [OF newComputes_wf [OF assms(1)], of ?a xs] sel
  have "placement (newComputes inst) ?a (map_of xs)" by simp
  moreover have "gm_get sel = map_of xs" unfolding xs by (rule ext) (simp add: gm_get_def)
  ultimately show ?thesis
    using sel lba.assign_wf [OF newComputes_wf [OF assms(1)], of ?a] by simp
qed

text \<open>What a selected host is.\<close>

lemma scaleUp_selected:
  assumes "gm_wf (spec_hosts inst)" and "VerifyBaremetalSetScaleUp inst allBmhs existing = Ok sel"
    and "gm_get sel h = Some b"
  shows "gm_get (status_hosts inst) h = None \<and>
    (\<exists>spec. gm_get (spec_hosts inst) h = Some spec
        \<and> IsMapSubset (bmh_Labels b) (is_BmhLabelSelector spec))
    \<and> b \<in> set allBmhs \<and> bmhUsable inst b"
proof -
  from scaleUp_placement [OF assms(1,2)]
  have p: "placement (newComputes inst) (filter (bmhUsable inst) allBmhs) (gm_get sel)" by simp
  with assms(3) have "h \<in> set (gm_keys (newComputes inst))" unfolding placement_def by auto
  then obtain spec where s: "gm_get (newComputes inst) h = Some spec" by (auto simp: gm_keys_iff)
  with p assms(3) have "b \<in> set (filter (bmhUsable inst) allBmhs)
      \<and> IsMapSubset (bmh_Labels b) (is_BmhLabelSelector spec)"
    using gm_get_SomeD [OF s] unfolding placement_def by fastforce
  with s show ?thesis by (auto simp: newComputes_get split: if_splits)
qed

end
