(* ===== verification/GoNet.thy ===== *)
theory GoNet
  imports GoStd
begin

text \<open>
  The parts of the standard library that the provisioning of a host uses on strings from the
  specification: \<open>net.ParseCIDR\<close> with the address parser of \<open>net/netip\<close> below it, \<open>net.IP.To4\<close>,
  \<open>net.CIDRMask\<close>, and regular expression matching.

  Bytes are natural numbers below 256. The parsers follow the loops of the library: \<open>v4Fields\<close>
  is \<open>parseIPv4Fields\<close>, \<open>v6Loop\<close> the loop of \<open>parseIPv6\<close>; their position counters are the lengths
  of the byte lists built so far.
\<close>

section \<open>Characters\<close>

definition between :: "char \<Rightarrow> char \<Rightarrow> char \<Rightarrow> bool" where
  "between lo hi c \<longleftrightarrow> of_char lo \<le> (of_char c :: nat) \<and> (of_char c :: nat) \<le> of_char hi"

definition is_digit :: "char \<Rightarrow> bool" where
  "is_digit c \<longleftrightarrow> between CHR ''0'' CHR ''9'' c"

definition is_letter :: "char \<Rightarrow> bool" where
  "is_letter c \<longleftrightarrow> between CHR ''a'' CHR ''z'' c \<or> between CHR ''A'' CHR ''Z'' c"

definition digit_val :: "char \<Rightarrow> nat" where
  "digit_val c = of_char c - 48"

definition hex_val :: "char \<Rightarrow> nat option" where
  "hex_val c =
     (if is_digit c then Some (digit_val c)
      else if between CHR ''a'' CHR ''f'' c then Some (of_char c - 97 + 10)
      else if between CHR ''A'' CHR ''F'' c then Some (of_char c - 65 + 10)
      else None)"

section \<open>Addresses\<close>

fun v4Fields :: "bool \<Rightarrow> nat \<Rightarrow> nat \<Rightarrow> nat list \<Rightarrow> string \<Rightarrow> nat list option" where
  "v4Fields start val digLen fields [] =
     (if length fields < 3 then None else Some (fields @ [val]))"
| "v4Fields start val digLen fields (c # s) =
     (if is_digit c then
        (if digLen = 1 \<and> val = 0 then None
         else let val' = val * 10 + digit_val c
              in if val' > 255 then None else v4Fields False val' (Suc digLen) fields s)
      else if c = CHR ''.'' then
        (if start \<or> s = [] then None
         else if length fields = 3 then None
         else v4Fields True 0 0 (fields @ [val]) s)
      else None)"

definition parseIPv4Fields :: "string \<Rightarrow> nat list option" where
  "parseIPv4Fields s = v4Fields True 0 0 [] s"

text \<open>A group of at most four hexadecimal digits: its value, its length and what follows it.\<close>

fun scanHex :: "nat \<Rightarrow> nat \<Rightarrow> string \<Rightarrow> (nat \<times> nat \<times> string) option" where
  "scanHex acc off [] = Some (acc, off, [])"
| "scanHex acc off (c # s) =
     (case hex_val c of
        None \<Rightarrow> Some (acc, off, c # s)
      | Some d \<Rightarrow> if off > 3 then None else scanHex (acc * 16 + d) (Suc off) s)"

lemma scanHex_rest:
  "scanHex acc off s = Some (acc', off', rest) \<Longrightarrow>
     off \<le> off' \<and> length rest + (off' - off) = length s"
  by (induction acc off s rule: scanHex.induct) (auto split: option.splits if_splits)

function v6Loop :: "string \<Rightarrow> nat option \<Rightarrow> nat list \<Rightarrow> (string \<times> nat option \<times> nat list) option" where
  "v6Loop s ellipsis ip =
     (if length ip \<ge> 16 then Some (s, ellipsis, ip)
      else case scanHex 0 0 s of
        None \<Rightarrow> None
      | Some (acc, off, rest) \<Rightarrow>
          if off = 0 then None
          else if rest \<noteq> [] \<and> hd rest = CHR ''.'' then
            (if ellipsis = None \<and> length ip \<noteq> 12 then None
             else if length ip + 4 > 16 then None
             else case parseIPv4Fields s of None \<Rightarrow> None | Some f \<Rightarrow> Some ([], ellipsis, ip @ f))
          else
            (let ip' = ip @ [acc div 256, acc mod 256]
             in if rest = [] then Some ([], ellipsis, ip')
                else if hd rest \<noteq> CHR '':'' then None
                else if tl rest = [] then None
                else if hd (tl rest) = CHR '':'' then
                  (if ellipsis \<noteq> None then None
                   else if tl (tl rest) = [] then Some ([], Some (length ip'), ip')
                   else v6Loop (tl (tl rest)) (Some (length ip')) ip')
                else v6Loop (tl rest) ellipsis ip'))"
  by pat_completeness auto
termination
  by (relation "measure (\<lambda>(s, _, _). length s)") (auto dest!: scanHex_rest)

declare v6Loop.simps [simp del]

definition v6Finish :: "string \<times> nat option \<times> nat list \<Rightarrow> nat list option" where
  "v6Finish r =
     (case r of (s, ellipsis, ip) \<Rightarrow>
        if s \<noteq> [] then None
        else if length ip < 16 then
          (case ellipsis of
             None \<Rightarrow> None
           | Some e \<Rightarrow> Some (take e ip @ replicate (16 - length ip) 0 @ drop e ip))
        else if ellipsis \<noteq> None then None
        else Some ip)"

datatype Addr = AddrV4 "nat list" | AddrV6 "nat list" string

definition parseIPv6 :: "string \<Rightarrow> Addr option" where
  "parseIPv6 input =
     (let s = takeWhile (\<lambda>c. c \<noteq> CHR ''%'') input;
          hasZone = (CHR ''%'' \<in> set input);
          zone = tl (dropWhile (\<lambda>c. c \<noteq> CHR ''%'') input)
      in if hasZone \<and> zone = [] then None
         else let zone = (if hasZone then zone else []);
                  leading = (take 2 s = ''::'');
                  s' = (if leading then drop 2 s else s)
              in if leading \<and> s' = [] then Some (AddrV6 (replicate 16 0) zone)
                 else case v6Loop s' (if leading then Some 0 else None) [] of
                        None \<Rightarrow> None
                      | Some r \<Rightarrow> map_option (\<lambda>ip. AddrV6 ip zone) (v6Finish r))"

definition ParseAddr :: "string \<Rightarrow> Addr option" where
  "ParseAddr s =
     (case find (\<lambda>c. c \<in> {CHR ''.'', CHR '':'', CHR ''%''}) s of
        None \<Rightarrow> None
      | Some c \<Rightarrow>
          if c = CHR ''.'' then map_option AddrV4 (parseIPv4Fields s)
          else if c = CHR '':'' then parseIPv6 s
          else None)"

section \<open>CIDR notation\<close>

definition BitLen :: "Addr \<Rightarrow> nat" where
  "BitLen a = (case a of AddrV4 _ \<Rightarrow> 32 | AddrV6 _ _ \<Rightarrow> 128)"

definition Zone :: "Addr \<Rightarrow> string" where
  "Zone a = (case a of AddrV4 _ \<Rightarrow> [] | AddrV6 _ z \<Rightarrow> z)"

definition As16 :: "Addr \<Rightarrow> nat list" where
  "As16 a = (case a of AddrV4 b \<Rightarrow> replicate 10 0 @ [255, 255] @ b | AddrV6 b _ \<Rightarrow> b)"

text \<open>\<open>dtoi\<close>: a decimal number that fills the whole string; \<open>None\<close> is every failure.\<close>

fun dtoiLoop :: "nat \<Rightarrow> string \<Rightarrow> nat option" where
  "dtoiLoop n [] = Some n"
| "dtoiLoop n (c # s) =
     (if is_digit c
      then let n' = n * 10 + digit_val c in if n' \<ge> 16777215 then None else dtoiLoop n' s
      else None)"

definition dtoi :: "string \<Rightarrow> nat option" where
  "dtoi s = (if s = [] then None else dtoiLoop 0 s)"

fun maskBytes :: "nat \<Rightarrow> nat \<Rightarrow> nat list" where
  "maskBytes 0 n = []"
| "maskBytes (Suc l) n =
     (if n \<ge> 8 then 255 # maskBytes l (n - 8) else (255 - 255 div 2 ^ n) # maskBytes l 0)"

definition CIDRMask :: "nat \<Rightarrow> nat \<Rightarrow> nat list" where
  "CIDRMask ones bits = maskBytes (bits div 8) ones"

text \<open>The address in 16-byte form and the mask of the network.\<close>

definition ParseCIDR :: "string \<Rightarrow> (nat list \<times> nat list) option" where
  "ParseCIDR s =
     (if CHR ''/'' \<notin> set s then None
      else let addr = takeWhile (\<lambda>c. c \<noteq> CHR ''/'') s;
               mask = tl (dropWhile (\<lambda>c. c \<noteq> CHR ''/'') s)
           in case ParseAddr addr of
                None \<Rightarrow> None
              | Some ipAddr \<Rightarrow>
                  if Zone ipAddr \<noteq> [] then None
                  else case dtoi mask of
                         None \<Rightarrow> None
                       | Some n \<Rightarrow>
                           if n > BitLen ipAddr then None
                           else Some (As16 ipAddr, CIDRMask n (BitLen ipAddr)))"

definition To4 :: "nat list \<Rightarrow> nat list option" where
  "To4 ip =
     (if length ip = 4 then Some ip
      else if length ip = 16 \<and> take 12 ip = replicate 10 0 @ [255, 255] then Some (drop 12 ip)
      else None)"

text \<open>\<open>net.ParseIP\<close>: nil on an error and on an address with a zone.\<close>

definition ParseIP :: "string \<Rightarrow> nat list option" where
  "ParseIP s =
     (case ParseAddr s of
        None \<Rightarrow> None
      | Some a \<Rightarrow> if Zone a \<noteq> [] then None else Some (As16 a))"

section \<open>Regular expressions\<close>

datatype regex =
    RNone
  | REps
  | RClass "char \<Rightarrow> bool"
  | RSeq regex regex
  | RAlt regex regex
  | RStar regex

definition RPlus :: "regex \<Rightarrow> regex" where
  "RPlus r = RSeq r (RStar r)"

fun nullable :: "regex \<Rightarrow> bool" where
  "nullable RNone = False"
| "nullable REps = True"
| "nullable (RClass P) = False"
| "nullable (RSeq r s) = (nullable r \<and> nullable s)"
| "nullable (RAlt r s) = (nullable r \<or> nullable s)"
| "nullable (RStar r) = True"

fun deriv :: "char \<Rightarrow> regex \<Rightarrow> regex" where
  "deriv c RNone = RNone"
| "deriv c REps = RNone"
| "deriv c (RClass P) = (if P c then REps else RNone)"
| "deriv c (RSeq r s) =
     (if nullable r then RAlt (RSeq (deriv c r) s) (deriv c s) else RSeq (deriv c r) s)"
| "deriv c (RAlt r s) = RAlt (deriv c r) (deriv c s)"
| "deriv c (RStar r) = RSeq (deriv c r) (RStar r)"

text \<open>\<open>MatchString\<close> of an expression anchored at both ends.\<close>

fun matchAll :: "regex \<Rightarrow> string \<Rightarrow> bool" where
  "matchAll r [] = nullable r"
| "matchAll r (c # s) = matchAll (deriv c r) s"

section \<open>The matcher is the language\<close>

inductive in_lang :: "regex \<Rightarrow> string \<Rightarrow> bool" where
  lang_eps: "in_lang REps []"
| lang_class: "P c \<Longrightarrow> in_lang (RClass P) [c]"
| lang_seq: "in_lang r u \<Longrightarrow> in_lang s v \<Longrightarrow> in_lang (RSeq r s) (u @ v)"
| lang_altL: "in_lang r u \<Longrightarrow> in_lang (RAlt r s) u"
| lang_altR: "in_lang s u \<Longrightarrow> in_lang (RAlt r s) u"
| lang_star0: "in_lang (RStar r) []"
| lang_star: "in_lang r u \<Longrightarrow> u \<noteq> [] \<Longrightarrow> in_lang (RStar r) v \<Longrightarrow> in_lang (RStar r) (u @ v)"

inductive_simps in_lang_None [simp]: "in_lang RNone u"
inductive_simps in_lang_Eps [simp]: "in_lang REps u"
inductive_simps in_lang_Class [simp]: "in_lang (RClass P) u"
inductive_simps in_lang_Seq: "in_lang (RSeq r s) u"
inductive_simps in_lang_Alt [simp]: "in_lang (RAlt r s) u"
inductive_simps in_lang_Star: "in_lang (RStar r) u"

lemma nullable_iff: "nullable r \<longleftrightarrow> in_lang r []"
  by (induction r) (auto simp: in_lang_Seq intro: lang_star0)

lemma deriv_iff: "in_lang (deriv c r) u \<longleftrightarrow> in_lang r (c # u)"
proof (induction r arbitrary: u)
  case (RSeq r s)
  have "in_lang (RSeq r s) (c # u) \<longleftrightarrow>
     in_lang r [] \<and> in_lang s (c # u) \<or> (\<exists>v w. u = v @ w \<and> in_lang r (c # v) \<and> in_lang s w)"
    unfolding in_lang_Seq by (auto simp: Cons_eq_append_conv)
  then show ?case using RSeq by (auto simp: in_lang_Seq nullable_iff)
next
  case (RStar r)
  have "in_lang (RStar r) (c # u) \<longleftrightarrow> (\<exists>v w. u = v @ w \<and> in_lang r (c # v) \<and> in_lang (RStar r) w)"
    by (subst in_lang_Star) (auto simp: Cons_eq_append_conv)
  then show ?case using RStar by (auto simp: in_lang_Seq)
qed auto

lemma matchAll_iff: "matchAll r u \<longleftrightarrow> in_lang r u"
  by (induction r u rule: matchAll.induct) (simp_all add: nullable_iff deriv_iff)

lemma seq_class: "in_lang (RSeq (RClass P) s) u \<longleftrightarrow> (\<exists>c v. u = c # v \<and> P c \<and> in_lang s v)"
  using lang_seq [of "RClass P" "[c]" s for c] by (fastforce simp: in_lang_Seq)

lemma star_class: "in_lang (RStar (RClass P)) u \<longleftrightarrow> list_all P u"
proof (induction u)
  case Nil
  then show ?case by (simp add: lang_star0)
next
  case (Cons c u)
  have "in_lang (RStar (RClass P)) (c # u) \<longleftrightarrow> in_lang (RSeq (RClass P) (RStar (RClass P))) (c # u)"
    by (subst in_lang_Star) (auto simp: in_lang_Seq)
  with Cons show ?case by (simp add: seq_class)
qed

lemma plus_class: "in_lang (RPlus (RClass P)) u \<longleftrightarrow> u \<noteq> [] \<and> list_all P u"
  by (cases u) (auto simp: RPlus_def seq_class star_class)

section \<open>Decimal numbers\<close>

lemma digit_char_simps [simp]:
  "d < 10 \<Longrightarrow> is_digit (digit_char d)" "d < 10 \<Longrightarrow> digit_val (digit_char d) = d"
  by (simp_all add: is_digit_def between_def digit_val_def digit_char_def of_char_of)

lemma itoa_nat_digits: "list_all is_digit (itoa_nat n)"
  by (induction n rule: itoa_nat.induct) (subst itoa_nat.simps, simp)

lemma is_digit_sep: "is_digit c \<Longrightarrow> c \<notin> {CHR ''.'', CHR '':'', CHR ''%'', CHR ''/''}"
  by (auto simp: is_digit_def between_def)

lemma itoa_nat_no_sep: "c \<in> set (itoa_nat n) \<Longrightarrow> c \<notin> {CHR ''.'', CHR '':'', CHR ''%'', CHR ''/''}"
  using itoa_nat_digits [of n] is_digit_sep by (auto simp: list_all_iff)

text \<open>The decimal digits of a number read back as the number.\<close>

lemma v4_octet:
  "n \<le> 255 \<Longrightarrow>
   v4Fields start 0 0 fs (itoa_nat n @ s) = v4Fields False n (length (itoa_nat n)) fs s"
proof (induction n arbitrary: s rule: itoa_nat.induct)
  case (1 n)
  show ?case
  proof (cases "n < 10")
    case True
    with 1 show ?thesis by (simp add: itoa_nat.simps [of n])
  next
    case False
    then have "itoa_nat n = itoa_nat (n div 10) @ [digit_char (n mod 10)]"
      by (subst itoa_nat.simps) simp
    moreover from 1 False have
      "v4Fields start 0 0 fs (itoa_nat (n div 10) @ digit_char (n mod 10) # s) =
       v4Fields False (n div 10) (length (itoa_nat (n div 10))) fs (digit_char (n mod 10) # s)"
      by simp
    moreover from False have "n div 10 \<noteq> 0" by (simp add: div_eq_0_iff)
    ultimately show ?thesis using 1(2) by (simp add: Let_def)
  qed
qed

lemma dtoiLoop_itoa: "n < 16777215 \<Longrightarrow> dtoiLoop 0 (itoa_nat n @ s) = dtoiLoop n s"
proof (induction n arbitrary: s rule: itoa_nat.induct)
  case (1 n)
  show ?case
  proof (cases "n < 10")
    case True
    with 1 show ?thesis by (simp add: itoa_nat.simps [of n])
  next
    case False
    then have "itoa_nat n = itoa_nat (n div 10) @ [digit_char (n mod 10)]"
      by (subst itoa_nat.simps) simp
    with 1 False show ?thesis by (simp add: Let_def)
  qed
qed

lemma dtoi_itoa: "n < 16777215 \<Longrightarrow> dtoi (itoa_nat n) = Some n"
  using dtoiLoop_itoa [of n "[]"] by (simp add: dtoi_def)

section \<open>Dotted quads\<close>

definition dotted_quad :: "nat \<Rightarrow> nat \<Rightarrow> nat \<Rightarrow> nat \<Rightarrow> string" where
  "dotted_quad a b c d =
     itoa_nat a @ ''.'' @ itoa_nat b @ ''.'' @ itoa_nat c @ ''.'' @ itoa_nat d"

lemma parseIPv4Fields_quad:
  assumes "a \<le> 255" "b \<le> 255" "c \<le> 255" "d \<le> 255"
  shows "parseIPv4Fields (dotted_quad a b c d) = Some [a, b, c, d]"
proof -
  have "\<not> is_digit CHR ''.''" using is_digit_sep by blast
  then have dot: "v4Fields False n k fs (''.'' @ s) = v4Fields True 0 0 (fs @ [n]) s"
    if "s \<noteq> []" "length fs \<noteq> 3" for n k fs s using that by simp
  have last: "v4Fields True 0 0 fs (itoa_nat d) = v4Fields False d (length (itoa_nat d)) fs []"
    for fs using v4_octet [OF assms(4), of True fs "[]"] by simp
  have "parseIPv4Fields (dotted_quad a b c d)
      = v4Fields True 0 0 [a] (itoa_nat b @ ''.'' @ itoa_nat c @ ''.'' @ itoa_nat d)"
    unfolding parseIPv4Fields_def dotted_quad_def v4_octet [OF assms(1)] by (subst dot) simp_all
  also have "\<dots> = v4Fields True 0 0 [a, b] (itoa_nat c @ ''.'' @ itoa_nat d)"
    unfolding v4_octet [OF assms(2)] by (subst dot) simp_all
  also have "\<dots> = v4Fields True 0 0 [a, b, c] (itoa_nat d)"
    unfolding v4_octet [OF assms(3)] by (subst dot) simp_all
  also have "\<dots> = Some [a, b, c, d]" unfolding last by simp
  finally show ?thesis .
qed

lemma find_sep_skip:
  "find (\<lambda>c. c \<in> {CHR ''.'', CHR '':'', CHR ''%''}) (itoa_nat n @ s) =
   find (\<lambda>c. c \<in> {CHR ''.'', CHR '':'', CHR ''%''}) s"
proof -
  have "find P (xs @ ys) = find P ys" if "\<forall>x \<in> set xs. \<not> P x" for P :: "char \<Rightarrow> bool" and xs ys
    using that by (induction xs) auto
  moreover have "\<forall>x \<in> set (itoa_nat n). \<not> x \<in> {CHR ''.'', CHR '':'', CHR ''%''}"
    using itoa_nat_no_sep by blast
  ultimately show ?thesis .
qed

lemma ParseAddr_quad:
  assumes "a \<le> 255" "b \<le> 255" "c \<le> 255" "d \<le> 255"
  shows "ParseAddr (dotted_quad a b c d) = Some (AddrV4 [a, b, c, d])"
proof -
  have "find (\<lambda>c. c \<in> {CHR ''.'', CHR '':'', CHR ''%''}) (dotted_quad a b c d) = Some CHR ''.''"
    unfolding dotted_quad_def find_sep_skip by simp
  then show ?thesis by (simp add: ParseAddr_def parseIPv4Fields_quad assms)
qed

text \<open>A dotted quad with a prefix length parses to the address and its mask.\<close>

lemma ParseCIDR_quad:
  assumes "a \<le> 255" "b \<le> 255" "c \<le> 255" "d \<le> 255" "n \<le> 32"
  shows "ParseCIDR (dotted_quad a b c d @ ''/'' @ itoa_nat n) =
     Some (replicate 10 0 @ [255, 255, a, b, c, d], CIDRMask n 32)"
proof -
  let ?q = "dotted_quad a b c d"
  have no: "\<forall>x \<in> set ?q. x \<noteq> CHR ''/''"
    using itoa_nat_no_sep by (auto simp: dotted_quad_def)
  then have "takeWhile (\<lambda>c. c \<noteq> CHR ''/'') (?q @ ''/'' @ itoa_nat n) = ?q"
    and "dropWhile (\<lambda>c. c \<noteq> CHR ''/'') (?q @ ''/'' @ itoa_nat n) = ''/'' @ itoa_nat n"
    by simp_all
  with assms show ?thesis
    by (simp add: ParseCIDR_def Let_def ParseAddr_quad dtoi_itoa BitLen_def Zone_def As16_def)
qed

end
