(* ===== verification/HostProvision.thy ===== *)
theory HostProvision
  imports ScaleUp GoNet
begin

text \<open>
  Provisioning and deprovisioning of one bare metal host, from
  \<^verbatim>\<open>internal/openstackbaremetalset\<close>: \<open>BaremetalHostProvision\<close> (the cloud-init secrets, the patch
  of the host and the entry of the status), \<open>BaremetalHostDeprovision\<close>, \<open>hostNameIsFQDN\<close> and
  \<open>GetBmhRefStatus\<close>.

  A call returns its outcome with the instance, the cluster state and the environment variables it
  leaves; the instance changes only at the end of a successful call. The body of the patch is
  \<open>provisionMutate\<close>, what deprovisioning does to the host object is \<open>releaseHost\<close>.
\<close>

section \<open>The code\<close>

definition CloudInitUserDataSecretName :: "string \<Rightarrow> string \<Rightarrow> string" where
  "CloudInitUserDataSecretName a b = a @ ''-cloudinit-userdata-'' @ b"

definition CloudInitNetworkDataSecretName :: "string \<Rightarrow> string \<Rightarrow> string" where
  "CloudInitNetworkDataSecretName a b = a @ ''-cloudinit-networkdata-'' @ b"

definition HostnameLabelSelectorSuffix :: string where
  "HostnameLabelSelectorSuffix = ''-osbms-hostname''"

definition HostRemovalAnnotation :: string where
  "HostRemovalAnnotation = ''baremetal.openstack.org/delete-host''"

definition MustGatherSecret :: string where
  "MustGatherSecret = ''baremetal.openstack.org/must-gather-secret''"

definition fqdn_label_char :: "char \<Rightarrow> bool" where
  "fqdn_label_char c \<longleftrightarrow> is_letter c \<or> is_digit c \<or> c = CHR ''-''"

definition fqdn_regex :: regex where
  "fqdn_regex =
     (let label = RPlus (RClass fqdn_label_char); dot = RClass (\<lambda>c. c = CHR ''.'');
          letter = RClass is_letter
      in RSeq (RStar (RSeq label dot)) (RSeq label (RSeq dot (RSeq letter (RPlus letter)))))"

definition hostNameIsFQDN :: "string \<Rightarrow> bool" where
  "hostNameIsFQDN hostname = matchAll fqdn_regex hostname"

definition secret_data :: "Secret \<Rightarrow> string \<Rightarrow> string" where
  "secret_data s k = (case gm_get (sec_Data s) k of None \<Rightarrow> [] | Some v \<Rightarrow> v)"

definition userDataTemplate ::
  "lib \<Rightarrow> OpenStackBaremetalSet \<Rightarrow> string \<Rightarrow> Secret \<Rightarrow> Secret option \<Rightarrow> Template" where
  "userDataTemplate L inst hostName sshSecret passwordSecret =
     (let p = gm_empty;
          p = gm_put ''AuthorizedKeys''
                (TStr (strings_TrimSuffix (secret_data sshSecret ''authorized_keys'') [CHR 0x0A])) p;
          p = gm_put ''HostName'' (TStr hostName) p;
          p = (if \<not> hostNameIsFQDN hostName \<and> ts_DomainName (set_Spec inst) \<noteq> []
               then gm_put ''FQDN'' (TStr (hostName @ ''.'' @ ts_DomainName (set_Spec inst))) p
               else gm_put ''FQDN'' (TStr hostName) p);
          p = gm_put ''CloudUserName'' (TStr (ts_CloudUserName (set_Spec inst))) p;
          backupLabels = MergeStringMaps L [GetBackupLabels L, GetRestoreLabels L];
          secretLabels = GetLabels L (set_Meta inst) (GetGroupLabel L ServiceName) backupLabels;
          p = (case passwordSecret of
                 Some s \<Rightarrow> if length (secret_data s ''NodeRootPassword'') > 0
                           then gm_put ''NodeRootPassword'' (TStr (secret_data s ''NodeRootPassword'')) p
                           else p
               | None \<Rightarrow> p)
      in \<lparr>tpl_Name = CloudInitUserDataSecretName (set_Name inst) hostName,
          tpl_Namespace = ts_BmhNamespace (set_Spec inst), tpl_Type = TemplateTypeConfig, tpl_InstanceType = set_Kind inst,
          tpl_AdditionalTemplate = Some [(''userData'', ''/openstackbaremetalset/cloudinit/userdata'')],
          tpl_Labels = secretLabels, tpl_ConfigOptions = p\<rparr>)"

definition bondParameters ::
  "BondConfig option \<Rightarrow> (string, tval) gomap \<Rightarrow> (string, tval) gomap" where
  "bondParameters bond p =
     (case bond of
        None \<Rightarrow> p
      | Some b \<Rightarrow>
          (let p = gm_put ''CtlplaneBondInterfaces'' (TStrs (bc_BondInterfaces b)) p;
               p = (if bc_BondMode b \<noteq> [] then gm_put ''CtlplaneBondMode'' (TStr (bc_BondMode b)) p else p)
           in if gm_len (bc_BondOptions b) > 0
              then gm_put ''CtlplaneBondOptions'' (TMap (bc_BondOptions b)) p else p))"

definition networkDataParameters ::
  "OpenStackBaremetalSet \<Rightarrow> string \<Rightarrow> nat list \<Rightarrow> nat list \<Rightarrow> (string, tval) gomap" where
  "networkDataParameters inst hostName ipAddr netmask =
     (let spec = set_Spec inst; host = spec_host inst hostName;
          version = (if To4 ipAddr \<noteq> None then ''ipv4'' else ''ipv6'');
          p = gm_empty;
          p = gm_put ''CtlplaneIpVersion'' (TStr version) p;
          p = gm_put ''CtlplaneIp'' (TBytes ipAddr) p;
          p = (case is_CtlplaneVlan host of
                 Some v \<Rightarrow> gm_put ''CtlplaneVlan'' (TInt v) p
               | None \<Rightarrow> (case ss_CtlplaneVlan spec of
                            Some v \<Rightarrow> gm_put ''CtlplaneVlan'' (TInt v) p | None \<Rightarrow> p));
          p = gm_put ''CtlplaneInterface''
                (TStr (if is_CtlplaneInterface host \<noteq> [] then is_CtlplaneInterface host
                       else ts_CtlplaneInterface spec)) p;
          p = gm_put ''CtlplaneGateway''
                (TStr (if is_CtlplaneGateway host \<noteq> [] then is_CtlplaneGateway host
                       else ss_CtlplaneGateway spec)) p;
          p = bondParameters (ts_CtlplaneBond spec) p;
          p = gm_put ''CtlplaneNetmask'' (TBytes netmask) p;
          p = gm_put ''CtlplaneDns'' (TStrs (ss_BootstrapDNS spec)) p;
          p = gm_put ''CtlplaneDnsSearch'' (TStrs (ss_DNSSearchDomains spec)) p
      in p)"

definition networkDataTemplate ::
  "lib \<Rightarrow> OpenStackBaremetalSet \<Rightarrow> string \<Rightarrow> nat list \<Rightarrow> nat list \<Rightarrow> Template" where
  "networkDataTemplate L inst hostName ipAddr netmask =
     (let networkDataLabels = MergeStringMaps L
            [Some [(MustGatherSecret, ''yes'')], GetBackupLabels L, GetRestoreLabels L]
      in \<lparr>tpl_Name = CloudInitNetworkDataSecretName (set_Name inst) hostName,
          tpl_Namespace = ts_BmhNamespace (set_Spec inst), tpl_Type = TemplateTypeConfig, tpl_InstanceType = set_Kind inst,
          tpl_AdditionalTemplate = Some [(''networkData'', ''/openstackbaremetalset/cloudinit/networkdata'')],
          tpl_Labels = GetLabels L (set_Meta inst) (GetGroupLabel L ServiceName) networkDataLabels,
          tpl_ConfigOptions = networkDataParameters inst hostName ipAddr netmask\<rparr>)"

text \<open>The secrets to create and the two references that the host gets.\<close>

definition cloudInit ::
  "lib \<Rightarrow> OpenStackBaremetalSet \<Rightarrow> string \<Rightarrow> string \<Rightarrow> Secret \<Rightarrow> Secret option \<Rightarrow>
   (Template list \<times> SecretReference \<times> SecretReference) result" where
  "cloudInit L inst hostName ctlPlaneIP sshSecret passwordSecret =
     (let host = spec_host inst hostName; ns = ts_BmhNamespace (set_Spec inst);
          (sts, userData) =
            (case is_UserData host of
               Some s \<Rightarrow> ([], s)
             | None \<Rightarrow> ([userDataTemplate L inst hostName sshSecret passwordSecret],
                        \<lparr>sr_Name = CloudInitUserDataSecretName (set_Name inst) hostName,
                         sr_Namespace = ns\<rparr>))
      in case is_NetworkData host of
           Some s \<Rightarrow> Ok (sts, userData, s)
         | None \<Rightarrow>
             (case ParseCIDR ctlPlaneIP of
                None \<Rightarrow> Err (ErrParseCIDR ctlPlaneIP)
              | Some (ipAddr, netmask) \<Rightarrow>
                  Ok (sts @ [networkDataTemplate L inst hostName ipAddr netmask], userData,
                      \<lparr>sr_Name = CloudInitNetworkDataSecretName (set_Name inst) hostName,
                       sr_Namespace = ns\<rparr>)))"

definition hostLabels :: "lib \<Rightarrow> OpenStackBaremetalSet \<Rightarrow> string \<Rightarrow> labels" where
  "hostLabels L inst hostName =
     GetLabels L (set_Meta inst) (GetGroupLabel L ServiceName)
       (Some [(set_Name inst @ HostnameLabelSelectorSuffix, hostName)])"

definition provisionImage :: "OpenStackBaremetalSet \<Rightarrow> OpenStackProvisionServer \<Rightarrow> Image" where
  "provisionImage inst ps =
     (if ts_OSImageDeploymentType (set_Spec inst) = OSImageDeploymentTypePassThrough
      then \<lparr>img_URL = ts_OSContainerImageURL (set_Spec inst), img_Checksum = [], img_ChecksumType = []\<rparr>
      else \<lparr>img_URL = pst_LocalImageURL (ps_Status ps),
            img_Checksum = pst_LocalImageChecksumURL (ps_Status ps),
            img_ChecksumType = pst_OSImageChecksumType (ps_Status ps)\<rparr>)"

definition provisionMutate ::
  "lib \<Rightarrow> OpenStackBaremetalSet \<Rightarrow> string \<Rightarrow> OpenStackProvisionServer \<Rightarrow> SecretReference \<Rightarrow>
   SecretReference \<Rightarrow> BareMetalHost \<Rightarrow> BareMetalHost" where
  "provisionMutate L inst hostName ps userData networkData b =
     (let b = b\<lparr>bmh_Meta := (bmh_Meta b)\<lparr>om_Labels :=
                  MergeStringMaps L [bmh_Labels b, hostLabels L inst hostName]\<rparr>\<rparr>;
          b = b\<lparr>bmh_AutomatedCleaningMode := ts_AutomatedCleaningMode (set_Spec inst)\<rparr>;
          b = (if bmh_State b \<noteq> StateProvisioned then b\<lparr>bmh_Image := Some (provisionImage inst ps)\<rparr> else b)
      in if bmh_ConsumerRef b = None
         then b\<lparr>bmh_Online := True,
                bmh_ConsumerRef := Some \<lparr>or_Kind = set_Kind inst, or_Namespace = set_Namespace inst,
                                         or_Name = set_Name inst\<rparr>,
                bmh_Image := Some (provisionImage inst ps),
                bmh_UserData := Some userData, bmh_NetworkData := Some networkData\<rparr>
         else b)"

text \<open>The status entry that a host starts with.\<close>

definition initialHostStatus ::
  "OpenStackBaremetalSet \<Rightarrow> string \<Rightarrow> string \<Rightarrow> string \<Rightarrow> HostStatus" where
  "initialHostStatus inst bmh hostName ctlPlaneIP =
     (case gm_get (status_hosts inst) hostName of
        Some st \<Rightarrow> st
      | None \<Rightarrow> zero_HostStatus\<lparr>ip_Hostname := hostName, ip_BmhRef := bmh,
                  ip_IPAddresses := gm_put ''ctlplane'' ctlPlaneIP gm_empty\<rparr>)"

type_synonym 'w set_state = "OpenStackBaremetalSet \<times> 'w \<times> env_vars"

definition ensureCloudInit ::
  "'w client \<Rightarrow> Template list \<Rightarrow> 'w set_state \<Rightarrow> unit result \<times> 'w set_state" where
  "ensureCloudInit cl sts s =
     (case s of (inst, w, env) \<Rightarrow>
        if length sts > 0
        then (case EnsureSecrets cl w inst sts env of
                (Ok env', w') \<Rightarrow> (Ok (), inst, w', env')
              | (Err e, w') \<Rightarrow> (Err e, inst, w', env)
              | (Panic m, w') \<Rightarrow> (Panic m, inst, w', env))
        else (Ok (), inst, w, env))"

definition patchHost ::
  "lib \<Rightarrow> 'w client \<Rightarrow> string \<Rightarrow> string \<Rightarrow> OpenStackProvisionServer \<Rightarrow> SecretReference \<Rightarrow>
   SecretReference \<Rightarrow> 'w set_state \<Rightarrow> BareMetalHost result \<times> 'w set_state" where
  "patchHost L cl bmh hostName provServer userData networkData s =
     (case s of (inst, w, env) \<Rightarrow>
        case Get_bmh cl w bmh (ts_BmhNamespace (set_Spec inst)) of
          Err e \<Rightarrow> (Err e, s)
        | Panic m \<Rightarrow> (Panic m, s)
        | Ok found \<Rightarrow>
            (case CreateOrPatch_bmh cl w found
                    (\<lambda>b. Ok (provisionMutate L inst hostName provServer userData networkData b)) of
               (r, w') \<Rightarrow> (r, inst, w', env)))"

definition recordHost ::
  "string \<Rightarrow> HostStatus \<Rightarrow> 'w set_state \<Rightarrow> unit result \<times> 'w set_state" where
  "recordHost hostName bmhStatus s =
     (case s of (inst, w, env) \<Rightarrow>
        case gm_assign hostName bmhStatus (status_hosts inst) of
          None \<Rightarrow> (Panic ''assignment to entry in nil map'', s)
        | Some m \<Rightarrow> (Ok (), set_status_hosts m inst, w, env))"

definition BaremetalHostProvision ::
  "lib \<Rightarrow> 'w client \<Rightarrow> 'w set_state \<Rightarrow> string \<Rightarrow> string \<Rightarrow> string \<Rightarrow> OpenStackProvisionServer \<Rightarrow>
   Secret \<Rightarrow> Secret option \<Rightarrow> unit result \<times> 'w set_state" where
  "BaremetalHostProvision L cl s bmh hostName ctlPlaneIP provServer sshSecret passwordSecret =
     (let inst = fst s;
          bmhStatus = initialHostStatus inst bmh hostName ctlPlaneIP
      in and_then (cloudInit L inst hostName ctlPlaneIP sshSecret passwordSecret, s)
           (\<lambda>(sts, userData, networkData) s.
         and_then (ensureCloudInit cl sts s) (\<lambda>_ s.
         and_then (patchHost L cl bmh hostName provServer userData networkData s) (\<lambda>found s.
         recordHost hostName
           (bmhStatus\<lparr>hs_UserDataSecretName := sr_Name userData,
                      hs_NetworkDataSecretName := sr_Name networkData,
                      hs_ProvisioningState := bmh_State found\<rparr>) s))))"

definition removeLabels :: "labels \<Rightarrow> labels \<Rightarrow> labels" where
  "removeLabels sel m = foldl (\<lambda>m key. gm_del key m) m (gm_keys sel)"

definition releaseHost :: "lib \<Rightarrow> OpenStackBaremetalSet \<Rightarrow> string \<Rightarrow> BareMetalHost \<Rightarrow> BareMetalHost" where
  "releaseHost L inst hostname b =
     b\<lparr>bmh_Meta := (bmh_Meta b)\<lparr>om_Labels := removeLabels (hostLabels L inst hostname) (bmh_Labels b),
          om_Annotations := gm_del HostRemovalAnnotation (om_Annotations (bmh_Meta b))\<rparr>,
       bmh_Online := False, bmh_ConsumerRef := None, bmh_Image := None,
       bmh_UserData := None, bmh_NetworkData := None\<rparr>"

fun deleteSecrets ::
  "'w client \<Rightarrow> string \<Rightarrow> string list \<Rightarrow> OpenStackBaremetalSet \<times> 'w \<Rightarrow>
   unit result \<times> OpenStackBaremetalSet \<times> 'w" where
  "deleteSecrets cl ns [] s = (Ok (), s)"
| "deleteSecrets cl ns (secret # rest) (inst, w) =
     (case DeleteSecretsWithName cl w secret ns of
        (r, w') \<Rightarrow> and_then (r, inst, w') (\<lambda>_. deleteSecrets cl ns rest))"

definition BaremetalHostDeprovision ::
  "lib \<Rightarrow> 'w client \<Rightarrow> OpenStackBaremetalSet \<times> 'w \<Rightarrow> HostStatus \<Rightarrow>
   unit result \<times> OpenStackBaremetalSet \<times> 'w" where
  "BaremetalHostDeprovision L cl s bmhStatus =
     (case s of (inst, w) \<Rightarrow>
        let ns = ts_BmhNamespace (set_Spec inst)
        in and_then (Get_bmh cl w (ip_BmhRef bmhStatus) ns, inst, w) (\<lambda>b (inst, w).
           and_then (case Update_bmh cl w (releaseHost L inst (ip_Hostname bmhStatus) b) of
                       (r, w') \<Rightarrow> (r, inst, w')) (\<lambda>_ s.
           and_then (deleteSecrets cl ns
                       [CloudInitUserDataSecretName (set_Name inst) (ip_BmhRef bmhStatus),
                        CloudInitNetworkDataSecretName (set_Name inst) (ip_BmhRef bmhStatus)] s)
             (\<lambda>_ (inst, w).
                (Ok (), set_status_hosts (gm_del (ip_Hostname bmhStatus) (status_hosts inst)) inst, w)))))"

definition GetBmhRefStatus :: "OpenStackBaremetalSet \<Rightarrow> string \<Rightarrow> HostStatus result" where
  "GetBmhRefStatus inst bmh =
     (case find (\<lambda>(_, st). ip_BmhRef st = bmh) (gm_items (status_hosts inst)) of
        Some (_, st) \<Rightarrow> Ok st
      | None \<Rightarrow> Err (NotFound ''OpenStackBaremetalHostStatus''))"

section \<open>Fully qualified names\<close>

text \<open>\<open>strings.Split\<close> at the dots, and what the expression accepts in these terms.\<close>

fun split_dots :: "string \<Rightarrow> string list" where
  "split_dots [] = [[]]"
| "split_dots (c # s) =
     (if c = CHR ''.'' then [] # split_dots s
      else case split_dots s of [] \<Rightarrow> [[c]] | l # ls \<Rightarrow> (c # l) # ls)"

definition fqdn_label :: "string \<Rightarrow> bool" where
  "fqdn_label l \<longleftrightarrow> l \<noteq> [] \<and> list_all fqdn_label_char l"

definition fqdn_spec :: "string \<Rightarrow> bool" where
  "fqdn_spec s \<longleftrightarrow>
     (let ls = split_dots s
      in length ls \<ge> 2 \<and> list_all fqdn_label ls
         \<and> length (last ls) \<ge> 2 \<and> list_all is_letter (last ls))"

lemma split_dots_nonempty [simp]: "split_dots s \<noteq> []"
  by (induction s rule: split_dots.induct) (auto split: list.split)

lemma split_dots_label:
  "CHR ''.'' \<notin> set l \<Longrightarrow> split_dots (l @ CHR ''.'' # s) = l # split_dots s"
  by (induction l) auto

lemma split_dots_last: "CHR ''.'' \<notin> set l \<Longrightarrow> split_dots l = [l]"
  by (induction l) auto

lemma fqdn_label_char_dot [simp]: "\<not> fqdn_label_char CHR ''.''"
  by (simp add: fqdn_label_char_def is_letter_def is_digit_def between_def)

lemma fqdn_label_no_dot: "list_all fqdn_label_char l \<Longrightarrow> CHR ''.'' \<notin> set l"
  by (auto simp: list_all_iff)

definition dotted :: "string list \<Rightarrow> string" where
  "dotted ls = concat (map (\<lambda>l. l @ ''.'') ls)"

lemma dotted_simps [simp]:
  "dotted [] = []" "dotted (l # ls) = l @ CHR ''.'' # dotted ls" "dotted (ls @ ms) = dotted ls @ dotted ms"
  by (simp_all add: dotted_def)

lemma split_dots_dotted:
  "list_all fqdn_label ls \<Longrightarrow> split_dots (dotted ls @ s) = ls @ split_dots s"
  by (induction ls) (auto simp: fqdn_label_def fqdn_label_no_dot split_dots_label)

lemma split_dots_join: "dotted (butlast (split_dots s)) @ last (split_dots s) = s"
proof (induction s)
  case (Cons c s)
  obtain l ls where "split_dots s = l # ls" by (metis split_dots_nonempty list.exhaust)
  with Cons show ?case by auto
qed simp

abbreviation label_dot :: regex where
  "label_dot \<equiv> RSeq (RPlus (RClass fqdn_label_char)) (RClass (\<lambda>c. c = CHR ''.''))"

lemma label_dot_iff: "in_lang label_dot u \<longleftrightarrow> (\<exists>l. u = l @ ''.'' \<and> fqdn_label l)"
  by (auto simp: in_lang_Seq plus_class fqdn_label_def)

lemma labels_dotD: "in_lang r u \<Longrightarrow> r = RStar label_dot \<Longrightarrow> \<exists>ls. u = dotted ls \<and> list_all fqdn_label ls"
proof (induction rule: in_lang.induct)
  case (lang_star0 r)
  then show ?case by (intro exI [of _ "[]"]) simp
next
  case (lang_star r u v)
  then obtain l ls where "u = l @ ''.''" "fqdn_label l" "v = dotted ls" "list_all fqdn_label ls"
    by (auto simp: label_dot_iff)
  then show ?case by (intro exI [of _ "l # ls"]) simp
qed simp_all

lemma labels_dotI: "list_all fqdn_label ls \<Longrightarrow> in_lang (RStar label_dot) (dotted ls)"
proof (induction ls)
  case (Cons l ls)
  then have "in_lang label_dot (l @ ''.'')" by (auto simp: label_dot_iff)
  with Cons lang_star [of label_dot "l @ ''.''" "dotted ls"] show ?case by simp
qed (simp add: lang_star0)

lemma top_label_iff:
  "in_lang (RSeq (RClass is_letter) (RPlus (RClass is_letter))) t \<longleftrightarrow> length t \<ge> 2 \<and> list_all is_letter t"
  by (cases t) (auto simp: seq_class plus_class Suc_le_eq)

lemma fqdn_lang:
  "in_lang fqdn_regex s \<longleftrightarrow>
     (\<exists>ls l t. s = dotted (ls @ [l]) @ t \<and> list_all fqdn_label (ls @ [l])
        \<and> length t \<ge> 2 \<and> list_all is_letter t)" (is "_ \<longleftrightarrow> ?rhs")
proof
  assume "in_lang fqdn_regex s"
  then obtain a b t where "s = a @ b @ ''.'' @ t" and a: "in_lang (RStar label_dot) a"
    and b: "in_lang (RPlus (RClass fqdn_label_char)) b"
    and t: "in_lang (RSeq (RClass is_letter) (RPlus (RClass is_letter))) t"
    by (auto simp: fqdn_regex_def Let_def in_lang_Seq [of _ _ s] in_lang_Seq [of "RPlus _"] seq_class)
  moreover from labels_dotD [OF a] obtain ls where "a = dotted ls" "list_all fqdn_label ls" by auto
  ultimately show ?rhs
    by (intro exI [of _ ls] exI [of _ b] exI [of _ t]) (simp add: plus_class top_label_iff fqdn_label_def)
next
  assume ?rhs
  then obtain ls l t where s: "s = dotted ls @ (l @ (''.'' @ t))" and ls: "list_all fqdn_label ls"
    and l: "fqdn_label l" and t: "length t \<ge> 2" "list_all is_letter t" by auto
  show "in_lang fqdn_regex s"
    unfolding fqdn_regex_def Let_def s
    by (intro lang_seq labels_dotI ls) (use l t in \<open>auto simp: plus_class fqdn_label_def top_label_iff\<close>)
qed

lemma hostNameIsFQDN_spec: "hostNameIsFQDN s \<longleftrightarrow> fqdn_spec s"
proof
  assume "hostNameIsFQDN s"
  then obtain ls l t where s: "s = dotted (ls @ [l]) @ t" and ls: "list_all fqdn_label (ls @ [l])"
    and t: "length t \<ge> 2" "list_all is_letter t"
    by (auto simp: hostNameIsFQDN_def matchAll_iff fqdn_lang)
  from t(2) have lab: "list_all fqdn_label_char t" by (auto simp: list_all_iff fqdn_label_char_def)
  then have "split_dots t = [t]" by (simp add: fqdn_label_no_dot split_dots_last)
  with s ls have "split_dots s = (ls @ [l]) @ [t]" using split_dots_dotted [OF ls, of t] by simp
  with ls t lab show "fqdn_spec s" by (auto simp: fqdn_spec_def Let_def fqdn_label_def)
next
  assume f: "fqdn_spec s"
  define ls where "ls = split_dots s"
  from f have ls: "length ls \<ge> 2" "list_all fqdn_label ls" "length (last ls) \<ge> 2" "list_all is_letter (last ls)"
    by (simp_all add: fqdn_spec_def ls_def Let_def)
  from ls(1) obtain ms l t where ms: "ls = ms @ [l] @ [t]"
    by (metis append_assoc append_butlast_last_id butlast.simps(1) length_0_conv length_append_singleton
        not_less_eq_eq numeral_2_eq_2 zero_le)
  then have "s = dotted (ms @ [l]) @ t" using split_dots_join [of s] by (simp add: ls_def butlast_append)
  with ls ms show "hostNameIsFQDN s"
    unfolding hostNameIsFQDN_def matchAll_iff fqdn_lang
    by (intro exI [of _ ms] exI [of _ l] exI [of _ t]) auto
qed

section \<open>The patch and the release of a host\<close>

lemma provisionMutate_claimed:
  assumes "bmh_ConsumerRef b \<noteq> None"
  shows "bmh_ConsumerRef (provisionMutate L i h ps u n b) = bmh_ConsumerRef b"
    and "bmh_Online (provisionMutate L i h ps u n b) = bmh_Online b"
    and "bmh_UserData (provisionMutate L i h ps u n b) = bmh_UserData b"
    and "bmh_NetworkData (provisionMutate L i h ps u n b) = bmh_NetworkData b"
    and "bmh_Image (provisionMutate L i h ps u n b) =
       (if bmh_State b = StateProvisioned then bmh_Image b else Some (provisionImage i ps))"
  using assms by (auto simp: provisionMutate_def Let_def)

lemma provisionMutate_unclaimed:
  assumes "bmh_ConsumerRef b = None"
  shows "bmh_ConsumerRef (provisionMutate L i h ps u n b) =
       Some \<lparr>or_Kind = set_Kind i, or_Namespace = set_Namespace i, or_Name = set_Name i\<rparr>"
    and "bmh_Online (provisionMutate L i h ps u n b)"
    and "bmh_UserData (provisionMutate L i h ps u n b) = Some u"
    and "bmh_NetworkData (provisionMutate L i h ps u n b) = Some n"
    and "bmh_Image (provisionMutate L i h ps u n b) = Some (provisionImage i ps)"
  using assms by (simp_all add: provisionMutate_def Let_def)

lemma provisionMutate_always [simp]:
  "bmh_Status (provisionMutate L i h ps u n b) = bmh_Status b"
  "bmh_ExternallyProvisioned (provisionMutate L i h ps u n b) = bmh_ExternallyProvisioned b"
  "bmh_CustomDeploy (provisionMutate L i h ps u n b) = bmh_CustomDeploy b"
  "bmh_AutomatedCleaningMode (provisionMutate L i h ps u n b) = ts_AutomatedCleaningMode (set_Spec i)"
  "bmh_Meta (provisionMutate L i h ps u n b) =
     (bmh_Meta b)\<lparr>om_Labels := MergeStringMaps L [bmh_Labels b, hostLabels L i h]\<rparr>"
  by (simp_all add: provisionMutate_def Let_def)

text \<open>A second patch with the same arguments only merges the labels again.\<close>

lemma provisionMutate_twice:
  fixes L i h ps u n b
  defines "b1 \<equiv> provisionMutate L i h ps u n b"
  shows "provisionMutate L i h ps u n b1 =
    b1\<lparr>bmh_Meta := (bmh_Meta b1)\<lparr>om_Labels := MergeStringMaps L [bmh_Labels b1, hostLabels L i h]\<rparr>\<rparr>"
proof -
  have "bmh_ConsumerRef b1 \<noteq> None"
    using provisionMutate_claimed(1) [of b] provisionMutate_unclaimed(1) [of b]
    by (cases "bmh_ConsumerRef b") (auto simp: b1_def)
  moreover have "bmh_State b1 \<noteq> StateProvisioned \<Longrightarrow> bmh_Image b1 = Some (provisionImage i ps)"
    using provisionMutate_claimed(5) [of b] provisionMutate_unclaimed(5) [of b]
    by (cases "bmh_ConsumerRef b") (auto simp: b1_def)
  moreover have "bmh_AutomatedCleaningMode b1 = ts_AutomatedCleaningMode (set_Spec i)"
    by (simp add: b1_def)
  ultimately show ?thesis by (auto simp: provisionMutate_def Let_def)
qed

lemma gm_get_literal: "gm_get (Some xs) k = map_of xs k"
  by (simp add: gm_get_def)

lemma removeLabels_get:
  "gm_get (removeLabels sel m) k = (if k \<in> set (gm_keys sel) then None else gm_get m k)"
proof -
  have "gm_get (foldl (\<lambda>m key. gm_del key m) m ks) k = (if k \<in> set ks then None else gm_get m k)"
    for ks :: "string list"
    by (induction ks arbitrary: m) auto
  then show ?thesis by (simp add: removeLabels_def)
qed

lemma releaseHost_simps [simp]:
  "bmh_Online (releaseHost L i h b) = False" "bmh_ConsumerRef (releaseHost L i h b) = None"
  "bmh_Image (releaseHost L i h b) = None" "bmh_UserData (releaseHost L i h b) = None"
  "bmh_NetworkData (releaseHost L i h b) = None" "bmh_Status (releaseHost L i h b) = bmh_Status b"
  "bmh_ExternallyProvisioned (releaseHost L i h b) = bmh_ExternallyProvisioned b"
  "bmh_CustomDeploy (releaseHost L i h b) = bmh_CustomDeploy b"
  "bmh_Name (releaseHost L i h b) = bmh_Name b"
  by (simp_all add: releaseHost_def)

lemma releaseHost_labels:
  "gm_get (bmh_Labels (releaseHost L i h b)) k =
     (if k \<in> set (gm_keys (hostLabels L i h)) then None else gm_get (bmh_Labels b) k)"
  by (simp add: releaseHost_def removeLabels_get)

lemma releaseHost_usable:
  "bmhUsable j (releaseHost L i h b) \<longleftrightarrow>
     verifyBaremetalSetHardwareMatch j b \<and> bmh_State b = StateAvailable
     \<and> \<not> bmh_ExternallyProvisioned b \<and> bmh_CustomDeploy b = None"
  by (simp add: bmhUsable_iff verifyBaremetalSetHardwareMatch_def)

context lib_laws begin

lemma hostLabels_keys:
  "set (gm_keys (hostLabels L i h)) =
     {GetOwnerUIDLabelSelector L (GetGroupLabel L ServiceName),
      GetOwnerNameSpaceLabelSelector L (GetGroupLabel L ServiceName),
      GetOwnerNameLabelSelector L (GetGroupLabel L ServiceName),
      set_Name i @ HostnameLabelSelectorSuffix}"
  by (auto simp: gm_keys_iff hostLabels_def GetLabels_get gm_get_literal split: if_splits)

lemma provisionMutate_labels:
  "gm_get (bmh_Labels (provisionMutate L i h ps u n b)) k =
     (case gm_get (bmh_Labels b) k of Some v \<Rightarrow> Some v | None \<Rightarrow> gm_get (hostLabels L i h) k)"
  by (simp add: MergeStringMaps_get split: option.split)

lemma release_provision_labels:
  "gm_get (bmh_Labels (releaseHost L i h (provisionMutate L i h ps u n b))) k =
     gm_get (bmh_Labels (releaseHost L i h b)) k"
  using gm_get_None_iff [of "hostLabels L i h" k]
  by (cases "gm_get (bmh_Labels b) k") (auto simp: releaseHost_labels MergeStringMaps_get)

end

section \<open>The outcome of provisioning\<close>

lemma ensureCloudInit_Ok:
  "ensureCloudInit cl sts (inst, w, env) = (Ok x, s') \<longleftrightarrow>
     (\<exists>w' env'. s' = (inst, w', env') \<and>
        (if sts = [] then w' = w \<and> env' = env else EnsureSecrets cl w inst sts env = (Ok env', w')))"
  by (auto simp: ensureCloudInit_def split: prod.splits outcome.splits)

lemma patchHost_Ok:
  "patchHost L cl bmh h ps u n (inst, w, env) = (Ok b, s') \<longleftrightarrow>
     (\<exists>b0 w'. Get_bmh cl w bmh (ts_BmhNamespace (set_Spec inst)) = Ok b0 \<and> s' = (inst, w', env)
        \<and> CreateOrPatch_bmh cl w b0 (\<lambda>b. Ok (provisionMutate L inst h ps u n b)) = (Ok b, w'))"
  by (auto simp: patchHost_def split: prod.splits outcome.splits)

lemma recordHost_Ok:
  "recordHost h st (inst, w, env) = (Ok x, s') \<longleftrightarrow>
     status_hosts inst \<noteq> None \<and> s' = (set_status_hosts (gm_put h st (status_hosts inst)) inst, w, env)"
  by (auto simp: recordHost_def gm_assign_def split: option.splits)

lemma provision_Ok:
  assumes "BaremetalHostProvision L cl (inst, w, env) bmh h ip ps ssh pw = (Ok (), inst', w', env')"
  obtains sts u n w1 b0 b where "cloudInit L inst h ip ssh pw = Ok (sts, u, n)"
    and "if sts = [] then w1 = w \<and> env' = env else EnsureSecrets cl w inst sts env = (Ok env', w1)"
    and "Get_bmh cl w1 bmh (ts_BmhNamespace (set_Spec inst)) = Ok b0"
    and "CreateOrPatch_bmh cl w1 b0 (\<lambda>b. Ok (provisionMutate L inst h ps u n b)) = (Ok b, w')"
    and "status_hosts inst \<noteq> None"
    and "inst' = set_status_hosts (gm_put h ((initialHostStatus inst bmh h ip)
          \<lparr>hs_UserDataSecretName := sr_Name u, hs_NetworkDataSecretName := sr_Name n,
           hs_ProvisioningState := bmh_State b\<rparr>) (status_hosts inst)) inst"
  using assms
  by (auto simp: BaremetalHostProvision_def Let_def and_then_Ok_iff ensureCloudInit_Ok patchHost_Ok
      recordHost_Ok simp del: split_paired_Ex)

lemma ensureCloudInit_inst: "fst (snd (ensureCloudInit cl sts s)) = fst s"
  by (cases s) (auto simp: ensureCloudInit_def split: prod.splits outcome.splits)

lemma patchHost_inst: "fst (snd (patchHost L cl bmh h ps u n s)) = fst s"
  by (cases s) (auto simp: patchHost_def split: prod.splits outcome.splits)

lemma recordHost_inst: "fst (recordHost h st s) \<noteq> Ok () \<Longrightarrow> fst (snd (recordHost h st s)) = fst s"
  by (cases s) (auto simp: recordHost_def split: option.splits)

text \<open>A call that fails leaves the instance as it was.\<close>

lemma and_then_keeps:
  assumes "fst (and_then r k) \<noteq> Ok ()" and "fst (snd r) = i"
    and "\<And>x s. r = (Ok x, s) \<Longrightarrow> fst (k x s) \<noteq> Ok () \<Longrightarrow> fst s = i \<Longrightarrow> fst (snd (k x s)) = i"
  shows "fst (snd (and_then r k)) = i"
  using assms by (cases r; cases "fst r") auto

lemma provision_not_Ok:
  assumes "fst (BaremetalHostProvision L cl s bmh h ip ps ssh pw) \<noteq> Ok ()"
  shows "fst (snd (BaremetalHostProvision L cl s bmh h ip ps ssh pw)) = fst s"
  using assms unfolding BaremetalHostProvision_def Let_def
  by (auto intro!: and_then_keeps simp: ensureCloudInit_inst patchHost_inst recordHost_inst
      split: prod.splits)

lemma deleteSecrets_inst:
  "deleteSecrets cl ns names (inst, w) = (r, inst', w') \<Longrightarrow> inst' = inst"
  by (induction names arbitrary: w) (auto simp: and_then_def split: prod.splits outcome.splits)

lemma deprovision_inst:
  assumes "BaremetalHostDeprovision L cl (inst, w) st = (r, inst', w')"
  shows "inst' = (if r = Ok () then set_status_hosts (gm_del (ip_Hostname st) (status_hosts inst)) inst
                  else inst)"
proof (cases "Get_bmh cl w (ip_BmhRef st) (ts_BmhNamespace (set_Spec inst))")
  case (Ok b)
  obtain r1 w1 where u: "Update_bmh cl w (releaseHost L inst (ip_Hostname st) b) = (r1, w1)"
    by fastforce
  let ?names = "[CloudInitUserDataSecretName (set_Name inst) (ip_BmhRef st),
    CloudInitNetworkDataSecretName (set_Name inst) (ip_BmhRef st)]"
  obtain r2 i2 w2 where d: "deleteSecrets cl (ts_BmhNamespace (set_Spec inst)) ?names (inst, w1)
      = (r2, i2, w2)" by (metis surj_pair)
  have i2: "i2 = inst" using d by (rule deleteSecrets_inst)
  let ?k = "\<lambda>_ (i, w). (Ok (), set_status_hosts (gm_del (ip_Hostname st) (status_hosts i)) i, w)"
  have "BaremetalHostDeprovision L cl (inst, w) st = and_then (r1, inst, w1) (\<lambda>_ s.
      and_then (deleteSecrets cl (ts_BmhNamespace (set_Spec inst)) ?names s) ?k)"
    using Ok u by (simp add: BaremetalHostDeprovision_def Let_def)
  then have "(r, inst', w') = and_then (r1, inst, w1) (\<lambda>_ _. and_then (r2, inst, w2) ?k)"
    using assms d i2 by (cases r1) simp_all
  then show ?thesis by (cases r1; cases r2) simp_all
qed (use assms in \<open>auto simp: BaremetalHostDeprovision_def Let_def\<close>)

text \<open>The secrets that provisioning creates for a host carry the host name; those that
  deprovisioning deletes carry the name of the bare metal host.\<close>

lemma secret_names_inj:
  "CloudInitUserDataSecretName a b = CloudInitUserDataSecretName a c \<longleftrightarrow> b = c"
  "CloudInitNetworkDataSecretName a b = CloudInitNetworkDataSecretName a c \<longleftrightarrow> b = c"
  by (simp_all add: CloudInitUserDataSecretName_def CloudInitNetworkDataSecretName_def)

end
