(* ===== verification/PortAssign.thy ===== *)
theory PortAssign
  imports External
begin

text \<open>
  Port allocation for provision servers, from \<^verbatim>\<open>api/v1beta1/openstackprovisionserver.go\<close>
  (\<open>GetExistingProvServerPorts\<close>, \<open>AssignProvisionServerPort\<close>) and the admission logic of
  \<^verbatim>\<open>api/v1beta1/openstackprovisionserver_webhook.go\<close> (\<open>Default\<close>, \<open>validateCr\<close>, \<open>ValidateCreate\<close>,
  \<open>ValidateUpdate\<close>, \<open>ValidateDelete\<close>).

  The allocation loop counts an \<open>int32\<close> upwards, wrapping around, and is a
  \<^theory_text>\<open>partial_function (option)\<close>: \<open>None\<close> is a loop that never ends. It ends whenever the upper
  bound is below the largest \<open>int32\<close> (\<open>portLoop_returns\<close>), so for the constants of the program.
\<close>

section \<open>The code\<close>

fun collectPorts ::
  "lib \<Rightarrow> OpenStackProvisionServer list \<Rightarrow> (string, int) gomap \<Rightarrow> (string, int) gomap" where
  "collectPorts L [] found = found"
| "collectPorts L (provServer # rest) found =
     (if ps_Port provServer = 0 then collectPorts L rest found
      else collectPorts L rest
             (gm_put (NamespacedName_String L (ps_Namespace provServer) (ps_Name provServer))
                (ps_Port provServer) found))"

definition GetExistingProvServerPorts :: "lib \<Rightarrow> 'w client \<Rightarrow> 'w \<Rightarrow> (string, int) gomap result" where
  "GetExistingProvServerPorts L cl w =
     (case List_ps cl w of
        Err e \<Rightarrow> Err (ErrListProvServers e)
      | Panic m \<Rightarrow> Panic m
      | Ok items \<Rightarrow> Ok (collectPorts L items gm_empty))"

definition port_of :: "(string, int) gomap \<Rightarrow> string \<Rightarrow> int" where
  "port_of existing k = (case gm_get existing k of None \<Rightarrow> 0 | Some p \<Rightarrow> p)"

definition port_found :: "(string, int) gomap \<Rightarrow> int \<Rightarrow> bool" where
  "port_found existing cur = list_ex (\<lambda>(_, port). port = cur) (gm_items existing)"

partial_function (option) portLoop ::
  "(string, int) gomap \<Rightarrow> string \<Rightarrow> int \<Rightarrow> int \<Rightarrow> (int + int) option" where
  "portLoop existing self portEnd cur =
     (if cur > portEnd then Some (Inl cur)
      else if port_found existing cur
      then (if port_of existing self \<noteq> cur
            then portLoop existing self portEnd (int32_wrap (cur + 1))
            else Some (Inr cur))
      else Some (Inr cur))"

declare portLoop.simps [code]

definition set_ps_Port :: "int \<Rightarrow> OpenStackProvisionServer \<Rightarrow> OpenStackProvisionServer" where
  "set_ps_Port c r = r\<lparr>ps_Spec := (ps_Spec r)\<lparr>pss_Port := c\<rparr>\<rparr>"

definition AssignProvisionServerPort ::
  "lib \<Rightarrow> 'w client \<Rightarrow> 'w \<Rightarrow> OpenStackProvisionServer \<Rightarrow> int \<Rightarrow> int \<Rightarrow>
   OpenStackProvisionServer result" where
  "AssignProvisionServerPort L cl w inst portStart portEnd =
     (case GetExistingProvServerPorts L cl w of
        Err e \<Rightarrow> Err e
      | Panic m \<Rightarrow> Panic m
      | Ok existingPorts \<Rightarrow>
          (let self = NamespacedName_String L (ps_Namespace inst) (ps_Name inst);
               cur0 = port_of existingPorts self;
               cur = (if cur0 = 0 then portStart else cur0)
           in case portLoop existingPorts self portEnd cur of
                None \<Rightarrow> Panic ''AssignProvisionServerPort does not return''
              | Some (Inl c) \<Rightarrow> Err (ErrPortOutOfRange c portStart portEnd)
              | Some (Inr c) \<Rightarrow> Ok (set_ps_Port c inst)))"

definition validateCr :: "lib \<Rightarrow> 'w client \<Rightarrow> 'w \<Rightarrow> OpenStackProvisionServer \<Rightarrow> unit result" where
  "validateCr L cl w r =
     (if ps_Port r = 0 then Err (ErrNoAvailablePorts ProvisionServerPortStart ProvisionServerPortEnd)
      else case GetExistingProvServerPorts L cl w of
             Err e \<Rightarrow> Err e
           | Panic m \<Rightarrow> Panic m
           | Ok existingPorts \<Rightarrow>
               (case find (\<lambda>(name, port). port = ps_Port r
                             \<and> name \<noteq> NamespacedName_String L (ps_Namespace r) (ps_Name r))
                      (gm_items existingPorts) of
                  Some (name, port) \<Rightarrow> Err (ErrPortInUse port name)
                | None \<Rightarrow> Ok ()))"

text \<open>The list of field errors that \<open>ValidateCreate\<close> collects is not part of what it returns.\<close>

definition ValidateCreate_ps :: "lib \<Rightarrow> 'w client \<Rightarrow> 'w \<Rightarrow> OpenStackProvisionServer \<Rightarrow> unit result" where
  "ValidateCreate_ps L cl w r =
     (let errors = (if \<not> hostname_rfc1123 L (ps_Name r) then [ErrInvalidName (ps_Name r)] else [])
      in validateCr L cl w r)"

definition ValidateUpdate_ps :: "lib \<Rightarrow> 'w client \<Rightarrow> 'w \<Rightarrow> OpenStackProvisionServer \<Rightarrow> unit result" where
  "ValidateUpdate_ps L cl w r = validateCr L cl w r"

definition ValidateDelete_ps :: "OpenStackProvisionServer \<Rightarrow> unit result" where
  "ValidateDelete_ps r = Ok ()"

definition default_images ::
  "OpenStackProvisionServerDefaults \<Rightarrow> OpenStackProvisionServerSpec \<Rightarrow> OpenStackProvisionServerSpec" where
  "default_images d s =
     (let s = (if pss_OSContainerImageURL s = []
               then s\<lparr>pss_OSContainerImageURL := psd_OSContainerImageURL d\<rparr> else s);
          s = (if pss_AgentImageURL s = [] then s\<lparr>pss_AgentImageURL := psd_AgentImageURL d\<rparr> else s);
          s = (if pss_ApacheImageURL s = [] then s\<lparr>pss_ApacheImageURL := psd_ApacheImageURL d\<rparr> else s);
          s = (if pss_OSImage s = [] then s\<lparr>pss_OSImage := psd_OSImage d\<rparr> else s)
      in s)"

text \<open>A failed assignment is logged and leaves the port at zero; a panic propagates.\<close>

definition Default_ps ::
  "lib \<Rightarrow> OpenStackProvisionServerDefaults \<Rightarrow> 'w client \<Rightarrow> 'w \<Rightarrow> OpenStackProvisionServer \<Rightarrow>
   OpenStackProvisionServer result" where
  "Default_ps L d cl w r0 =
     (let r = r0\<lparr>ps_Spec := default_images d (ps_Spec r0)\<rparr>
      in if ps_Port r = 0
         then (case AssignProvisionServerPort L cl w r ProvisionServerPortStart ProvisionServerPortEnd of
                 Ok r' \<Rightarrow> Ok r'
               | Err _ \<Rightarrow> Ok r
               | Panic m \<Rightarrow> Panic m)
         else Ok r)"

text \<open>The fall-back images.\<close>

definition OSContainerImage :: string where
  "OSContainerImage = ''quay.io/podified-antelope-centos9/edpm-hardened-uefi:current-podified''"

definition AgentImage :: string where
  "AgentImage = ''quay.io/openstack-k8s-operators/openstack-baremetal-operator-agent:latest''"

definition ApacheImage :: string where
  "ApacheImage = ''registry.redhat.io/ubi9/httpd-24:latest''"

definition OSImage :: string where
  "OSImage = ''edpm-hardened-uefi.qcow2''"

text \<open>The defaults that \<open>SetupDefaults\<close> hands to \<open>SetupOpenStackProvisionServerDefaults\<close>; the package
  variable that keeps them is a field of the manager of \<open>Manager\<close> and an argument of \<open>Default_ps\<close>.\<close>

definition SetupDefaults :: "(string \<Rightarrow> string \<Rightarrow> string) \<Rightarrow> OpenStackProvisionServerDefaults" where
  "SetupDefaults GetEnvVar = \<lparr>
     psd_OSContainerImageURL = GetEnvVar ''RELATED_IMAGE_OS_CONTAINER_IMAGE_URL_DEFAULT'' OSContainerImage,
     psd_AgentImageURL = GetEnvVar ''RELATED_IMAGE_AGENT_IMAGE_URL_DEFAULT'' AgentImage,
     psd_ApacheImageURL = GetEnvVar ''RELATED_IMAGE_APACHE_IMAGE_URL_DEFAULT'' ApacheImage,
     psd_OSImage = GetEnvVar ''OS_IMAGE_DEFAULT'' OSImage\<rparr>"

section \<open>The interface of the allocator\<close>

text \<open>What the admission logic relies on: the loop, started at the lower bound for a server that
  has no port yet, returns the least port of the range that no server has.\<close>

locale port_allocator =
  fixes alloc :: "(string, int) gomap \<Rightarrow> string \<Rightarrow> int \<Rightarrow> int \<Rightarrow> (int + int) option"
  assumes alloc_own: "port_of ex self = cur \<Longrightarrow> cur \<noteq> 0 \<Longrightarrow> cur \<le> hi \<Longrightarrow> alloc ex self hi cur = Some (Inr cur)"
    and alloc_above: "cur > hi \<Longrightarrow> alloc ex self hi cur = Some (Inl cur)"
    and alloc_least: "port_of ex self = 0 \<Longrightarrow> 0 < lo \<Longrightarrow> hi < 2 ^ 31 - 1 \<Longrightarrow> lo \<le> c \<Longrightarrow> c \<le> hi \<Longrightarrow>
      \<not> port_found ex c \<Longrightarrow> (\<And>q. lo \<le> q \<Longrightarrow> q < c \<Longrightarrow> port_found ex q) \<Longrightarrow>
      alloc ex self hi lo = Some (Inr c)"
    and alloc_full: "port_of ex self = 0 \<Longrightarrow> 0 < lo \<Longrightarrow> hi < 2 ^ 31 - 1 \<Longrightarrow> lo \<le> hi \<Longrightarrow>
      (\<And>q. lo \<le> q \<Longrightarrow> q \<le> hi \<Longrightarrow> port_found ex q) \<Longrightarrow> alloc ex self hi lo = Some (Inl (hi + 1))"
begin

text \<open>A fresh server gets a free port of the range, or the error past the range when there is none.\<close>

lemma alloc_fresh:
  assumes "port_of ex self = 0" and "0 < lo" and "hi < 2 ^ 31 - 1" and "lo \<le> hi"
  shows "(\<exists>c. alloc ex self hi lo = Some (Inr c) \<and> lo \<le> c \<and> c \<le> hi \<and> \<not> port_found ex c
            \<and> (\<forall>q. lo \<le> q \<and> q < c \<longrightarrow> port_found ex q))
       \<or> (alloc ex self hi lo = Some (Inl (hi + 1)) \<and> (\<forall>q. lo \<le> q \<and> q \<le> hi \<longrightarrow> port_found ex q))"
proof (cases "\<exists>c. lo \<le> c \<and> c \<le> hi \<and> \<not> port_found ex c")
  case False
  with alloc_full [OF assms] show ?thesis by auto
next
  case True
  then obtain n where n: "lo + int n \<le> hi" "\<not> port_found ex (lo + int n)"
    by (metis add.commute diff_add_cancel int_nat_eq le_diff_eq diff_ge_0_iff_ge)
  define m where "m = (LEAST n. lo + int n \<le> hi \<and> \<not> port_found ex (lo + int n))"
  have m: "lo + int m \<le> hi \<and> \<not> port_found ex (lo + int m)"
    unfolding m_def by (rule LeastI [of _ n]) (use n in simp)
  have least: "port_found ex q" if "lo \<le> q" "q < lo + int m" for q
  proof -
    from that have "nat (q - lo) < m" by simp
    then have "\<not> (lo + int (nat (q - lo)) \<le> hi \<and> \<not> port_found ex (lo + int (nat (q - lo))))"
      unfolding m_def by (rule not_less_Least)
    with that m show ?thesis by auto
  qed
  from alloc_least [OF assms(1-3), of "lo + int m"] m least show ?thesis by auto
qed

end

section \<open>The loop implements it\<close>

lemma portLoop_above [simp]: "cur > hi \<Longrightarrow> portLoop ex self hi cur = Some (Inl cur)"
  by (simp add: portLoop.simps)

lemma port_of_found: "port_of ex self = cur \<Longrightarrow> cur \<noteq> 0 \<Longrightarrow> port_found ex cur"
  by (auto simp: port_of_def port_found_def list_ex_iff split: option.splits dest: gm_get_SomeD)

lemma portLoop_own:
  "port_of ex self = cur \<Longrightarrow> cur \<noteq> 0 \<Longrightarrow> cur \<le> hi \<Longrightarrow> portLoop ex self hi cur = Some (Inr cur)"
  by (subst portLoop.simps) (simp add: port_of_found)

lemma portLoop_free: "cur \<le> hi \<Longrightarrow> \<not> port_found ex cur \<Longrightarrow> portLoop ex self hi cur = Some (Inr cur)"
  by (subst portLoop.simps) simp

lemma portLoop_next:
  assumes "cur \<le> hi" and "port_found ex cur" and "port_of ex self \<noteq> cur"
    and "hi < 2 ^ 31 - 1" and "- (2 ^ 31) \<le> cur"
  shows "portLoop ex self hi cur = portLoop ex self hi (cur + 1)"
proof -
  from assms(1,4,5) have "int32_wrap (cur + 1) = cur + 1"
    by (intro int32_wrap_id) (simp add: int32_range_def)
  with assms(1-3) show ?thesis by (subst portLoop.simps) simp
qed

text \<open>While the ports from \<open>cur\<close> on are taken by others, the loop runs past them.\<close>

lemma portLoop_skip:
  assumes "hi < 2 ^ 31 - 1" and "- (2 ^ 31) \<le> cur" and "cur + int n \<le> hi + 1"
    and "\<And>q. cur \<le> q \<Longrightarrow> q < cur + int n \<Longrightarrow> port_found ex q \<and> port_of ex self \<noteq> q"
  shows "portLoop ex self hi cur = portLoop ex self hi (cur + int n)"
  using assms(3,4)
proof (induction n)
  case (Suc n)
  then have "portLoop ex self hi cur = portLoop ex self hi (cur + int n)" by simp
  also have "\<dots> = portLoop ex self hi (cur + int n + 1)"
    by (rule portLoop_next) (use Suc.prems assms(1,2) in auto)
  finally show ?case by (simp add: add.commute add.left_commute)
qed simp

interpretation pal: port_allocator portLoop
proof unfold_locales
  fix ex self and cur hi lo c :: int
  show "portLoop ex self hi cur = Some (Inr cur)"
    if "port_of ex self = cur" "cur \<noteq> 0" "cur \<le> hi" using that by (rule portLoop_own)
  show "portLoop ex self hi cur = Some (Inl cur)" if "hi < cur" using that by simp
  assume self: "port_of ex self = 0" and lo: "0 < lo" and hi: "hi < 2 ^ 31 - 1"
  show "portLoop ex self hi lo = Some (Inr c)"
    if "lo \<le> c" "c \<le> hi" "\<not> port_found ex c" "\<And>q. lo \<le> q \<Longrightarrow> q < c \<Longrightarrow> port_found ex q"
    using portLoop_skip [OF hi, of lo "nat (c - lo)" ex self] portLoop_free [of c hi ex self]
      that self lo by auto
  show "portLoop ex self hi lo = Some (Inl (hi + 1))"
    if "lo \<le> hi" "\<And>q. lo \<le> q \<Longrightarrow> q \<le> hi \<Longrightarrow> port_found ex q"
    using portLoop_skip [OF hi, of lo "nat (hi + 1 - lo)" ex self] that self lo by auto
qed

text \<open>The loop ends for every upper bound below the largest \<open>int32\<close>.\<close>

lemma portLoop_returns:
  assumes "hi < 2 ^ 31 - 1" and "- (2 ^ 31) \<le> cur"
  shows "\<exists>r. portLoop ex self hi cur = Some r"
  using assms(2)
proof (induction "nat (hi + 1 - cur)" arbitrary: cur rule: less_induct)
  case less
  show ?case
  proof (cases "cur \<le> hi \<and> port_found ex cur \<and> port_of ex self \<noteq> cur")
    case True
    then have "portLoop ex self hi cur = portLoop ex self hi (cur + 1)"
      using portLoop_next assms(1) less.prems by blast
    moreover have "\<exists>r. portLoop ex self hi (cur + 1) = Some r"
      by (rule less.hyps) (use True less.prems in auto)
    ultimately show ?thesis by simp
  next
    case False
    then show ?thesis by (subst portLoop.simps) auto
  qed
qed

lemma set_ps_Port_simps [simp]:
  "ps_Port (set_ps_Port c r) = c" "ps_Meta (set_ps_Port c r) = ps_Meta r"
  "ps_Status (set_ps_Port c r) = ps_Status r"
  by (simp_all add: set_ps_Port_def)

section \<open>Servers in the cluster\<close>

definition ps_key :: "OpenStackProvisionServer \<Rightarrow> string \<times> string" where
  "ps_key p = (ps_Namespace p, ps_Name p)"

text \<open>Kubernetes keeps one object per namespace and name, and a namespace contains no slash.\<close>

definition servers_wf :: "OpenStackProvisionServer list \<Rightarrow> bool" where
  "servers_wf ss \<longleftrightarrow> distinct (map ps_key ss) \<and> (\<forall>p \<in> set ss. CHR ''/'' \<notin> set (ps_Namespace p))"

abbreviation ps_string :: "lib \<Rightarrow> OpenStackProvisionServer \<Rightarrow> string" where
  "ps_string L p \<equiv> NamespacedName_String L (ps_Namespace p) (ps_Name p)"

abbreviation existing_ports :: "lib \<Rightarrow> OpenStackProvisionServer list \<Rightarrow> (string, int) gomap" where
  "existing_ports L ss \<equiv> collectPorts L ss gm_empty"

lemma servers_wf_ConsD: "servers_wf (p # ss) \<Longrightarrow> servers_wf ss"
  by (simp add: servers_wf_def)

lemma collectPorts_wf: "gm_wf found \<Longrightarrow> gm_wf (collectPorts L ss found)"
  by (induction L ss found rule: collectPorts.induct) auto

lemma collectPorts_other:
  "(\<And>p. p \<in> set ss \<Longrightarrow> ps_string L p = k \<Longrightarrow> ps_Port p = 0) \<Longrightarrow>
   gm_get (collectPorts L ss found) k = gm_get found k"
  by (induction L ss found rule: collectPorts.induct) auto

context lib_laws begin

lemma ps_string_eq:
  assumes "CHR ''/'' \<notin> set (ps_Namespace p)" and "CHR ''/'' \<notin> set (ps_Namespace q)"
  shows "ps_string L p = ps_string L q \<longleftrightarrow> ps_key p = ps_key q"
  using NamespacedName_inj [OF assms, of "ps_Name p" "ps_Name q"] by (auto simp: ps_key_def)

lemma collectPorts_get:
  assumes "servers_wf ss" and "p \<in> set ss" and "ps_Port p \<noteq> 0"
  shows "gm_get (collectPorts L ss found) (ps_string L p) = Some (ps_Port p)"
  using assms
proof (induction ss arbitrary: found)
  case (Cons q ss)
  show ?case
  proof (cases "p = q")
    case True
    have ne: "ps_string L r \<noteq> ps_string L p" if "r \<in> set ss" for r
    proof -
      from Cons.prems(1) True that have "ps_key r \<noteq> ps_key p"
        by (auto simp: servers_wf_def image_iff)
      moreover from Cons.prems(1,2) that have "CHR ''/'' \<notin> set (ps_Namespace r)"
        "CHR ''/'' \<notin> set (ps_Namespace p)" by (auto simp: servers_wf_def)
      ultimately show ?thesis by (simp add: ps_string_eq)
    qed
    have "gm_get (collectPorts L ss (gm_put (ps_string L p) (ps_Port p) found)) (ps_string L p)
        = gm_get (gm_put (ps_string L p) (ps_Port p) found) (ps_string L p)"
      by (rule collectPorts_other) (use ne in blast)
    with True Cons.prems(3) show ?thesis by simp
  next
    case False
    with Cons servers_wf_ConsD show ?thesis by fastforce
  qed
qed simp

lemma existing_ports_get:
  assumes "servers_wf ss" and "CHR ''/'' \<notin> set (ps_Namespace r)"
  shows "gm_get (existing_ports L ss) (ps_string L r) = Some c \<longleftrightarrow>
     (\<exists>p \<in> set ss. ps_key p = ps_key r \<and> ps_Port p = c \<and> c \<noteq> 0)"
proof (cases "\<exists>p \<in> set ss. ps_key p = ps_key r \<and> ps_Port p \<noteq> 0")
  case True
  then obtain p where p: "p \<in> set ss" "ps_key p = ps_key r" "ps_Port p \<noteq> 0" by blast
  from p(2) have "ps_string L p = ps_string L r" by (simp add: ps_key_def)
  with collectPorts_get [OF assms(1) p(1,3), of gm_empty]
  have g: "gm_get (existing_ports L ss) (ps_string L r) = Some (ps_Port p)" by simp
  from assms(1) have inj: "inj_on ps_key (set ss)"
    by (simp add: servers_wf_def distinct_map)
  have uniq: "q = p" if "q \<in> set ss" "ps_key q = ps_key r" for q
    using inj_onD [OF inj, of q p] that p by simp
  have "(\<exists>q \<in> set ss. ps_key q = ps_key r \<and> ps_Port q = c \<and> c \<noteq> 0) \<longleftrightarrow> c = ps_Port p"
    using p uniq by blast
  with g show ?thesis by auto
next
  case False
  have "ps_Port p = 0" if "p \<in> set ss" "ps_string L p = ps_string L r" for p
    using that False assms by (auto simp: servers_wf_def ps_string_eq)
  then have "gm_get (existing_ports L ss) (ps_string L r) = None"
    by (simp add: collectPorts_other)
  with False show ?thesis by auto
qed

lemma existing_ports_found:
  assumes "servers_wf ss"
  shows "port_found (existing_ports L ss) c \<longleftrightarrow> (\<exists>p \<in> set ss. ps_Port p = c \<and> c \<noteq> 0)"
proof
  assume "port_found (existing_ports L ss) c"
  then obtain k where "(k, c) \<in> set (gm_items (existing_ports L ss))"
    by (auto simp: port_found_def list_ex_iff)
  then have k: "gm_get (existing_ports L ss) k = Some c"
    using gm_wf_get_iff [OF collectPorts_wf [of gm_empty L ss]] by simp
  then obtain p where p: "p \<in> set ss" "ps_string L p = k" "ps_Port p \<noteq> 0"
    using collectPorts_other [of ss L k gm_empty] by fastforce
  with collectPorts_get [OF assms p(1,3), of gm_empty] k
  show "\<exists>p \<in> set ss. ps_Port p = c \<and> c \<noteq> 0" by auto
next
  assume "\<exists>p \<in> set ss. ps_Port p = c \<and> c \<noteq> 0"
  then obtain p where "p \<in> set ss" "ps_Port p = c" "c \<noteq> 0" by blast
  with collectPorts_get [OF assms, of p gm_empty]
  show "port_found (existing_ports L ss) c"
    by (auto simp: port_found_def list_ex_iff dest: gm_get_SomeD)
qed

lemma existing_ports_own:
  assumes "servers_wf ss" and "CHR ''/'' \<notin> set (ps_Namespace r)"
    and "\<And>p. p \<in> set ss \<Longrightarrow> ps_key p = ps_key r \<Longrightarrow> ps_Port p = 0"
  shows "port_of (existing_ports L ss) (ps_string L r) = 0"
  using assms existing_ports_get [OF assms(1,2)] by (auto simp: port_of_def split: option.splits)

text \<open>The validator accepts a port exactly when it is set and no other server has it.\<close>

lemma validateCr_iff:
  assumes "List_ps cl w = Ok ss" and "servers_wf ss" and "CHR ''/'' \<notin> set (ps_Namespace r)"
  shows "validateCr L cl w r = Ok () \<longleftrightarrow>
     ps_Port r \<noteq> 0 \<and> (\<forall>p \<in> set ss. ps_key p \<noteq> ps_key r \<longrightarrow> ps_Port p \<noteq> ps_Port r)"
proof -
  let ?ex = "existing_ports L ss"
  have "(\<exists>k. (k, ps_Port r) \<in> set (gm_items ?ex) \<and> k \<noteq> ps_string L r) \<longleftrightarrow>
     (\<exists>p \<in> set ss. ps_key p \<noteq> ps_key r \<and> ps_Port p = ps_Port r)" if "ps_Port r \<noteq> 0"
  proof
    assume "\<exists>k. (k, ps_Port r) \<in> set (gm_items ?ex) \<and> k \<noteq> ps_string L r"
    then obtain k where k: "gm_get ?ex k = Some (ps_Port r)" "k \<noteq> ps_string L r"
      using gm_wf_get_iff [OF collectPorts_wf [of gm_empty L ss]] by auto
    then obtain p where p: "p \<in> set ss" "ps_string L p = k" "ps_Port p \<noteq> 0"
      using collectPorts_other [of ss L k gm_empty] by fastforce
    with collectPorts_get [OF assms(2) p(1,3), of gm_empty] k(1)
    have "ps_Port p = ps_Port r" by simp
    moreover from p(2) k(2) have "ps_key p \<noteq> ps_key r" by (auto simp: ps_key_def)
    ultimately show "\<exists>p \<in> set ss. ps_key p \<noteq> ps_key r \<and> ps_Port p = ps_Port r"
      using p(1) by blast
  next
    assume "\<exists>p \<in> set ss. ps_key p \<noteq> ps_key r \<and> ps_Port p = ps_Port r"
    then obtain p where p: "p \<in> set ss" "ps_key p \<noteq> ps_key r" "ps_Port p = ps_Port r" by blast
    from p(1) assms(2) have "CHR ''/'' \<notin> set (ps_Namespace p)" by (auto simp: servers_wf_def)
    with p(2) assms(3) have "ps_string L p \<noteq> ps_string L r" by (simp add: ps_string_eq)
    moreover from collectPorts_get [OF assms(2) p(1), of gm_empty] p(3) that
    have "(ps_string L p, ps_Port r) \<in> set (gm_items ?ex)" by (auto dest: gm_get_SomeD)
    ultimately show "\<exists>k. (k, ps_Port r) \<in> set (gm_items ?ex) \<and> k \<noteq> ps_string L r" by blast
  qed
  moreover have "find (\<lambda>(name, port). port = ps_Port r \<and> name \<noteq> ps_string L r) (gm_items ?ex) = None
      \<longleftrightarrow> \<not> (\<exists>k. (k, ps_Port r) \<in> set (gm_items ?ex) \<and> k \<noteq> ps_string L r)"
    by (auto simp: find_None_iff)
  moreover have "validateCr L cl w r = Ok () \<longleftrightarrow> ps_Port r \<noteq> 0 \<and>
      find (\<lambda>(name, port). port = ps_Port r \<and> name \<noteq> ps_string L r) (gm_items ?ex) = None"
    using assms(1)
    by (simp add: validateCr_def GetExistingProvServerPorts_def split: option.split)
  ultimately show ?thesis by (cases "ps_Port r = 0") auto
qed

text \<open>Assignment for a server that has no port yet, and for one that has.\<close>

lemma assign_fresh:
  assumes "List_ps cl w = Ok ss" and "servers_wf ss" and "CHR ''/'' \<notin> set (ps_Namespace r)"
    and "0 < lo" and "lo \<le> hi" and "hi < 2 ^ 31 - 1"
    and "\<And>p. p \<in> set ss \<Longrightarrow> ps_key p = ps_key r \<Longrightarrow> ps_Port p = 0"
  shows "(\<exists>c. AssignProvisionServerPort L cl w r lo hi = Ok (set_ps_Port c r)
            \<and> lo \<le> c \<and> c \<le> hi \<and> (\<forall>p \<in> set ss. ps_Port p \<noteq> c)
            \<and> (\<forall>q. lo \<le> q \<and> q < c \<longrightarrow> (\<exists>p \<in> set ss. ps_Port p = q)))
       \<or> (AssignProvisionServerPort L cl w r lo hi = Err (ErrPortOutOfRange (hi + 1) lo hi)
            \<and> (\<forall>q. lo \<le> q \<and> q \<le> hi \<longrightarrow> (\<exists>p \<in> set ss. ps_Port p = q)))"
proof -
  let ?ex = "existing_ports L ss" and ?self = "ps_string L r"
  have own: "port_of ?ex ?self = 0" using assms by (intro existing_ports_own) auto
  have found: "port_found ?ex q \<longleftrightarrow> (\<exists>p \<in> set ss. ps_Port p = q)" if "lo \<le> q" for q
    using that assms(4) existing_ports_found [OF assms(2), of q] by auto
  have eq: "AssignProvisionServerPort L cl w r lo hi =
     (case portLoop ?ex ?self hi lo of
        None \<Rightarrow> Panic ''AssignProvisionServerPort does not return''
      | Some (Inl c) \<Rightarrow> Err (ErrPortOutOfRange c lo hi)
      | Some (Inr c) \<Rightarrow> Ok (set_ps_Port c r))"
    using assms(1) own by (simp add: AssignProvisionServerPort_def GetExistingProvServerPorts_def)
  from pal.alloc_fresh [OF own assms(4,6,5)] show ?thesis
  proof (elim disjE exE conjE)
    fix c assume "portLoop ?ex ?self hi lo = Some (Inr c)" and "lo \<le> c" "c \<le> hi"
      and "\<not> port_found ?ex c" and "\<forall>q. lo \<le> q \<and> q < c \<longrightarrow> port_found ?ex q"
    with found show ?thesis unfolding eq by (intro disjI1 exI [of _ c]) auto
  next
    assume "portLoop ?ex ?self hi lo = Some (Inl (hi + 1))"
      and "\<forall>q. lo \<le> q \<and> q \<le> hi \<longrightarrow> port_found ?ex q"
    with found show ?thesis unfolding eq by (intro disjI2) auto
  qed
qed

lemma assign_keeps:
  assumes "List_ps cl w = Ok ss" and "servers_wf ss" and "p \<in> set ss"
    and "ps_key p = ps_key r" and "ps_Port p \<noteq> 0"
  shows "AssignProvisionServerPort L cl w r lo hi =
     (if ps_Port p \<le> hi then Ok (set_ps_Port (ps_Port p) r)
      else Err (ErrPortOutOfRange (ps_Port p) lo hi))"
proof -
  from assms(4) have "ps_string L p = ps_string L r" by (simp add: ps_key_def)
  with collectPorts_get [OF assms(2,3,5), of gm_empty]
  have own: "port_of (existing_ports L ss) (ps_string L r) = ps_Port p" by (simp add: port_of_def)
  with pal.alloc_own [OF own assms(5), of hi] assms(1,5) show ?thesis
    by (simp add: AssignProvisionServerPort_def GetExistingProvServerPorts_def Let_def)
qed

end

section \<open>Defaulting\<close>

text \<open>A field that is set stays as it is; an empty one takes the default.\<close>

definition or_default :: "string \<Rightarrow> string \<Rightarrow> string" where
  "or_default s d = (if s = [] then d else s)"

lemma default_images_eq:
  "default_images d s = s\<lparr>
     pss_OSContainerImageURL := or_default (pss_OSContainerImageURL s) (psd_OSContainerImageURL d),
     pss_AgentImageURL := or_default (pss_AgentImageURL s) (psd_AgentImageURL d),
     pss_ApacheImageURL := or_default (pss_ApacheImageURL s) (psd_ApacheImageURL d),
     pss_OSImage := or_default (pss_OSImage s) (psd_OSImage d)\<rparr>"
  by (cases s) (simp add: default_images_def Let_def or_default_def)

lemma or_default_idem [simp]: "or_default (or_default s d) d = or_default s d"
  by (simp add: or_default_def)

lemma default_images_Port [simp]: "pss_Port (default_images d s) = pss_Port s"
  by (simp add: default_images_eq)

lemma default_images_idem [simp]: "default_images d (default_images d s) = default_images d s"
  by (simp add: default_images_eq)

lemma AssignProvisionServerPort_key:
  "AssignProvisionServerPort L cl w r lo hi = Ok r' \<Longrightarrow> \<exists>c. r' = set_ps_Port c r"
  by (auto simp: AssignProvisionServerPort_def Let_def split: outcome.splits option.splits sum.splits)

lemma set_ps_Port_self: "set_ps_Port (ps_Port r) r = r"
  by (simp add: set_ps_Port_def)

text \<open>Defaulting changes nothing but the four images and the port, and a port that is set stays.\<close>

lemma Default_ps_shape:
  assumes "Default_ps L d cl w r = Ok r'"
  shows "\<exists>c. r' = set_ps_Port c (r\<lparr>ps_Spec := default_images d (ps_Spec r)\<rparr>)
     \<and> (ps_Port r \<noteq> 0 \<longrightarrow> c = ps_Port r)"
proof -
  let ?r = "r\<lparr>ps_Spec := default_images d (ps_Spec r)\<rparr>"
  have same: "set_ps_Port (ps_Port ?r) ?r = ?r" by (rule set_ps_Port_self)
  show ?thesis
  proof (cases "ps_Port r = 0")
    case True
    with assms have "r' = ?r \<or> AssignProvisionServerPort L cl w ?r
        ProvisionServerPortStart ProvisionServerPortEnd = Ok r'"
      by (auto simp: Default_ps_def Let_def split: outcome.splits)
    with same True AssignProvisionServerPort_key show ?thesis by metis
  next
    case False
    with assms have "r' = ?r" by (simp add: Default_ps_def Let_def)
    with same False show ?thesis by (intro exI [of _ "ps_Port r"]) simp
  qed
qed

lemma Default_ps_key: "Default_ps L d cl w r = Ok r' \<Longrightarrow> ps_key r' = ps_key r"
  by (auto simp: ps_key_def dest!: Default_ps_shape)

end
