(* ===== verification/SetController.thy ===== *)
theory SetController
  imports Conditions HostProvision PortAssign
begin

text \<open>
  The controller of \<open>OpenStackBaremetalSet\<close>
  (\<^verbatim>\<open>internal/controller/openstackbaremetalset_controller.go\<close>).

  A method of the reconciler is a function on \<open>'w set_state\<close>: the instance in memory, the cluster
  and the environment variables. \<open>ctrl.Result\<close> is the number of seconds of \<open>RequeueAfter\<close>, zero for
  the empty result; \<open>(ctrl.Result, error)\<close> is a \<open>nat result\<close>. The body of \<open>reconcileNormal\<close> is cut
  at its early returns into the parts that \<open>flow_then\<close> composes; each part is the code between two
  comments of the source. \<open>Reconcile\<close> runs the body, then the deferred function.
\<close>

section \<open>Events\<close>

text \<open>The request that a watched bare metal host causes, and the filter on its events.\<close>

definition IsReady_set :: "cond_ops \<Rightarrow> OpenStackBaremetalSet \<Rightarrow> bool" where
  "IsReady_set C inst = cond_IsTrue C (set_conds inst) ReadyCondition"

definition bmhToRequests :: "lib \<Rightarrow> BareMetalHost \<Rightarrow> (string \<times> string) list" where
  "bmhToRequests L obj =
     (let groupLabel = GetGroupLabel L ServiceName; label = bmh_Labels obj
      in case gm_get label (GetOwnerUIDLabelSelector L groupLabel) of
           Some uid \<Rightarrow> [(label_of label (GetOwnerNameSpaceLabelSelector L groupLabel),
                         label_of label (GetOwnerNameLabelSelector L groupLabel))]
         | None \<Rightarrow> [])"

datatype watch_event =
    UpdateEvent "BareMetalHost option" "BareMetalHost option"
  | CreateEvent
  | DeleteEvent
  | GenericEvent

definition statusChangePredicate :: "watch_event \<Rightarrow> bool" where
  "statusChangePredicate e =
     (case e of
        UpdateEvent (Some oldObj) (Some newObj) \<Rightarrow> bmh_Status oldObj \<noteq> bmh_Status newObj
      | UpdateEvent _ _ \<Rightarrow> False
      | CreateEvent \<Rightarrow> False
      | DeleteEvent \<Rightarrow> True
      | GenericEvent \<Rightarrow> False)"

section \<open>Provision servers of a set\<close>

definition provisionServerName :: "OpenStackBaremetalSet \<Rightarrow> string" where
  "provisionServerName inst = set_Name inst @ ''-provisionserver''"

definition provisionServerObject :: "OpenStackBaremetalSet \<Rightarrow> OpenStackProvisionServer" where
  "provisionServerObject inst =
     zero_ProvisionServer\<lparr>ps_Meta := zero_ObjectMeta\<lparr>om_Name := provisionServerName inst,
                                                    om_Namespace := set_Namespace inst\<rparr>\<rparr>"

definition provisionServerMutate ::
  "lib \<Rightarrow> 'w client \<Rightarrow> 'w \<Rightarrow> OpenStackBaremetalSet \<Rightarrow> OpenStackProvisionServer \<Rightarrow>
   OpenStackProvisionServer result" where
  "provisionServerMutate L cl w inst ps =
     (case AssignProvisionServerPort L cl w ps ProvisionServerPortStart ProvisionServerPortEnd of
        Err e \<Rightarrow> Err e
      | Panic m \<Rightarrow> Panic m
      | Ok ps \<Rightarrow>
          SetControllerReference_ps cl inst
            (ps\<lparr>ps_Spec := (ps_Spec ps)\<lparr>
                  pss_OSImage := ts_OSImage (set_Spec inst),
                  pss_OSContainerImageURL := ts_OSContainerImageURL (set_Spec inst),
                  pss_ApacheImageURL := ts_ApacheImageURL (set_Spec inst),
                  pss_AgentImageURL := ts_AgentImageURL (set_Spec inst),
                  pss_NodeSelector := ts_ProvisonServerNodeSelector (set_Spec inst),
                  pss_Interface := ts_ProvisioningInterface (set_Spec inst)\<rparr>\<rparr>))"

definition provisionServerCreateOrUpdate ::
  "lib \<Rightarrow> 'w client \<Rightarrow> 'w set_state \<Rightarrow> OpenStackProvisionServer result \<times> 'w set_state" where
  "provisionServerCreateOrUpdate L cl s =
     (case s of (inst, w, env) \<Rightarrow>
        case CreateOrPatch_ps cl w (provisionServerObject inst) (provisionServerMutate L cl w inst) of
          (r, w') \<Rightarrow> (r, inst, w', env))"

definition provisionServerDelete ::
  "'w client \<Rightarrow> 'w set_state \<Rightarrow> unit result \<times> 'w set_state" where
  "provisionServerDelete cl s =
     (case s of (inst, w, env) \<Rightarrow>
        case Delete_ps cl w (provisionServerObject inst) of
          (Ok _, w') \<Rightarrow> (Ok (), inst, w', env)
        | (Err e, w') \<Rightarrow> (if IsNotFound e then Ok () else Err e, inst, w', env)
        | (Panic m, w') \<Rightarrow> (Panic m, inst, w', env))"

section \<open>Bare metal hosts of a set\<close>

definition ownershipLabelKey :: "OpenStackBaremetalSet \<Rightarrow> string" where
  "ownershipLabelKey inst = set_Name inst @ HostnameLabelSelectorSuffix"

definition status_host :: "OpenStackBaremetalSet \<Rightarrow> string \<Rightarrow> HostStatus" where
  "status_host inst h =
     (case gm_get (status_hosts inst) h of None \<Rightarrow> zero_HostStatus | Some st \<Rightarrow> st)"

definition hostNamesToDeprovision ::
  "OpenStackBaremetalSet \<Rightarrow> BareMetalHost list \<Rightarrow> string list" where
  "hostNamesToDeprovision inst existing =
     concat (map (\<lambda>b. let name = label_of (bmh_Labels b) (ownershipLabelKey inst)
                      in if list_ex (\<lambda>hostName. name = hostName) (gm_keys (spec_hosts inst))
                         then [] else [name]) existing)"

fun deprovisionHosts ::
  "lib \<Rightarrow> 'w client \<Rightarrow> string list \<Rightarrow> OpenStackBaremetalSet \<times> 'w \<Rightarrow>
   unit result \<times> OpenStackBaremetalSet \<times> 'w" where
  "deprovisionHosts L cl [] s = (Ok (), s)"
| "deprovisionHosts L cl (hostName # rest) s =
     and_then (BaremetalHostDeprovision L cl s (status_host (fst s) hostName))
       (\<lambda>_. deprovisionHosts L cl rest)"

definition deleteBmh ::
  "lib \<Rightarrow> 'w client \<Rightarrow> labels \<Rightarrow> OpenStackBaremetalSet \<times> 'w \<Rightarrow>
   unit result \<times> OpenStackBaremetalSet \<times> 'w" where
  "deleteBmh L cl labels s =
     (case s of (inst, w) \<Rightarrow>
        and_then (GetBaremetalHosts cl w (ts_BmhNamespace (set_Spec inst)) labels, s)
          (\<lambda>existing s. deprovisionHosts L cl (hostNamesToDeprovision inst existing) s))"

fun existingHosts ::
  "string \<Rightarrow> BareMetalHost list \<Rightarrow> (string, BareMetalHost) gomap \<Rightarrow> (string, BareMetalHost) gomap" where
  "existingHosts key [] m = m"
| "existingHosts key (bmh # rest) m =
     existingHosts key rest
       (case gm_get (bmh_Labels bmh) key of Some hostName \<Rightarrow> gm_put hostName bmh m | None \<Rightarrow> m)"

definition buildExistingHostBMHMap ::
  "OpenStackBaremetalSet \<Rightarrow> BareMetalHost list \<Rightarrow> (string, BareMetalHost) gomap" where
  "buildExistingHostBMHMap inst existing = existingHosts (ownershipLabelKey inst) existing gm_empty"

fun provisionHosts ::
  "lib \<Rightarrow> 'w client \<Rightarrow> OpenStackProvisionServer \<Rightarrow> Secret \<Rightarrow> Secret option \<Rightarrow>
   (string \<times> BareMetalHost) list \<Rightarrow> 'w set_state \<Rightarrow> unit result \<times> 'w set_state" where
  "provisionHosts L cl ps ssh pw [] s = (Ok (), s)"
| "provisionHosts L cl ps ssh pw ((desiredHostName, bmh) # rest) s =
     and_then (BaremetalHostProvision L cl s (bmh_Name bmh) desiredHostName
                 (is_CtlPlaneIP (spec_host (fst s) desiredHostName)) ps ssh pw)
       (\<lambda>_. provisionHosts L cl ps ssh pw rest)"

definition ensureBaremetalHosts ::
  "lib \<Rightarrow> 'w client \<Rightarrow> OpenStackProvisionServer \<Rightarrow> Secret \<Rightarrow> Secret option \<Rightarrow> labels \<Rightarrow>
   'w set_state \<Rightarrow> unit result \<times> 'w set_state" where
  "ensureBaremetalHosts L cl ps ssh pw bmhLabels s =
     (case s of (inst, w, env) \<Rightarrow>
        let ns = ts_BmhNamespace (set_Spec inst)
        in and_then (GetBaremetalHosts cl w ns (ts_BmhLabelSelector (set_Spec inst)), s) (\<lambda>all s.
           and_then (GetBaremetalHosts cl w ns bmhLabels, s) (\<lambda>existing s.
           and_then (VerifyBaremetalSetScaleUp inst all existing, s) (\<lambda>selected s.
           provisionHosts L cl ps ssh pw
             (gm_items (MergeMaps L selected (buildExistingHostBMHMap inst existing))) s))))"

text \<open>The loop ranges over the status map while deprovisioning deletes entries from it: an entry that
  is gone when its turn comes is not visited.\<close>

fun cleanupHosts ::
  "lib \<Rightarrow> 'w client \<Rightarrow> string list \<Rightarrow> OpenStackBaremetalSet \<times> 'w \<Rightarrow>
   unit result \<times> OpenStackBaremetalSet \<times> 'w" where
  "cleanupHosts L cl [] s = (Ok (), s)"
| "cleanupHosts L cl (h # rest) s =
     (case gm_get (status_hosts (fst s)) h of
        None \<Rightarrow> cleanupHosts L cl rest s
      | Some bmh \<Rightarrow>
          and_then (BaremetalHostDeprovision L cl s bmh) (\<lambda>_. cleanupHosts L cl rest))"

definition baremetalHostCleanup ::
  "lib \<Rightarrow> 'w client \<Rightarrow> OpenStackBaremetalSet \<times> 'w \<Rightarrow> unit result \<times> OpenStackBaremetalSet \<times> 'w" where
  "baremetalHostCleanup L cl s =
     (if status_hosts (fst s) \<noteq> None then cleanupHosts L cl (gm_keys (status_hosts (fst s))) s
      else (Ok (), s))"

section \<open>Reconciliation\<close>

definition with_env ::
  "env_vars \<Rightarrow> 'a result \<times> OpenStackBaremetalSet \<times> 'w \<Rightarrow> 'a result \<times> 'w set_state" where
  "with_env env r = (case r of (x, inst, w) \<Rightarrow> (x, inst, w, env))"

definition reconcileDelete_set ::
  "lib \<Rightarrow> 'w client \<Rightarrow> 'w set_state \<Rightarrow> nat result \<times> 'w set_state" where
  "reconcileDelete_set L cl s =
     (case s of (inst, w, env) \<Rightarrow>
        case baremetalHostCleanup L cl (inst, w) of
          (r, inst', w') \<Rightarrow>
            (let removed = inst'\<lparr>set_Meta := RemoveFinalizer L (set_Meta inst')
                                               (GetFinalizer L (set_Meta inst'))\<rparr>
             in case r of
                  Ok _ \<Rightarrow> (Ok 0, removed, w', env)
                | Err e \<Rightarrow> if \<not> IsNotFound e then (Err e, inst', w', env) else (Ok 0, removed, w', env)
                | Panic m \<Rightarrow> (Panic m, inst', w', env)))"

definition reconcileInit_set :: "'w set_state \<Rightarrow> nat result" where
  "reconcileInit_set s = Ok 0"

definition reconcileUpdate_set :: "'w set_state \<Rightarrow> nat result" where
  "reconcileUpdate_set s = Ok 0"

definition reconcileUpgrade_set :: "'w set_state \<Rightarrow> nat result" where
  "reconcileUpgrade_set s = Ok 0"

definition on_inst :: "(OpenStackBaremetalSet \<Rightarrow> OpenStackBaremetalSet) \<Rightarrow> 'w set_state \<Rightarrow> 'w set_state" where
  "on_inst f s = (case s of (inst, w, env) \<Rightarrow> (f inst, w, env))"

text \<open>A required secret: a missing one is waited for, another error is returned.\<close>

definition requiredSecret ::
  "lib \<Rightarrow> cond_ops \<Rightarrow> 'w client \<Rightarrow> string \<Rightarrow> string \<Rightarrow> 'w set_state \<Rightarrow>
   (nat result, Secret) flow \<times> 'w set_state" where
  "requiredSecret L C cl name ns s =
     (case s of (inst, w, env) \<Rightarrow>
        case GetSecret cl w name ns of
          Panic m \<Rightarrow> (Return (Panic m), s)
        | Err e \<Rightarrow>
            if IsNotFound e
            then (Return (Ok 10),
                  on_inst (upd_conds (set_error C InputReadyCondition
                                        (cond_text C ''InputReadyWaitingMessage''))) s)
            else (Return (Err e),
                  on_inst (upd_conds (set_error C InputReadyCondition
                                        (cond_textf C ''InputReadyErrorMessage'' (Error_text L e)))) s)
        | Ok (secret, hash) \<Rightarrow> (Continue secret, inst, w, gm_put (sec_Name secret) hash env))"

definition inputPhase ::
  "lib \<Rightarrow> cond_ops \<Rightarrow> 'w client \<Rightarrow> 'w set_state \<Rightarrow>
   (nat result, Secret \<times> Secret option) flow \<times> 'w set_state" where
  "inputPhase L C cl s =
     (let inst = fst s
      in flow_then (requiredSecret L C cl (ts_DeploymentSSHSecret (set_Spec inst)) (set_Namespace inst) s)
           (\<lambda>sshSecret s.
             let s = on_inst (upd_conds (\<lambda>cs. cond_MarkTrue C cs InputReadyCondition
                                                (cond_text C ''InputReadyMessage''))) s
             in case ts_PasswordSecret (set_Spec inst) of
                  None \<Rightarrow> (Continue (sshSecret, None), s)
                | Some ref \<Rightarrow>
                    flow_then (requiredSecret L C cl (sr_Name ref) (sr_Namespace ref) s)
                      (\<lambda>passwordSecret s. (Continue (sshSecret, Some passwordSecret), s))))"

definition acquireProvServer ::
  "lib \<Rightarrow> 'w client \<Rightarrow> 'w set_state \<Rightarrow> OpenStackProvisionServer result \<times> 'w set_state" where
  "acquireProvServer L cl s =
     (case s of (inst, w, env) \<Rightarrow>
        if ts_ProvisionServerName (set_Spec inst) = [] then provisionServerCreateOrUpdate L cl s
        else and_then (if ts_ProvisionServerName (set_Spec inst) \<noteq> provisionServerName inst
                       then provisionServerDelete cl s else (Ok (), s))
               (\<lambda>_ (inst, w, env).
                  (Get_ps cl w (ts_ProvisionServerName (set_Spec inst)) (set_Namespace inst), inst, w, env)))"

definition provServerPhase ::
  "lib \<Rightarrow> cond_ops \<Rightarrow> 'w client \<Rightarrow> 'w set_state \<Rightarrow>
   (nat result, OpenStackProvisionServer) flow \<times> 'w set_state" where
  "provServerPhase L C cl s =
     (let ready = OpenStackBaremetalSetProvServerReadyCondition
      in if ts_OSImageDeploymentType (set_Spec (fst s)) = OSImageDeploymentTypeSelfExtracting then
        (case acquireProvServer L cl s of
           (Panic m, s) \<Rightarrow> (Return (Panic m), s)
         | (Err e, s) \<Rightarrow>
             if IsNotFound e
             then (Return (Ok 10),
                   on_inst (upd_conds (set_error C ready
                                         OpenStackBaremetalSetProvServerReadyWaitingMessage)) s)
             else (Return (Err e),
                   on_inst (upd_conds (set_error C ready
                     (OpenStackBaremetalSetProvServerReadyErrorMessage (Error_text L e)))) s)
         | (Ok ps, s) \<Rightarrow>
             if pst_LocalImageURL (ps_Status ps) = []
             then (Return (Ok 30),
                   on_inst (upd_conds (set_requested C ready
                                         OpenStackBaremetalSetProvServerReadyRunningMessage)) s)
             else if pst_LocalImageChecksumURL (ps_Status ps) = []
             then (Return (Ok 5),
                   on_inst (upd_conds (set_requested C ready
                                         OpenStackBaremetalSetProvServerReadyRunningMessage)) s)
             else (Continue ps,
                   on_inst (upd_conds (\<lambda>cs. cond_MarkTrue C cs ready
                                         OpenStackBaremetalSetProvServerReadyMessage)) s))
      else if ts_OSContainerImageURL (set_Spec (fst s)) = []
      then (Return (Ok 10),
            on_inst (upd_conds (set_error C InputReadyCondition
                                  ''OSContainerImageURL is required for PassThrough mode'')) s)
      else (Continue zero_ProvisionServer,
            on_inst (upd_conds (\<lambda>cs. cond_MarkTrue C cs ready
                                  ''Provision server not needed for PassThrough mode'')) s))"

text \<open>Each step on the hosts records its error in the same condition.\<close>

definition hostStep ::
  "lib \<Rightarrow> cond_ops \<Rightarrow> unit result \<times> 'w set_state \<Rightarrow> (nat result, unit) flow \<times> 'w set_state" where
  "hostStep L C r =
     (case r of
        (Ok _, s) \<Rightarrow> (Continue (), s)
      | (Panic m, s) \<Rightarrow> (Return (Panic m), s)
      | (Err e, s) \<Rightarrow>
          (Return (Err e),
           on_inst (upd_conds (set_error C OpenStackBaremetalSetBmhProvisioningReadyCondition
             (OpenStackBaremetalSetBmhProvisioningReadyErrorMessage (Error_text L e)))) s))"

definition hostsPhase ::
  "lib \<Rightarrow> cond_ops \<Rightarrow> 'w client \<Rightarrow> OpenStackProvisionServer \<Rightarrow> Secret \<Rightarrow> Secret option \<Rightarrow>
   'w set_state \<Rightarrow> (nat result, unit) flow \<times> 'w set_state" where
  "hostsPhase L C cl ps ssh pw s =
     flow_then (case s of (inst, w, env) \<Rightarrow>
                  case VerifyAndSyncBaremetalStatusBmhRefs cl w inst of
                    (r, inst') \<Rightarrow> hostStep L C (r, inst', w, env)) (\<lambda>_ s.
     case s of (inst, w, env) \<Rightarrow>
     let bmhLabels = GetLabels L (set_Meta inst) (GetGroupLabel L ServiceName) gm_empty
     in flow_then (hostStep L C (with_env env (deleteBmh L cl bmhLabels (inst, w)))) (\<lambda>_ s.
     hostStep L C (ensureBaremetalHosts L cl ps ssh pw bmhLabels s)))"

definition finalPhase :: "cond_ops \<Rightarrow> 'w set_state \<Rightarrow> (nat result, nat result) flow \<times> 'w set_state" where
  "finalPhase C s =
     (if list_ex (\<lambda>(_, st). hs_ProvisioningState st \<noteq> StateProvisioned) (gm_items (status_hosts (fst s)))
      then (Return (Ok 0),
            on_inst (upd_conds (set_requested C OpenStackBaremetalSetBmhProvisioningReadyCondition
                                  OpenStackBaremetalSetBmhProvisioningReadyRunningMessage)) s)
      else (Continue (Ok 0),
            on_inst (upd_conds (\<lambda>cs.
              let cs = cond_MarkTrue C cs OpenStackBaremetalSetBmhProvisioningReadyCondition
                         OpenStackBaremetalSetBmhProvisioningReadyMessage
              in if cond_AllSubConditionIsTrue C cs
                 then cond_MarkTrue C cs ReadyCondition (cond_text C ''ReadyMessage'') else cs)) s))"

definition reconcileNormal_set ::
  "lib \<Rightarrow> cond_ops \<Rightarrow> 'w client \<Rightarrow> OpenStackBaremetalSet \<times> 'w \<Rightarrow> nat result \<times> 'w set_state" where
  "reconcileNormal_set L C cl s =
     (case s of (inst, w) \<Rightarrow>
        flow_end (flow_then (inputPhase L C cl (inst, w, gm_empty)) (\<lambda>(ssh, pw) s.
          flow_then (check_result (reconcileInit_set s) s) (\<lambda>_ s.
          flow_then (check_result (reconcileUpdate_set s) s) (\<lambda>_ s.
          flow_then (check_result (reconcileUpgrade_set s) s) (\<lambda>_ s.
          flow_then (provServerPhase L C cl s) (\<lambda>ps s.
          flow_then (hostsPhase L C cl ps ssh pw s) (\<lambda>_ s.
          finalPhase C s)))))))) "

definition initialConditions_set :: "cond_ops \<Rightarrow> Condition list" where
  "initialConditions_set C =
     [cond_UnknownCondition C ReadyCondition ''Init'' (cond_text C ''ReadyInitMessage''),
      cond_UnknownCondition C InputReadyCondition ''Init'' (cond_text C ''InputReadyInitMessage''),
      cond_UnknownCondition C OpenStackBaremetalSetProvServerReadyCondition ''Init''
        OpenStackBaremetalSetProvServerReadyInitMessage,
      cond_UnknownCondition C OpenStackBaremetalSetBmhProvisioningReadyCondition ''Init''
        OpenStackBaremetalSetBmhProvisioningReadyInitMessage]"

definition initStatus_set :: "cond_ops \<Rightarrow> OpenStackBaremetalSet \<Rightarrow> OpenStackBaremetalSet" where
  "initStatus_set C inst =
     (let inst = upd_conds (\<lambda>cs. cond_Init C cs (initialConditions_set C)) inst
      in inst\<lparr>set_Status := (set_Status inst)\<lparr>sst_ObservedGeneration := om_Generation (set_Meta inst)\<rparr>\<rparr>)"

text \<open>The first operand of the condition that adds the finalizer: whether it was added, and the
  instance afterwards. An instance that is being deleted is not touched.\<close>

definition ensureFinalizer_set ::
  "lib \<Rightarrow> OpenStackBaremetalSet \<Rightarrow> bool \<times> OpenStackBaremetalSet" where
  "ensureFinalizer_set L inst =
     (if om_Deleting (set_Meta inst) then (False, inst)
      else case AddFinalizer L (set_Meta inst) (GetFinalizer L (set_Meta inst)) of
             (added, meta) \<Rightarrow> (added, inst\<lparr>set_Meta := meta\<rparr>))"

definition makeMaps_set :: "OpenStackBaremetalSet \<Rightarrow> OpenStackBaremetalSet" where
  "makeMaps_set inst =
     (let inst = (if sst_Hash (set_Status inst) = None
                  then inst\<lparr>set_Status := (set_Status inst)\<lparr>sst_Hash := gm_empty\<rparr>\<rparr> else inst)
      in if status_hosts inst = None then set_status_hosts gm_empty inst else inst)"

text \<open>What \<open>Reconcile\<close> does between the registration of the deferred function and its end.\<close>

definition reconcileBody_set ::
  "lib \<Rightarrow> cond_ops \<Rightarrow> 'w client \<Rightarrow> OpenStackBaremetalSet \<times> 'w \<Rightarrow> nat result \<times> 'w set_state" where
  "reconcileBody_set L C cl s =
     (case s of (inst, w) \<Rightarrow>
        let isNewInstance = (sst_Conditions (set_Status inst) = None);
            (added, inst) = ensureFinalizer_set L (initStatus_set C inst)
        in if added \<or> isNewInstance then (Ok 0, inst, w, gm_empty)
           else let inst = makeMaps_set inst
                in if om_Deleting (set_Meta inst) then reconcileDelete_set L cl (inst, w, gm_empty)
                   else reconcileNormal_set L C cl (inst, w))"

definition deferred_set ::
  "cond_ops \<Rightarrow> 'w client \<Rightarrow> Conditions \<Rightarrow> nat result \<times> 'w set_state \<Rightarrow> nat result \<times> 'w" where
  "deferred_set C cl saved r =
     (case r of (res, inst, w, env) \<Rightarrow>
        case res of
          Panic m \<Rightarrow> (Err (ErrReconciliationPanic m), w)
        | _ \<Rightarrow>
            (case PatchInstance_set cl w (upd_conds (deferredConditions C saved) inst) of
               (Ok _, w') \<Rightarrow> (res, w')
             | (Err e, w') \<Rightarrow> (Err e, w')
             | (Panic m, w') \<Rightarrow> (Panic m, w')))"

definition Reconcile_set ::
  "lib \<Rightarrow> cond_ops \<Rightarrow> 'w client \<Rightarrow> 'w \<Rightarrow> string \<Rightarrow> string \<Rightarrow> nat result \<times> 'w" where
  "Reconcile_set L C cl w name namespace =
     (case Get_set cl w name namespace of
        Err e \<Rightarrow> (if IsNotFound e then Ok 0 else Err e, w)
      | Panic m \<Rightarrow> (Panic m, w)
      | Ok inst \<Rightarrow>
          if IsPaused L (set_Meta inst) \<and> \<not> om_Deleting (set_Meta inst) then (Ok 0, w)
          else case NewHelper_set cl w inst of
                 Err e \<Rightarrow> (Err e, w)
               | Panic m \<Rightarrow> (Panic m, w)
               | Ok _ \<Rightarrow> deferred_set C cl (set_conds inst) (reconcileBody_set L C cl (inst, w)))"

section \<open>What the parts keep\<close>

lemma on_inst_simps [simp]:
  "fst (on_inst f s) = f (fst s)" "on_inst f (i, w, env) = (f i, w, env)"
  by (cases s) (simp_all add: on_inst_def)

text \<open>\<open>frame\<close>: the specification and the metadata stay, and the status map stays made.\<close>

definition frame :: "OpenStackBaremetalSet \<Rightarrow> OpenStackBaremetalSet \<Rightarrow> bool" where
  "frame i j \<longleftrightarrow> set_Spec j = set_Spec i \<and> set_Meta j = set_Meta i \<and> set_Kind j = set_Kind i
     \<and> (status_hosts i \<noteq> None \<longrightarrow> status_hosts j \<noteq> None)"

lemma frame_refl [simp]: "frame i i"
  by (simp add: frame_def)

lemma frame_trans: "frame i j \<Longrightarrow> frame j k \<Longrightarrow> frame i k"
  by (simp add: frame_def)

lemma frame_upd_conds [simp]: "frame i (upd_conds f j) = frame i j"
  by (simp add: frame_def)

lemma gm_not_None [simp]:
  "gm_put k v m \<noteq> None" "gm_empty \<noteq> None" "gm_del k m = None \<longleftrightarrow> m = None"
  by (simp_all add: gm_put_def gm_empty_def gm_del_def)

lemma provision_frame:
  "frame (fst s) (fst (snd (BaremetalHostProvision L cl s bmh h ip ps ssh pw)))
   \<and> set_conds (fst (snd (BaremetalHostProvision L cl s bmh h ip ps ssh pw))) = set_conds (fst s)"
proof (cases "fst (BaremetalHostProvision L cl s bmh h ip ps ssh pw) = Ok ()")
  case True
  obtain inst w env where s: "s = (inst, w, env)" by (cases s)
  obtain r i' w' env' where b: "BaremetalHostProvision L cl (inst, w, env) bmh h ip ps ssh pw
      = (r, i', w', env')" by (metis surj_pair)
  with True s have "BaremetalHostProvision L cl (inst, w, env) bmh h ip ps ssh pw
      = (Ok (), i', w', env')" by simp
  then have "frame inst i' \<and> set_conds i' = set_conds inst"
    by (rule provision_Ok) (simp add: frame_def)
  with b s show ?thesis by simp
next
  case False
  then show ?thesis by (simp add: provision_not_Ok)
qed

lemma provisionHosts_frame:
  "frame (fst s) (fst (snd (provisionHosts L cl ps ssh pw xs s)))
   \<and> set_conds (fst (snd (provisionHosts L cl ps ssh pw xs s))) = set_conds (fst s)"
proof (induction xs arbitrary: s)
  case (Cons x xs)
  obtain h b where x: "x = (h, b)" by (cases x)
  let ?p = "BaremetalHostProvision L cl s (bmh_Name b) h (is_CtlPlaneIP (spec_host (fst s) h)) ps ssh pw"
  note pf = provision_frame [of s L cl "bmh_Name b" h "is_CtlPlaneIP (spec_host (fst s) h)" ps ssh pw]
  show ?case
  proof (cases "fst ?p")
    case (Ok u)
    with Cons [of "snd ?p"] pf frame_trans show ?thesis
      by (auto simp: x and_then_def)
  qed (use pf in \<open>simp_all add: x and_then_def\<close>)
qed simp

lemma deprovision_frame:
  "frame (fst s) (fst (snd (BaremetalHostDeprovision L cl s st)))
   \<and> set_conds (fst (snd (BaremetalHostDeprovision L cl s st))) = set_conds (fst s)"
proof -
  obtain inst w where s: "s = (inst, w)" by (cases s)
  obtain r i' w' where "BaremetalHostDeprovision L cl (inst, w) st = (r, i', w')" by (metis surj_pair)
  with deprovision_inst [OF this] s show ?thesis by (auto simp: frame_def simp del: not_None_eq)
qed

lemma deprovisionHosts_frame:
  "frame (fst s) (fst (snd (deprovisionHosts L cl hs s)))
   \<and> set_conds (fst (snd (deprovisionHosts L cl hs s))) = set_conds (fst s)"
proof (induction hs arbitrary: s)
  case (Cons h hs)
  let ?d = "BaremetalHostDeprovision L cl s (status_host (fst s) h)"
  note df = deprovision_frame [of s L cl "status_host (fst s) h"]
  show ?case
  proof (cases "fst ?d")
    case (Ok u)
    with Cons [of "snd ?d"] df frame_trans show ?thesis by (auto simp: and_then_def)
  qed (use df in \<open>simp_all add: and_then_def\<close>)
qed simp

lemma cleanupHosts_frame:
  "frame (fst s) (fst (snd (cleanupHosts L cl hs s)))
   \<and> set_conds (fst (snd (cleanupHosts L cl hs s))) = set_conds (fst s)"
proof (induction hs arbitrary: s)
  case (Cons h hs)
  show ?case
  proof (cases "gm_get (status_hosts (fst s)) h")
    case None
    with Cons show ?thesis by simp
  next
    case (Some st)
    note df = deprovision_frame [of s L cl st]
    show ?thesis
    proof (cases "fst (BaremetalHostDeprovision L cl s st)")
      case (Ok u)
      with Some Cons [of "snd (BaremetalHostDeprovision L cl s st)"] df frame_trans show ?thesis
        by (auto simp: and_then_def)
    qed (use Some df in \<open>simp_all add: and_then_def\<close>)
  qed
qed simp

lemma deleteBmh_frame:
  "frame (fst s) (fst (snd (deleteBmh L cl ls s)))
   \<and> set_conds (fst (snd (deleteBmh L cl ls s))) = set_conds (fst s)"
  using deprovisionHosts_frame [of s L cl]
  by (cases s) (auto simp: deleteBmh_def and_then_def split: outcome.splits)

lemma ensureBaremetalHosts_frame:
  "frame (fst s) (fst (snd (ensureBaremetalHosts L cl ps ssh pw ls s)))
   \<and> set_conds (fst (snd (ensureBaremetalHosts L cl ps ssh pw ls s))) = set_conds (fst s)"
  using provisionHosts_frame [of s L cl ps ssh pw]
  by (cases s) (auto simp: ensureBaremetalHosts_def Let_def and_then_def split: outcome.splits)

lemma cleanup_frame:
  "frame (fst s) (fst (snd (baremetalHostCleanup L cl s)))
   \<and> set_conds (fst (snd (baremetalHostCleanup L cl s))) = set_conds (fst s)"
  by (simp add: baremetalHostCleanup_def cleanupHosts_frame)

section \<open>The overall condition\<close>

text \<open>Every requested host has an entry in the status, and every entry is of a provisioned host.\<close>

definition all_provisioned :: "OpenStackBaremetalSet \<Rightarrow> bool" where
  "all_provisioned i \<longleftrightarrow>
     (\<forall>h \<in> set (gm_keys (spec_hosts i)). gm_get (status_hosts i) h \<noteq> None)
     \<and> (\<forall>(h, st) \<in> set (gm_items (status_hosts i)). hs_ProvisioningState st = StateProvisioned)"

text \<open>What the body promises of the instance it leaves: unless it is done, \<open>Ready\<close> is unknown and the
  condition of the hosts is not true.\<close>

definition body_open :: "OpenStackBaremetalSet \<Rightarrow> bool" where
  "body_open i \<longleftrightarrow> ready_unknown (set_conds i)
     \<and> (\<exists>st. cond_status (set_conds i) OpenStackBaremetalSetBmhProvisioningReadyCondition = Some st
             \<and> st \<noteq> CTrue)"

definition body_post :: "OpenStackBaremetalSet \<Rightarrow> bool" where
  "body_post i \<longleftrightarrow> body_open i \<or> (ready_sound (set_conds i) \<and> all_provisioned i
     \<and> cond_status (set_conds i) OpenStackBaremetalSetBmhProvisioningReadyCondition = Some CTrue)"

lemma flow_end_inv:
  "P (snd f) \<Longrightarrow> P (snd (flow_end f))"
  by (cases f; cases "fst f") auto

lemma sync_frame:
  "frame inst (snd (VerifyAndSyncBaremetalStatusBmhRefs cl w inst))
   \<and> set_conds (snd (VerifyAndSyncBaremetalStatusBmhRefs cl w inst)) = set_conds inst"
proof -
  have "syncRefs bmhs todo m = None \<longleftrightarrow> m = None" for bmhs todo m
    by (induction bmhs todo m rule: syncRefs.induct) (auto simp: Let_def)
  then show ?thesis
    by (auto simp: VerifyAndSyncBaremetalStatusBmhRefs_def frame_def simp del: not_None_eq
        split: outcome.split)
qed

context cond_laws begin

lemma body_open_upd:
  "body_open i \<Longrightarrow> t \<noteq> ReadyCondition \<Longrightarrow> body_open (upd_conds (set_error C t m) i)"
  "body_open i \<Longrightarrow> t \<noteq> ReadyCondition \<Longrightarrow> body_open (upd_conds (set_requested C t m) i)"
  "body_open i \<Longrightarrow> t \<noteq> ReadyCondition \<Longrightarrow> t \<noteq> OpenStackBaremetalSetBmhProvisioningReadyCondition \<Longrightarrow>
     body_open (upd_conds (\<lambda>cs. cond_MarkTrue C cs t m) i)"
  by (auto simp: body_open_def ready_unknown_def status_simps)

lemma body_open_conds: "set_conds j = set_conds i \<Longrightarrow> body_open j = body_open i"
  by (simp add: body_open_def)

lemma requiredSecret_open:
  "body_open (fst s) \<Longrightarrow> body_open (fst (snd (requiredSecret L C cl name ns s)))"
  by (cases s) (auto simp: requiredSecret_def body_open_upd split: outcome.splits)

lemma inputPhase_open:
  assumes "body_open (fst s)"
  shows "body_open (fst (snd (inputPhase L C cl s)))"
  unfolding inputPhase_def Let_def using assms
  by (intro flow_then_inv [of "\<lambda>s. body_open (fst s)"])
    (auto simp: requiredSecret_open body_open_upd split: option.split
      intro!: flow_then_inv [of "\<lambda>s. body_open (fst s)"])

lemma acquireProvServer_inst: "fst (snd (acquireProvServer L cl s)) = fst s"
  by (cases s) (auto simp: acquireProvServer_def provisionServerCreateOrUpdate_def
      provisionServerDelete_def and_then_def split: prod.splits outcome.splits)

lemma provServerPhase_open:
  assumes "body_open (fst s)"
  shows "body_open (fst (snd (provServerPhase L C cl s)))"
proof -
  obtain r s' where a: "acquireProvServer L cl s = (r, s')" by (cases "acquireProvServer L cl s")
  with acquireProvServer_inst [of L cl s] assms have "body_open (fst s')" by simp
  with a assms show ?thesis
    by (auto simp: provServerPhase_def Let_def body_open_upd split: outcome.split)
qed

lemma hostStep_open:
  assumes "body_open (fst (snd r))"
  shows "body_open (fst (snd (hostStep L C r)))"
  using assms by (cases r; cases "fst r") (auto simp: hostStep_def body_open_upd)

lemma hostsPhase_open:
  assumes "body_open (fst s)"
  shows "body_open (fst (snd (hostsPhase L C cl ps ssh pw s)))"
proof -
  obtain inst w env where s: "s = (inst, w, env)" by (cases s)
  have d: "body_open (fst (snd (with_env e (deleteBmh L cl ls (i, v)))))" if "body_open i" for i v e ls
    using that deleteBmh_frame [of "(i, v)" L cl ls]
    by (cases "deleteBmh L cl ls (i, v)") (simp add: with_env_def body_open_def)
  have e: "body_open (fst (snd (ensureBaremetalHosts L cl ps ssh pw ls t)))" if "body_open (fst t)" for ls t
    using that ensureBaremetalHosts_frame [of t L cl ps ssh pw ls] by (simp add: body_open_def)
  have v: "body_open (fst (snd (fst (VerifyAndSyncBaremetalStatusBmhRefs cl w inst),
      snd (VerifyAndSyncBaremetalStatusBmhRefs cl w inst), w, env)))"
    using assms s sync_frame [of inst cl w] by (simp add: body_open_def)
  show ?thesis
    unfolding hostsPhase_def Let_def s prod.case case_prod_beta
    by (intro flow_then_inv [of "\<lambda>s. body_open (fst s)"] hostStep_open d e) (use v in simp_all)
qed

end

lemma provisionHosts_covers:
  assumes "provisionHosts L cl ps ssh pw xs s = (Ok (), s')"
    and "h \<in> fst ` set xs \<or> gm_get (status_hosts (fst s)) h \<noteq> None"
  shows "gm_get (status_hosts (fst s')) h \<noteq> None"
  using assms
proof (induction xs arbitrary: s)
  case (Cons x xs)
  obtain g b where x: "x = (g, b)" by (cases x)
  obtain i w env where s: "s = (i, w, env)" by (cases s)
  from Cons.prems(1) x s obtain i1 w1 env1 where
    p: "BaremetalHostProvision L cl (i, w, env) (bmh_Name b) g (is_CtlPlaneIP (spec_host i g)) ps ssh pw
        = (Ok (), i1, w1, env1)"
    and rest: "provisionHosts L cl ps ssh pw xs (i1, w1, env1) = (Ok (), s')"
    by (auto simp: and_then_Ok_iff)
  from p have "gm_get (status_hosts i1) k = None \<longleftrightarrow> k \<noteq> g \<and> gm_get (status_hosts i) k = None" for k
    by (rule provision_Ok) simp
  with Cons.IH [OF rest] Cons.prems(2) x s show ?case by auto
qed simp

context lib_laws begin

lemma ensure_covers:
  assumes "gm_wf (spec_hosts (fst s))" and "ensureBaremetalHosts L cl ps ssh pw ls s = (Ok (), s')"
    and "h \<in> set (gm_keys (spec_hosts (fst s)))"
  shows "gm_get (status_hosts (fst s')) h \<noteq> None"
proof -
  obtain inst w env where s: "s = (inst, w, env)" by (cases s)
  from assms(2) s obtain all existing sel where
    sel: "VerifyBaremetalSetScaleUp inst all existing = Ok sel"
    and p: "provisionHosts L cl ps ssh pw
      (gm_items (MergeMaps L sel (buildExistingHostBMHMap inst existing))) (inst, w, env) = (Ok (), s')"
    by (auto simp: ensureBaremetalHosts_def Let_def and_then_Ok_iff)
  let ?m = "MergeMaps L sel (buildExistingHostBMHMap inst existing)"
  have "h \<in> fst ` set (gm_items ?m)" if "gm_get (status_hosts inst) h = None"
  proof -
    from that assms(3) s have "h \<in> set (gm_keys (newComputes inst))" by (simp add: newComputes_keys)
    with scaleUp_placement [OF _ sel] assms(1) s have "h \<in> dom (gm_get sel)"
      by (simp add: placement_def)
    then obtain b where "gm_get ?m h = Some b" by (auto simp: MergeMaps_get)
    then show ?thesis by (auto simp: gm_get_def dest!: map_of_SomeD intro: rev_image_eqI)
  qed
  then show ?thesis using provisionHosts_covers [OF p] by auto
qed

lemma hostsPhase_covers:
  assumes "gm_wf (spec_hosts (fst s))" and "hostsPhase L C cl ps ssh pw s = (Continue u, s')"
  shows "spec_hosts (fst s') = spec_hosts (fst s)
    \<and> (\<forall>h \<in> set (gm_keys (spec_hosts (fst s'))). gm_get (status_hosts (fst s')) h \<noteq> None)"
proof -
  have step: "hostStep L C r = (Continue v, t) \<longleftrightarrow> r = (Ok (), t)" for r v t
    by (cases r; cases "fst r") (auto simp: hostStep_def)
  obtain inst w env where s: "s = (inst, w, env)" by (cases s)
  from assms(2) s obtain i1 where
    v: "VerifyAndSyncBaremetalStatusBmhRefs cl w inst = (Ok (), i1)" and
    rest: "flow_then (hostStep L C (with_env env (deleteBmh L cl
        (GetLabels L (set_Meta i1) (GetGroupLabel L ServiceName) gm_empty) (i1, w))))
      (\<lambda>_ s. hostStep L C (ensureBaremetalHosts L cl ps ssh pw
        (GetLabels L (set_Meta i1) (GetGroupLabel L ServiceName) gm_empty) s)) = (Continue u, s')"
    by (auto simp: hostsPhase_def Let_def flow_then_Continue_iff step split: prod.splits)
  let ?ls = "GetLabels L (set_Meta i1) (GetGroupLabel L ServiceName) gm_empty"
  from rest obtain i2 w2 where d: "deleteBmh L cl ?ls (i1, w) = (Ok (), i2, w2)"
    and e: "ensureBaremetalHosts L cl ps ssh pw ?ls (i2, w2, env) = (Ok (), s')"
    by (auto simp: flow_then_Continue_iff step with_env_def split: prod.splits)
  have "set_Spec i1 = set_Spec inst"
    using v by (auto simp: VerifyAndSyncBaremetalStatusBmhRefs_def split: outcome.splits)
  moreover have "set_Spec i2 = set_Spec i1" using deleteBmh_frame [of "(i1, w)" L cl ?ls] d
    by (simp add: frame_def)
  moreover have "set_Spec (fst s') = set_Spec i2"
    using ensureBaremetalHosts_frame [of "(i2, w2, env)" L cl ps ssh pw ?ls] e by (simp add: frame_def)
  ultimately show ?thesis
    using assms(1) s ensure_covers [OF _ e] by simp
qed

end

text \<open>The laws of both packages together.\<close>

locale controller_laws = lib_laws L + cond_laws C for L C
begin

lemma finalPhase_post:
  assumes "body_open (fst s)"
    and "\<forall>h \<in> set (gm_keys (spec_hosts (fst s))). gm_get (status_hosts (fst s)) h \<noteq> None"
  shows "body_post (fst (snd (finalPhase C s)))"
proof (cases "list_ex (\<lambda>(_, st). hs_ProvisioningState st \<noteq> StateProvisioned)
    (gm_items (status_hosts (fst s)))")
  case True
  then show ?thesis using assms(1) by (simp add: finalPhase_def body_post_def body_open_upd)
next
  case False
  then have "all_provisioned (fst (snd (finalPhase C s)))"
    using assms(2) by (auto simp: finalPhase_def all_provisioned_def list_ex_iff)
  moreover have "ready_sound (set_conds (fst (snd (finalPhase C s))))"
    using assms(1) False AllSub_iff
    by (auto simp: finalPhase_def ready_sound_def Let_def status_MarkTrue body_open_def ready_unknown_def)
  moreover have "cond_status (set_conds (fst (snd (finalPhase C s))))
      OpenStackBaremetalSetBmhProvisioningReadyCondition = Some CTrue"
    using False by (simp add: finalPhase_def Let_def status_MarkTrue)
  ultimately show ?thesis by (simp add: body_post_def)
qed

lemma inputPhase_spec: "spec_hosts (fst (snd (inputPhase L C cl s))) = spec_hosts (fst s)"
proof -
  have r: "spec_hosts (fst (snd (requiredSecret L C cl n ns t))) = spec_hosts (fst t)" for n ns t
    by (cases t) (auto simp: requiredSecret_def split: outcome.splits)
  show ?thesis
    unfolding inputPhase_def Let_def
    by (intro flow_then_inv [of "\<lambda>t. spec_hosts (fst t) = spec_hosts (fst s)"])
      (auto simp: r split: option.split
        intro!: flow_then_inv [of "\<lambda>t. spec_hosts (fst t) = spec_hosts (fst s)"])
qed

lemma provServerPhase_spec: "spec_hosts (fst (snd (provServerPhase L C cl s))) = spec_hosts (fst s)"
proof -
  obtain r s' where a: "acquireProvServer L cl s = (r, s')" by (cases "acquireProvServer L cl s")
  with acquireProvServer_inst [of L cl s] show ?thesis
    by (auto simp: provServerPhase_def Let_def split: outcome.split)
qed

end

lemma check_result_trivial [simp]:
  "check_result (reconcileInit_set s) s = (Continue (), s)"
  "check_result (reconcileUpdate_set s) s = (Continue (), s)"
  "check_result (reconcileUpgrade_set s) s = (Continue (), s)"
  by (simp_all add: check_result_def reconcileInit_set_def reconcileUpdate_set_def
      reconcileUpgrade_set_def)

context controller_laws begin

lemma reconcileNormal_post:
  assumes "body_open inst" and "gm_wf (spec_hosts inst)"
  shows "body_post (fst (snd (reconcileNormal_set L C cl (inst, w))))"
proof -
  let ?I = "\<lambda>s :: 'a set_state. body_open (fst s) \<and> gm_wf (spec_hosts (fst s))"
  have post: "body_post i" if "body_open i" for i using that by (simp add: body_post_def)
  have fin: "body_post (fst (snd (flow_then (hostsPhase L C cl ps ssh pw s) (\<lambda>_. finalPhase C))))"
    if "?I s" for ps ssh pw and s :: "'a set_state"
  proof -
    obtain f s' where Pair: "hostsPhase L C cl ps ssh pw s = (f, s')"
      by (cases "hostsPhase L C cl ps ssh pw s")
    from Pair that hostsPhase_open [of s L cl ps ssh pw] have o: "body_open (fst s')" by simp
    show ?thesis
    proof (cases f)
      case (Return r)
      with Pair o post show ?thesis by simp
    next
      case (Continue u)
      with Pair hostsPhase_covers [of s C cl ps ssh pw u s'] that finalPhase_post [OF o] show ?thesis
        by simp
    qed
  qed
  have prov: "body_post (fst (snd (flow_then (provServerPhase L C cl s)
      (\<lambda>ps s. flow_then (hostsPhase L C cl ps ssh pw s) (\<lambda>_. finalPhase C)))))"
    if "?I s" for ssh pw and s :: "'a set_state"
  proof -
    obtain f s' where Pair: "provServerPhase L C cl s = (f, s')"
      by (cases "provServerPhase L C cl s")
    from Pair that provServerPhase_open [of s L cl] provServerPhase_spec [of cl s] have "?I s'" by simp
    with Pair post fin show ?thesis by (cases f) auto
  qed
  have i: "?I (inst, w, gm_empty)" using assms by simp
  show ?thesis
  proof -
    obtain f s' where Pair: "inputPhase L C cl (inst, w, gm_empty) = (f, s')"
      by (cases "inputPhase L C cl (inst, w, gm_empty)")
    from Pair i inputPhase_open [of "(inst, w, gm_empty)" L cl] inputPhase_spec [of cl "(inst, w, gm_empty)"]
    have "?I s'" by simp
    then have "body_post (fst s')"
      and "body_post (fst (snd (flow_then (provServerPhase L C cl s')
        (\<lambda>ps s. flow_then (hostsPhase L C cl ps ssh pw s) (\<lambda>_. finalPhase C)))))" for ssh pw
      using post prov [of s' ssh pw] by blast+
    with Pair show ?thesis
      by (cases f) (auto simp: reconcileNormal_set_def simp del: split_paired_All)
  qed
qed

lemma reconcileDelete_open:
  assumes "body_open inst"
  shows "body_open (fst (snd (reconcileDelete_set L cl (inst, w, env))))"
proof -
  obtain r i' w' where c: "baremetalHostCleanup L cl (inst, w) = (r, i', w')" by (metis surj_pair)
  with cleanup_frame [of "(inst, w)" L cl] have "set_conds i' = set_conds inst" by simp
  with assms c show ?thesis
    by (auto simp: reconcileDelete_set_def body_open_def set_conds_def Let_def split: outcome.split)
qed

lemma initial_open:
  "body_open (upd_conds (\<lambda>cs. cond_Init C cs (initialConditions_set C)) inst)"
proof -
  have d: "distinct (map c_Type (initialConditions_set C))"
    by (simp add: initialConditions_set_def UnknownCondition_simps)
  have "cond_status (cond_Init C cs (initialConditions_set C)) t = Some CUnknown"
    if "t \<in> {ReadyCondition, OpenStackBaremetalSetBmhProvisioningReadyCondition}" for cs t
  proof -
    from that obtain c where c: "c \<in> set (initialConditions_set C)" "c_Type c = t" "c_Status c = CUnknown"
    proof -
      let ?r = "cond_UnknownCondition C ReadyCondition ''Init'' (cond_text C ''ReadyInitMessage'')"
      let ?b = "cond_UnknownCondition C OpenStackBaremetalSetBmhProvisioningReadyCondition ''Init''
        OpenStackBaremetalSetBmhProvisioningReadyInitMessage"
      have "?r \<in> set (initialConditions_set C)" "?b \<in> set (initialConditions_set C)"
        by (simp_all add: initialConditions_set_def)
      with that UnknownCondition_simps show thesis using \<open>t \<in> _\<close> by (metis insertE singletonD)
    qed
    show ?thesis using status_Init [OF d c(1), of cs] c(2,3) by simp
  qed
  then show ?thesis by (simp add: body_open_def ready_unknown_def)
qed

lemma prepared:
  "set_conds (initStatus_set C inst) = cond_Init C (set_conds inst) (initialConditions_set C)"
  "spec_hosts (initStatus_set C inst) = spec_hosts inst"
  "set_conds (snd (ensureFinalizer_set L inst)) = set_conds inst"
  "spec_hosts (snd (ensureFinalizer_set L inst)) = spec_hosts inst"
  "set_conds (makeMaps_set inst) = set_conds inst"
  "spec_hosts (makeMaps_set inst) = spec_hosts inst"
  "status_hosts (makeMaps_set inst) \<noteq> None"
  by (auto simp: initStatus_set_def ensureFinalizer_set_def makeMaps_set_def Let_def set_conds_def
      upd_conds_def conds_of_def set_status_hosts_def simp del: not_None_eq split: prod.split)

lemma reconcileBody_post:
  assumes "gm_wf (spec_hosts inst)"
  shows "body_post (fst (snd (reconcileBody_set L C cl (inst, w))))"
proof -
  obtain added i where f: "ensureFinalizer_set L (initStatus_set C inst) = (added, i)" by fastforce
  have i: "set_conds i = cond_Init C (set_conds inst) (initialConditions_set C)"
    "spec_hosts i = spec_hosts inst"
    using prepared(1,2) [of inst] prepared(3,4) [of "initStatus_set C inst"] f by simp_all
  have o: "body_open j" if "set_conds j = set_conds i" for j
    using initial_open [of inst] that i(1) by (simp add: body_open_def)
  show ?thesis
    using f i(2) o [of i] o [of "makeMaps_set i"] prepared(5,6) [of i] assms
      reconcileNormal_post [of "makeMaps_set i" cl w]
      reconcileDelete_open [of "makeMaps_set i" cl w gm_empty]
    by (simp add: reconcileBody_set_def body_post_def Let_def)
qed

lemma deferred_ready:
  assumes "body_post i"
  shows "ready_sound (deferredConditions C saved (set_conds i))
    \<and> (cond_status (deferredConditions C saved (set_conds i)) ReadyCondition = Some CTrue \<longrightarrow> all_provisioned i)"
proof -
  let ?cs = "deferredConditions C saved (set_conds i)"
  have "ready_sound (set_conds i)"
    using assms by (auto simp: body_post_def body_open_def ready_unknown_def ready_sound_def)
  then have s: "ready_sound ?cs" by (rule deferred_sound)
  have same: "cond_status ?cs OpenStackBaremetalSetBmhProvisioningReadyCondition
      = cond_status (set_conds i) OpenStackBaremetalSetBmhProvisioningReadyCondition"
    using deferred_status by force
  have "all_provisioned i" if "cond_status ?cs ReadyCondition = Some CTrue"
    using assms s that same by (auto simp: body_post_def body_open_def ready_sound_def)
  with s show ?thesis by blast
qed

end

interpretation rcl: controller_laws ref_lib ref_conds
  by unfold_locales

section \<open>Entries of the status are filed under their own name\<close>

definition status_consistent :: "OpenStackBaremetalSet \<Rightarrow> bool" where
  "status_consistent i \<longleftrightarrow> (\<forall>h st. gm_get (status_hosts i) h = Some st \<longrightarrow> ip_Hostname st = h)"

lemma status_consistent_upd [simp]: "status_consistent (upd_conds f i) = status_consistent i"
  by (simp add: status_consistent_def)

lemma status_consistent_mono:
  "status_consistent i \<Longrightarrow> (\<And>h st. gm_get (status_hosts j) h = Some st \<Longrightarrow> gm_get (status_hosts i) h = Some st)
   \<Longrightarrow> status_consistent j"
  by (auto simp: status_consistent_def)

lemma initialHostStatus_name:
  "status_consistent i \<Longrightarrow> ip_Hostname (initialHostStatus i b h ip) = h"
  by (auto simp: initialHostStatus_def status_consistent_def split: option.split)

lemma provision_consistent:
  assumes "status_consistent (fst s)"
  shows "status_consistent (fst (snd (BaremetalHostProvision L cl s bmh h ip ps ssh pw)))"
proof (cases "fst (BaremetalHostProvision L cl s bmh h ip ps ssh pw) = Ok ()")
  case True
  obtain i w env where s: "s = (i, w, env)" by (cases s)
  obtain r i' w' env' where b: "BaremetalHostProvision L cl (i, w, env) bmh h ip ps ssh pw
      = (r, i', w', env')" by (metis surj_pair)
  with True s have "BaremetalHostProvision L cl (i, w, env) bmh h ip ps ssh pw
      = (Ok (), i', w', env')" by simp
  then have "status_consistent i'"
    using assms s initialHostStatus_name [of i bmh h ip]
    by (elim provision_Ok) (auto simp: status_consistent_def split: if_splits)
  with b s show ?thesis by simp
next
  case False
  with assms show ?thesis by (simp add: provision_not_Ok)
qed

lemma provisionHosts_consistent:
  "status_consistent (fst s) \<Longrightarrow> status_consistent (fst (snd (provisionHosts L cl ps ssh pw xs s)))"
proof (induction xs arbitrary: s)
  case (Cons x xs)
  then show ?case
    using provision_consistent [of s]
    by (cases x) (auto simp: and_then_def split: outcome.splits)
qed simp

lemma deprovision_status:
  "fst (snd (BaremetalHostDeprovision L cl s st)) =
     (if fst (BaremetalHostDeprovision L cl s st) = Ok ()
      then set_status_hosts (gm_del (ip_Hostname st) (status_hosts (fst s))) (fst s) else fst s)"
proof -
  obtain inst w where s: "s = (inst, w)" by (cases s)
  obtain r i' w' where "BaremetalHostDeprovision L cl (inst, w) st = (r, i', w')" by (metis surj_pair)
  with deprovision_inst [OF this] s show ?thesis by simp
qed

lemma deprovision_consistent:
  "status_consistent (fst s) \<Longrightarrow> status_consistent (fst (snd (BaremetalHostDeprovision L cl s st)))"
  by (auto simp: deprovision_status status_consistent_def split: if_splits)

lemma deprovisionHosts_consistent:
  "status_consistent (fst s) \<Longrightarrow> status_consistent (fst (snd (deprovisionHosts L cl hs s)))"
proof (induction hs arbitrary: s)
  case (Cons h hs)
  then show ?case using deprovision_consistent [of s L cl "status_host (fst s) h"]
    by (auto simp: and_then_def split: outcome.splits)
qed simp

lemma cleanupHosts_consistent:
  "status_consistent (fst s) \<Longrightarrow> status_consistent (fst (snd (cleanupHosts L cl hs s)))"
proof (induction hs arbitrary: s)
  case (Cons h hs)
  then show ?case using deprovision_consistent [of s L cl]
    by (auto simp: and_then_def split: outcome.splits option.splits)
qed simp

text \<open>A cleanup that succeeds has removed every entry.\<close>

lemma cleanupHosts_Ok:
  assumes "status_consistent (fst s)" and "cleanupHosts L cl hs s = (Ok (), s')"
  shows "gm_get (status_hosts (fst s')) k = (if k \<in> set hs then None else gm_get (status_hosts (fst s)) k)"
  using assms
proof (induction hs arbitrary: s)
  case (Cons h hs)
  show ?case
  proof (cases "gm_get (status_hosts (fst s)) h")
    case None
    with Cons.prems Cons.IH [of s] show ?thesis by auto
  next
    case (Some st)
    with Cons.prems obtain t where d: "BaremetalHostDeprovision L cl s st = (Ok (), t)"
      and c: "cleanupHosts L cl hs t = (Ok (), s')" by (auto simp: and_then_Ok_iff)
    have name: "ip_Hostname st = h" using Some Cons.prems(1) by (simp add: status_consistent_def)
    have t: "fst t = set_status_hosts (gm_del h (status_hosts (fst s))) (fst s)"
      using deprovision_status [of L cl s st] d name by simp
    have "status_consistent (fst t)"
      using deprovision_consistent [OF Cons.prems(1), of L cl st] d by simp
    from Cons.IH [OF this c] t show ?thesis by simp
  qed
qed simp

lemma cleanup_Ok:
  assumes "status_consistent (fst s)" and "baremetalHostCleanup L cl s = (Ok (), s')"
  shows "gm_get (status_hosts (fst s')) k = None"
proof (cases "status_hosts (fst s) = None")
  case True
  with assms show ?thesis by (simp add: baremetalHostCleanup_def)
next
  case False
  with assms(2) have "cleanupHosts L cl (gm_keys (status_hosts (fst s))) s = (Ok (), s')"
    by (simp add: baremetalHostCleanup_def)
  from cleanupHosts_Ok [OF assms(1) this, of k] show ?thesis
    by (simp add: gm_get_None_iff)
qed

section \<open>Removal of hosts from the specification\<close>

lemma hostNamesToDeprovision_iff:
  "h \<in> set (hostNamesToDeprovision inst bs) \<longleftrightarrow>
     h \<notin> set (gm_keys (spec_hosts inst))
     \<and> (\<exists>b \<in> set bs. label_of (bmh_Labels b) (ownershipLabelKey inst) = h)"
  by (auto simp: hostNamesToDeprovision_def Let_def list_ex_iff)

lemma deprovisionHosts_keeps:
  assumes "status_consistent (fst s)" and "k \<notin> set hs" and "k \<noteq> []"
  shows "gm_get (status_hosts (fst (snd (deprovisionHosts L cl hs s)))) k = gm_get (status_hosts (fst s)) k"
  using assms(1,2)
proof (induction hs arbitrary: s)
  case (Cons h hs)
  let ?st = "status_host (fst s) h"
  have "ip_Hostname ?st = h \<or> ip_Hostname ?st = []"
    using Cons.prems(1)
    by (auto simp: status_host_def status_consistent_def zero_HostStatus_def split: option.split)
  then have "ip_Hostname ?st \<noteq> k" using Cons.prems(2) assms(3) by auto
  then have "gm_get (status_hosts (fst (snd (BaremetalHostDeprovision L cl s ?st)))) k
      = gm_get (status_hosts (fst s)) k"
    by (simp add: deprovision_status)
  with Cons deprovision_consistent [OF Cons.prems(1), of L cl ?st] show ?case
    by (auto simp: and_then_def split: outcome.splits)
qed simp

lemma deleteBmh_keeps:
  assumes "status_consistent (fst s)" and "k \<in> set (gm_keys (spec_hosts (fst s)))" and "k \<noteq> []"
  shows "gm_get (status_hosts (fst (snd (deleteBmh L cl ls s)))) k = gm_get (status_hosts (fst s)) k"
  using assms deprovisionHosts_keeps [OF assms(1) _ assms(3)]
  by (cases s) (auto simp: deleteBmh_def and_then_def hostNamesToDeprovision_iff split: outcome.splits)

text \<open>A successful round has removed the entries of the names it was given, and no others.\<close>

lemma deprovisionHosts_Ok:
  assumes "status_consistent (fst s)" and "deprovisionHosts L cl hs s = (Ok (), s')" and "k \<noteq> []"
  shows "gm_get (status_hosts (fst s')) k = (if k \<in> set hs then None else gm_get (status_hosts (fst s)) k)"
  using assms(1,2)
proof (induction hs arbitrary: s)
  case (Cons h hs)
  let ?st = "status_host (fst s) h"
  from Cons.prems(2) obtain t where d: "BaremetalHostDeprovision L cl s ?st = (Ok (), t)"
    and r: "deprovisionHosts L cl hs t = (Ok (), s')" by (auto simp: and_then_Ok_iff)
  have t: "fst t = set_status_hosts (gm_del (ip_Hostname ?st) (status_hosts (fst s))) (fst s)"
    using deprovision_status [of L cl s ?st] d by simp
  have "ip_Hostname ?st = (if gm_get (status_hosts (fst s)) h = None then [] else h)"
    using Cons.prems(1)
    by (auto simp: status_host_def status_consistent_def zero_HostStatus_def split: option.split)
  with t assms(3) have "gm_get (status_hosts (fst t)) k =
      (if k = h then None else gm_get (status_hosts (fst s)) k)" by (auto split: if_splits)
  moreover have "status_consistent (fst t)"
    using deprovision_consistent [OF Cons.prems(1), of L cl ?st] d by simp
  ultimately show ?case using Cons.IH [OF _ r] by auto
qed simp

lemma deleteBmh_Ok:
  assumes "status_consistent inst" and "deleteBmh L cl ls (inst, w) = (Ok (), inst', w')" and "k \<noteq> []"
  shows "\<exists>existing. GetBaremetalHosts cl w (ts_BmhNamespace (set_Spec inst)) ls = Ok existing
    \<and> gm_get (status_hosts inst') k =
        (if k \<notin> set (gm_keys (spec_hosts inst))
            \<and> (\<exists>b \<in> set existing. label_of (bmh_Labels b) (ownershipLabelKey inst) = k)
         then None else gm_get (status_hosts inst) k)"
proof -
  from assms(2) obtain ex where g: "GetBaremetalHosts cl w (ts_BmhNamespace (set_Spec inst)) ls = Ok ex"
    and d: "deprovisionHosts L cl (hostNamesToDeprovision inst ex) (inst, w) = (Ok (), inst', w')"
    by (auto simp: deleteBmh_def and_then_Ok_iff)
  from deprovisionHosts_Ok [OF _ d assms(3)] assms(1) g show ?thesis
    by (simp add: hostNamesToDeprovision_iff)
qed

end
