(* ===== verification/SetSafety.thy ===== *)
theory SetSafety
  imports SetController
begin

text \<open>
  Safety of the reconciliation of \<open>OpenStackBaremetalSet\<close>: as long as the calls out of the
  repository do not panic, no part of a reconciliation does (the map of the status is made before a
  host is recorded, and the port loop ends); the entries of the status stay filed under their host
  names; and the labels that provisioning puts on a host are those by which its events find the set.
\<close>

section \<open>Panics\<close>

definition calm :: "('e, 'a) outcome \<Rightarrow> bool" where
  "calm r \<longleftrightarrow> (\<forall>m. r \<noteq> Panic m)"

lemma calm_simps [simp]: "calm (Ok x)" "calm (Err e)" "\<not> calm (Panic m)"
  by (simp_all add: calm_def)

text \<open>A client whose calls do not panic, given that the function passed to them does not, and that
  lists ports in the range of their type.\<close>

definition calm_client :: "'w client \<Rightarrow> bool" where
  "calm_client cl \<longleftrightarrow>
     (\<forall>w opts. calm (List_bmhs cl w opts)) \<and> (\<forall>w n ns. calm (Get_bmh cl w n ns))
     \<and> (\<forall>w b f. (\<forall>b. calm (f b)) \<longrightarrow> calm (fst (CreateOrPatch_bmh cl w b f)))
     \<and> (\<forall>w b. calm (fst (Update_bmh cl w b)))
     \<and> (\<forall>w i ts e. calm (fst (EnsureSecrets cl w i ts e)))
     \<and> (\<forall>w n ns. calm (fst (DeleteSecretsWithName cl w n ns)))
     \<and> (\<forall>w n ns. calm (GetSecret cl w n ns))
     \<and> (\<forall>w n ns. calm (Get_ps cl w n ns)) \<and> (\<forall>w p. calm (fst (Delete_ps cl w p)))
     \<and> (\<forall>w. calm (List_ps cl w)) \<and> (\<forall>i p. calm (SetControllerReference_ps cl i p))
     \<and> (\<forall>w p f. (\<forall>p. calm (f p)) \<longrightarrow> calm (fst (CreateOrPatch_ps cl w p f)))
     \<and> (\<forall>w ss p. List_ps cl w = Ok ss \<longrightarrow> p \<in> set ss \<longrightarrow> int32_range (ps_Port p))"

lemma calm_and_then:
  assumes "calm (fst r)" and "\<And>x s. r = (Ok x, s) \<Longrightarrow> calm (fst (k x s))"
  shows "calm (fst (and_then r k))"
  using assms by (cases r; cases "fst r") auto

definition ports_in_range :: "(string, int) gomap \<Rightarrow> bool" where
  "ports_in_range m \<longleftrightarrow> (\<forall>k c. gm_get m k = Some c \<longrightarrow> int32_range c)"

lemma ports_in_range_put: "ports_in_range m \<Longrightarrow> int32_range c \<Longrightarrow> ports_in_range (gm_put k c m)"
  by (simp add: ports_in_range_def)

lemma collectPorts_range:
  "ports_in_range found \<Longrightarrow> list_all (\<lambda>p. int32_range (ps_Port p)) ss \<Longrightarrow>
   ports_in_range (collectPorts L ss found)"
  by (induction L ss found rule: collectPorts.induct) (simp_all add: ports_in_range_put)

lemma calm_Assign:
  assumes "calm_client cl"
  shows "calm (AssignProvisionServerPort L cl w p ProvisionServerPortStart ProvisionServerPortEnd)"
proof (cases "List_ps cl w")
  case (Ok ss)
  let ?ex = "collectPorts L ss gm_empty" and ?self = "NamespacedName_String L (ps_Namespace p) (ps_Name p)"
  have "\<forall>p \<in> set ss. int32_range (ps_Port p)" using assms Ok unfolding calm_client_def by blast
  then have "ports_in_range ?ex"
    by (intro collectPorts_range) (simp_all add: ports_in_range_def list_all_iff)
  then have "int32_range (port_of ?ex ?self)"
    by (auto simp: port_of_def int32_range_def ports_in_range_def split: option.split)
  then have lo: "- (2 ^ 31) \<le> (if port_of ?ex ?self = 0 then ProvisionServerPortStart else port_of ?ex ?self)"
    by (simp add: int32_range_def ProvisionServerPortStart_def)
  have "ProvisionServerPortEnd < 2 ^ 31 - 1" by (simp add: ProvisionServerPortEnd_def)
  from portLoop_returns [OF this lo, of ?ex ?self] Ok show ?thesis
    by (auto simp: AssignProvisionServerPort_def GetExistingProvServerPorts_def Let_def
        split: sum.split)
next
  case (Panic m)
  with assms show ?thesis unfolding calm_client_def by (metis calm_simps(3))
qed (simp add: AssignProvisionServerPort_def GetExistingProvServerPorts_def)

lemma calm_provisionServerMutate:
  assumes "calm_client cl"
  shows "calm (provisionServerMutate L cl w inst p)"
proof -
  have "calm (SetControllerReference_ps cl inst q)" for q using assms by (simp add: calm_client_def)
  with calm_Assign [OF assms, of L w p] show ?thesis
    by (auto simp: provisionServerMutate_def split: outcome.split)
qed

lemma calm_acquire:
  assumes "calm_client cl"
  shows "calm (fst (acquireProvServer L cl s))"
proof -
  have c: "calm (fst (CreateOrPatch_ps cl w p (provisionServerMutate L cl w i)))" for w p i
    using assms calm_provisionServerMutate [OF assms] by (simp add: calm_client_def)
  have d: "calm (fst (provisionServerDelete cl t))" for t
  proof (cases t)
    case (fields i w env)
    have "calm (fst (Delete_ps cl w (provisionServerObject i)))" using assms by (simp add: calm_client_def)
    with fields show ?thesis
      by (cases "Delete_ps cl w (provisionServerObject i)"; cases "fst (Delete_ps cl w (provisionServerObject i))")
        (auto simp: provisionServerDelete_def)
  qed
  have g: "calm (Get_ps cl w n ns)" for w n ns using assms by (simp add: calm_client_def)
  show ?thesis
  proof (cases s)
    case (fields i w env)
    with c [of w "provisionServerObject i" i] g show ?thesis
      by (auto simp: acquireProvServer_def provisionServerCreateOrUpdate_def split: prod.splits
          intro!: calm_and_then d)
  qed
qed

lemma calm_bmh_client:
  assumes "calm_client cl"
  shows "calm (GetBaremetalHosts cl w ns ls)" and "calm (Get_bmh cl w n ns)"
    and "calm (fst (Update_bmh cl w b))" and "calm (fst (EnsureSecrets cl w i ts e))"
    and "calm (fst (DeleteSecretsWithName cl w n ns))" and "calm (GetSecret cl w n ns)"
    and "calm (fst (CreateOrPatch_bmh cl w b (\<lambda>b. Ok (f b))))"
  using assms by (simp_all add: calm_client_def GetBaremetalHosts_def Let_def)

lemma calm_provision:
  assumes "calm_client cl" and "status_hosts (fst s) \<noteq> None"
  shows "calm (fst (BaremetalHostProvision L cl s bmh h ip ps ssh pw))"
proof -
  note c = calm_bmh_client [OF assms(1)]
  have ci: "calm (cloudInit L i h ip ssh pw)" for i
    by (auto simp: cloudInit_def Let_def split: option.split prod.split)
  have en: "calm (fst (ensureCloudInit cl sts t))" for sts t
  proof (cases t)
    case (fields i w env)
    with c(4) [of w i sts env] show ?thesis
      by (cases "EnsureSecrets cl w i sts env"; cases "fst (EnsureSecrets cl w i sts env)")
        (auto simp: ensureCloudInit_def)
  qed
  have pa: "calm (fst (patchHost L cl bmh h ps u n t))" for u n t
  proof (cases t)
    case (fields i w env)
    with c(2) [of w bmh "ts_BmhNamespace (set_Spec i)"] c(7) show ?thesis
      by (auto simp: patchHost_def split: outcome.split prod.splits) (metis fst_conv)
  qed
  have re: "calm (fst (recordHost h st t))" if "status_hosts (fst t) \<noteq> None" for st t
    using that by (cases t) (auto simp: recordHost_def gm_assign_def split: option.split)
  show ?thesis
    unfolding BaremetalHostProvision_def Let_def
  proof (rule calm_and_then)
    fix x t assume xt: "(cloudInit L (fst s) h ip ssh pw, s) = (Ok x, t)"
    obtain sts u n where x: "x = (sts, u, n)" by (cases x)
    let ?st = "\<lambda>found. (initialHostStatus (fst s) bmh h ip)\<lparr>hs_UserDataSecretName := sr_Name u,
      hs_NetworkDataSecretName := sr_Name n, hs_ProvisioningState := bmh_State found\<rparr>"
    have "calm (fst (and_then (patchHost L cl bmh h ps u n t1) (\<lambda>found. recordHost h (?st found))))"
      if "ensureCloudInit cl sts t = (Ok y, t1)" for y t1
    proof (rule calm_and_then [OF pa])
      fix b t2 assume "patchHost L cl bmh h ps u n t1 = (Ok b, t2)"
      with that xt have "fst t2 = fst s"
        using patchHost_inst [of L cl bmh h ps u n t1] ensureCloudInit_inst [of cl sts t] by simp
      with assms(2) show "calm (fst (recordHost h (?st b) t2))" by (intro re) simp
    qed
    then show "calm (fst ((case x of (sts, userData, networkData) \<Rightarrow> \<lambda>s'.
        and_then (ensureCloudInit cl sts s') (\<lambda>_ s'. and_then (patchHost L cl bmh h ps userData networkData s')
          (\<lambda>found. recordHost h ((initialHostStatus (fst s) bmh h ip)
            \<lparr>hs_UserDataSecretName := sr_Name userData, hs_NetworkDataSecretName := sr_Name networkData,
             hs_ProvisioningState := bmh_State found\<rparr>)))) t))"
      unfolding x prod.case by (intro calm_and_then [OF en])
  qed (use ci in simp)
qed

lemma calm_provisionHosts:
  "calm_client cl \<Longrightarrow> status_hosts (fst s) \<noteq> None \<Longrightarrow> calm (fst (provisionHosts L cl ps ssh pw xs s))"
proof (induction xs arbitrary: s)
  case (Cons x xs)
  obtain h b where x: "x = (h, b)" by (cases x)
  let ?p = "BaremetalHostProvision L cl s (bmh_Name b) h (is_CtlPlaneIP (spec_host (fst s) h)) ps ssh pw"
  have "status_hosts (fst (snd ?p)) \<noteq> None"
    using provision_frame [of s L cl "bmh_Name b" h "is_CtlPlaneIP (spec_host (fst s) h)" ps ssh pw]
      Cons.prems(2) unfolding frame_def by blast
  then have "calm (fst (provisionHosts L cl ps ssh pw xs (snd ?p)))"
    by (rule Cons.IH [OF Cons.prems(1)])
  then show ?case unfolding x provisionHosts.simps
    by (intro calm_and_then calm_provision Cons.prems) simp
qed simp

lemma calm_deleteSecrets:
  "calm_client cl \<Longrightarrow> calm (fst (deleteSecrets cl ns names s))"
proof (induction names arbitrary: s)
  case (Cons n names)
  obtain i w where s: "s = (i, w)" by (cases s)
  obtain r w' where d: "DeleteSecretsWithName cl w n ns = (r, w')" by fastforce
  have "calm r" using calm_bmh_client(5) [OF Cons.prems, of w n ns] d by simp
  with Cons s d show ?case by (auto intro: calm_and_then)
qed simp

lemma calm_deprovision:
  assumes "calm_client cl"
  shows "calm (fst (BaremetalHostDeprovision L cl s st))"
proof -
  obtain i w where s: "s = (i, w)" by (cases s)
  have u: "calm (fst (Update_bmh cl w b))" for w b by (rule calm_bmh_client(3) [OF assms])
  show ?thesis
    unfolding BaremetalHostDeprovision_def s Let_def prod.case case_prod_beta
    by (intro calm_and_then) (simp_all add: assms u calm_bmh_client(2) [OF assms] calm_deleteSecrets)
qed

lemma calm_deprovisionHosts: "calm_client cl \<Longrightarrow> calm (fst (deprovisionHosts L cl hs s))"
  by (induction hs arbitrary: s) (auto intro!: calm_and_then calm_deprovision)

lemma calm_cleanupHosts: "calm_client cl \<Longrightarrow> calm (fst (cleanupHosts L cl hs s))"
  by (induction hs arbitrary: s) (auto intro!: calm_and_then calm_deprovision split: option.split)

lemma calm_deleteBmh: "calm_client cl \<Longrightarrow> calm (fst (deleteBmh L cl ls s))"
  by (cases s) (auto simp: deleteBmh_def calm_bmh_client(1) intro!: calm_and_then calm_deprovisionHosts)

lemma calm_ensure:
  assumes "calm_client cl" and "status_hosts (fst s) \<noteq> None"
  shows "calm (fst (ensureBaremetalHosts L cl ps ssh pw ls s))"
proof -
  obtain i w env where s: "s = (i, w, env)" by (cases s)
  have "calm (VerifyBaremetalSetScaleUp i all ex)" for all ex
    by (simp add: VerifyBaremetalSetScaleUp_def Let_def)
  with assms s show ?thesis
    by (auto simp: ensureBaremetalHosts_def Let_def calm_bmh_client(1)
        intro!: calm_and_then calm_provisionHosts simp del: not_None_eq)
qed

definition calm_flow :: "((go_error, nat) outcome, 'a) flow \<Rightarrow> bool" where
  "calm_flow f = (case f of Return r \<Rightarrow> calm r | Continue _ \<Rightarrow> True)"

lemma calm_flow_simps [simp]: "calm_flow (Return r) = calm r" "calm_flow (Continue x)"
  by (simp_all add: calm_flow_def)

text \<open>The state that the phases pass on: the map of the status is made.\<close>

lemma calm_flow_then:
  assumes "calm_flow (fst f)"
    and "\<And>x s. f = (Continue x, s) \<Longrightarrow> calm_flow (fst (k x s))"
  shows "calm_flow (fst (flow_then f k))"
  using assms by (cases f; cases "fst f") auto

lemma calm_requiredSecret:
  "calm_client cl \<Longrightarrow> calm_flow (fst (requiredSecret L C cl n ns s))"
  using calm_bmh_client(6) [of cl]
  by (cases s) (auto simp: requiredSecret_def split: outcome.split prod.split, metis calm_simps(3))

lemma calm_inputPhase: "calm_client cl \<Longrightarrow> calm_flow (fst (inputPhase L C cl s))"
  unfolding inputPhase_def Let_def
  by (auto intro!: calm_flow_then calm_requiredSecret split: option.split)

lemma calm_provServerPhase:
  assumes "calm_client cl"
  shows "calm_flow (fst (provServerPhase L C cl s))"
proof -
  obtain r t where a: "acquireProvServer L cl s = (r, t)" by (cases "acquireProvServer L cl s")
  with calm_acquire [OF assms, of L s] have "calm r" by simp
  with a show ?thesis by (auto simp: provServerPhase_def Let_def split: outcome.split)
qed

lemma calm_hostStep: "calm (fst r) \<Longrightarrow> calm_flow (fst (hostStep L C r))"
  by (cases r; cases "fst r") (auto simp: hostStep_def)

lemma hostStep_Continue: "hostStep L C r = (Continue v, t) \<longleftrightarrow> r = (Ok (), t)"
  by (cases r; cases "fst r") (auto simp: hostStep_def)

lemma calm_hostsPhase:
  assumes "calm_client cl" and "status_hosts (fst s) \<noteq> None"
  shows "calm_flow (fst (hostsPhase L C cl ps ssh pw s))"
proof -
  obtain i w env where s: "s = (i, w, env)" by (cases s)
  obtain r i1 where v: "VerifyAndSyncBaremetalStatusBmhRefs cl w i = (r, i1)" by fastforce
  have r: "calm r" using v calm_bmh_client(1) [OF assms(1)]
    by (auto simp: VerifyAndSyncBaremetalStatusBmhRefs_def split: outcome.splits) (metis calm_simps(3))
  have m1: "status_hosts i1 \<noteq> None"
    using sync_frame [of i cl w] v assms(2) s unfolding frame_def by simp
  let ?ls = "GetLabels L (set_Meta i1) (GetGroupLabel L ServiceName) gm_empty"
  obtain r2 i2 w2 where d: "deleteBmh L cl ?ls (i1, w) = (r2, i2, w2)" by (metis surj_pair)
  have r2: "calm r2" using calm_deleteBmh [OF assms(1), of L ?ls "(i1, w)"] d by simp
  have m2: "status_hosts i2 \<noteq> None"
    using deleteBmh_frame [of "(i1, w)" L cl ?ls] d m1 unfolding frame_def by simp
  have "calm_flow (fst (flow_then (hostStep L C (r2, i2, w2, env)) (\<lambda>_ s.
      hostStep L C (ensureBaremetalHosts L cl ps ssh pw ?ls s))))"
    using r2 m2 by (intro calm_flow_then calm_hostStep calm_ensure assms(1)) (auto simp: hostStep_Continue)
  then show ?thesis
    unfolding hostsPhase_def s prod.case v Let_def using r
    by (intro calm_flow_then calm_hostStep) (auto simp: hostStep_Continue with_env_def d)
qed

text \<open>The phases before the hosts do not touch the entries of the status.\<close>

lemma inputPhase_hosts: "status_hosts (fst (snd (inputPhase L C cl s))) = status_hosts (fst s)"
proof -
  have r: "status_hosts (fst (snd (requiredSecret L C cl n ns t))) = status_hosts (fst t)" for n ns t
    by (cases t) (auto simp: requiredSecret_def split: outcome.splits)
  show ?thesis
    unfolding inputPhase_def Let_def
    by (intro flow_then_inv [of "\<lambda>t. status_hosts (fst t) = status_hosts (fst s)"])
      (auto simp: r split: option.split
        intro!: flow_then_inv [of "\<lambda>t. status_hosts (fst t) = status_hosts (fst s)"])
qed

lemma provServerPhase_hosts: "status_hosts (fst (snd (provServerPhase L C cl s))) = status_hosts (fst s)"
proof -
  obtain r t where a: "acquireProvServer L cl s = (r, t)" by (cases "acquireProvServer L cl s")
  with rc.acquireProvServer_inst [of L cl s] show ?thesis
    by (auto simp: provServerPhase_def Let_def split: outcome.split)
qed

lemma calm_flow_end: "calm_flow (fst f) \<Longrightarrow> (\<And>r. fst f = Continue r \<Longrightarrow> calm r) \<Longrightarrow> calm (fst (flow_end f))"
  by (cases f; cases "fst f") auto

lemma finalPhase_calm: "calm_flow (fst (finalPhase C s))" "fst (finalPhase C s) = Continue r \<Longrightarrow> calm r"
  by (auto simp: finalPhase_def split: if_splits)

lemma calm_reconcileNormal:
  assumes "calm_client cl" and "status_hosts inst \<noteq> None"
  shows "calm (fst (reconcileNormal_set L C cl (inst, w)))"
proof -
  let ?hosts = "\<lambda>ps ssh pw s. flow_then (hostsPhase L C cl ps ssh pw s) (\<lambda>_. finalPhase C)"
  let ?prov = "\<lambda>ssh pw s. flow_then (provServerPhase L C cl s) (\<lambda>ps. ?hosts ps ssh pw)"
  let ?all = "flow_then (inputPhase L C cl (inst, w, gm_empty)) (\<lambda>(ssh, pw). ?prov ssh pw)"
  have h: "calm_flow (fst (?hosts ps ssh pw s))" if "status_hosts (fst s) \<noteq> None" for ps ssh pw s
    using that by (intro calm_flow_then calm_hostsPhase assms(1)) (simp_all add: finalPhase_calm)
  have p: "calm_flow (fst (?prov ssh pw s))" if "status_hosts (fst s) \<noteq> None" for ssh pw s
  proof (rule calm_flow_then)
    fix ps t assume "provServerPhase L C cl s = (Continue ps, t)"
    with that provServerPhase_hosts [of L C cl s] show "calm_flow (fst (?hosts ps ssh pw t))"
      by (intro h) simp
  qed (rule calm_provServerPhase [OF assms(1)])
  have a: "calm_flow (fst ?all)"
  proof (rule calm_flow_then)
    fix x t assume "inputPhase L C cl (inst, w, gm_empty) = (Continue x, t)"
    with assms(2) inputPhase_hosts [of L C cl "(inst, w, gm_empty)"] have "status_hosts (fst t) \<noteq> None"
      by simp
    then show "calm_flow (fst ((case x of (ssh, pw) \<Rightarrow> ?prov ssh pw) t))"
      by (cases x) (simp add: p)
  qed (rule calm_inputPhase [OF assms(1)])
  have c: "calm r" if "fst ?all = Continue r" for r
  proof -
    from that obtain t where "?all = (Continue r, t)" by (cases ?all) simp
    then obtain s' where "finalPhase C s' = (Continue r, t)"
      by (auto simp: flow_then_Continue_iff simp del: split_paired_Ex)
    then show ?thesis using finalPhase_calm(2) [of C s' r] by simp
  qed
  have "reconcileNormal_set L C cl (inst, w) = flow_end ?all"
    by (simp add: reconcileNormal_set_def case_prod_beta)
  with calm_flow_end [OF a c] show ?thesis by simp
qed

lemma calm_reconcileDelete:
  assumes "calm_client cl"
  shows "calm (fst (reconcileDelete_set L cl s))"
proof -
  obtain i w env where s: "s = (i, w, env)" by (cases s)
  obtain r i' w' where c: "baremetalHostCleanup L cl (i, w) = (r, i', w')" by (metis surj_pair)
  have "calm (fst (baremetalHostCleanup L cl (i, w)))"
    by (simp add: baremetalHostCleanup_def calm_cleanupHosts assms)
  with c s show ?thesis by (auto simp: reconcileDelete_set_def Let_def split: outcome.split)
qed

lemma calm_reconcileBody:
  assumes "calm_client cl"
  shows "calm (fst (reconcileBody_set L C cl (inst, w)))"
proof -
  have "status_hosts (makeMaps_set i) \<noteq> None" for i
    by (simp add: makeMaps_set_def Let_def del: not_None_eq)
  then show ?thesis
    using calm_reconcileNormal [OF assms] calm_reconcileDelete [OF assms]
    by (simp add: reconcileBody_set_def Let_def case_prod_beta del: not_None_eq)
qed

section \<open>The names in the status\<close>

lemma consistent_hostStep:
  "status_consistent (fst (snd r)) \<Longrightarrow> status_consistent (fst (snd (hostStep L C r)))"
  by (cases r; cases "fst r") (auto simp: hostStep_def)

lemma consistent_sync:
  assumes "gm_wf (status_hosts i)" and "status_consistent i"
  shows "status_consistent (snd (VerifyAndSyncBaremetalStatusBmhRefs cl w i))"
  using assms sync_status_get [OF assms(1)]
  by (auto simp: VerifyAndSyncBaremetalStatusBmhRefs_def status_consistent_def
      split: outcome.split option.splits if_splits)

lemma consistent_deleteBmh:
  "status_consistent (fst s) \<Longrightarrow> status_consistent (fst (snd (deleteBmh L cl ls s)))"
  by (cases s) (auto simp: deleteBmh_def and_then_def deprovisionHosts_consistent split: outcome.split)

lemma consistent_ensure:
  "status_consistent (fst s) \<Longrightarrow> status_consistent (fst (snd (ensureBaremetalHosts L cl ps ssh pw ls s)))"
  by (cases s) (auto simp: ensureBaremetalHosts_def Let_def and_then_def provisionHosts_consistent
      split: outcome.split)

lemma consistent_hostsPhase:
  assumes "gm_wf (status_hosts (fst s))" and "status_consistent (fst s)"
  shows "status_consistent (fst (snd (hostsPhase L C cl ps ssh pw s)))"
proof -
  obtain i w env where s: "s = (i, w, env)" by (cases s)
  obtain r i1 where v: "VerifyAndSyncBaremetalStatusBmhRefs cl w i = (r, i1)" by fastforce
  have c1: "status_consistent i1" using consistent_sync [of i cl w] v assms s by simp
  have d: "status_consistent (fst (snd (with_env env (deleteBmh L cl ls (i1, w)))))" for ls
    using c1 consistent_deleteBmh [of "(i1, w)" L cl ls]
    by (cases "deleteBmh L cl ls (i1, w)") (simp add: with_env_def)
  show ?thesis
    unfolding hostsPhase_def s prod.case v Let_def using c1
    by (intro flow_then_inv [of "\<lambda>s. status_consistent (fst s)"] consistent_hostStep)
      (auto simp: hostStep_Continue intro!: flow_then_inv [of "\<lambda>s. status_consistent (fst s)"]
        consistent_hostStep consistent_ensure d)
qed

lemma finalPhase_hosts: "status_hosts (fst (snd (finalPhase C s))) = status_hosts (fst s)"
  by (simp add: finalPhase_def)

lemma status_consistent_hosts: "status_hosts j = status_hosts i \<Longrightarrow> status_consistent j = status_consistent i"
  by (simp add: status_consistent_def)

lemma consistent_reconcileNormal:
  assumes "gm_wf (status_hosts inst)" and "status_consistent inst"
  shows "status_consistent (fst (snd (reconcileNormal_set L C cl (inst, w))))"
proof -
  let ?P = "\<lambda>s :: 'a set_state. status_consistent (fst s)"
  have keep: "?P t" if "status_hosts (fst t) = status_hosts inst" for t
    using that assms(2) by (simp add: status_consistent_def)
  have h: "?P (snd (flow_then (hostsPhase L C cl ps ssh pw s) (\<lambda>_. finalPhase C)))"
    if "status_hosts (fst s) = status_hosts inst" for ps ssh pw s
  proof (rule flow_then_inv [of ?P])
    show "?P (snd (hostsPhase L C cl ps ssh pw s))"
      by (rule consistent_hostsPhase) (use that assms in \<open>simp_all add: status_consistent_def\<close>)
    show "?P (snd (finalPhase C t))" if "?P t" for t
      using that finalPhase_hosts [of C t] by (simp add: status_consistent_def)
  qed
  have p: "?P (snd (flow_then (provServerPhase L C cl s)
      (\<lambda>ps s. flow_then (hostsPhase L C cl ps ssh pw s) (\<lambda>_. finalPhase C))))"
    if "status_hosts (fst s) = status_hosts inst" for ssh pw s
  proof (rule flow_then_inv [of ?P])
    show "?P (snd (provServerPhase L C cl s))" using that provServerPhase_hosts by (metis keep)
    fix ps t assume "provServerPhase L C cl s = (Continue ps, t)"
    with that provServerPhase_hosts [of L C cl s]
    show "?P (snd (flow_then (hostsPhase L C cl ps ssh pw t) (\<lambda>_. finalPhase C)))" by (intro h) simp
  qed
  obtain f t where i: "inputPhase L C cl (inst, w, gm_empty) = (f, t)"
    by (cases "inputPhase L C cl (inst, w, gm_empty)")
  with inputPhase_hosts [of L C cl "(inst, w, gm_empty)"] have t: "status_hosts (fst t) = status_hosts inst"
    by simp
  show ?thesis using i p [OF t] keep [OF t]
    by (cases f) (auto simp: reconcileNormal_set_def simp del: split_paired_All)
qed

lemma consistent_reconcileBody:
  assumes "gm_wf (status_hosts inst)" and "status_consistent inst"
  shows "status_consistent (fst (snd (reconcileBody_set L C cl (inst, w))))"
proof -
  obtain added i where f: "ensureFinalizer_set L (initStatus_set C inst) = (added, i)" by fastforce
  have i: "status_hosts i = status_hosts inst"
    using f by (auto simp: ensureFinalizer_set_def initStatus_set_def Let_def upd_conds_def
        split: if_splits prod.splits)
  have m: "gm_wf (status_hosts (makeMaps_set i))" "status_consistent (makeMaps_set i)"
    using i assms by (auto simp: makeMaps_set_def Let_def status_consistent_def)
  have "status_consistent (fst (snd (baremetalHostCleanup L cl (makeMaps_set i, w))))"
    using m(2) by (simp add: baremetalHostCleanup_def cleanupHosts_consistent)
  then have d: "status_consistent (fst (snd (reconcileDelete_set L cl (makeMaps_set i, w, gm_empty))))"
    by (cases "baremetalHostCleanup L cl (makeMaps_set i, w)")
      (auto simp: reconcileDelete_set_def Let_def status_consistent_def split: outcome.split)
  have "status_consistent i" using i assms(2) by (simp add: status_consistent_def)
  with f d consistent_reconcileNormal [OF m, of L C cl w] show ?thesis
    by (simp add: reconcileBody_set_def Let_def)
qed

section \<open>Events of the hosts of a set\<close>

context lib_laws begin

lemma provisioned_host_event:
  assumes "\<forall>k \<in> {GetOwnerUIDLabelSelector L (GetGroupLabel L ServiceName),
      GetOwnerNameSpaceLabelSelector L (GetGroupLabel L ServiceName),
      GetOwnerNameLabelSelector L (GetGroupLabel L ServiceName)}. gm_get (bmh_Labels b) k = None"
  shows "bmhToRequests L (provisionMutate L i h ps u n b) = [(set_Namespace i, set_Name i)]"
  using assms owner_keys_distinct [of "GetGroupLabel L ServiceName"]
  by (auto simp: bmhToRequests_def label_of_def hostLabels_def GetLabels_get MergeStringMaps_get Let_def)

lemma released_host_event: "bmhToRequests L (releaseHost L i h b) = []"
  by (simp add: bmhToRequests_def Let_def releaseHost_labels hostLabels_keys)

end

end
