(* ===== verification/Admission.thy ===== *)
theory Admission
  imports ScaleUp PortAssign
begin

text \<open>
  Admission. The first half holds the validation of \<open>OpenStackBaremetalSet\<close>
  (\<^verbatim>\<open>api/v1beta1/openstackbaremetalset_webhook.go\<close>) and the wrappers of
  \<^verbatim>\<open>internal/webhook/v1beta1\<close> that type-check the object and honour the skip annotation.
  \<open>ValidateUpdate\<close> synchronises the status of the object it is given, so it returns that object
  too.

  The second half composes the defaulting and the validating webhook of
  \<open>OpenStackProvisionServer\<close> with the API server that stores what they admit: the step relation
  \<open>ps_step\<close> on the list of stored servers. Its reachable states have pairwise different, non-zero
  ports (\<open>ps_reachable_ports\<close>), provided requests are admitted one at a time; the theory also
  shows what two requests that are validated against the same list do.
\<close>

section \<open>Validation of a set\<close>

definition secretsOfHost :: "string \<Rightarrow> InstanceSpec \<Rightarrow> (string \<times> string) list" where
  "secretsOfHost ns host =
     (case is_NetworkData host of
        Some s \<Rightarrow> if sr_Namespace s \<noteq> ns then [(sr_Name s, ns)] else [] | None \<Rightarrow> [])
     @ (case is_UserData host of
        Some s \<Rightarrow> if sr_Namespace s \<noteq> ns then [(sr_Name s, ns)] else [] | None \<Rightarrow> [])"

definition ValidateSecretNamespaces :: "OpenStackBaremetalSet \<Rightarrow> unit result" where
  "ValidateSecretNamespaces r =
     (let secretsWithIssue =
            (case ts_PasswordSecret (set_Spec r) of
               Some s \<Rightarrow> if sr_Namespace s \<noteq> set_Namespace r then [(sr_Name s, set_Namespace r)] else []
             | None \<Rightarrow> []);
          secretsWithIssue = secretsWithIssue
            @ concat (map (\<lambda>(_, host). secretsOfHost (ts_BmhNamespace (set_Spec r)) host)
                        (gm_items (spec_hosts r)))
      in if length secretsWithIssue > 0 then Err (ErrSecretNamespaces secretsWithIssue) else Ok ())"

definition ValidateTemplate ::
  "lib \<Rightarrow> 'a OpenStackBaremetalSetTemplateSpec_scheme \<Rightarrow> int \<Rightarrow>
   'b OpenStackBaremetalSetTemplateSpec_scheme \<Rightarrow> unit result" where
  "ValidateTemplate L spec oldCount oldSpec =
     (if oldCount > 0
         \<and> (\<not> Semantic_labels_equal L (ts_BmhLabelSelector spec) (ts_BmhLabelSelector oldSpec)
            \<or> \<not> Semantic_hw_equal L (ts_HardwareReqs spec) (ts_HardwareReqs oldSpec))
      then Err ErrTemplateChanged else Ok ())"

definition ValidateCreate_set ::
  "lib \<Rightarrow> 'w client \<Rightarrow> 'w \<Rightarrow> OpenStackBaremetalSet \<Rightarrow> unit result" where
  "ValidateCreate_set L cl w r =
     (if \<not> hostname_rfc1123 L (set_Name r) then Err (ErrInvalidName (set_Name r))
      else case ValidateSecretNamespaces r of
        Err e \<Rightarrow> Err e
      | Panic m \<Rightarrow> Panic m
      | Ok _ \<Rightarrow>
          (case GetBaremetalHosts cl w (ts_BmhNamespace (set_Spec r)) (ts_BmhLabelSelector (set_Spec r)) of
             Err e \<Rightarrow> Err e
           | Panic m \<Rightarrow> Panic m
           | Ok bmhs \<Rightarrow>
               (case VerifyBaremetalSetScaleUp r bmhs [] of
                  Err e \<Rightarrow> Err e | Panic m \<Rightarrow> Panic m | Ok _ \<Rightarrow> Ok ())))"

datatype runtime_object =
    RO_Set OpenStackBaremetalSet
  | RO_ProvServer OpenStackProvisionServer
  | RO_Other string

definition scaleUpOnUpdate ::
  "lib \<Rightarrow> 'w client \<Rightarrow> 'w \<Rightarrow> OpenStackBaremetalSet \<Rightarrow> unit result" where
  "scaleUpOnUpdate L cl w r =
     (case GetBaremetalHosts cl w (ts_BmhNamespace (set_Spec r)) (ts_BmhLabelSelector (set_Spec r)) of
        Err e \<Rightarrow> Err e
      | Panic m \<Rightarrow> Panic m
      | Ok bmhs \<Rightarrow>
          (case GetBaremetalHosts cl w (ts_BmhNamespace (set_Spec r))
                  (GetLabels L (set_Meta r) (GetGroupLabel L ServiceName) gm_empty) of
             Err e \<Rightarrow> Err e
           | Panic m \<Rightarrow> Panic m
           | Ok existing \<Rightarrow>
               (case VerifyBaremetalSetScaleUp r bmhs existing of
                  Err e \<Rightarrow> Err e | Panic m \<Rightarrow> Panic m | Ok _ \<Rightarrow> Ok ())))"

definition ValidateUpdate_set ::
  "lib \<Rightarrow> 'w client \<Rightarrow> 'w \<Rightarrow> OpenStackBaremetalSet \<Rightarrow> runtime_object \<Rightarrow>
   unit result \<times> OpenStackBaremetalSet" where
  "ValidateUpdate_set L cl w r old =
     (case old of
        RO_Set oldInstance \<Rightarrow>
          (case ValidateTemplate L (set_Spec r) (int (gm_len (spec_hosts oldInstance)))
                  (set_Spec oldInstance) of
             Err e \<Rightarrow> (Err e, r)
           | Panic m \<Rightarrow> (Panic m, r)
           | Ok _ \<Rightarrow>
          (case ValidateSecretNamespaces r of
             Err e \<Rightarrow> (Err e, r)
           | Panic m \<Rightarrow> (Panic m, r)
           | Ok _ \<Rightarrow>
          (let oldCount = gm_len (spec_hosts oldInstance); newCount = gm_len (spec_hosts r)
           in if newCount \<noteq> oldCount then
                (case VerifyAndSyncBaremetalStatusBmhRefs cl w r of
                   (Err e, r1) \<Rightarrow> (Err e, r1)
                 | (Panic m, r1) \<Rightarrow> (Panic m, r1)
                 | (Ok _, r1) \<Rightarrow>
                     if newCount > oldCount then (scaleUpOnUpdate L cl w r1, r1) else (Ok (), r1))
              else (Ok (), r))))
      | _ \<Rightarrow> (Err ErrNotABaremetalSet, r))"

definition ValidateDelete_set :: "OpenStackBaremetalSet \<Rightarrow> unit result" where
  "ValidateDelete_set r = Ok ()"

section \<open>The webhook wrappers\<close>

text \<open>A wrapper returns the warnings with the outcome; a type assertion that fails is an error.\<close>

type_synonym admission = "string list \<times> unit result"

definition skipValidationWarning :: "lib \<Rightarrow> string" where
  "skipValidationWarning L = ''webhook validation is being skipped due to the '' @ SkipValidationAnnotation L
     @ '' annotation; remove it when no longer needed''"

definition setValidator_ValidateCreate ::
  "lib \<Rightarrow> 'w client \<Rightarrow> 'w \<Rightarrow> runtime_object \<Rightarrow> admission" where
  "setValidator_ValidateCreate L cl w obj =
     (case obj of
        RO_Set r \<Rightarrow>
          if SkipValidation L (set_Meta r) then ([skipValidationWarning L], Ok ())
          else ([], ValidateCreate_set L cl w r)
      | _ \<Rightarrow> ([], Err ErrInvalidBaremetalSetType))"

definition setValidator_ValidateUpdate ::
  "lib \<Rightarrow> 'w client \<Rightarrow> 'w \<Rightarrow> runtime_object \<Rightarrow> runtime_object \<Rightarrow> admission" where
  "setValidator_ValidateUpdate L cl w oldObj newObj =
     (case newObj of
        RO_Set r \<Rightarrow>
          if SkipValidation L (set_Meta r) then ([skipValidationWarning L], Ok ())
          else ([], fst (ValidateUpdate_set L cl w r oldObj))
      | _ \<Rightarrow> ([], Err ErrInvalidBaremetalSetType))"

definition setValidator_ValidateDelete :: "lib \<Rightarrow> runtime_object \<Rightarrow> admission" where
  "setValidator_ValidateDelete L obj =
     (case obj of
        RO_Set r \<Rightarrow>
          if SkipValidation L (set_Meta r) then ([skipValidationWarning L], Ok ())
          else ([], ValidateDelete_set r)
      | _ \<Rightarrow> ([], Err ErrInvalidBaremetalSetType))"

definition setDefaulter_Default :: "runtime_object \<Rightarrow> runtime_object result" where
  "setDefaulter_Default obj =
     (case obj of RO_Set r \<Rightarrow> Ok (RO_Set r) | _ \<Rightarrow> Err ErrInvalidBaremetalSetType)"

definition psDefaulter_Default ::
  "lib \<Rightarrow> OpenStackProvisionServerDefaults \<Rightarrow> 'w client \<Rightarrow> 'w \<Rightarrow> runtime_object \<Rightarrow>
   runtime_object result" where
  "psDefaulter_Default L d cl w obj =
     (case obj of
        RO_ProvServer r \<Rightarrow>
          (case Default_ps L d cl w r of
             Ok r' \<Rightarrow> Ok (RO_ProvServer r') | Err e \<Rightarrow> Err e | Panic m \<Rightarrow> Panic m)
      | _ \<Rightarrow> Err ErrInvalidProvisionServerType)"

definition psValidator_ValidateCreate ::
  "lib \<Rightarrow> 'w client \<Rightarrow> 'w \<Rightarrow> runtime_object \<Rightarrow> admission" where
  "psValidator_ValidateCreate L cl w obj =
     (case obj of
        RO_ProvServer r \<Rightarrow> ([], ValidateCreate_ps L cl w r)
      | _ \<Rightarrow> ([], Err ErrInvalidProvisionServerType))"

definition psValidator_ValidateUpdate ::
  "lib \<Rightarrow> 'w client \<Rightarrow> 'w \<Rightarrow> runtime_object \<Rightarrow> runtime_object \<Rightarrow> admission" where
  "psValidator_ValidateUpdate L cl w oldObj newObj =
     (case newObj of
        RO_ProvServer r \<Rightarrow> ([], ValidateUpdate_ps L cl w r)
      | _ \<Rightarrow> ([], Err ErrInvalidProvisionServerType))"

definition psValidator_ValidateDelete :: "runtime_object \<Rightarrow> admission" where
  "psValidator_ValidateDelete obj =
     (case obj of
        RO_ProvServer r \<Rightarrow> ([], ValidateDelete_ps r)
      | _ \<Rightarrow> ([], Err ErrInvalidProvisionServerType))"

section \<open>Facts on the validation of a set\<close>

definition secret_in :: "string \<Rightarrow> SecretReference option \<Rightarrow> bool" where
  "secret_in ns s \<longleftrightarrow> (\<forall>r. s = Some r \<longrightarrow> sr_Namespace r = ns)"

definition secrets_placed :: "OpenStackBaremetalSet \<Rightarrow> bool" where
  "secrets_placed r \<longleftrightarrow>
     secret_in (set_Namespace r) (ts_PasswordSecret (set_Spec r))
     \<and> (\<forall>(h, host) \<in> set (gm_items (spec_hosts r)).
          secret_in (ts_BmhNamespace (set_Spec r)) (is_UserData host)
          \<and> secret_in (ts_BmhNamespace (set_Spec r)) (is_NetworkData host))"

lemma secretsOfHost_Nil:
  "secretsOfHost ns host = [] \<longleftrightarrow> secret_in ns (is_UserData host) \<and> secret_in ns (is_NetworkData host)"
  by (auto simp: secretsOfHost_def secret_in_def split: option.splits)

lemma ValidateSecretNamespaces_cases:
  "ValidateSecretNamespaces r = Ok () \<and> secrets_placed r
   \<or> (\<exists>xs. ValidateSecretNamespaces r = Err (ErrSecretNamespaces xs) \<and> xs \<noteq> []) \<and> \<not> secrets_placed r"
proof -
  let ?ns = "ts_BmhNamespace (set_Spec r)" and ?hosts = "gm_items (spec_hosts r)"
  have "concat (map (\<lambda>(_, host). secretsOfHost ?ns host) ?hosts) = [] \<longleftrightarrow>
     (\<forall>(h, host) \<in> set ?hosts.
        secret_in ?ns (is_UserData host) \<and> secret_in ?ns (is_NetworkData host))"
    by (simp add: secretsOfHost_Nil case_prod_unfold)
  moreover have "(case ts_PasswordSecret (set_Spec r) of
       Some s \<Rightarrow> if sr_Namespace s \<noteq> set_Namespace r then [(sr_Name s, set_Namespace r)] else []
     | None \<Rightarrow> []) = [] \<longleftrightarrow> secret_in (set_Namespace r) (ts_PasswordSecret (set_Spec r))"
    by (simp add: secret_in_def split: option.split)
  ultimately show ?thesis
    unfolding ValidateSecretNamespaces_def secrets_placed_def Let_def
    by (simp only: length_greater_0_conv append_is_Nil_conv split: if_split) blast
qed

lemma ValidateSecretNamespaces_iff: "ValidateSecretNamespaces r = Ok () \<longleftrightarrow> secrets_placed r"
  using ValidateSecretNamespaces_cases [of r] by auto

lemma scaleUp_not_panic: "VerifyBaremetalSetScaleUp i bs es \<noteq> Panic m"
  by (simp add: VerifyBaremetalSetScaleUp_def Let_def)

lemma scaleUp_ok_unit:
  "(case VerifyBaremetalSetScaleUp i bs es of Err e \<Rightarrow> Err e | Panic m \<Rightarrow> Panic m | Ok _ \<Rightarrow> Ok ()) = Ok ()
   \<longleftrightarrow> (\<exists>sel. VerifyBaremetalSetScaleUp i bs es = Ok sel)"
  by (cases "VerifyBaremetalSetScaleUp i bs es") auto

lemma ValidateCreate_set_iff:
  assumes "gm_wf (spec_hosts r)"
    and "GetBaremetalHosts cl w (ts_BmhNamespace (set_Spec r)) (ts_BmhLabelSelector (set_Spec r)) = Ok bmhs"
  shows "ValidateCreate_set L cl w r = Ok () \<longleftrightarrow>
     hostname_rfc1123 L (set_Name r) \<and> secrets_placed r
     \<and> (\<exists>f. placement (newComputes r) (filter (bmhUsable r) bmhs) f)"
  using ValidateSecretNamespaces_cases [of r] assms(2)
  by (auto simp: ValidateCreate_set_def scaleUp_ok_unit scaleUp_iff [OF assms(1)])

text \<open>An update never accepts a change of the label selector or the hardware requirements of a
  set that had hosts.\<close>

lemma ValidateUpdate_set_template:
  assumes "fst (ValidateUpdate_set L cl w r old) = Ok ()"
  shows "\<exists>oldInstance. old = RO_Set oldInstance \<and> secrets_placed r \<and>
    (gm_len (spec_hosts oldInstance) > 0 \<longrightarrow>
       Semantic_labels_equal L (ts_BmhLabelSelector (set_Spec r)) (ts_BmhLabelSelector (set_Spec oldInstance))
       \<and> Semantic_hw_equal L (ts_HardwareReqs (set_Spec r)) (ts_HardwareReqs (set_Spec oldInstance)))"
proof (cases old)
  case (RO_Set oldInstance)
  with assms have "ValidateTemplate L (set_Spec r) (int (gm_len (spec_hosts oldInstance)))
      (set_Spec oldInstance) = Ok ()" and "ValidateSecretNamespaces r = Ok ()"
    by (auto simp: ValidateUpdate_set_def split: outcome.splits)
  with RO_Set show ?thesis
    by (auto simp: ValidateTemplate_def ValidateSecretNamespaces_iff simp del: gm_len_0
        split: if_splits)
qed (use assms in \<open>simp_all add: ValidateUpdate_set_def\<close>)

section \<open>Provision servers: admission as a step relation\<close>

text \<open>The API server applies the defaulting webhook, then the validating one, and stores the object
  if both admit it. \<open>cl\<close> is a client whose cluster state is the list of the stored servers.\<close>

definition admit_create ::
  "lib \<Rightarrow> OpenStackProvisionServerDefaults \<Rightarrow> 'w client \<Rightarrow> 'w \<Rightarrow> OpenStackProvisionServer \<Rightarrow>
   OpenStackProvisionServer result" where
  "admit_create L d cl w r =
     (case Default_ps L d cl w r of
        Ok r' \<Rightarrow> (case ValidateCreate_ps L cl w r' of
                    Ok _ \<Rightarrow> Ok r' | Err e \<Rightarrow> Err e | Panic m \<Rightarrow> Panic m)
      | Err e \<Rightarrow> Err e
      | Panic m \<Rightarrow> Panic m)"

definition admit_update ::
  "lib \<Rightarrow> OpenStackProvisionServerDefaults \<Rightarrow> 'w client \<Rightarrow> 'w \<Rightarrow> OpenStackProvisionServer \<Rightarrow>
   OpenStackProvisionServer result" where
  "admit_update L d cl w r =
     (case Default_ps L d cl w r of
        Ok r' \<Rightarrow> (case ValidateUpdate_ps L cl w r' of
                    Ok _ \<Rightarrow> Ok r' | Err e \<Rightarrow> Err e | Panic m \<Rightarrow> Panic m)
      | Err e \<Rightarrow> Err e
      | Panic m \<Rightarrow> Panic m)"

inductive ps_step ::
  "lib \<Rightarrow> OpenStackProvisionServerDefaults \<Rightarrow> OpenStackProvisionServer list client \<Rightarrow>
   OpenStackProvisionServer list \<Rightarrow> OpenStackProvisionServer list \<Rightarrow> bool"
  for L d cl where
  ps_create: "ps_key r \<notin> ps_key ` set ss \<Longrightarrow> CHR ''/'' \<notin> set (ps_Namespace r) \<Longrightarrow>
     admit_create L d cl ss r = Ok r' \<Longrightarrow> ps_step L d cl ss (ss @ [r'])"
| ps_update: "ss = us @ p # vs \<Longrightarrow> ps_key r = ps_key p \<Longrightarrow>
     admit_update L d cl ss r = Ok r' \<Longrightarrow> ps_step L d cl ss (us @ r' # vs)"
| ps_delete: "ss = us @ p # vs \<Longrightarrow> ValidateDelete_ps p = Ok () \<Longrightarrow> ps_step L d cl ss (us @ vs)"

inductive ps_reachable ::
  "lib \<Rightarrow> OpenStackProvisionServerDefaults \<Rightarrow> OpenStackProvisionServer list client \<Rightarrow>
   OpenStackProvisionServer list \<Rightarrow> bool"
  for L d cl where
  ps_init: "ps_reachable L d cl []"
| ps_next: "ps_reachable L d cl ss \<Longrightarrow> ps_step L d cl ss ss' \<Longrightarrow> ps_reachable L d cl ss'"

inductive_cases ps_stepE: "ps_step L d cl ss ss'"

text \<open>The client lists the servers that are stored.\<close>

definition lists_servers :: "OpenStackProvisionServer list client \<Rightarrow> bool" where
  "lists_servers cl \<longleftrightarrow> (\<forall>ss. List_ps cl ss = Ok ss)"

definition ports_ok :: "OpenStackProvisionServer list \<Rightarrow> bool" where
  "ports_ok ss \<longleftrightarrow> servers_wf ss \<and> (\<forall>p \<in> set ss. ps_Port p \<noteq> 0) \<and> distinct (map ps_Port ss)"

lemma admit_create_Ok:
  "admit_create L d cl w r = Ok r' \<Longrightarrow> validateCr L cl w r' = Ok () \<and> ps_key r' = ps_key r
     \<and> ps_Namespace r' = ps_Namespace r"
  using Default_ps_key [of L d cl w r r']
  by (auto simp: admit_create_def ValidateCreate_ps_def ps_key_def split: outcome.splits)

lemma admit_update_Ok:
  "admit_update L d cl w r = Ok r' \<Longrightarrow> validateCr L cl w r' = Ok () \<and> ps_key r' = ps_key r
     \<and> ps_Namespace r' = ps_Namespace r"
  using Default_ps_key [of L d cl w r r']
  by (auto simp: admit_update_def ValidateUpdate_ps_def ps_key_def split: outcome.splits)

lemma ps_key_Namespace: "ps_key p = ps_key q \<Longrightarrow> ps_Namespace p = ps_Namespace q"
  by (simp add: ps_key_def)

context lib_laws begin

lemma ps_step_ports_ok:
  assumes "ps_step L d cl ss ss'" and "lists_servers cl" and "ports_ok ss"
  shows "ports_ok ss'"
  using assms(1)
proof cases
  case (ps_create r r')
  note a = admit_create_Ok [OF ps_create(4)]
  from assms(2,3) have l: "List_ps cl ss = Ok ss" "servers_wf ss"
    by (simp_all add: lists_servers_def ports_ok_def)
  from a ps_create validateCr_iff [OF l, of r'] have "ps_Port r' \<noteq> 0"
    and "\<forall>p \<in> set ss. ps_key p \<noteq> ps_key r' \<longrightarrow> ps_Port p \<noteq> ps_Port r'" by auto
  moreover from this a ps_create(2) have "ps_Port r' \<notin> ps_Port ` set ss"
    by (metis (no_types, lifting) imageE image_eqI)
  ultimately show ?thesis using a assms(3) ps_create(1-3)
    by (auto simp: ports_ok_def servers_wf_def image_iff)
next
  case (ps_update us p vs r r')
  note a = admit_update_Ok [OF ps_update(4)]
  from assms(2,3) have l: "List_ps cl ss = Ok ss" "servers_wf ss"
    by (simp_all add: lists_servers_def ports_ok_def)
  have p: "ps_key r' = ps_key p" using a ps_update(3) by simp
  have ns: "CHR ''/'' \<notin> set (ps_Namespace r')"
    using l(2) ps_key_Namespace [OF p] ps_update(2) by (simp add: servers_wf_def)
  from a ns validateCr_iff [OF l, of r'] have v: "ps_Port r' \<noteq> 0"
    "\<forall>q \<in> set ss. ps_key q \<noteq> ps_key r' \<longrightarrow> ps_Port q \<noteq> ps_Port r'" by auto
  have "\<forall>q \<in> set us \<union> set vs. ps_key q \<noteq> ps_key r'"
    using l(2) p ps_update(2) by (auto simp: servers_wf_def image_iff)
  then have "\<forall>q \<in> set us \<union> set vs. ps_Port q \<noteq> ps_Port r'" using v(2) ps_update(2) by auto
  with v(1) ns p assms(3) ps_update(1,2) show ?thesis
    by (auto simp: ports_ok_def servers_wf_def image_iff)
next
  case (ps_delete us p vs)
  with assms(3) show ?thesis by (auto simp: ports_ok_def servers_wf_def)
qed

lemma ps_reachable_ports_ok:
  assumes "ps_reachable L d cl ss" and "lists_servers cl"
  shows "ports_ok ss"
  using assms(1)
proof induction
  case ps_init
  then show ?case by (simp add: ports_ok_def servers_wf_def)
next
  case (ps_next ss ss')
  with assms(2) ps_step_ports_ok show ?case by blast
qed

text \<open>A new server without a port is admitted, with the least free port of the range, exactly when
  the range has a free port.\<close>

lemma admit_create_fresh:
  assumes "List_ps cl w = Ok ss" and "servers_wf ss" and "CHR ''/'' \<notin> set (ps_Namespace r)"
    and "ps_Port r = 0" and "\<forall>p \<in> set ss. ps_key p \<noteq> ps_key r"
  shows "(\<exists>r' c. admit_create L d cl w r = Ok r' \<and> ps_Port r' = c
        \<and> ProvisionServerPortStart \<le> c \<and> c \<le> ProvisionServerPortEnd \<and> (\<forall>p \<in> set ss. ps_Port p \<noteq> c)
        \<and> (\<forall>q. ProvisionServerPortStart \<le> q \<and> q < c \<longrightarrow> (\<exists>p \<in> set ss. ps_Port p = q)))
    \<or> (admit_create L d cl w r = Err (ErrNoAvailablePorts ProvisionServerPortStart ProvisionServerPortEnd)
        \<and> (\<forall>q. ProvisionServerPortStart \<le> q \<and> q \<le> ProvisionServerPortEnd \<longrightarrow>
              (\<exists>p \<in> set ss. ps_Port p = q)))"
proof -
  let ?r = "r\<lparr>ps_Spec := default_images d (ps_Spec r)\<rparr>"
  have fresh: "\<And>p. p \<in> set ss \<Longrightarrow> ps_key p = ps_key ?r \<Longrightarrow> ps_Port p = 0"
    using assms(5) by (auto simp: ps_key_def)
  have ns: "CHR ''/'' \<notin> set (ps_Namespace ?r)" using assms(3) by simp
  have range: "0 < ProvisionServerPortStart" "ProvisionServerPortStart \<le> ProvisionServerPortEnd"
    "ProvisionServerPortEnd < 2 ^ 31 - 1"
    by (simp_all add: ProvisionServerPortStart_def ProvisionServerPortEnd_def)
  from fresh have "(\<exists>c. AssignProvisionServerPort L cl w ?r ProvisionServerPortStart
            ProvisionServerPortEnd = Ok (set_ps_Port c ?r)
        \<and> ProvisionServerPortStart \<le> c \<and> c \<le> ProvisionServerPortEnd \<and> (\<forall>p \<in> set ss. ps_Port p \<noteq> c)
        \<and> (\<forall>q. ProvisionServerPortStart \<le> q \<and> q < c \<longrightarrow> (\<exists>p \<in> set ss. ps_Port p = q)))
    \<or> (AssignProvisionServerPort L cl w ?r ProvisionServerPortStart ProvisionServerPortEnd
        = Err (ErrPortOutOfRange (ProvisionServerPortEnd + 1) ProvisionServerPortStart ProvisionServerPortEnd)
        \<and> (\<forall>q. ProvisionServerPortStart \<le> q \<and> q \<le> ProvisionServerPortEnd \<longrightarrow>
              (\<exists>p \<in> set ss. ps_Port p = q)))"
    by (intro assign_fresh [OF assms(1,2) ns range])
  then show ?thesis
  proof (elim disjE exE conjE)
    fix c
    assume c: "AssignProvisionServerPort L cl w ?r ProvisionServerPortStart ProvisionServerPortEnd
        = Ok (set_ps_Port c ?r)"
      and free: "\<forall>p \<in> set ss. ps_Port p \<noteq> c" and lo: "ProvisionServerPortStart \<le> c"
      and hi: "c \<le> ProvisionServerPortEnd"
      and least: "\<forall>q. ProvisionServerPortStart \<le> q \<and> q < c \<longrightarrow> (\<exists>p \<in> set ss. ps_Port p = q)"
    have d: "Default_ps L d cl w r = Ok (set_ps_Port c ?r)"
      using assms(4) c by (simp add: Default_ps_def Let_def)
    have "validateCr L cl w (set_ps_Port c ?r) = Ok ()"
      using validateCr_iff [OF assms(1,2), of "set_ps_Port c ?r"] ns free lo range by auto
    with d have "admit_create L d cl w r = Ok (set_ps_Port c ?r)"
      by (simp add: admit_create_def ValidateCreate_ps_def)
    with lo hi free least show ?thesis by (intro disjI1) auto
  next
    assume c: "AssignProvisionServerPort L cl w ?r ProvisionServerPortStart ProvisionServerPortEnd
        = Err (ErrPortOutOfRange (ProvisionServerPortEnd + 1) ProvisionServerPortStart ProvisionServerPortEnd)"
      and full: "\<forall>q. ProvisionServerPortStart \<le> q \<and> q \<le> ProvisionServerPortEnd \<longrightarrow>
        (\<exists>p \<in> set ss. ps_Port p = q)"
    have "Default_ps L d cl w r = Ok ?r" using assms(4) c by (simp add: Default_ps_def Let_def)
    with assms(4) have "admit_create L d cl w r
        = Err (ErrNoAvailablePorts ProvisionServerPortStart ProvisionServerPortEnd)"
      by (simp add: admit_create_def ValidateCreate_ps_def validateCr_def)
    with full show ?thesis by blast
  qed
qed

end

end
