(* ===== verification/ProvResources.thy ===== *)
theory ProvResources
  imports External
begin

text \<open>
  The Kubernetes objects of a provision server, from
  \<^verbatim>\<open>internal/openstackprovisionserver\<close>: \<open>Deployment\<close>, \<open>ChecksumJob\<close>, \<open>InitContainer\<close> and the volumes.
  The records carry the fields that the sources set. \<open>OSImageDir\<close> is a pointer that the builders
  dereference, so they return an outcome: a nil pointer panics. \<open>mergeEnvs\<close> stands for
  \<open>env.MergeEnvs\<close> of lib-common.
\<close>

section \<open>Objects\<close>

type_synonym EnvVar = "string \<times> string"

record VolumeMount =
  vm_Name :: string
  vm_MountPath :: string
  vm_SubPath :: string
  vm_ReadOnly :: bool

datatype VolumeSource = EmptyDir | ConfigMapVolume string

record Volume =
  vol_Name :: string
  vol_Source :: VolumeSource

record Probe =
  pr_TimeoutSeconds :: int
  pr_PeriodSeconds :: int
  pr_FailureThreshold :: int
  pr_InitialDelaySeconds :: int
  pr_Path :: string
  pr_Port :: int

record Container =
  ct_Name :: string
  ct_Command :: "string list"
  ct_Args :: "string list"
  ct_Image :: string
  ct_ImagePullPolicy :: string
  ct_Env :: "EnvVar list"
  ct_VolumeMounts :: "VolumeMount list"
  ct_Resources :: ResourceRequirements
  ct_StartupProbe :: "Probe option"
  ct_ReadinessProbe :: "Probe option"
  ct_LivenessProbe :: "Probe option"
  ct_Privileged :: "bool option"

definition zero_Container :: Container where [zero_defs]:
  "zero_Container = \<lparr>ct_Name = [], ct_Command = [], ct_Args = [], ct_Image = [],
     ct_ImagePullPolicy = [], ct_Env = [], ct_VolumeMounts = [], ct_Resources = \<lparr>res_Rest = []\<rparr>,
     ct_StartupProbe = None, ct_ReadinessProbe = None, ct_LivenessProbe = None, ct_Privileged = None\<rparr>"

record AffinityTerm =
  at_Key :: string
  at_Operator :: string
  at_Values :: "string list"
  at_Namespaces :: "string list"
  at_TopologyKey :: string

record PodSpec =
  po_ServiceAccountName :: string
  po_HostNetwork :: bool
  po_RestartPolicy :: string
  po_Containers :: "Container list"
  po_InitContainers :: "Container list"
  po_Volumes :: "Volume list"
  po_AntiAffinity :: "AffinityTerm list"
  po_NodeSelector :: labels

record DeploymentObject =
  dp_Name :: string
  dp_Namespace :: string
  dp_MatchLabels :: labels
  dp_Strategy :: string
  dp_Replicas :: int
  dp_PodLabels :: labels
  dp_Pod :: PodSpec

record JobObject =
  jb_Name :: string
  jb_Namespace :: string
  jb_Labels :: labels
  jb_PodAnnotations :: labels
  jb_Pod :: PodSpec

section \<open>The code\<close>

definition AppLabel :: string where
  "AppLabel = ''osp-provisionserver''"

definition HttpdConfPath :: string where
  "HttpdConfPath = ''/usr/local/apache2/conf/httpd.conf''"

definition ServiceCommand :: string where
  "ServiceCommand =
     ''cp -f /usr/local/apache2/conf/httpd.conf /etc/httpd/conf/httpd.conf && /usr/bin/run-httpd''"

definition ChecksumCommand :: string where
  "ChecksumCommand = ''/openstack-baremetal-agent checksum-discovery''"

definition RbacResourceName :: "OpenStackProvisionServer \<Rightarrow> string" where
  "RbacResourceName inst = ''provisionserver-'' @ ps_Name inst"

definition getInitVolumes :: "Volume list" where
  "getInitVolumes = [\<lparr>vol_Name = ''image-data'', vol_Source = EmptyDir\<rparr>]"

definition getVolumes :: "string \<Rightarrow> Volume list" where
  "getVolumes name =
     getInitVolumes @ [\<lparr>vol_Name = ''httpd-config'', vol_Source = ConfigMapVolume (name @ ''-httpd-config'')\<rparr>]"

definition getInitVolumeMounts :: "string \<Rightarrow> VolumeMount list" where
  "getInitVolumeMounts osImageDir =
     [\<lparr>vm_Name = ''image-data'', vm_MountPath = osImageDir, vm_SubPath = [], vm_ReadOnly = False\<rparr>]"

definition getVolumeMounts :: "string \<Rightarrow> VolumeMount list" where
  "getVolumeMounts osImageDir =
     [\<lparr>vm_Name = ''image-data'', vm_MountPath = osImageDir, vm_SubPath = [], vm_ReadOnly = False\<rparr>,
      \<lparr>vm_Name = ''httpd-config'', vm_MountPath = HttpdConfPath, vm_SubPath = ''httpd.conf'',
       vm_ReadOnly = True\<rparr>]"

record InitContainerDetails =
  icd_ContainerImage :: string
  icd_OsImageDir :: string
  icd_Privileged :: bool
  icd_VolumeMounts :: "VolumeMount list"

type_synonym merge_envs = "EnvVar list \<Rightarrow> env_vars \<Rightarrow> EnvVar list"

definition InitContainer :: "merge_envs \<Rightarrow> InitContainerDetails \<Rightarrow> Container list" where
  "InitContainer mergeEnvs ini =
     (let envs = [(''DEST_DIR'', icd_OsImageDir ini)];
          envs = mergeEnvs envs gm_empty
      in [zero_Container\<lparr>ct_Name := ''init'', ct_Image := icd_ContainerImage ini,
            ct_Privileged := Some (icd_Privileged ini), ct_Env := envs,
            ct_VolumeMounts := icd_VolumeMounts ini\<rparr>])"

definition provInitContainer ::
  "merge_envs \<Rightarrow> OpenStackProvisionServer \<Rightarrow> string \<Rightarrow> Container list" where
  "provInitContainer mergeEnvs inst dir =
     InitContainer mergeEnvs
       \<lparr>icd_ContainerImage = pss_OSContainerImageURL (ps_Spec inst), icd_OsImageDir = dir,
        icd_Privileged = False, icd_VolumeMounts = getInitVolumeMounts dir\<rparr>"

definition httpProbe :: "int \<Rightarrow> int \<Rightarrow> int \<Rightarrow> int \<Rightarrow> int \<Rightarrow> Probe" where
  "httpProbe timeout period threshold delay port =
     \<lparr>pr_TimeoutSeconds = timeout, pr_PeriodSeconds = period, pr_FailureThreshold = threshold,
      pr_InitialDelaySeconds = delay, pr_Path = ''/'', pr_Port = port\<rparr>"

definition httpdContainer :: "OpenStackProvisionServer \<Rightarrow> string \<Rightarrow> string \<Rightarrow> Container" where
  "httpdContainer inst dir configHash =
     (let port = ps_Port inst
      in zero_Container\<lparr>ct_Name := ''osp-httpd'', ct_Command := [''/bin/bash''],
           ct_Args := [''-c'', ServiceCommand], ct_Image := pss_ApacheImageURL (ps_Spec inst),
           ct_VolumeMounts := getVolumeMounts dir, ct_Resources := pss_Resources (ps_Spec inst),
           ct_StartupProbe := Some (httpProbe 5 10 12 0 port),
           ct_ReadinessProbe := Some (httpProbe 5 5 0 5 port),
           ct_LivenessProbe := Some (httpProbe 5 3 0 0 port),
           ct_Env := [(''CONFIG_HASH'', configHash)]\<rparr>)"

definition discoveryContainer :: "OpenStackProvisionServer \<Rightarrow> string \<Rightarrow> Container" where
  "discoveryContainer inst provInterfaceName =
     zero_Container\<lparr>ct_Name := ''osp-provision-ip-discovery-agent'',
       ct_Command := [''/openstack-baremetal-agent'', ''provision-ip-discovery''],
       ct_Image := pss_AgentImageURL (ps_Spec inst), ct_ImagePullPolicy := ''IfNotPresent'',
       ct_Env := [(''PROV_INTF'', provInterfaceName), (''PROV_SERVER_NAME'', ps_Name inst),
                  (''PROV_SERVER_NAMESPACE'', ps_Namespace inst)]\<rparr>"

definition Deployment ::
  "merge_envs \<Rightarrow> OpenStackProvisionServer \<Rightarrow> string \<Rightarrow> labels \<Rightarrow> string \<Rightarrow> DeploymentObject result" where
  "Deployment mergeEnvs inst configHash labels provInterfaceName =
     (case pss_OSImageDir (ps_Spec inst) of
        None \<Rightarrow> Panic ''invalid memory address or nil pointer dereference''
      | Some dir \<Rightarrow>
          (let containers = [httpdContainer inst dir configHash]
                 @ (if provInterfaceName \<noteq> [] then [discoveryContainer inst provInterfaceName] else []);
               affinity = [\<lparr>at_Key = ''app'', at_Operator = ''In'', at_Values = [AppLabel],
                            at_Namespaces = [ps_Namespace inst],
                            at_TopologyKey = ''kubernetes.io/hostname''\<rparr>]
           in Ok \<lparr>dp_Name = ps_Name inst @ ''-openstackprovisionserver'', dp_Namespace = ps_Namespace inst,
                  dp_MatchLabels = labels, dp_Strategy = ''Recreate'', dp_Replicas = 1,
                  dp_PodLabels = labels,
                  dp_Pod = \<lparr>po_ServiceAccountName = RbacResourceName inst, po_HostNetwork = True,
                            po_RestartPolicy = [], po_Containers = containers,
                            po_InitContainers = provInitContainer mergeEnvs inst dir,
                            po_Volumes = getVolumes (ps_Name inst), po_AntiAffinity = affinity,
                            po_NodeSelector = (if gm_len (pss_NodeSelector (ps_Spec inst)) > 0
                                               then pss_NodeSelector (ps_Spec inst) else None)\<rparr>\<rparr>))"

definition ChecksumJob ::
  "merge_envs \<Rightarrow> OpenStackProvisionServer \<Rightarrow> labels \<Rightarrow> labels \<Rightarrow> JobObject result" where
  "ChecksumJob mergeEnvs inst labels annotations =
     (case pss_OSImageDir (ps_Spec inst) of
        None \<Rightarrow> Panic ''invalid memory address or nil pointer dereference''
      | Some dir \<Rightarrow>
          (let envVars = gm_put ''PROV_SERVER_NAMESPACE'' (ps_Namespace inst)
                 (gm_put ''PROV_SERVER_NAME'' (ps_Name inst) (gm_put ''OS_IMAGE_DIR'' dir gm_empty));
               container = zero_Container\<lparr>ct_Name := ps_Name inst @ ''-checksum-discovery'',
                 ct_Command := [''/bin/bash''], ct_Args := [''-c'', ChecksumCommand],
                 ct_Image := pss_AgentImageURL (ps_Spec inst), ct_Env := mergeEnvs [] envVars,
                 ct_VolumeMounts := getInitVolumeMounts dir\<rparr>
           in Ok \<lparr>jb_Name = ps_Name inst @ ''-checksum-discovery'', jb_Namespace = ps_Namespace inst,
                  jb_Labels = labels, jb_PodAnnotations = annotations,
                  jb_Pod = \<lparr>po_ServiceAccountName = RbacResourceName inst, po_HostNetwork = False,
                            po_RestartPolicy = ''OnFailure'', po_Containers = [container],
                            po_InitContainers = provInitContainer mergeEnvs inst dir,
                            po_Volumes = getInitVolumes, po_AntiAffinity = [],
                            po_NodeSelector = (if gm_len (pss_NodeSelector (ps_Spec inst)) > 0
                                               then pss_NodeSelector (ps_Spec inst) else None)\<rparr>\<rparr>))"

section \<open>Well-formed pods\<close>

text \<open>Kubernetes refuses a pod that mounts a volume it does not declare, or two containers of one
  name.\<close>

definition mounts_declared :: "PodSpec \<Rightarrow> bool" where
  "mounts_declared p \<longleftrightarrow>
     (\<forall>c \<in> set (po_Containers p @ po_InitContainers p). \<forall>m \<in> set (ct_VolumeMounts c).
        vm_Name m \<in> vol_Name ` set (po_Volumes p))"

definition names_distinct :: "PodSpec \<Rightarrow> bool" where
  "names_distinct p \<longleftrightarrow> distinct (map ct_Name (po_Containers p @ po_InitContainers p))"

lemmas pod_defs = mounts_declared_def names_distinct_def provInitContainer_def InitContainer_def
  httpdContainer_def discoveryContainer_def getVolumes_def getInitVolumes_def getVolumeMounts_def
  getInitVolumeMounts_def zero_Container_def

lemma Deployment_panics:
  "Deployment me inst h ls intf = Panic m \<Longrightarrow> pss_OSImageDir (ps_Spec inst) = None"
  by (auto simp: Deployment_def Let_def split: option.splits)

lemma Deployment_pod_ok:
  assumes "Deployment me inst h ls intf = Ok d"
  shows "mounts_declared (dp_Pod d) \<and> names_distinct (dp_Pod d)"
  using assms by (auto simp: Deployment_def Let_def pod_defs split: option.splits)

lemma ChecksumJob_pod_ok:
  assumes "ChecksumJob me inst ls an = Ok j"
  shows "mounts_declared (jb_Pod j) \<and> names_distinct (jb_Pod j)"
  using assms
  by (auto simp: ChecksumJob_def Let_def pod_defs split: option.splits dest: arg_cong [of _ _ length])

end
