(* ===== verification/ProvServerController.thy ===== *)
theory ProvServerController
  imports ProvResources Conditions GoNet
begin

text \<open>
  The controller of \<open>OpenStackProvisionServer\<close>
  (\<^verbatim>\<open>internal/controller/openstackprovisionserver_controller.go\<close>), in the style of the controller of
  the sets: the body of \<open>reconcileNormal\<close> is cut at its early returns into parts that \<open>flow_then\<close>
  composes, \<open>Reconcile\<close> runs the body and then the deferred function.

  \<open>'w ps_client\<close> is what the controller calls outside of the repository. \<open>EnsureConfigMaps\<close> returns
  the environment variables also when it fails, since the caller goes on with them.
  \<open>ReconcileRbac\<close> returns the conditions of the instance it leaves: it sets them through
  \<open>RbacConditionsSet\<close>, which shares the list of the instance.

  An \<open>any\<close> of Go carries its dynamic type: \<open>go_any\<close> has one constructor for each dynamic type that
  the code distinguishes, so that \<open>==\<close> between an interface value and a constant of a named string
  type is equality of \<open>go_any\<close> values.
\<close>

section \<open>Calls\<close>

datatype go_any =
    AnyNil
  | AnyString string
  | AnyMap "(string \<times> go_any) list"
  | AnyProvisioningNetwork string
  | AnyChecksumType string
  | AnyOther string

record DeployedObject =
  do_Generation :: int
  do_ObservedGeneration :: int
  do_ReadyReplicas :: int
  do_Rest :: string

record JobRun =
  jr_Result :: nat
  jr_Error :: "go_error option"
  jr_HasChanged :: bool
  jr_Hash :: string

record PolicyRule =
  rule_APIGroups :: "string list"
  rule_ResourceNames :: "string list"
  rule_Resources :: "string list"
  rule_Verbs :: "string list"

record 'w ps_client =
  pc_Get :: "'w \<Rightarrow> string \<Rightarrow> string \<Rightarrow> OpenStackProvisionServer result"
  pc_NewHelper :: "'w \<Rightarrow> OpenStackProvisionServer \<Rightarrow> unit result"
  pc_PatchInstance :: "'w \<Rightarrow> OpenStackProvisionServer \<Rightarrow> unit result \<times> 'w"
  pc_ReconcileRbac ::
    "'w \<Rightarrow> OpenStackProvisionServer \<Rightarrow> PolicyRule list \<Rightarrow> nat result \<times> Conditions \<times> 'w"
  pc_EnsureConfigMaps ::
    "'w \<Rightarrow> OpenStackProvisionServer \<Rightarrow> Template list \<Rightarrow> env_vars \<Rightarrow> unit result \<times> env_vars \<times> 'w"
  pc_CreateOrPatchDeployment :: "'w \<Rightarrow> DeploymentObject \<Rightarrow> nat result \<times> DeployedObject \<times> 'w"
  pc_DoJob :: "'w \<Rightarrow> JobObject \<Rightarrow> bool \<Rightarrow> string \<Rightarrow> JobRun result \<times> 'w"
  pc_GetConfig :: "'w \<Rightarrow> unit result"
  pc_NewForConfig :: "'w \<Rightarrow> unit result"
  pc_GetProvisioning :: "'w \<Rightarrow> string \<Rightarrow> (string \<times> go_any) list result"
  pc_ListPodHostIPs :: "'w \<Rightarrow> string \<Rightarrow> labels \<Rightarrow> string list result"

record ps_lib =
  pl_MergeEnvs :: merge_envs
  pl_ObjectHash :: "EnvVar list \<Rightarrow> string result"
  pl_SetHash :: "(string, string) gomap \<Rightarrow> string \<Rightarrow> string \<Rightarrow> (string, string) gomap \<times> bool"
  pl_IsReady :: "DeployedObject \<Rightarrow> bool"
  pl_IsIPv6 :: "nat list option \<Rightarrow> bool"
  pl_InputHashName :: string
  pl_AppSelector :: string

type_synonym 'w ps_state = "OpenStackProvisionServer \<times> 'w"

section \<open>Helpers\<close>

definition upd_ps_status ::
  "(OpenStackProvisionServerStatus \<Rightarrow> OpenStackProvisionServerStatus) \<Rightarrow> OpenStackProvisionServer \<Rightarrow>
   OpenStackProvisionServer" where
  "upd_ps_status f p = p\<lparr>ps_Status := f (ps_Status p)\<rparr>"

definition on_ps :: "(OpenStackProvisionServer \<Rightarrow> OpenStackProvisionServer) \<Rightarrow> 'w ps_state \<Rightarrow> 'w ps_state" where
  "on_ps f s = (case s of (p, w) \<Rightarrow> (f p, w))"

definition serviceLabels_ps :: "lib \<Rightarrow> ps_lib \<Rightarrow> OpenStackProvisionServer \<Rightarrow> labels" where
  "serviceLabels_ps L P inst =
     GetLabels L (ps_Meta inst) AppLabel (Some [(pl_AppSelector P, ps_Name inst @ ''-deployment'')])"

definition generateServiceConfigMaps ::
  "lib \<Rightarrow> 'w ps_client \<Rightarrow> env_vars \<Rightarrow> 'w ps_state \<Rightarrow> (unit result \<times> env_vars) \<times> 'w ps_state" where
  "generateServiceConfigMaps L pc env s =
     (case s of (inst, w) \<Rightarrow>
        let cmLabels = GetLabels L (ps_Meta inst) AppLabel gm_empty;
            templateParameters =
              gm_put ''DocumentRoot''
                (TStrPtr (pss_OSImageDir (ps_Spec inst)))
                (gm_put ''Port'' (TStr (itoa (ps_Port inst))) gm_empty);
            cms = [\<lparr>tpl_Name = ps_Name inst @ ''-httpd-config'', tpl_Namespace = ps_Namespace inst,
                    tpl_Type = TemplateTypeConfig, tpl_InstanceType = ps_Kind inst, tpl_AdditionalTemplate = gm_empty,
                    tpl_Labels = cmLabels, tpl_ConfigOptions = templateParameters\<rparr>]
        in case pc_EnsureConfigMaps pc w inst cms env of
             (Ok _, env', w') \<Rightarrow> ((Ok (), env'), inst, w')
           | (Err e, env', w') \<Rightarrow> ((Ok (), env'), inst, w')
           | (Panic m, env', w') \<Rightarrow> ((Panic m, env'), inst, w'))"

definition createHashOfInputHashes ::
  "ps_lib \<Rightarrow> env_vars \<Rightarrow> OpenStackProvisionServer \<Rightarrow> (string \<times> bool) result \<times> OpenStackProvisionServer" where
  "createHashOfInputHashes P envVars inst =
     (let mergedMapVars = pl_MergeEnvs P [] envVars
      in case pl_ObjectHash P mergedMapVars of
           Err e \<Rightarrow> (Err e, inst)
         | Panic m \<Rightarrow> (Panic m, inst)
         | Ok hash \<Rightarrow>
             (case pl_SetHash P (pst_Hash (ps_Status inst)) (pl_InputHashName P) hash of
                (hashMap, changed) \<Rightarrow>
                  (Ok (hash, changed),
                   if changed then upd_ps_status (pst_Hash_update (\<lambda>_. hashMap)) inst else inst)))"

definition getProvisioningInterface :: "'w ps_client \<Rightarrow> 'w \<Rightarrow> string result" where
  "getProvisioningInterface pc w =
     (case pc_GetConfig pc w of
        Err e \<Rightarrow> Err e
      | Panic m \<Rightarrow> Panic m
      | Ok _ \<Rightarrow>
     (case pc_NewForConfig pc w of
        Err e \<Rightarrow> Err e
      | Panic m \<Rightarrow> Panic m
      | Ok _ \<Rightarrow>
     (case pc_GetProvisioning pc w ''provisioning-configuration'' of
        Err e \<Rightarrow> if IsNotFound e then Ok [] else Err e
      | Panic m \<Rightarrow> Panic m
      | Ok object \<Rightarrow>
          (case map_of object ''spec'' of
             Some (AnyMap provisioningSpec) \<Rightarrow>
               (let bootMode = (case map_of provisioningSpec ''provisioningNetwork'' of
                                  None \<Rightarrow> AnyNil | Some v \<Rightarrow> v)
                in if bootMode = AnyNil \<or> bootMode \<noteq> AnyProvisioningNetwork ProvisioningNetworkManaged
                   then Ok []
                   else (case map_of provisioningSpec ''provisioningInterface'' of
                           Some (AnyString provInterfaceName) \<Rightarrow> Ok provInterfaceName
                         | _ \<Rightarrow> Ok []))
           | _ \<Rightarrow> Ok []))))"

definition getProvisioningInterfaceName ::
  "'w ps_client \<Rightarrow> 'w ps_state \<Rightarrow> string result" where
  "getProvisioningInterfaceName pc s =
     (case s of (inst, w) \<Rightarrow>
        if pss_Interface (ps_Spec inst) \<noteq> [] then Ok (pss_Interface (ps_Spec inst))
        else getProvisioningInterface pc w)"

definition getLocalImageURL ::
  "lib \<Rightarrow> ps_lib \<Rightarrow> 'w ps_client \<Rightarrow> 'w ps_state \<Rightarrow> string \<Rightarrow> string result" where
  "getLocalImageURL L P pc s filename =
     (case s of (inst, w) \<Rightarrow>
        case (if pst_ProvisionIP (ps_Status inst) = []
              then (case pc_ListPodHostIPs pc w (ps_Namespace inst) (serviceLabels_ps L P inst) of
                      Err e \<Rightarrow> Err e
                    | Panic m \<Rightarrow> Panic m
                    | Ok [] \<Rightarrow> Panic ''index out of range [0] with length 0''
                    | Ok (ip # _) \<Rightarrow> Ok ip)
              else Ok (pst_ProvisionIP (ps_Status inst))) of
          Err e \<Rightarrow> Err e
        | Panic m \<Rightarrow> Panic m
        | Ok host \<Rightarrow>
            (let host = (if pl_IsIPv6 P (ParseIP host) then ''['' @ host @ '']'' else host)
             in Ok (''http://'' @ host @ '':'' @ itoa (ps_Port inst) @ ''/'' @ filename)))"

section \<open>The parts of a reconciliation\<close>

definition configPhase ::
  "lib \<Rightarrow> cond_ops \<Rightarrow> ps_lib \<Rightarrow> 'w ps_client \<Rightarrow> 'w ps_state \<Rightarrow> (nat result, string) flow \<times> 'w ps_state" where
  "configPhase L C P pc s =
     (let failed = (\<lambda>e s. (Return (Err e),
            on_ps (upd_ps_conds (set_error C ServiceConfigReadyCondition
              (cond_textf C ''ServiceConfigReadyErrorMessage'' (Error_text L e)))) s))
      in case generateServiceConfigMaps L pc gm_empty s of
           ((Panic m, env), s) \<Rightarrow> (Return (Panic m), s)
         | ((Err e, env), s) \<Rightarrow> failed e s
         | ((Ok _, env), (inst, w)) \<Rightarrow>
             (case createHashOfInputHashes P env inst of
                (Panic m, inst) \<Rightarrow> (Return (Panic m), inst, w)
              | (Err e, inst) \<Rightarrow> failed e (inst, w)
              | (Ok (inputHash, hashChanged), inst) \<Rightarrow>
                  if hashChanged then (Return (Ok 0), inst, w)
                  else (Continue inputHash,
                        on_ps (upd_ps_conds (\<lambda>cs. cond_MarkTrue C cs ServiceConfigReadyCondition
                          (cond_text C ''ServiceConfigReadyMessage''))) (inst, w))))"

definition interfacePhase ::
  "lib \<Rightarrow> cond_ops \<Rightarrow> 'w ps_client \<Rightarrow> 'w ps_state \<Rightarrow> (nat result, string) flow \<times> 'w ps_state" where
  "interfacePhase L C pc s =
     (case getProvisioningInterfaceName pc s of
        Panic m \<Rightarrow> (Return (Panic m), s)
      | Err e \<Rightarrow>
          (Return (Err e), on_ps (upd_ps_conds (set_error C OpenStackProvisionServerProvIntfReadyCondition
             (OpenStackProvisionServerProvIntfReadyErrorMessage (Error_text L e)))) s)
      | Ok name \<Rightarrow>
          (Continue name,
           if name = []
           then on_ps (upd_ps_conds (\<lambda>cs. cond_Remove C cs OpenStackProvisionServerProvIntfReadyCondition)) s
           else s))"

definition deploymentPhase ::
  "lib \<Rightarrow> cond_ops \<Rightarrow> ps_lib \<Rightarrow> 'w ps_client \<Rightarrow> string \<Rightarrow> string \<Rightarrow> 'w ps_state \<Rightarrow>
   (nat result, unit) flow \<times> 'w ps_state" where
  "deploymentPhase L C P pc inputHash provInterfaceName s =
     (case on_ps (upd_ps_status (pst_LocalImageURL_update (\<lambda>_. []))) s of (inst, w) \<Rightarrow>
      let running = upd_ps_conds (set_requested C DeploymentReadyCondition
                                    (cond_text C ''DeploymentReadyRunningMessage''))
      in case Deployment (pl_MergeEnvs P) inst inputHash (serviceLabels_ps L P inst) provInterfaceName of
        Panic m \<Rightarrow> (Return (Panic m), inst, w)
      | Err e \<Rightarrow> (Return (Err e), inst, w)
      | Ok depl \<Rightarrow>
     (case pc_CreateOrPatchDeployment pc w depl of
        (Panic m, _, w) \<Rightarrow> (Return (Panic m), inst, w)
      | (Err e, _, w) \<Rightarrow>
          (Return (Err e), upd_ps_conds (set_error C DeploymentReadyCondition
             (cond_textf C ''DeploymentReadyErrorMessage'' (Error_text L e))) inst, w)
      | (Ok n, deploy, w) \<Rightarrow>
          if n \<noteq> 0 then (Return (Ok n), running inst, w)
          else
            (let inst = (if do_Generation deploy = do_ObservedGeneration deploy
                         then upd_ps_status (pst_ReadyCount_update (\<lambda>_. do_ReadyReplicas deploy)) inst
                         else inst)
             in if pl_IsReady P deploy
                then (Continue (), upd_ps_conds (\<lambda>cs. cond_MarkTrue C cs DeploymentReadyCondition
                        (cond_text C ''DeploymentReadyMessage'')) inst, w)
                else (Return (Ok 10), running inst, w))))"

definition provisionIPPhase ::
  "lib \<Rightarrow> cond_ops \<Rightarrow> string \<Rightarrow> 'w ps_state \<Rightarrow> (nat result, unit) flow \<times> 'w ps_state" where
  "provisionIPPhase L C provInterfaceName s =
     (let st = ps_Status (fst s); ready = OpenStackProvisionServerProvIntfReadyCondition
      in if provInterfaceName \<noteq> [] then
           if pst_ProvisionIPError st \<noteq> [] then
             (let e = ErrProvisioningAgent (pst_ProvisionIPError st)
              in (Return (Err e), on_ps (upd_ps_conds (set_error C ready
                    (OpenStackProvisionServerProvIntfReadyErrorMessage (Error_text L e)))) s))
           else if pst_ProvisionIP st = [] then
             (Return (Ok 10), on_ps (upd_ps_conds (set_requested C ready
                OpenStackProvisionServerProvIntfReadyRunningMessage)) s)
           else (Continue (), on_ps (upd_ps_conds (\<lambda>cs. cond_MarkTrue C cs ready
                   OpenStackProvisionServerProvIntfReadyMessage)) s)
         else (Continue (), s))"

definition localImagePhase ::
  "lib \<Rightarrow> cond_ops \<Rightarrow> ps_lib \<Rightarrow> 'w ps_client \<Rightarrow> 'w ps_state \<Rightarrow> (nat result, unit) flow \<times> 'w ps_state" where
  "localImagePhase L C P pc s =
     (let ready = OpenStackProvisionServerLocalImageURLReadyCondition
      in case getLocalImageURL L P pc s (pss_OSImage (ps_Spec (fst s))) of
           Panic m \<Rightarrow> (Return (Panic m), s)
         | Err e \<Rightarrow>
             (Return (Err e), on_ps (\<lambda>p. upd_ps_conds (\<lambda>cs. cond_MarkFalse C cs ready ''Error'' ''Error''
                (OpenStackProvisionServerLocalImageURLReadyErrorMessage (Error_text L e)))
                (upd_ps_status (pst_LocalImageURL_update (\<lambda>_. [])) p)) s)
         | Ok url \<Rightarrow>
             (let s = on_ps (upd_ps_status (pst_LocalImageURL_update (\<lambda>_. url))) s
              in if url \<noteq> []
                 then (Continue (), on_ps (upd_ps_conds (\<lambda>cs. cond_MarkTrue C cs ready
                         OpenStackProvisionServerLocalImageURLReadyMessage)) s)
                 else (Return (Ok 10), on_ps (upd_ps_conds (set_requested C ready
                         OpenStackProvisionServerLocalImageURLReadyRunningMessage)) s)))"

text \<open>\<open>instance.Status.Hash[...] = ...\<close> panics on a nil map, which \<open>Reconcile\<close> has made before.\<close>

definition jobPhase ::
  "lib \<Rightarrow> cond_ops \<Rightarrow> ps_lib \<Rightarrow> 'w ps_client \<Rightarrow> 'w ps_state \<Rightarrow> (nat result, unit) flow \<times> 'w ps_state" where
  "jobPhase L C P pc s =
     (case s of (inst, w) \<Rightarrow>
      let checksumHash = label_of (pst_Hash (ps_Status inst)) ChecksumHash;
          ready = OpenStackProvisionServerChecksumReadyCondition
      in case ChecksumJob (pl_MergeEnvs P) inst (serviceLabels_ps L P inst) gm_empty of
        Panic m \<Rightarrow> (Return (Panic m), s)
      | Err e \<Rightarrow> (Return (Err e), s)
      | Ok jobDef \<Rightarrow>
     (case pc_DoJob pc w jobDef (pss_PreserveJobs (ps_Spec inst)) checksumHash of
        (Panic m, w) \<Rightarrow> (Return (Panic m), inst, w)
      | (Err e, w) \<Rightarrow>
          (Return (Err e), upd_ps_conds (set_error C ready
             (OpenStackProvisionServerChecksumReadyErrorMessage (Error_text L e))) inst, w)
      | (Ok run, w) \<Rightarrow>
          if jr_Result run \<noteq> 0
          then (Return (Ok (jr_Result run)), upd_ps_conds (set_requested C ready
                  OpenStackProvisionServerChecksumReadyRunningMessage) inst, w)
          else (case jr_Error run of
                  Some e \<Rightarrow>
                    (Return (Err e), upd_ps_conds (set_error C ready
                       (OpenStackProvisionServerChecksumReadyErrorMessage (Error_text L e))) inst, w)
                | None \<Rightarrow>
                    if jr_HasChanged run
                    then (case gm_assign ChecksumHash (jr_Hash run) (pst_Hash (ps_Status inst)) of
                            None \<Rightarrow> (Return (Panic ''assignment to entry in nil map''), inst, w)
                          | Some h \<Rightarrow> (Continue (), upd_ps_status (pst_Hash_update (\<lambda>_. h)) inst, w))
                    else (Continue (), inst, w))))"

definition checksumURLPhase ::
  "lib \<Rightarrow> cond_ops \<Rightarrow> ps_lib \<Rightarrow> 'w ps_client \<Rightarrow> 'w ps_state \<Rightarrow> (nat result, unit) flow \<times> 'w ps_state" where
  "checksumURLPhase L C P pc s =
     (let ready = OpenStackProvisionServerChecksumReadyCondition
      in case getLocalImageURL L P pc s (pst_OSImageChecksumFilename (ps_Status (fst s))) of
           Panic m \<Rightarrow> (Return (Panic m), s)
         | Err e \<Rightarrow>
             (Return (Err e), on_ps (\<lambda>p. upd_ps_conds (\<lambda>cs. cond_MarkFalse C cs ready ''Error'' ''Error''
                (OpenStackProvisionServerChecksumReadyErrorMessage (Error_text L e)))
                (upd_ps_status (pst_LocalImageChecksumURL_update (\<lambda>_. [])) p)) s)
         | Ok url \<Rightarrow>
             (let s = on_ps (upd_ps_status (pst_LocalImageChecksumURL_update (\<lambda>_. url))) s
              in if url \<noteq> []
                 then (Continue (), on_ps (upd_ps_conds (\<lambda>cs. cond_MarkTrue C cs ready
                         OpenStackProvisionServerChecksumReadyMessage)) s)
                 else (Return (Ok 5), on_ps (upd_ps_conds (set_requested C ready
                         OpenStackProvisionServerChecksumReadyRunningMessage)) s)))"

definition finalPhase_ps :: "cond_ops \<Rightarrow> 'w ps_state \<Rightarrow> (nat result, nat result) flow \<times> 'w ps_state" where
  "finalPhase_ps C s =
     (Continue (Ok 0), on_ps (upd_ps_conds (\<lambda>cs.
        if cond_AllSubConditionIsTrue C cs
        then cond_MarkTrue C cs ReadyCondition (cond_text C ''ReadyMessage'') else cs)) s)"

text \<open>\<open>reconcileInit\<close>, \<open>reconcileUpdate\<close> and \<open>reconcileUpgrade\<close> only log.\<close>

definition reconcileInit_ps :: "'w ps_state \<Rightarrow> nat result" where
  "reconcileInit_ps s = Ok 0"

definition reconcileUpdate_ps :: "'w ps_state \<Rightarrow> nat result" where
  "reconcileUpdate_ps s = Ok 0"

definition reconcileUpgrade_ps :: "'w ps_state \<Rightarrow> nat result" where
  "reconcileUpgrade_ps s = Ok 0"

definition reconcileNormal_ps ::
  "lib \<Rightarrow> cond_ops \<Rightarrow> ps_lib \<Rightarrow> 'w ps_client \<Rightarrow> 'w ps_state \<Rightarrow> nat result \<times> 'w ps_state" where
  "reconcileNormal_ps L C P pc s =
     flow_end (flow_then (configPhase L C P pc s) (\<lambda>inputHash s.
       flow_then (interfacePhase L C pc s) (\<lambda>intf s.
       flow_then (check_result (reconcileInit_ps s) s) (\<lambda>_ s.
       flow_then (check_result (reconcileUpdate_ps s) s) (\<lambda>_ s.
       flow_then (check_result (reconcileUpgrade_ps s) s) (\<lambda>_ s.
       flow_then (deploymentPhase L C P pc inputHash intf s) (\<lambda>_ s.
       flow_then (provisionIPPhase L C intf s) (\<lambda>_ s.
       flow_then (localImagePhase L C P pc s) (\<lambda>_ s.
       flow_then (jobPhase L C P pc s) (\<lambda>_ s.
       flow_then (checksumURLPhase L C P pc s) (\<lambda>_ s.
       finalPhase_ps C s)))))))))))"

definition reconcileDelete_ps :: "lib \<Rightarrow> 'w ps_state \<Rightarrow> nat result \<times> 'w ps_state" where
  "reconcileDelete_ps L s =
     (Ok 0, on_ps (\<lambda>p. p\<lparr>ps_Meta := RemoveFinalizer L (ps_Meta p) (GetFinalizer L (ps_Meta p))\<rparr>) s)"

definition initialConditions_ps :: "cond_ops \<Rightarrow> Condition list" where
  "initialConditions_ps C =
     map (\<lambda>(t, msg). cond_UnknownCondition C t ''Init'' msg)
       [(DeploymentReadyCondition, cond_text C ''DeploymentReadyInitMessage''),
        (ServiceConfigReadyCondition, cond_text C ''ServiceConfigReadyInitMessage''),
        (OpenStackProvisionServerProvIntfReadyCondition, OpenStackProvisionServerProvIntfReadyInitMessage),
        (OpenStackProvisionServerLocalImageURLReadyCondition,
         OpenStackProvisionServerLocalImageURLReadyInitMessage),
        (OpenStackProvisionServerChecksumReadyCondition, OpenStackProvisionServerChecksumReadyInitMessage),
        (ServiceAccountReadyCondition, cond_text C ''ServiceAccountReadyInitMessage''),
        (RoleReadyCondition, cond_text C ''RoleReadyInitMessage''),
        (RoleBindingReadyCondition, cond_text C ''RoleBindingReadyInitMessage'')]"

definition rbacRules :: "PolicyRule list" where
  "rbacRules =
     [\<lparr>rule_APIGroups = [''security.openshift.io''], rule_ResourceNames = [''hostnetwork''],
       rule_Resources = [''securitycontextconstraints''], rule_Verbs = [''use'']\<rparr>,
      \<lparr>rule_APIGroups = [''baremetal.openstack.org''], rule_ResourceNames = [],
       rule_Resources = [''openstackprovisionservers''], rule_Verbs = [''get'', ''list'']\<rparr>,
      \<lparr>rule_APIGroups = [''baremetal.openstack.org''], rule_ResourceNames = [],
       rule_Resources = [''openstackprovisionservers/status''],
       rule_Verbs = [''get'', ''list'', ''update'']\<rparr>]"

definition rbacPhase ::
  "'w ps_client \<Rightarrow> 'w ps_state \<Rightarrow> (nat result, unit) flow \<times> 'w ps_state" where
  "rbacPhase pc s =
     (case s of (inst, w) \<Rightarrow>
        case pc_ReconcileRbac pc w inst rbacRules of
          (r, cs, w') \<Rightarrow> check_result r (upd_ps_conds (\<lambda>_. cs) inst, w'))"

definition ensureFinalizer_ps :: "lib \<Rightarrow> OpenStackProvisionServer \<Rightarrow> bool \<times> OpenStackProvisionServer" where
  "ensureFinalizer_ps L inst =
     (if om_Deleting (ps_Meta inst) then (False, inst)
      else case AddFinalizer L (ps_Meta inst) (GetFinalizer L (ps_Meta inst)) of
             (added, meta) \<Rightarrow> (added, inst\<lparr>ps_Meta := meta\<rparr>))"

definition makeHash_ps :: "OpenStackProvisionServer \<Rightarrow> OpenStackProvisionServer" where
  "makeHash_ps inst =
     (if pst_Hash (ps_Status inst) = None
      then upd_ps_status (pst_Hash_update (\<lambda>_. gm_empty)) inst else inst)"

definition reconcileBody_ps ::
  "lib \<Rightarrow> cond_ops \<Rightarrow> ps_lib \<Rightarrow> 'w ps_client \<Rightarrow> 'w ps_state \<Rightarrow> nat result \<times> 'w ps_state" where
  "reconcileBody_ps L C P pc s =
     (case s of (inst, w) \<Rightarrow>
        let isNewInstance = (pst_Conditions (ps_Status inst) = None);
            (added, inst) = ensureFinalizer_ps L
              (upd_ps_conds (\<lambda>cs. cond_Init C cs (initialConditions_ps C)) inst)
        in if added \<or> isNewInstance then (Ok 0, inst, w)
           else let inst = makeHash_ps inst
                in if om_Deleting (ps_Meta inst) then reconcileDelete_ps L (inst, w)
                   else case rbacPhase pc (inst, w) of
                          (Return r, s) \<Rightarrow> (r, s)
                        | (Continue _, s) \<Rightarrow> reconcileNormal_ps L C P pc s)"

definition deferred_ps ::
  "cond_ops \<Rightarrow> 'w ps_client \<Rightarrow> Conditions \<Rightarrow> nat result \<times> 'w ps_state \<Rightarrow> nat result \<times> 'w" where
  "deferred_ps C pc saved r =
     (case r of (res, inst, w) \<Rightarrow>
        case res of
          Panic m \<Rightarrow> (Err (ErrReconciliationPanic m), w)
        | _ \<Rightarrow>
            (case pc_PatchInstance pc w (upd_ps_conds (deferredConditions C saved) inst) of
               (Ok _, w') \<Rightarrow> (res, w')
             | (Err e, w') \<Rightarrow> (Err e, w')
             | (Panic m, w') \<Rightarrow> (Panic m, w')))"

definition Reconcile_ps ::
  "lib \<Rightarrow> cond_ops \<Rightarrow> ps_lib \<Rightarrow> 'w ps_client \<Rightarrow> 'w \<Rightarrow> string \<Rightarrow> string \<Rightarrow> nat result \<times> 'w" where
  "Reconcile_ps L C P pc w name namespace =
     (case pc_Get pc w name namespace of
        Err e \<Rightarrow> (if IsNotFound e then Ok 0 else Err e, w)
      | Panic m \<Rightarrow> (Panic m, w)
      | Ok inst \<Rightarrow>
          if IsPaused L (ps_Meta inst) \<and> \<not> om_Deleting (ps_Meta inst) then (Ok 0, w)
          else case pc_NewHelper pc w inst of
                 Err e \<Rightarrow> (Err e, w)
               | Panic m \<Rightarrow> (Panic m, w)
               | Ok _ \<Rightarrow> deferred_ps C pc (ps_conds inst) (reconcileBody_ps L C P pc (inst, w)))"

definition IsReady_ps :: "cond_ops \<Rightarrow> OpenStackProvisionServer \<Rightarrow> bool" where
  "IsReady_ps C inst = cond_IsTrue C (ps_conds inst) ReadyCondition"

end
