(* ===== verification/ProvServerSafety.thy ===== *)
theory ProvServerSafety
  imports ProvServerController
begin

text \<open>
  What the reconciliation of \<open>OpenStackProvisionServer\<close> guarantees: the overall condition is true
  only when every other condition is and both URLs are those of the reported address; which values the interface discovery
  and the image URL can take; and how a panic ends a reconciliation.
\<close>

section \<open>Image URLs\<close>

lemma getLocalImageURL_Ok:
  assumes "getLocalImageURL L P pc (inst, w) f = Ok url"
  shows "\<exists>host. url = ''http://'' @ (if pl_IsIPv6 P (ParseIP host) then ''['' @ host @ '']'' else host)
      @ '':'' @ itoa (ps_Port inst) @ ''/'' @ f
    \<and> (if pst_ProvisionIP (ps_Status inst) \<noteq> [] then host = pst_ProvisionIP (ps_Status inst)
       else \<exists>ips. pc_ListPodHostIPs pc w (ps_Namespace inst) (serviceLabels_ps L P inst) = Ok (host # ips))"
  using assms
  by (auto simp: getLocalImageURL_def Let_def split: outcome.splits list.splits if_splits)

text \<open>The URL of a file of a server whose address is known.\<close>

definition file_url :: "ps_lib \<Rightarrow> OpenStackProvisionServer \<Rightarrow> string \<Rightarrow> string" where
  "file_url P p f =
     (let host = pst_ProvisionIP (ps_Status p)
      in ''http://'' @ (if pl_IsIPv6 P (ParseIP host) then ''['' @ host @ '']'' else host)
           @ '':'' @ itoa (ps_Port p) @ ''/'' @ f)"

lemma getLocalImageURL_file:
  "getLocalImageURL L P pc s f = Ok url \<Longrightarrow> pst_ProvisionIP (ps_Status (fst s)) \<noteq> [] \<Longrightarrow> url = file_url P (fst s) f"
  using getLocalImageURL_Ok [of L P pc "fst s" "snd s" f url] by (auto simp: file_url_def Let_def)

lemma getLocalImageURL_nonempty: "getLocalImageURL L P pc s f = Ok url \<Longrightarrow> url \<noteq> []"
  using getLocalImageURL_Ok [of L P pc "fst s" "snd s" f url] by auto

lemma getLocalImageURL_no_pod:
  assumes "pst_ProvisionIP (ps_Status inst) = []"
    and "pc_ListPodHostIPs pc w (ps_Namespace inst) (serviceLabels_ps L P inst) = Ok []"
  shows "\<exists>m. getLocalImageURL L P pc (inst, w) f = Panic m"
  using assms by (simp add: getLocalImageURL_def)

section \<open>Interface discovery\<close>

text \<open>The values that decoding JSON into an unstructured object produces: no value of a named type.\<close>

fun json_value :: "go_any \<Rightarrow> bool" where
  "json_value (AnyProvisioningNetwork s) = False"
| "json_value (AnyChecksumType s) = False"
| "json_value (AnyMap kvs) = list_all (\<lambda>kv. json_value (snd kv)) kvs"
| "json_value _ = True"

lemma json_value_lookup: "list_all (\<lambda>kv. json_value (snd kv)) kvs \<Longrightarrow> map_of kvs k = Some v \<Longrightarrow> json_value v"
  by (induction kvs) (auto split: if_splits)

lemma interface_not_discovered:
  assumes "\<And>obj. pc_GetProvisioning pc w ''provisioning-configuration'' = Ok obj \<Longrightarrow>
      list_all (\<lambda>kv. json_value (snd kv)) obj"
    and "getProvisioningInterface pc w = Ok name"
  shows "name = []"
proof (cases "pc_GetProvisioning pc w ''provisioning-configuration''")
  case (Ok obj)
  note j = assms(1) [OF Ok]
  have "map_of spec ''provisioningNetwork'' \<noteq> Some (AnyProvisioningNetwork ProvisioningNetworkManaged)"
    if "map_of obj ''spec'' = Some (AnyMap spec)" for spec
    using json_value_lookup [OF j that] json_value_lookup [of spec] by fastforce
  with Ok assms(2) show ?thesis
    by (auto simp: getProvisioningInterface_def Let_def
        split: outcome.splits option.splits go_any.splits if_splits)
next
  case (Err e)
  with assms(2) show ?thesis
    by (auto simp: getProvisioningInterface_def split: outcome.splits if_splits)
next
  case (Panic m)
  with assms(2) show ?thesis
    by (auto simp: getProvisioningInterface_def split: outcome.splits)
qed

section \<open>The overall condition\<close>

lemma on_ps_simps [simp]: "fst (on_ps f s) = f (fst s)" "on_ps f (p, w) = (f p, w)"
  by (cases s) (simp_all add: on_ps_def)

lemma upd_ps_status_conds:
  "(\<And>st. pst_Conditions (f st) = pst_Conditions st) \<Longrightarrow> ps_conds (upd_ps_status f p) = ps_conds p"
  by (simp add: upd_ps_status_def ps_conds_def)

lemma upd_ps_status_simps [simp]:
  "ps_conds (upd_ps_status (pst_Hash_update g1) p) = ps_conds p"
  "ps_conds (upd_ps_status (pst_LocalImageURL_update g) p) = ps_conds p"
  "ps_conds (upd_ps_status (pst_LocalImageChecksumURL_update g) p) = ps_conds p"
  "ps_conds (upd_ps_status (pst_ReadyCount_update g2) p) = ps_conds p"
  by (simp_all add: upd_ps_status_conds)

text \<open>The URLs are set, and they are those of the address that the status reports, if it reports one.\<close>

definition image_url_current :: "ps_lib \<Rightarrow> OpenStackProvisionServer \<Rightarrow> bool" where
  "image_url_current P p \<longleftrightarrow> pst_LocalImageURL (ps_Status p) \<noteq> []
     \<and> (pst_ProvisionIP (ps_Status p) \<noteq> [] \<longrightarrow> pst_LocalImageURL (ps_Status p) = file_url P p (pss_OSImage (ps_Spec p)))"

definition urls_current :: "ps_lib \<Rightarrow> OpenStackProvisionServer \<Rightarrow> bool" where
  "urls_current P p \<longleftrightarrow> image_url_current P p \<and> pst_LocalImageChecksumURL (ps_Status p) \<noteq> []
     \<and> (pst_ProvisionIP (ps_Status p) \<noteq> [] \<longrightarrow>
          pst_LocalImageChecksumURL (ps_Status p) = file_url P p (pst_OSImageChecksumFilename (ps_Status p)))"

lemma image_url_current_upd [simp]:
  "image_url_current P (upd_ps_conds f p) = image_url_current P p"
  "urls_current P (upd_ps_conds f p) = urls_current P p"
  "image_url_current P (upd_ps_status (pst_Hash_update g) p) = image_url_current P p"
  "image_url_current P (upd_ps_status (pst_LocalImageChecksumURL_update g') p) = image_url_current P p"
  by (simp_all add: image_url_current_def urls_current_def file_url_def Let_def upd_ps_conds_def upd_ps_status_def)

text \<open>Until the checksum is known, \<open>Ready\<close> and the condition of the checksum are not true.\<close>

definition ps_open :: "OpenStackProvisionServer \<Rightarrow> bool" where
  "ps_open p \<longleftrightarrow> ready_unknown (ps_conds p)
     \<and> (\<exists>st. cond_status (ps_conds p) OpenStackProvisionServerChecksumReadyCondition = Some st \<and> st \<noteq> CTrue)"

definition ps_post :: "ps_lib \<Rightarrow> OpenStackProvisionServer \<Rightarrow> bool" where
  "ps_post P p \<longleftrightarrow> ps_open p \<or> (ready_sound (ps_conds p) \<and> urls_current P p)"

text \<open>The reconciliation of the roles touches no condition but its own.\<close>

definition rbac_frame :: "'w ps_client \<Rightarrow> bool" where
  "rbac_frame pc \<longleftrightarrow> (\<forall>w inst rules r cs w' t. pc_ReconcileRbac pc w inst rules = (r, cs, w') \<longrightarrow>
     t \<notin> {ServiceAccountReadyCondition, RoleReadyCondition, RoleBindingReadyCondition} \<longrightarrow>
     cond_status cs t = cond_status (ps_conds inst) t)"

context cond_laws begin

lemma ps_open_upd:
  "ps_open p \<Longrightarrow> t \<noteq> ReadyCondition \<Longrightarrow> ps_open (upd_ps_conds (set_error C t m) p)"
  "ps_open p \<Longrightarrow> t \<noteq> ReadyCondition \<Longrightarrow> ps_open (upd_ps_conds (set_requested C t m) p)"
  "ps_open p \<Longrightarrow> t \<noteq> ReadyCondition \<Longrightarrow> ps_open (upd_ps_conds (\<lambda>cs. cond_MarkFalse C cs t r sv m) p)"
  "ps_open p \<Longrightarrow> t \<noteq> ReadyCondition \<Longrightarrow> t \<noteq> OpenStackProvisionServerChecksumReadyCondition \<Longrightarrow>
     ps_open (upd_ps_conds (\<lambda>cs. cond_MarkTrue C cs t m) p)"
  "ps_open p \<Longrightarrow> t \<noteq> ReadyCondition \<Longrightarrow> t \<noteq> OpenStackProvisionServerChecksumReadyCondition \<Longrightarrow>
     ps_open (upd_ps_conds (\<lambda>cs. cond_Remove C cs t) p)"
  by (auto simp: ps_open_def ready_unknown_def status_simps)

lemma ps_open_status [simp]:
  "ps_open (upd_ps_status (pst_Hash_update g1) p) = ps_open p"
  "ps_open (upd_ps_status (pst_LocalImageURL_update g) p) = ps_open p"
  "ps_open (upd_ps_status (pst_LocalImageChecksumURL_update g) p) = ps_open p"
  "ps_open (upd_ps_status (pst_ReadyCount_update g2) p) = ps_open p"
  by (simp_all add: ps_open_def)

lemma configPhase_open: "ps_open (fst s) \<Longrightarrow> ps_open (fst (snd (configPhase L C P pc s)))"
  by (cases s) (auto simp: configPhase_def Let_def generateServiceConfigMaps_def
      createHashOfInputHashes_def ps_open_upd split: outcome.splits prod.splits if_splits)

lemma interfacePhase_open: "ps_open (fst s) \<Longrightarrow> ps_open (fst (snd (interfacePhase L C pc s)))"
  by (auto simp: interfacePhase_def ps_open_upd split: outcome.split)

lemma deploymentPhase_open:
  "ps_open (fst s) \<Longrightarrow> ps_open (fst (snd (deploymentPhase L C P pc h intf s)))"
  by (cases s) (auto simp: deploymentPhase_def Let_def ps_open_upd split: outcome.splits prod.splits)

lemma provisionIPPhase_open: "ps_open (fst s) \<Longrightarrow> ps_open (fst (snd (provisionIPPhase L C intf s)))"
  by (auto simp: provisionIPPhase_def Let_def ps_open_upd)

lemma localImagePhase_open: "ps_open (fst s) \<Longrightarrow> ps_open (fst (snd (localImagePhase L C P pc s)))"
  by (auto simp: localImagePhase_def Let_def ps_open_upd split: outcome.split)

lemma jobPhase_open: "ps_open (fst s) \<Longrightarrow> ps_open (fst (snd (jobPhase L C P pc s)))"
  by (cases s) (auto simp: jobPhase_def Let_def ps_open_upd split: outcome.splits prod.splits option.splits)

lemmas phases_open = configPhase_open interfacePhase_open deploymentPhase_open provisionIPPhase_open
  localImagePhase_open jobPhase_open

text \<open>The last two phases: from the URL of the image on, the URL stays set; the end may set \<open>Ready\<close>.\<close>

lemma localImagePhase_url:
  "localImagePhase L C P pc s = (Continue u, t) \<Longrightarrow> image_url_current P (fst t)"
  using getLocalImageURL_file [of L P pc s "pss_OSImage (ps_Spec (fst s))"]
  by (cases s) (auto simp: localImagePhase_def Let_def image_url_current_def file_url_def upd_ps_conds_def upd_ps_status_def
      split: outcome.splits if_splits)

lemma jobPhase_url:
  "image_url_current P (fst s) \<Longrightarrow> image_url_current P (fst (snd (jobPhase L C P pc s)))"
  by (cases s) (auto simp: jobPhase_def Let_def split: outcome.splits prod.splits option.splits)

lemma checksumURLPhase_Return:
  assumes "ps_open (fst s)" and "checksumURLPhase L C P pc s = (Return r, t)"
  shows "ps_open (fst t)"
  using assms getLocalImageURL_nonempty [of L P pc s "pst_OSImageChecksumFilename (ps_Status (fst s))"]
  by (cases s) (auto simp: checksumURLPhase_def Let_def ps_open_upd split: outcome.splits if_splits)

lemma checksumURLPhase_Continue:
  assumes "ps_open (fst s)" and "image_url_current P (fst s)" and "checksumURLPhase L C P pc s = (Continue u, t)"
  shows "ready_unknown (ps_conds (fst t)) \<and> urls_current P (fst t)"
proof -
  let ?f = "pst_OSImageChecksumFilename (ps_Status (fst s))"
  obtain url where url: "getLocalImageURL L P pc s ?f = Ok url" "url \<noteq> []"
    and t: "fst t = upd_ps_conds (\<lambda>cs. cond_MarkTrue C cs OpenStackProvisionServerChecksumReadyCondition
        OpenStackProvisionServerChecksumReadyMessage) (upd_ps_status (pst_LocalImageChecksumURL_update (\<lambda>_. url)) (fst s))"
    using assms(3) by (cases s) (auto simp: checksumURLPhase_def Let_def split: outcome.splits if_splits)
  have "urls_current P (upd_ps_status (pst_LocalImageChecksumURL_update (\<lambda>_. url)) (fst s))"
    using assms(2) url(2) getLocalImageURL_file [OF url(1)]
    by (simp add: urls_current_def) (simp add: upd_ps_status_def file_url_def Let_def)
  moreover have "ready_unknown (ps_conds (fst t))"
    using assms(1) t by (simp add: ps_open_def ready_unknown_def status_simps)
  ultimately show ?thesis using t by simp
qed

lemma finalPhase_ps_post:
  assumes "ready_unknown (ps_conds (fst s))" and "urls_current P (fst s)"
  shows "ps_post P (fst (snd (finalPhase_ps C s)))"
proof -
  have "ready_sound (ps_conds (fst (snd (finalPhase_ps C s))))"
    using assms(1) AllSub_iff
    by (auto simp: finalPhase_ps_def ready_sound_def ready_unknown_def status_MarkTrue)
  moreover have "urls_current P (fst (snd (finalPhase_ps C s)))"
    using assms(2) by (simp add: finalPhase_ps_def)
  ultimately show ?thesis by (simp add: ps_post_def)
qed

lemma check_result_ps_trivial [simp]:
  "check_result (reconcileInit_ps s) s = (Continue (), s)"
  "check_result (reconcileUpdate_ps s) s = (Continue (), s)"
  "check_result (reconcileUpgrade_ps s) s = (Continue (), s)"
  by (simp_all add: check_result_def reconcileInit_ps_def reconcileUpdate_ps_def reconcileUpgrade_ps_def)

lemma flow_step:
  assumes "ps_open (fst (snd f))" and "\<And>x s. f = (Continue x, s) \<Longrightarrow> ps_open (fst s) \<Longrightarrow> ps_post P (fst (snd (k x s)))"
  shows "ps_post P (fst (snd (flow_then f k)))"
  using assms by (cases f; cases "fst f") (auto simp: ps_post_def)

lemma checksum_end_post:
  assumes "ps_open (fst s)" and "image_url_current P (fst s)"
  shows "ps_post P (fst (snd (flow_then (checksumURLPhase L C P pc s) (\<lambda>_. finalPhase_ps C))))"
proof -
  obtain f t where c: "checksumURLPhase L C P pc s = (f, t)" by (cases "checksumURLPhase L C P pc s")
  show ?thesis
  proof (cases f)
    case (Return r)
    with c checksumURLPhase_Return [OF assms(1)] show ?thesis by (simp add: ps_post_def)
  next
    case (Continue u)
    with c checksumURLPhase_Continue [OF assms] finalPhase_ps_post [of t P] show ?thesis by simp
  qed
qed

lemma image_end_post:
  assumes "ps_open (fst s)"
  shows "ps_post P (fst (snd (flow_then (localImagePhase L C P pc s) (\<lambda>_ s.
    flow_then (jobPhase L C P pc s) (\<lambda>_ s.
    flow_then (checksumURLPhase L C P pc s) (\<lambda>_. finalPhase_ps C))))))"
proof (rule flow_step)
  fix u s1 assume l: "localImagePhase L C P pc s = (Continue u, s1)" and o: "ps_open (fst s1)"
  show "ps_post P (fst (snd (flow_then (jobPhase L C P pc s1) (\<lambda>_ s.
    flow_then (checksumURLPhase L C P pc s) (\<lambda>_. finalPhase_ps C)))))"
  proof (rule flow_step)
    fix v s2 assume "jobPhase L C P pc s1 = (Continue v, s2)" and "ps_open (fst s2)"
    with jobPhase_url [OF localImagePhase_url [OF l], of L pc]
    show "ps_post P (fst (snd (flow_then (checksumURLPhase L C P pc s2) (\<lambda>_. finalPhase_ps C))))"
      by (intro checksum_end_post) simp_all
  qed (use o jobPhase_open in blast)
qed (use assms localImagePhase_open in blast)

lemma reconcileNormal_ps_post:
  assumes "ps_open (fst s)"
  shows "ps_post P (fst (snd (reconcileNormal_ps L C P pc s)))"
  using assms unfolding reconcileNormal_ps_def flow_end_snd check_result_ps_trivial flow_then_simps
  by (intro flow_step image_end_post phases_open)

lemma reconcileBody_ps_post:
  assumes "rbac_frame pc"
  shows "ps_post P (fst (snd (reconcileBody_ps L C P pc (inst, w))))"
proof -
  let ?i = "upd_ps_conds (\<lambda>cs. cond_Init C cs (initialConditions_ps C)) inst"
  obtain added i where f: "ensureFinalizer_ps L ?i = (added, i)" by fastforce
  have d: "distinct (map c_Type (initialConditions_ps C))"
    by (simp add: initialConditions_ps_def UnknownCondition_simps)
  have "ReadyCondition \<notin> c_Type ` set (initialConditions_ps C)"
    by (simp add: initialConditions_ps_def UnknownCondition_simps)
  then have r: "ready_unknown (ps_conds ?i)" by (simp add: ready_unknown_def Init_Ready)
  let ?c = "cond_UnknownCondition C OpenStackProvisionServerChecksumReadyCondition ''Init''
    OpenStackProvisionServerChecksumReadyInitMessage"
  have "?c \<in> set (initialConditions_ps C)" by (simp add: initialConditions_ps_def)
  from status_Init [OF d this, of "ps_conds inst"] r have "ps_open ?i"
    by (simp add: ps_open_def UnknownCondition_simps)
  moreover have "ps_conds i = ps_conds ?i"
    using f by (auto simp: ensureFinalizer_ps_def ps_conds_def split: if_splits prod.splits)
  ultimately have i: "ps_open i" by (simp add: ps_open_def)
  then have m: "ps_open (makeHash_ps i)" by (simp add: makeHash_ps_def)
  have del: "ps_open (fst (snd (reconcileDelete_ps L (makeHash_ps i, w))))"
    using m by (simp add: reconcileDelete_ps_def ps_open_def ps_conds_def)
  have rb: "ps_open (fst (snd (rbacPhase pc (makeHash_ps i, w))))"
  proof -
    obtain r cs w' where c: "pc_ReconcileRbac pc w (makeHash_ps i) rbacRules = (r, cs, w')"
      by (metis surj_pair)
    have "cond_status cs t = cond_status (ps_conds (makeHash_ps i)) t"
      if "t \<notin> {ServiceAccountReadyCondition, RoleReadyCondition, RoleBindingReadyCondition}" for t
      using assms c that unfolding rbac_frame_def by blast
    from this [of ReadyCondition] this [of OpenStackProvisionServerChecksumReadyCondition] c m
    show ?thesis
      by (auto simp: rbacPhase_def check_result_def ps_open_def ready_unknown_def split: outcome.split)
  qed
  show ?thesis
    using f i del rb reconcileNormal_ps_post [of "snd (rbacPhase pc (makeHash_ps i, w))" P L pc]
    by (auto simp: reconcileBody_ps_def Let_def ps_post_def split: prod.splits flow.splits)
qed

text \<open>The instance that the deferred function patches.\<close>

lemma ready_server_current:
  assumes "rbac_frame pc" and "reconcileBody_ps L C P pc (inst, w) = (res, inst', w')"
    and "cond_status (deferredConditions C (ps_conds inst) (ps_conds inst')) ReadyCondition = Some CTrue"
  shows "ready_sound (deferredConditions C (ps_conds inst) (ps_conds inst'))" and "urls_current P inst'"
proof -
  let ?cs = "deferredConditions C (ps_conds inst) (ps_conds inst')"
  have p: "ps_post P inst'" using reconcileBody_ps_post [OF assms(1), of P L inst w] assms(2) by simp
  then have "ready_sound (ps_conds inst')"
    by (auto simp: ps_post_def ps_open_def ready_unknown_def ready_sound_def)
  then show s: "ready_sound ?cs" by (rule deferred_sound)
  have "cond_status ?cs OpenStackProvisionServerChecksumReadyCondition
      = cond_status (ps_conds inst') OpenStackProvisionServerChecksumReadyCondition"
    using deferred_status by force
  with p s assms(3) show "urls_current P inst'" by (auto simp: ps_post_def ps_open_def ready_sound_def)
qed

end

end
