(* ===== verification/RefClient.thy ===== *)
theory RefClient
  imports SetSafety Admission ProvServerSafety
begin

text \<open>
  A small cluster in memory: a client over lists of objects that behaves as the Kubernetes API is
  documented to, and sample objects. It shows that what the theorems assume of the code outside of
  the repository can hold together, and the witnesses of the properties run the model on it.
\<close>

section \<open>The cluster\<close>

record cluster =
  k_bmhs :: "BareMetalHost list"
  k_secrets :: "(string \<times> string) list"
  k_inputs :: "Secret list"
  k_sets :: "OpenStackBaremetalSet list"
  k_servers :: "OpenStackProvisionServer list"

definition empty_cluster :: cluster where
  "empty_cluster = \<lparr>k_bmhs = [], k_secrets = [], k_inputs = [], k_sets = [], k_servers = []\<rparr>"

definition opt_matches :: "BareMetalHost \<Rightarrow> list_option \<Rightarrow> bool" where
  "opt_matches b opt =
     (case opt of
        InNamespace ns \<Rightarrow> om_Namespace (bmh_Meta b) = ns
      | MatchingLabels ls \<Rightarrow> list_all (\<lambda>(k, v). gm_get (bmh_Labels b) k = Some v) (gm_items ls))"

definition is_bmh :: "string \<Rightarrow> string \<Rightarrow> BareMetalHost \<Rightarrow> bool" where
  "is_bmh n ns b \<longleftrightarrow> bmh_Name b = n \<and> om_Namespace (bmh_Meta b) = ns"

definition same_bmh :: "BareMetalHost \<Rightarrow> BareMetalHost \<Rightarrow> bool" where
  "same_bmh a b \<longleftrightarrow> is_bmh (bmh_Name a) (om_Namespace (bmh_Meta a)) b"

definition found_or :: "string \<Rightarrow> 'a option \<Rightarrow> 'a result" where
  "found_or n x = (case x of None \<Rightarrow> Err (NotFound n) | Some y \<Rightarrow> Ok y)"

definition replace_if :: "('a \<Rightarrow> bool) \<Rightarrow> 'a \<Rightarrow> 'a list \<Rightarrow> 'a list" where
  "replace_if P y xs = map (\<lambda>x. if P x then y else x) xs"

definition patch_bmh ::
  "cluster \<Rightarrow> BareMetalHost \<Rightarrow> (BareMetalHost \<Rightarrow> BareMetalHost result) \<Rightarrow> BareMetalHost result \<times> cluster" where
  "patch_bmh w b f =
     (case find (same_bmh b) (k_bmhs w) of
        None \<Rightarrow> (case f b of Ok b' \<Rightarrow> (Ok b', w\<lparr>k_bmhs := k_bmhs w @ [b']\<rparr>) | r \<Rightarrow> (r, w))
      | Some b0 \<Rightarrow>
          (case f b0 of
             Ok b' \<Rightarrow> (Ok b', w\<lparr>k_bmhs := replace_if (same_bmh b) b' (k_bmhs w)\<rparr>)
           | r \<Rightarrow> (r, w)))"

definition same_ps :: "OpenStackProvisionServer \<Rightarrow> OpenStackProvisionServer \<Rightarrow> bool" where
  "same_ps a b \<longleftrightarrow> ps_key a = ps_key b"

definition patch_ps ::
  "cluster \<Rightarrow> OpenStackProvisionServer \<Rightarrow> (OpenStackProvisionServer \<Rightarrow> OpenStackProvisionServer result) \<Rightarrow>
   OpenStackProvisionServer result \<times> cluster" where
  "patch_ps w p f =
     (case find (same_ps p) (k_servers w) of
        None \<Rightarrow> (case f p of Ok p' \<Rightarrow> (Ok p', w\<lparr>k_servers := k_servers w @ [p']\<rparr>) | r \<Rightarrow> (r, w))
      | Some p0 \<Rightarrow>
          (case f p0 of
             Ok p' \<Rightarrow> (Ok p', w\<lparr>k_servers := replace_if (same_ps p) p' (k_servers w)\<rparr>)
           | r \<Rightarrow> (r, w)))"

definition ref_client :: "cluster client" where
  "ref_client = \<lparr>
     List_bmhs = (\<lambda>w opts. Ok (filter (\<lambda>b. list_all (opt_matches b) opts) (k_bmhs w))),
     Get_bmh = (\<lambda>w n ns. found_or n (find (is_bmh n ns) (k_bmhs w))),
     CreateOrPatch_bmh = patch_bmh,
     Update_bmh = (\<lambda>w b. if list_ex (same_bmh b) (k_bmhs w)
       then (Ok (), w\<lparr>k_bmhs := replace_if (same_bmh b) b (k_bmhs w)\<rparr>)
       else (Err (NotFound (bmh_Name b)), w)),
     EnsureSecrets = (\<lambda>w i ts env. (Ok env,
       w\<lparr>k_secrets := k_secrets w @ map (\<lambda>t. (tpl_Name t, tpl_Namespace t)) ts\<rparr>)),
     DeleteSecretsWithName = (\<lambda>w n ns. (Ok (), w\<lparr>k_secrets := filter (\<lambda>s. s \<noteq> (n, ns)) (k_secrets w)\<rparr>)),
     GetSecret = (\<lambda>w n ns. map_outcome id (\<lambda>s. (s, ''hash'')) (found_or n (find (\<lambda>s. sec_Name s = n) (k_inputs w)))),
     Get_set = (\<lambda>w n ns. found_or n (find (\<lambda>i. set_Name i = n \<and> set_Namespace i = ns) (k_sets w))),
     PatchInstance_set = (\<lambda>w i. (Ok (), w\<lparr>k_sets :=
       replace_if (\<lambda>j. set_Name j = set_Name i \<and> set_Namespace j = set_Namespace i) i (k_sets w)\<rparr>)),
     NewHelper_set = (\<lambda>w i. Ok ()),
     Get_ps = (\<lambda>w n ns. found_or n (find (\<lambda>p. ps_Name p = n \<and> ps_Namespace p = ns) (k_servers w))),
     List_ps = (\<lambda>w. Ok (filter (\<lambda>p. int32_range (ps_Port p)) (k_servers w))),
     Delete_ps = (\<lambda>w p. if list_ex (same_ps p) (k_servers w)
       then (Ok (), w\<lparr>k_servers := filter (\<lambda>q. \<not> same_ps p q) (k_servers w)\<rparr>)
       else (Err (NotFound (ps_Name p)), w)),
     CreateOrPatch_ps = patch_ps,
     SetControllerReference_ps = (\<lambda>i p. Ok p)\<rparr>"

lemma calm_map_outcome [simp]: "calm (map_outcome f g r) = calm r"
  by (cases r) simp_all

lemma calm_found_or [simp]: "calm (found_or n x)"
  by (simp add: found_or_def split: option.split)

lemma ref_client_calm: "calm_client ref_client"
proof -
  have "calm (fst (patch_bmh w b f))" if "\<forall>b. calm (f b)" for w b f
    using that by (auto simp: patch_bmh_def split: option.split outcome.split) (metis calm_simps(3))+
  moreover have "calm (fst (patch_ps w p f))" if "\<forall>p. calm (f p)" for w p f
    using that by (auto simp: patch_ps_def split: option.split outcome.split) (metis calm_simps(3))+
  ultimately show ?thesis by (auto simp: calm_client_def ref_client_def)
qed

text \<open>A client whose cluster is the list of the provision servers.\<close>

definition list_client :: "OpenStackProvisionServer list client" where
  "list_client = \<lparr>
     List_bmhs = (\<lambda>w opts. Ok []), Get_bmh = (\<lambda>w n ns. Err (NotFound n)),
     CreateOrPatch_bmh = (\<lambda>w b f. (f b, w)), Update_bmh = (\<lambda>w b. (Ok (), w)),
     EnsureSecrets = (\<lambda>w i ts env. (Ok env, w)), DeleteSecretsWithName = (\<lambda>w n ns. (Ok (), w)),
     GetSecret = (\<lambda>w n ns. Err (NotFound n)), Get_set = (\<lambda>w n ns. Err (NotFound n)),
     PatchInstance_set = (\<lambda>w i. (Ok (), w)), NewHelper_set = (\<lambda>w i. Ok ()),
     Get_ps = (\<lambda>w n ns. found_or n (find (\<lambda>p. ps_key p = (ns, n)) w)), List_ps = Ok,
     Delete_ps = (\<lambda>w p. (Ok (), filter (\<lambda>q. ps_key q \<noteq> ps_key p) w)),
     CreateOrPatch_ps = (\<lambda>w p f. (f p, w)), SetControllerReference_ps = (\<lambda>i p. Ok p)\<rparr>"

lemma list_client_lists: "lists_servers list_client"
  by (simp add: lists_servers_def list_client_def)

section \<open>Sample objects\<close>

definition sample_meta :: "string \<Rightarrow> ObjectMeta" where
  "sample_meta n = zero_ObjectMeta\<lparr>om_Name := n, om_Namespace := ''ns'', om_UID := ''uid''\<rparr>"

definition sample_bmh :: "string \<Rightarrow> labels \<Rightarrow> ProvState \<Rightarrow> BareMetalHost" where
  "sample_bmh n ls st = \<lparr>bmh_Meta = (sample_meta n)\<lparr>om_Labels := ls\<rparr>, bmh_Online = False,
     bmh_ExternallyProvisioned = False, bmh_Image = None, bmh_CustomDeploy = None,
     bmh_ConsumerRef = None, bmh_UserData = None, bmh_NetworkData = None,
     bmh_AutomatedCleaningMode = [],
     bmh_Status = \<lparr>bs_State = st, bs_HardwareDetails = None, bs_Rest = []\<rparr>\<rparr>"

definition sample_host :: InstanceSpec where
  "sample_host = zero_InstanceSpec\<lparr>is_CtlPlaneIP := ''10.0.0.5/24''\<rparr>"

definition sample_set :: "(string, InstanceSpec) gomap \<Rightarrow> (string, HostStatus) gomap \<Rightarrow> OpenStackBaremetalSet" where
  "sample_set hosts status = \<lparr>set_Kind = ''OpenStackBaremetalSet'',
     set_Meta = (sample_meta ''set'')\<lparr>om_Finalizers := [''finalizer'']\<rparr>,
     set_Spec = \<lparr>ts_OSImage = [], ts_OSContainerImageURL = ''image'',
       ts_OSImageDeploymentType = ''PassThrough'', ts_ApacheImageURL = [], ts_AgentImageURL = [],
       ts_AutomatedCleaningMode = ''metadata'', ts_ProvisionServerName = [],
       ts_ProvisonServerNodeSelector = None, ts_ProvisioningInterface = [],
       ts_DeploymentSSHSecret = ''ssh'', ts_CtlplaneInterface = ''eth0'', ts_CtlplaneBond = None,
       ts_BmhNamespace = ''ns'', ts_BmhLabelSelector = None, ts_HardwareReqs = zero_HardwareReqs,
       ts_PasswordSecret = None, ts_CloudUserName = ''admin'', ts_DomainName = [],
       ss_BaremetalHosts = hosts, ss_CtlplaneGateway = [], ss_CtlplaneVlan = None,
       ss_BootstrapDNS = [], ss_DNSSearchDomains = []\<rparr>,
     set_Status = \<lparr>sst_Conditions = Some [], sst_Hash = None, sst_BaremetalHosts = status,
       sst_ObservedGeneration = 0\<rparr>\<rparr>"

definition sample_ps :: "string \<Rightarrow> int \<Rightarrow> OpenStackProvisionServer" where
  "sample_ps n port = zero_ProvisionServer\<lparr>ps_Meta := sample_meta n,
     ps_Spec := zero_ProvisionServerSpec\<lparr>pss_Port := port\<rparr>\<rparr>"

definition sample_ssh :: Secret where
  "sample_ssh = \<lparr>sec_Name = ''ssh'', sec_Data = Some [(''authorized_keys'', ''key'')]\<rparr>"

end
