(* ===== verification/SelectionProperties.thy ===== *)
theory SelectionProperties
  imports RefClient
begin

text \<open>
  Properties of the selection of bare metal hosts (hardware requirements, label assignment,
  scale-up, synchronisation of the status), each with a witness on sample objects. The lemmas they
  rest on are in \<open>HardwareMatch\<close>, \<open>LabelAssign\<close> and \<open>ScaleUp\<close>.
\<close>

section \<open>Sample objects\<close>

text \<open>Two computes, one of which needs a GPU, and two available hosts: the search has to give the
  host with the GPU to the compute that needs it.\<close>

definition gpu_host :: InstanceSpec where [wit_defs]:
  "gpu_host = zero_InstanceSpec\<lparr>is_BmhLabelSelector := Some [(''gpu'', ''yes'')]\<rparr>"

definition two_computes :: "(string, InstanceSpec) gomap" where [wit_defs]:
  "two_computes = Some [(''c0'', sample_host), (''c1'', gpu_host)]"

definition gpu_bmh :: BareMetalHost where [wit_defs]:
  "gpu_bmh = sample_bmh ''b0'' (Some [(''gpu'', ''yes'')]) StateAvailable"

definition plain_bmh :: BareMetalHost where [wit_defs]:
  "plain_bmh = sample_bmh ''b1'' None StateAvailable"

definition two_set :: OpenStackBaremetalSet where [wit_defs]:
  "two_set = sample_set two_computes None"

definition gone_set :: OpenStackBaremetalSet where [wit_defs]:
  "gone_set = sample_set two_computes
     (Some [(''c0'', zero_HostStatus\<lparr>ip_BmhRef := ''b7''\<rparr>), (''c1'', zero_HostStatus\<lparr>ip_BmhRef := ''b0''\<rparr>)])"

definition gone_cluster :: cluster where [wit_defs]:
  "gone_cluster = empty_cluster\<lparr>k_bmhs := [gpu_bmh]\<rparr>"

text \<open>A request for 16 GB of memory and a 100 GB SSD, and a host that meets it.\<close>

definition sample_reqs :: HardwareReqs where [wit_defs]:
  "sample_reqs = zero_HardwareReqs
     \<lparr>hr_MemReqs := \<lparr>mr_GbReq = \<lparr>mgr_Gb = 16, mgr_ExactMatch = False\<rparr>\<rparr>,
      hr_DiskReqs := \<lparr>dr_GbReq = \<lparr>dgr_Gb = 100, dgr_ExactMatch = False\<rparr>,
                      dr_SSDReq = \<lparr>dsr_SSD = True, dsr_ExactMatch = False\<rparr>\<rparr>\<rparr>"

definition ssd_200 :: Storage where [wit_defs]:
  "ssd_200 = \<lparr>st_Rotational = False, st_SizeBytes = 214748364800\<rparr>"

definition hdd_200 :: Storage where [wit_defs]:
  "hdd_200 = \<lparr>st_Rotational = True, st_SizeBytes = 214748364800\<rparr>"

definition sample_details :: "Storage list \<Rightarrow> HardwareDetails" where [wit_defs]:
  "sample_details disks = \<lparr>hd_RAMMebibytes = 32768, hd_Storage = disks,
     hd_CPU = \<lparr>cpu_Arch = ''x86_64'', cpu_ClockMegahertz = 3000, cpu_Count = 8\<rparr>\<rparr>"

definition hw_bmh :: "Storage list \<Rightarrow> BareMetalHost" where [wit_defs]:
  "hw_bmh disks = plain_bmh\<lparr>bmh_Status := \<lparr>bs_State = StateAvailable,
     bs_HardwareDetails = Some (sample_details disks), bs_Rest = []\<rparr>\<rparr>"

definition hw_set :: OpenStackBaremetalSet where [wit_defs]:
  "hw_set = two_set\<lparr>set_Spec := (set_Spec two_set)\<lparr>ts_HardwareReqs := sample_reqs\<rparr>\<rparr>"

lemmas sample_defs = sample_host_def sample_bmh_def sample_meta_def sample_set_def zero_defs wit_defs

lemma two_computes_wf: "gm_wf two_computes" "gm_wf (spec_hosts two_set)"
  by (simp_all add: gm_wf_def gm_keys_def sample_defs)

lemma two_selected:
  "findValidBaremetalSetInstanceLabelAssignments two_computes [gpu_bmh, plain_bmh] =
     Some [(''c1'', gpu_bmh), (''c0'', plain_bmh)]"
  by code_simp

section \<open>Hardware\<close>

text \<open>C14. For sizes that \<open>float64\<close> represents exactly, a host that passes the hardware check satisfies
  the request as it is documented, read over the integers; and on a host whose disks of the requested
  size are all of one type, the check passes exactly when the request is satisfied.\<close>

theorem hardware_match_is_request:
  assumes "bs_HardwareDetails (bmh_Status bmh) = Some d"
    and "hw_sized (ts_HardwareReqs (set_Spec inst)) d"
  shows "(verifyBaremetalSetHardwareMatch inst bmh \<longrightarrow> hw_satisfies (ts_HardwareReqs (set_Spec inst)) d)
    \<and> (disks_uniform (hr_DiskReqs (ts_HardwareReqs (set_Spec inst))) (hd_Storage d) \<longrightarrow>
        verifyBaremetalSetHardwareMatch inst bmh = hw_satisfies (ts_HardwareReqs (set_Spec inst)) d)"
proof (cases "ts_HardwareReqs (set_Spec inst) = zero_HardwareReqs")
  case True
  then have "hw_satisfies (ts_HardwareReqs (set_Spec inst)) d"
    by (simp add: hw_satisfies_def cpu_satisfies_def disk_satisfies_def at_least_or_exact_def
        disk_wants_type_def zero_defs)
  with True show ?thesis by (simp add: verifyBaremetalSetHardwareMatch_def)
next
  case False
  let ?r = "ts_HardwareReqs (set_Spec inst)"
  have s: "f64_sized (dgr_Gb (dr_GbReq (hr_DiskReqs ?r)))"
    "list_all (\<lambda>s. f64_sized (st_SizeBytes s)) (hd_Storage d)"
    using assms(2) by (simp_all add: hw_sized_def)
  show ?thesis
    unfolding hw_match_iff_parts [OF assms(1) False assms(2)] hw_satisfies_def
    using disk_matches_sound [OF s] disk_matches_complete [OF s] by blast
qed

theorem hardware_match_is_request_witness:
  "verifyBaremetalSetHardwareMatch hw_set (hw_bmh [ssd_200]) \<and> hw_satisfies sample_reqs (sample_details [ssd_200])"
proof -
  have s: "hw_sized (ts_HardwareReqs (set_Spec hw_set)) (sample_details [ssd_200])"
    by (simp add: hw_sized_def f64_sized_def sample_defs)
  have d: "bs_HardwareDetails (bmh_Status (hw_bmh [ssd_200])) = Some (sample_details [ssd_200])"
    by (simp add: hw_bmh_def)
  have u: "disks_uniform (hr_DiskReqs (ts_HardwareReqs (set_Spec hw_set))) (hd_Storage (sample_details [ssd_200]))"
    by (simp add: disks_uniform_def sample_defs)
  have "hw_satisfies (ts_HardwareReqs (set_Spec hw_set)) (sample_details [ssd_200])"
    by (simp add: hw_satisfies_def cpu_satisfies_def disk_satisfies_def at_least_or_exact_def
        disk_size_ok_def disk_type_ok_def disk_wants_type_def sample_defs)
  with hardware_match_is_request [OF d s] u show ?thesis by (simp add: hw_set_def)
qed

text \<open>With a size and a type request the check looks at the first disk of the requested size only:
  a host whose first large enough disk is rotational is refused when an SSD is asked for, although a
  later disk satisfies the request.\<close>

theorem first_disk_decides:
  assumes "bs_HardwareDetails (bmh_Status bmh) = Some d"
    and "hw_sized (ts_HardwareReqs (set_Spec inst)) d"
    and "hr_DiskReqs (ts_HardwareReqs (set_Spec inst)) = r" and "dgr_Gb (dr_GbReq r) \<noteq> 0"
    and "disk_wants_type (dr_SSDReq r)"
    and "hd_Storage d = pre @ e # post" and "\<forall>s \<in> set pre. \<not> disk_size_ok (dr_GbReq r) s"
    and "disk_size_ok (dr_GbReq r) e" and "\<not> disk_type_ok (dr_SSDReq r) e"
  shows "\<not> verifyBaremetalSetHardwareMatch inst bmh"
proof -
  have "ts_HardwareReqs (set_Spec inst) \<noteq> zero_HardwareReqs"
    using assms(3,4) by (auto simp: zero_defs)
  moreover have "find (disk_size_ok (dr_GbReq r)) (hd_Storage d) = Some e"
    using assms(7,8) unfolding assms(6) by (induction pre) auto
  ultimately show ?thesis
    using hw_match_iff_parts [OF assms(1) _ assms(2)] assms(2-5,9)
      disk_matches_first [of r "hd_Storage d"]
    by (auto simp: hw_sized_def)
qed

theorem first_disk_decides_witness:
  "\<not> verifyBaremetalSetHardwareMatch hw_set (hw_bmh [hdd_200, ssd_200])
   \<and> hw_satisfies sample_reqs (sample_details [hdd_200, ssd_200])"
proof -
  have "\<not> verifyBaremetalSetHardwareMatch hw_set (hw_bmh [hdd_200, ssd_200])"
    by (rule first_disk_decides [where d = "sample_details [hdd_200, ssd_200]" and pre = "[]"
          and e = hdd_200 and post = "[ssd_200]", OF _ _ refl])
      (simp_all add: hw_sized_def f64_sized_def disk_wants_type_def disk_size_ok_def
        at_least_or_exact_def disk_type_ok_def sample_defs)
  then show ?thesis
    by (simp add: hw_satisfies_def cpu_satisfies_def disk_satisfies_def at_least_or_exact_def
        disk_size_ok_def disk_type_ok_def disk_wants_type_def sample_defs)
qed

section \<open>Labels\<close>

text \<open>\<open>IsMapSubset\<close> decides the inclusion of maps: its test of the lengths rejects nothing that
  the inclusion accepts, and a nil map counts as the empty one.\<close>

theorem map_subset_is_inclusion:
  assumes "gm_wf sub"
  shows "IsMapSubset m sub \<longleftrightarrow> gm_get sub \<subseteq>\<^sub>m gm_get m"
  using IsMapSubset_iff [OF assms] by (auto simp: map_le_def dom_def)

theorem map_subset_is_inclusion_witness:
  "IsMapSubset (Some [(''a'', ''1''), (''b'', ''2'')]) (Some [(''b'', ''2'')])
   = (gm_get (Some [(''b'', ''2'')]) \<subseteq>\<^sub>m gm_get (Some [(''a'', ''1''), (''b'', ''2'')]))
   \<and> IsMapSubset (Some [(''a'', ''1''), (''b'', ''2'')]) (Some [(''b'', ''2'')])"
  using map_subset_is_inclusion [of "Some [(''b'', ''2'')]" "Some [(''a'', ''1''), (''b'', ''2'')]"]
  by (simp add: gm_wf_def gm_keys_def IsMapSubset_def gm_len_def gm_get_def)

text \<open>C3. The backtracking search returns an assignment exactly when there is one: a non-nil result
  gives every compute one host of the list whose labels include the selector of the compute, and no
  host twice; a nil result means that no such assignment exists.\<close>

theorem label_assignment_correct:
  assumes "gm_wf computes"
  shows "case findValidBaremetalSetInstanceLabelAssignments computes bmhs of
      None \<Rightarrow> \<nexists>f. placement computes bmhs f
    | Some xs \<Rightarrow> distinct (map fst xs) \<and> placement computes bmhs (map_of xs)"
  using lba.assign_sound [OF assms] lba.assign_wf [OF assms, of bmhs]
    lba.assign_complete [OF assms, of bmhs]
  by (auto simp: gm_wf_def gm_keys_def split: option.split)

theorem label_assignment_correct_witness:
  "gm_wf two_computes
   \<and> placement two_computes [gpu_bmh, plain_bmh] (map_of [(''c1'', gpu_bmh), (''c0'', plain_bmh)])"
  using label_assignment_correct [of two_computes "[gpu_bmh, plain_bmh]"]
  by (simp only: two_selected two_computes_wf option.case simp_thms)

section \<open>Scale-up\<close>

lemma placement_inj: "placement computes bmhs f \<Longrightarrow> inj_on (\<lambda>h. bmh_Name (the (f h))) (dom f)"
proof (rule inj_onI)
  fix x y assume p: "placement computes bmhs f" and "x \<in> dom f" "y \<in> dom f"
    and n: "bmh_Name (the (f x)) = bmh_Name (the (f y))"
  then obtain b c where "f x = Some b" "f y = Some c" by blast
  with p n show "x = y" unfolding placement_def by simp
qed

text \<open>C9. The scale-up check succeeds exactly when the computes of the specification that have no
  host yet can be placed on the usable hosts of the list: the test of the counts that guards the
  search refuses nothing that a search would find.\<close>

theorem scale_up_iff_placement:
  assumes "gm_wf (spec_hosts inst)"
  shows "(\<exists>sel. VerifyBaremetalSetScaleUp inst allBmhs existing = Ok sel) \<longleftrightarrow>
    (\<exists>f. placement (newComputes inst) (filter (bmhUsable inst) allBmhs) f)"
  using assms by (rule scaleUp_iff)

lemma two_scaleUp:
  "VerifyBaremetalSetScaleUp two_set [gpu_bmh, plain_bmh] [] =
     Ok (Some [(''c1'', gpu_bmh), (''c0'', plain_bmh)])"
  by code_simp

theorem scale_up_iff_placement_witness:
  "\<exists>f. placement (newComputes two_set) (filter (bmhUsable two_set) [gpu_bmh, plain_bmh]) f"
  using scale_up_iff_placement [of two_set "[gpu_bmh, plain_bmh]" "[]"] two_scaleUp two_computes_wf
  by auto

text \<open>C4. What a successful scale-up check selects: every compute that has no host yet gets one, no
  other compute does, no two computes get hosts of the same name, and a selected host is of the list,
  available, not claimed by another consumer, without an image, a custom deploy or external
  provisioning, matches the hardware requirements and carries the labels of its compute.\<close>

theorem scale_up_selected_hosts:
  assumes "gm_wf (spec_hosts inst)" and "VerifyBaremetalSetScaleUp inst allBmhs existing = Ok sel"
  shows "dom (gm_get sel) =
      {h. h \<in> set (gm_keys (spec_hosts inst)) \<and> gm_get (status_hosts inst) h = None}
    \<and> inj_on (\<lambda>h. bmh_Name (the (gm_get sel h))) (dom (gm_get sel))
    \<and> (\<forall>h b. gm_get sel h = Some b \<longrightarrow>
        b \<in> set allBmhs \<and> bmh_State b = StateAvailable \<and> bmh_ConsumerRef b = None
        \<and> (\<forall>i. bmh_Image b = Some i \<longrightarrow> img_URL i = []) \<and> bmh_CustomDeploy b = None
        \<and> \<not> bmh_ExternallyProvisioned b \<and> verifyBaremetalSetHardwareMatch inst b
        \<and> IsMapSubset (bmh_Labels b) (is_BmhLabelSelector (spec_host inst h)))"
proof -
  from scaleUp_placement [OF assms]
  have p: "placement (newComputes inst) (filter (bmhUsable inst) allBmhs) (gm_get sel)" by simp
  then have "dom (gm_get sel) =
      {h. h \<in> set (gm_keys (spec_hosts inst)) \<and> gm_get (status_hosts inst) h = None}"
    by (simp add: placement_def newComputes_keys)
  moreover have "inj_on (\<lambda>h. bmh_Name (the (gm_get sel h))) (dom (gm_get sel))"
    using p by (rule placement_inj)
  moreover have "b \<in> set allBmhs \<and> bmhUsable inst b
      \<and> IsMapSubset (bmh_Labels b) (is_BmhLabelSelector (spec_host inst h))"
    if "gm_get sel h = Some b" for h b
    using scaleUp_selected [OF assms that] by (auto simp: spec_host_def)
  ultimately show ?thesis by (auto simp: bmhUsable_iff)
qed

theorem scale_up_selected_hosts_witness:
  "dom (gm_get (Some [(''c1'', gpu_bmh), (''c0'', plain_bmh)])) = {''c0'', ''c1''}
   \<and> IsMapSubset (bmh_Labels gpu_bmh) (is_BmhLabelSelector (spec_host two_set ''c1''))"
proof -
  let ?sel = "Some [(''c1'', gpu_bmh), (''c0'', plain_bmh)]"
  note s = scale_up_selected_hosts [OF two_computes_wf(2) two_scaleUp]
  have "gm_get ?sel ''c1'' = Some gpu_bmh" by (simp add: gm_get_def)
  from s [THEN conjunct2, THEN conjunct2, rule_format, OF this]
  have "IsMapSubset (bmh_Labels gpu_bmh) (is_BmhLabelSelector (spec_host two_set ''c1''))" by (elim conjE)
  moreover have "{h. h \<in> set (gm_keys (spec_hosts two_set)) \<and> gm_get (status_hosts two_set) h = None}
      = {''c0'', ''c1''}"
    by (auto simp: gm_keys_def sample_defs)
  ultimately show ?thesis using s [THEN conjunct1] by (simp only: simp_thms)
qed

text \<open>C26. The synchronisation of the status keeps exactly the entries whose bare metal host is still in
  the namespace of the hosts, and changes nothing else of the instance; when the hosts cannot be
  listed the instance stays as it is.\<close>

theorem sync_status_exact:
  assumes "gm_wf (status_hosts inst)"
    and "VerifyAndSyncBaremetalStatusBmhRefs cl w inst = (r, inst')"
  shows "case GetBaremetalHosts cl w (ts_BmhNamespace (set_Spec inst)) gm_empty of
      Ok bmhs \<Rightarrow> r = Ok () \<and> inst' = set_status_hosts (status_hosts inst') inst
        \<and> (\<forall>h. gm_get (status_hosts inst') h =
             (case gm_get (status_hosts inst) h of None \<Rightarrow> None
              | Some s \<Rightarrow> if ip_BmhRef s \<in> bmh_Name ` set bmhs then Some s else None))
    | Err e \<Rightarrow> r = Err e \<and> inst' = inst
    | Panic m \<Rightarrow> r = Panic m \<and> inst' = inst"
proof (cases "GetBaremetalHosts cl w (ts_BmhNamespace (set_Spec inst)) gm_empty")
  case (Ok bmhs)
  let ?m = "syncRefs bmhs (gm_items (status_hosts inst)) (status_hosts inst)"
  from Ok assms(2) have "r = Ok ()" "inst' = set_status_hosts ?m inst"
    by (simp_all add: VerifyAndSyncBaremetalStatusBmhRefs_def)
  with Ok sync_status_get [OF assms(1), of bmhs] show ?thesis
    by (auto simp: image_iff eq_commute [of "ip_BmhRef _"] split: option.split)
qed (use assms(2) in \<open>auto simp: VerifyAndSyncBaremetalStatusBmhRefs_def\<close>)

lemma gone_hosts: "GetBaremetalHosts ref_client gone_cluster (ts_BmhNamespace (set_Spec gone_set)) gm_empty = Ok [gpu_bmh]"
  by (simp add: GetBaremetalHosts_def Let_def ref_client_def opt_matches_def empty_cluster_def sample_defs)

theorem sync_status_exact_witness:
  "gm_get (status_hosts (snd (VerifyAndSyncBaremetalStatusBmhRefs ref_client gone_cluster gone_set))) ''c0'' = None
   \<and> gm_get (status_hosts (snd (VerifyAndSyncBaremetalStatusBmhRefs ref_client gone_cluster gone_set))) ''c1'' \<noteq> None"
  using sync_status_exact [of gone_set ref_client gone_cluster
      "fst (VerifyAndSyncBaremetalStatusBmhRefs ref_client gone_cluster gone_set)"
      "snd (VerifyAndSyncBaremetalStatusBmhRefs ref_client gone_cluster gone_set)"]
  unfolding gone_hosts
  by (simp add: gm_wf_def gm_keys_def gm_get_def sample_defs)

end
