(* ===== verification/AdmissionProperties.thy ===== *)
theory AdmissionProperties
  imports RefClient
begin

text \<open>
  Properties of the ports of provision servers and of the admission webhooks, each with a witness on
  sample objects. The lemmas they rest on are in \<open>PortAssign\<close> and \<open>Admission\<close>.
\<close>

section \<open>Sample objects\<close>

definition sample_defaults :: OpenStackProvisionServerDefaults where [wit_defs]:
  "sample_defaults = \<lparr>psd_OSContainerImageURL = ''image'', psd_AgentImageURL = ''agent'',
     psd_ApacheImageURL = ''apache'', psd_OSImage = ''disk.qcow2''\<rparr>"

definition two_servers :: "OpenStackProvisionServer list" where [wit_defs]:
  "two_servers = [sample_ps ''a'' 6190, sample_ps ''b'' 6192]"

definition admit_set :: OpenStackBaremetalSet where [wit_defs]:
  "admit_set = sample_set (Some [(''c0'', sample_host)]) None"

definition admit_cluster :: cluster where [wit_defs]:
  "admit_cluster = empty_cluster\<lparr>k_bmhs := [sample_bmh ''b0'' None StateAvailable]\<rparr>"

text \<open>The server that the webhooks make of a request for the name \<open>n\<close> without a port.\<close>

definition admitted_ps :: "string \<Rightarrow> int \<Rightarrow> OpenStackProvisionServer" where [wit_defs]:
  "admitted_ps n c = (sample_ps n c)\<lparr>ps_Spec := default_images sample_defaults (ps_Spec (sample_ps n c))\<rparr>"

definition bad_secret_set :: OpenStackBaremetalSet where
  "bad_secret_set = sample_set (Some [(''c0'', sample_host\<lparr>is_UserData :=
     Some \<lparr>sr_Name = ''u'', sr_Namespace = ''other''\<rparr>\<rparr>)]) None"

lemmas sample_ps_defs = sample_ps_def sample_meta_def zero_defs wit_defs

lemma two_servers_wf: "servers_wf two_servers" "servers_wf []"
  by (simp_all add: servers_wf_def ps_key_def sample_ps_defs)

lemma list_client_lists_two: "List_ps list_client ss = Ok ss"
  by (simp add: list_client_def)

section \<open>Ports\<close>

text \<open>C5. Provision servers that are admitted one at a time never share a port: in every state that
  creations, updates and deletions through the defaulting and the validating webhook can reach, every
  server has a port, and no two servers have the same.\<close>

theorem reachable_ports_distinct:
  assumes "lib_laws L" and "lists_servers cl" and "ps_reachable L d cl ss"
  shows "(\<forall>p \<in> set ss. ps_Port p \<noteq> 0) \<and> distinct (map ps_Port ss)"
  using lib_laws.ps_reachable_ports_ok [OF assms(1,3,2)] by (simp add: ports_ok_def)


lemma admit_a: "admit_create ref_lib sample_defaults list_client [] (sample_ps ''a'' 0) = Ok (admitted_ps ''a'' 6190)"
  by code_simp

lemma admit_b:
  "admit_create ref_lib sample_defaults list_client [admitted_ps ''a'' 6190] (sample_ps ''b'' 0) =
     Ok (admitted_ps ''b'' 6191)"
  by code_simp

lemma reachable_two:
  "ps_reachable ref_lib sample_defaults list_client [admitted_ps ''a'' 6190, admitted_ps ''b'' 6191]"
proof -
  have a: "ps_step ref_lib sample_defaults list_client [] ([] @ [admitted_ps ''a'' 6190])"
    by (rule ps_create [OF _ _ admit_a]) (simp_all add: sample_ps_defs)
  have b: "ps_step ref_lib sample_defaults list_client [admitted_ps ''a'' 6190]
      ([admitted_ps ''a'' 6190] @ [admitted_ps ''b'' 6191])"
    by (rule ps_create [OF _ _ admit_b]) (simp_all add: ps_key_def sample_ps_defs)
  from ps_next [OF ps_next [OF ps_init a, simplified] b] show ?thesis by simp
qed

theorem reachable_ports_distinct_witness:
  "ps_reachable ref_lib sample_defaults list_client [admitted_ps ''a'' 6190, admitted_ps ''b'' 6191]
   \<and> distinct (map ps_Port [admitted_ps ''a'' 6190, admitted_ps ''b'' 6191])"
  using reachable_ports_distinct [OF rl.lib_laws_axioms list_client_lists reachable_two] reachable_two
  by blast

text \<open>C31. The allocation loop ends for every map of existing ports, every upper bound below the largest
  \<open>int32\<close> and every start value of that type: the counter reaches the bound before it wraps around.\<close>

theorem port_loop_terminates:
  assumes "hi < 2 ^ 31 - 1" and "int32_range cur"
  shows "\<exists>r. portLoop existing self hi cur = Some r"
  using portLoop_returns [OF assms(1)] assms(2) by (simp add: int32_range_def)

theorem port_loop_terminates_witness:
  "\<exists>r. portLoop (existing_ports ref_lib two_servers) ''ns/c'' ProvisionServerPortEnd ProvisionServerPortStart = Some r"
  by (rule port_loop_terminates) (simp_all add: ProvisionServerPortEnd_def ProvisionServerPortStart_def int32_range_def)

text \<open>C15. A server that has no port yet gets the least port of the range that no server has, and the
  assignment fails exactly when every port of the range is taken.\<close>

theorem port_assignment_least_free:
  assumes "lib_laws L" and "List_ps cl w = Ok ss" and "servers_wf ss"
    and "CHR ''/'' \<notin> set (ps_Namespace r)" and "0 < lo" and "lo \<le> hi" and "hi < 2 ^ 31 - 1"
    and "\<forall>p \<in> set ss. ps_key p = ps_key r \<longrightarrow> ps_Port p = 0"
  shows "if {lo..hi} \<subseteq> ps_Port ` set ss
    then AssignProvisionServerPort L cl w r lo hi = Err (ErrPortOutOfRange (hi + 1) lo hi)
    else \<exists>c. AssignProvisionServerPort L cl w r lo hi = Ok (set_ps_Port c r)
           \<and> c \<in> {lo..hi} - ps_Port ` set ss \<and> (\<forall>q \<in> {lo..hi} - ps_Port ` set ss. c \<le> q)"
proof -
  have full: "{lo..hi} \<subseteq> ps_Port ` set ss \<longleftrightarrow> (\<forall>q. lo \<le> q \<and> q \<le> hi \<longrightarrow> (\<exists>p \<in> set ss. ps_Port p = q))"
    by auto
  from lib_laws.assign_fresh [OF assms(1-7)] assms(8)
  have "(\<exists>c. AssignProvisionServerPort L cl w r lo hi = Ok (set_ps_Port c r)
            \<and> lo \<le> c \<and> c \<le> hi \<and> (\<forall>p \<in> set ss. ps_Port p \<noteq> c)
            \<and> (\<forall>q. lo \<le> q \<and> q < c \<longrightarrow> (\<exists>p \<in> set ss. ps_Port p = q)))
       \<or> (AssignProvisionServerPort L cl w r lo hi = Err (ErrPortOutOfRange (hi + 1) lo hi)
            \<and> (\<forall>q. lo \<le> q \<and> q \<le> hi \<longrightarrow> (\<exists>p \<in> set ss. ps_Port p = q)))" by blast
  then show ?thesis
  proof (elim disjE exE conjE)
    fix c assume c: "AssignProvisionServerPort L cl w r lo hi = Ok (set_ps_Port c r)" "lo \<le> c" "c \<le> hi"
      "\<forall>p \<in> set ss. ps_Port p \<noteq> c" "\<forall>q. lo \<le> q \<and> q < c \<longrightarrow> (\<exists>p \<in> set ss. ps_Port p = q)"
    then have "\<not> {lo..hi} \<subseteq> ps_Port ` set ss" unfolding full by blast
    moreover have "\<forall>q \<in> {lo..hi} - ps_Port ` set ss. c \<le> q" using c(5) by force
    ultimately show ?thesis using c(1-4) by auto
  qed (use full in auto)
qed

theorem port_assignment_least_free_witness:
  "\<exists>c. AssignProvisionServerPort ref_lib list_client two_servers (sample_ps ''c'' 0) 6190 6220
        = Ok (set_ps_Port c (sample_ps ''c'' 0)) \<and> c \<in> {6190..6220} - ps_Port ` set two_servers"
proof -
  have nd: "\<not> {6190..6220} \<subseteq> ps_Port ` set two_servers"
    by (simp add: sample_ps_defs subset_iff) presburger
  have "if {6190..6220} \<subseteq> ps_Port ` set two_servers
    then AssignProvisionServerPort ref_lib list_client two_servers (sample_ps ''c'' 0) 6190 6220
      = Err (ErrPortOutOfRange (6220 + 1) 6190 6220)
    else \<exists>c. AssignProvisionServerPort ref_lib list_client two_servers (sample_ps ''c'' 0) 6190 6220
        = Ok (set_ps_Port c (sample_ps ''c'' 0)) \<and> c \<in> {6190..6220} - ps_Port ` set two_servers
        \<and> (\<forall>q \<in> {6190..6220} - ps_Port ` set two_servers. c \<le> q)"
    by (rule port_assignment_least_free [OF rl.lib_laws_axioms list_client_lists_two two_servers_wf(1)])
      (simp_all add: ps_key_def sample_ps_defs)
  with nd show ?thesis by auto
qed

text \<open>A server that has a port keeps it: the assignment returns that port whatever the others have,
  unless it lies above the range.\<close>

theorem port_assignment_keeps:
  assumes "lib_laws L" and "List_ps cl w = Ok ss" and "servers_wf ss" and "p \<in> set ss"
    and "ps_key p = ps_key r" and "ps_Port p \<noteq> 0"
  shows "AssignProvisionServerPort L cl w r lo hi =
     (if ps_Port p \<le> hi then Ok (set_ps_Port (ps_Port p) r)
      else Err (ErrPortOutOfRange (ps_Port p) lo hi))"
  using assms by (rule lib_laws.assign_keeps)

theorem port_assignment_keeps_witness:
  "AssignProvisionServerPort ref_lib list_client two_servers (sample_ps ''b'' 0) 6190 6220
     = Ok (set_ps_Port 6192 (sample_ps ''b'' 0))"
  using port_assignment_keeps [OF rl.lib_laws_axioms list_client_lists_two two_servers_wf(1),
      of "sample_ps ''b'' 6192" "sample_ps ''b'' 0" 6190 6220]
  by (simp add: ps_key_def sample_ps_defs)

text \<open>The validator of provision servers accepts a server exactly when its port is set and no other
  server of the cluster has it.\<close>

theorem validate_server_iff:
  assumes "lib_laws L" and "List_ps cl w = Ok ss" and "servers_wf ss"
    and "CHR ''/'' \<notin> set (ps_Namespace r)"
  shows "validateCr L cl w r = Ok () \<longleftrightarrow>
     ps_Port r \<noteq> 0 \<and> (\<forall>p \<in> set ss. ps_key p \<noteq> ps_key r \<longrightarrow> ps_Port p \<noteq> ps_Port r)"
  using assms by (rule lib_laws.validateCr_iff)

theorem validate_server_iff_witness:
  "validateCr ref_lib list_client two_servers (sample_ps ''c'' 6191) = Ok ()
   \<and> validateCr ref_lib list_client two_servers (sample_ps ''c'' 6192) \<noteq> Ok ()"
proof -
  note v = validate_server_iff [OF rl.lib_laws_axioms list_client_lists_two two_servers_wf(1)]
  have "validateCr ref_lib list_client two_servers (sample_ps ''c'' 6191) = Ok ()"
    by (subst v) (simp_all add: ps_key_def sample_ps_defs)
  moreover have "validateCr ref_lib list_client two_servers (sample_ps ''c'' 6192) \<noteq> Ok ()"
    by (subst v) (simp_all add: ps_key_def sample_ps_defs)
  ultimately show ?thesis by blast
qed

text \<open>A request for a new server without a port passes both webhooks exactly when the range has a free
  port, and the stored server then has the least one; otherwise the validator refuses it.\<close>

theorem admit_new_server:
  assumes "lib_laws L" and "List_ps cl w = Ok ss" and "servers_wf ss"
    and "CHR ''/'' \<notin> set (ps_Namespace r)" and "ps_Port r = 0" and "\<forall>p \<in> set ss. ps_key p \<noteq> ps_key r"
  shows "(\<exists>r' c. admit_create L d cl w r = Ok r' \<and> ps_Port r' = c
        \<and> ProvisionServerPortStart \<le> c \<and> c \<le> ProvisionServerPortEnd \<and> (\<forall>p \<in> set ss. ps_Port p \<noteq> c)
        \<and> (\<forall>q. ProvisionServerPortStart \<le> q \<and> q < c \<longrightarrow> (\<exists>p \<in> set ss. ps_Port p = q)))
    \<or> (admit_create L d cl w r = Err (ErrNoAvailablePorts ProvisionServerPortStart ProvisionServerPortEnd)
        \<and> (\<forall>q. ProvisionServerPortStart \<le> q \<and> q \<le> ProvisionServerPortEnd \<longrightarrow>
              (\<exists>p \<in> set ss. ps_Port p = q)))"
  using assms by (rule lib_laws.admit_create_fresh)

theorem admit_new_server_witness:
  "\<exists>r'. admit_create ref_lib sample_defaults list_client [] (sample_ps ''a'' 0) = Ok r' \<and> ps_Port r' = 6190"
  using admit_new_server [OF rl.lib_laws_axioms list_client_lists_two two_servers_wf(2),
      of "sample_ps ''a'' 0" sample_defaults] admit_a
  by (simp add: sample_ps_defs)

text \<open>C40. Two requests for new servers that the webhooks handle against the same list of servers are
  given the same port: the webhooks exclude conflicts only between requests handled one after the
  other.\<close>

theorem concurrent_creates_share_port:
  assumes "lib_laws L" and "List_ps cl w = Ok ss" and "servers_wf ss"
    and "CHR ''/'' \<notin> set (ps_Namespace r1)" and "ps_Port r1 = 0" and "\<forall>p \<in> set ss. ps_key p \<noteq> ps_key r1"
    and "CHR ''/'' \<notin> set (ps_Namespace r2)" and "ps_Port r2 = 0" and "\<forall>p \<in> set ss. ps_key p \<noteq> ps_key r2"
    and "admit_create L d cl w r1 = Ok s1" and "admit_create L d cl w r2 = Ok s2"
  shows "ps_Port s1 = ps_Port s2"
proof -
  note f1 = lib_laws.admit_create_fresh [OF assms(1-6), of d]
  note f2 = lib_laws.admit_create_fresh [OF assms(1-3,7-9), of d]
  have "\<not> ps_Port s1 < ps_Port s2" "\<not> ps_Port s2 < ps_Port s1"
    using f1 f2 unfolding assms(10,11) by auto
  then show ?thesis by simp
qed

lemma admit_other: "admit_create ref_lib sample_defaults list_client [] (sample_ps ''b'' 0) = Ok (admitted_ps ''b'' 6190)"
  by code_simp

theorem concurrent_creates_share_port_witness:
  "ps_Port (admitted_ps ''a'' 6190) = ps_Port (admitted_ps ''b'' 6190)"
  using concurrent_creates_share_port [OF rl.lib_laws_axioms list_client_lists_two two_servers_wf(2)
      _ _ _ _ _ _ admit_a admit_other]
  by (simp add: sample_ps_defs)

text \<open>The defaulting webhook changes nothing of a server but the images that are empty and a port
  that is zero, and applying it again to its result changes nothing.\<close>

theorem defaulting_idempotent:
  assumes "Default_ps L d cl w r = Ok r'"
  shows "Default_ps L d cl w r' = Ok r'
    \<and> (\<exists>c. r' = set_ps_Port c (r\<lparr>ps_Spec := (ps_Spec r)\<lparr>
         pss_OSContainerImageURL := or_default (pss_OSContainerImageURL (ps_Spec r)) (psd_OSContainerImageURL d),
         pss_AgentImageURL := or_default (pss_AgentImageURL (ps_Spec r)) (psd_AgentImageURL d),
         pss_ApacheImageURL := or_default (pss_ApacheImageURL (ps_Spec r)) (psd_ApacheImageURL d),
         pss_OSImage := or_default (pss_OSImage (ps_Spec r)) (psd_OSImage d)\<rparr>\<rparr>)
       \<and> (ps_Port r \<noteq> 0 \<longrightarrow> c = ps_Port r))"
proof -
  let ?r = "r\<lparr>ps_Spec := default_images d (ps_Spec r)\<rparr>"
  from Default_ps_shape [OF assms] obtain c where c: "r' = set_ps_Port c ?r" "ps_Port r \<noteq> 0 \<longrightarrow> c = ps_Port r"
    by blast
  have images: "r'\<lparr>ps_Spec := default_images d (ps_Spec r')\<rparr> = r'"
    unfolding c(1) by (simp add: set_ps_Port_def default_images_eq)
  have "Default_ps L d cl w r' = Ok r'"
  proof (cases "ps_Port r' = 0")
    case True
    with c have "ps_Port r = 0" "c = 0" by auto
    with c(1) set_ps_Port_self [of ?r] have "r' = ?r" by simp
    with assms images show ?thesis by (simp add: Default_ps_def Let_def)
  next
    case False
    with images show ?thesis by (simp add: Default_ps_def Let_def)
  qed
  with c show ?thesis by (auto simp: default_images_eq)
qed

theorem defaulting_idempotent_witness:
  "Default_ps ref_lib sample_defaults list_client [] (admitted_ps ''a'' 6190) = Ok (admitted_ps ''a'' 6190)"
proof -
  have "Default_ps ref_lib sample_defaults list_client [] (sample_ps ''a'' 0) = Ok (admitted_ps ''a'' 6190)"
    by code_simp
  then show ?thesis by (rule defaulting_idempotent [THEN conjunct1])
qed

section \<open>Validation of sets\<close>

text \<open>The check of the secret namespaces accepts a set exactly when its password secret is in the
  namespace of the set and every user data and network data secret of a host is in the namespace of the
  bare metal hosts; otherwise its error names at least one secret.\<close>

theorem secret_namespaces_iff:
  "(ValidateSecretNamespaces r = Ok () \<longleftrightarrow> secrets_placed r)
   \<and> (\<not> secrets_placed r \<longrightarrow>
        (\<exists>x xs. ValidateSecretNamespaces r = Err (ErrSecretNamespaces (x # xs))))"
  using ValidateSecretNamespaces_cases [of r] by (auto simp: neq_Nil_conv)

theorem secret_namespaces_iff_witness:
  "\<exists>x xs. ValidateSecretNamespaces bad_secret_set = Err (ErrSecretNamespaces (x # xs))"
proof -
  have "\<not> secrets_placed bad_secret_set"
    by (simp add: secrets_placed_def secret_in_def bad_secret_set_def sample_set_def)
  then show ?thesis using secret_namespaces_iff [of bad_secret_set] by blast
qed

lemma scaleUpOnUpdate_iff:
  assumes "gm_wf (spec_hosts r)"
  shows "scaleUpOnUpdate L cl w (snd (VerifyAndSyncBaremetalStatusBmhRefs cl w r)) = Ok () \<longleftrightarrow>
    (\<exists>bmhs existing f r1.
       GetBaremetalHosts cl w (ts_BmhNamespace (set_Spec r)) (ts_BmhLabelSelector (set_Spec r)) = Ok bmhs
       \<and> GetBaremetalHosts cl w (ts_BmhNamespace (set_Spec r))
           (GetLabels L (set_Meta r) (GetGroupLabel L ServiceName) gm_empty) = Ok existing
       \<and> r1 = snd (VerifyAndSyncBaremetalStatusBmhRefs cl w r)
       \<and> placement (newComputes r1) (filter (bmhUsable r1) bmhs) f)"
proof -
  let ?r1 = "snd (VerifyAndSyncBaremetalStatusBmhRefs cl w r)"
  have f: "set_Spec ?r1 = set_Spec r" "set_Meta ?r1 = set_Meta r"
    by (auto simp: VerifyAndSyncBaremetalStatusBmhRefs_def split: outcome.split)
  then have "(\<exists>x. VerifyBaremetalSetScaleUp ?r1 bmhs existing = Ok x) \<longleftrightarrow>
      (\<exists>f. placement (newComputes ?r1) (filter (bmhUsable ?r1) bmhs) f)" for bmhs existing
    using scaleUp_iff [of ?r1 bmhs existing] assms by simp
  then show ?thesis
    by (auto simp: scaleUpOnUpdate_def f scaleUp_ok_unit split: outcome.splits)
qed

text \<open>C24. The create webhook admits an object exactly when it is a set and either carries the annotation that skips
  the validation, or its name is a host name, its secrets are where they are read, the bare metal hosts of its label
  selector can be listed, and its hosts can be placed on the usable ones among them.\<close>

theorem validate_create_set_iff:
  assumes "\<And>r. obj = RO_Set r \<Longrightarrow> gm_wf (spec_hosts r)"
  shows "snd (setValidator_ValidateCreate L cl w obj) = Ok () \<longleftrightarrow>
    (\<exists>r. obj = RO_Set r
       \<and> (SkipValidation L (set_Meta r)
          \<or> hostname_rfc1123 L (set_Name r) \<and> secrets_placed r
            \<and> (\<exists>bmhs f. GetBaremetalHosts cl w (ts_BmhNamespace (set_Spec r)) (ts_BmhLabelSelector (set_Spec r)) = Ok bmhs
                 \<and> placement (newComputes r) (filter (bmhUsable r) bmhs) f)))"
proof (cases obj)
  case (RO_Set r)
  let ?l = "GetBaremetalHosts cl w (ts_BmhNamespace (set_Spec r)) (ts_BmhLabelSelector (set_Spec r))"
  have "ValidateCreate_set L cl w r = Ok () \<longleftrightarrow> hostname_rfc1123 L (set_Name r) \<and> secrets_placed r
      \<and> (\<exists>bmhs f. ?l = Ok bmhs \<and> placement (newComputes r) (filter (bmhUsable r) bmhs) f)"
  proof (cases ?l)
    case (Ok bmhs)
    with ValidateCreate_set_iff [OF assms [OF RO_Set] Ok] show ?thesis by simp
  qed (use ValidateSecretNamespaces_cases [of r] in \<open>auto simp: ValidateCreate_set_def\<close>)
  with RO_Set show ?thesis by (simp add: setValidator_ValidateCreate_def)
qed (simp_all add: setValidator_ValidateCreate_def)

lemma admit_hosts:
  "GetBaremetalHosts ref_client admit_cluster (ts_BmhNamespace (set_Spec admit_set))
     (ts_BmhLabelSelector (set_Spec admit_set)) = Ok (k_bmhs admit_cluster)"
  by (simp add: GetBaremetalHosts_def Let_def ref_client_def opt_matches_def empty_cluster_def
      sample_set_def sample_bmh_def gm_len_def sample_ps_defs)

lemma admit_set_wf: "gm_wf (spec_hosts admit_set)"
  by (simp add: gm_wf_def gm_keys_def admit_set_def sample_set_def)

lemma admit_scaleUp:
  "VerifyBaremetalSetScaleUp admit_set (k_bmhs admit_cluster) [] =
     Ok (Some [(''c0'', sample_bmh ''b0'' None StateAvailable)])"
  by code_simp

lemma admit_secrets: "secrets_placed admit_set"
  by (simp add: secrets_placed_def secret_in_def admit_set_def sample_set_def sample_host_def zero_defs)

lemma admit_placed:
  "\<exists>f. placement (newComputes admit_set) (filter (bmhUsable admit_set) (k_bmhs admit_cluster)) f"
  using scaleUp_iff [OF admit_set_wf] admit_scaleUp by blast

theorem validate_create_set_iff_witness:
  "snd (setValidator_ValidateCreate ref_lib ref_client admit_cluster (RO_Set admit_set)) = Ok ()"
proof -
  have "hostname_rfc1123 ref_lib (set_Name admit_set)"
    by (simp add: admit_set_def sample_set_def sample_meta_def ref_lib_def)
  moreover have "gm_wf (spec_hosts r)" if "RO_Set admit_set = RO_Set r" for r
    using that admit_set_wf by simp
  ultimately show ?thesis
    using validate_create_set_iff [of "RO_Set admit_set" ref_lib ref_client admit_cluster] admit_secrets admit_hosts
      admit_placed by blast
qed

text \<open>C25. The update webhook admits an update exactly when the new object is a set and either carries the
  annotation that skips the validation, or: the old object is a set, a set that had hosts keeps its label
  selector and hardware requirements, the secrets are where they are read, if the number of hosts changes the bare
  metal hosts can be listed, and if it grows the lists of the selected and of the owned bare metal hosts succeed and
  the hosts without a host after the synchronisation of the status can be placed on the usable ones. So, unlike
  a comment in the webhook says, an entry of the status whose bare metal host is missing is not a reason to refuse a
  changed number of hosts: the synchronisation drops it.\<close>

theorem validate_update_set_iff:
  assumes "\<And>r. newObj = RO_Set r \<Longrightarrow> gm_wf (spec_hosts r)"
  shows "snd (setValidator_ValidateUpdate L cl w oldObj newObj) = Ok () \<longleftrightarrow>
    (\<exists>r. newObj = RO_Set r
       \<and> (SkipValidation L (set_Meta r)
          \<or> (\<exists>old. oldObj = RO_Set old
             \<and> (gm_len (spec_hosts old) > 0 \<longrightarrow>
                  Semantic_labels_equal L (ts_BmhLabelSelector (set_Spec r)) (ts_BmhLabelSelector (set_Spec old))
                  \<and> Semantic_hw_equal L (ts_HardwareReqs (set_Spec r)) (ts_HardwareReqs (set_Spec old)))
             \<and> secrets_placed r
             \<and> (gm_len (spec_hosts r) \<noteq> gm_len (spec_hosts old) \<longrightarrow>
                  (\<exists>all. GetBaremetalHosts cl w (ts_BmhNamespace (set_Spec r)) gm_empty = Ok all))
             \<and> (gm_len (spec_hosts r) > gm_len (spec_hosts old) \<longrightarrow>
                  (\<exists>bmhs existing f r1.
                     GetBaremetalHosts cl w (ts_BmhNamespace (set_Spec r)) (ts_BmhLabelSelector (set_Spec r)) = Ok bmhs
                     \<and> GetBaremetalHosts cl w (ts_BmhNamespace (set_Spec r))
                         (GetLabels L (set_Meta r) (GetGroupLabel L ServiceName) gm_empty) = Ok existing
                     \<and> r1 = snd (VerifyAndSyncBaremetalStatusBmhRefs cl w r)
                     \<and> placement (newComputes r1) (filter (bmhUsable r1) bmhs) f)))))"
proof (cases newObj)
  case (RO_Set r)
  have "fst (ValidateUpdate_set L cl w r (RO_Set old)) = Ok () \<longleftrightarrow>
      (gm_len (spec_hosts old) > 0 \<longrightarrow>
         Semantic_labels_equal L (ts_BmhLabelSelector (set_Spec r)) (ts_BmhLabelSelector (set_Spec old))
         \<and> Semantic_hw_equal L (ts_HardwareReqs (set_Spec r)) (ts_HardwareReqs (set_Spec old)))
      \<and> secrets_placed r
      \<and> (gm_len (spec_hosts r) \<noteq> gm_len (spec_hosts old) \<longrightarrow>
           (\<exists>all. GetBaremetalHosts cl w (ts_BmhNamespace (set_Spec r)) gm_empty = Ok all))
      \<and> (gm_len (spec_hosts r) > gm_len (spec_hosts old) \<longrightarrow>
           scaleUpOnUpdate L cl w (snd (VerifyAndSyncBaremetalStatusBmhRefs cl w r)) = Ok ())" for old
    using ValidateSecretNamespaces_cases [of r]
    by (cases "GetBaremetalHosts cl w (ts_BmhNamespace (set_Spec r)) gm_empty")
      (auto simp: ValidateUpdate_set_def ValidateTemplate_def VerifyAndSyncBaremetalStatusBmhRefs_def Let_def
        simp del: gm_len_0 split: if_splits)
  with RO_Set scaleUpOnUpdate_iff [OF assms [OF RO_Set], of L cl w] show ?thesis
    by (cases oldObj) (simp_all add: setValidator_ValidateUpdate_def ValidateUpdate_set_def)
qed (simp_all add: setValidator_ValidateUpdate_def)

lemma admit_hosts_all:
  "GetBaremetalHosts ref_client admit_cluster (ts_BmhNamespace (set_Spec admit_set)) gm_empty
     = Ok (k_bmhs admit_cluster)"
  by (simp add: GetBaremetalHosts_def Let_def ref_client_def opt_matches_def empty_cluster_def
      sample_set_def sample_bmh_def gm_len_def sample_ps_defs)

lemma admit_hosts_owned:
  "GetBaremetalHosts ref_client admit_cluster (ts_BmhNamespace (set_Spec admit_set))
     (GetLabels ref_lib (set_Meta admit_set) (GetGroupLabel ref_lib ServiceName) gm_empty) = Ok []"
  by code_simp

theorem validate_update_set_iff_witness:
  "snd (setValidator_ValidateUpdate ref_lib ref_client admit_cluster (RO_Set (sample_set None None)) (RO_Set admit_set))
     = Ok ()"
proof -
  have e: "snd (VerifyAndSyncBaremetalStatusBmhRefs ref_client admit_cluster admit_set) = admit_set"
    unfolding VerifyAndSyncBaremetalStatusBmhRefs_def admit_hosts_all
    by (simp add: admit_set_def sample_set_def set_status_hosts_def)
  have n: "gm_len (spec_hosts (sample_set None None)) = 0" by (simp add: sample_set_def gm_len_def)
  have wf: "gm_wf (spec_hosts r)" if "RO_Set admit_set = RO_Set r" for r
    using that admit_set_wf by simp
  show ?thesis
    by (subst validate_update_set_iff [OF wf], assumption)
      (use admit_secrets admit_placed in \<open>simp add: e n admit_hosts admit_hosts_all admit_hosts_owned del: gm_len_0\<close>)
qed

end
