(* ===== verification/SampleRun.thy ===== *)
theory SampleRun
  imports RefClient
begin

text \<open>
  A complete reconciliation on the small cluster: a set with one host whose bare metal host is
  provisioned. The run is evaluated part by part; its result (\<open>sample_run\<close>) is what the witnesses of
  the properties of the controller of sets use.
\<close>

section \<open>The cluster\<close>

definition ready_host :: InstanceSpec where
  "ready_host = sample_host\<lparr>is_UserData := Some \<lparr>sr_Name = ''u'', sr_Namespace = ''ns''\<rparr>,
     is_NetworkData := Some \<lparr>sr_Name = ''n'', sr_Namespace = ''ns''\<rparr>\<rparr>"

definition ready_bmh :: BareMetalHost where
  "ready_bmh = sample_bmh ''b0'' (Some [(''openstackbaremetalset.openstack.org/uid'', ''uid''),
     (''openstackbaremetalset.openstack.org/namespace'', ''ns''),
     (''openstackbaremetalset.openstack.org/name'', ''set''), (''set-osbms-hostname'', ''c0'')])
     StateProvisioned"

definition ready_status :: HostStatus where
  "ready_status = zero_HostStatus\<lparr>ip_Hostname := ''c0'', ip_BmhRef := ''b0''\<rparr>"

definition ready_set :: OpenStackBaremetalSet where
  "ready_set = sample_set (Some [(''c0'', ready_host)]) (Some [(''c0'', ready_status)])"

definition ready_cluster :: cluster where
  "ready_cluster = empty_cluster\<lparr>k_bmhs := [ready_bmh], k_inputs := [sample_ssh]\<rparr>"

definition ready_labels :: labels where
  "ready_labels = GetLabels ref_lib (set_Meta ready_set) (GetGroupLabel ref_lib ServiceName) gm_empty"

lemmas ready_defs = ready_host_def ready_bmh_def ready_status_def ready_set_def ready_cluster_def
  sample_set_def sample_bmh_def sample_meta_def sample_ssh_def sample_host_def empty_cluster_def zero_defs

text \<open>The instance as the parts of the run pass it on: only the status differs.\<close>

definition like_ready :: "OpenStackBaremetalSet \<Rightarrow> bool" where
  "like_ready i \<longleftrightarrow> set_Spec i = set_Spec ready_set \<and> set_Meta i = set_Meta ready_set
     \<and> status_hosts i = status_hosts ready_set"

section \<open>The parts of the run\<close>

lemma ready_simps:
  "ts_BmhNamespace (set_Spec ready_set) = ''ns''" "ts_BmhLabelSelector (set_Spec ready_set) = None"
  "spec_hosts ready_set = Some [(''c0'', ready_host)]"
  "status_hosts ready_set = Some [(''c0'', ready_status)]"
  "set_Name ready_set = ''set''" "bmh_Name ready_bmh = ''b0''" "ip_BmhRef ready_status = ''b0''"
  "bmh_State ready_bmh = StateProvisioned"
  and ready_cleaning: "bmh_AutomatedCleaningMode ready_bmh = []"
  by (simp_all add: ready_defs)

lemma like_ready_upd [simp]: "like_ready (upd_conds f i) = like_ready i"
  by (simp add: like_ready_def)

lemma ready_input:
  "like_ready i \<Longrightarrow> inputPhase ref_lib ref_conds ref_client (i, ready_cluster, gm_empty) =
   (Continue (sample_ssh, None), upd_conds (\<lambda>cs. cond_MarkTrue ref_conds cs InputReadyCondition
      (cond_text ref_conds ''InputReadyMessage'')) i, ready_cluster, gm_put ''ssh'' ''hash'' gm_empty)"
  by (simp add: like_ready_def inputPhase_def requiredSecret_def ref_client_def found_or_def ready_defs)

lemma ready_server:
  "like_ready i \<Longrightarrow> provServerPhase ref_lib ref_conds ref_client (i, ready_cluster, env) =
   (Continue zero_ProvisionServer, upd_conds (\<lambda>cs. cond_MarkTrue ref_conds cs
      OpenStackBaremetalSetProvServerReadyCondition ''Provision server not needed for PassThrough mode'') i,
    ready_cluster, env)"
  by (simp add: like_ready_def provServerPhase_def ready_defs OSImageDeploymentTypeSelfExtracting_def)

lemma ready_hosts:
  "GetBaremetalHosts ref_client ready_cluster ''ns'' gm_empty = Ok [ready_bmh]"
  "GetBaremetalHosts ref_client ready_cluster ''ns'' None = Ok [ready_bmh]"
  "GetBaremetalHosts ref_client ready_cluster ''ns'' ready_labels = Ok [ready_bmh]"
  by code_simp+

lemma ready_sync:
  "like_ready i \<Longrightarrow> VerifyAndSyncBaremetalStatusBmhRefs ref_client ready_cluster i = (Ok (), i)"
  by (simp add: like_ready_def VerifyAndSyncBaremetalStatusBmhRefs_def ready_hosts ready_simps
      set_status_hosts_def)

lemma ready_none_removed: "hostNamesToDeprovision ready_set [ready_bmh] = []"
  by code_simp

lemma ready_delete:
  assumes "like_ready i"
  shows "deleteBmh ref_lib ref_client ready_labels (i, ready_cluster) = (Ok (), i, ready_cluster)"
proof -
  have "hostNamesToDeprovision i [ready_bmh] = hostNamesToDeprovision ready_set [ready_bmh]"
    using assms by (simp add: like_ready_def hostNamesToDeprovision_def ownershipLabelKey_def)
  with assms show ?thesis
    by (simp add: like_ready_def deleteBmh_def ready_simps ready_hosts ready_none_removed)
qed

lemma ready_scale:
  "like_ready i \<Longrightarrow> VerifyBaremetalSetScaleUp i bs es = Ok None"
  by (simp add: like_ready_def VerifyBaremetalSetScaleUp_def newComputes_def ready_simps gm_get_def gm_len_def)

lemma ready_existing: "existingHosts ''set-osbms-hostname'' [ready_bmh] gm_empty = Some [(''c0'', ready_bmh)]"
  by code_simp

lemma ready_merge:
  "like_ready i \<Longrightarrow> MergeMaps ref_lib None (buildExistingHostBMHMap i [ready_bmh]) = Some [(''c0'', ready_bmh)]"
  using ready_existing
  by (simp add: like_ready_def buildExistingHostBMHMap_def ownershipLabelKey_def
      HostnameLabelSelectorSuffix_def ready_simps ref_lib_def ref_merge_def)

lemma ready_cloudInit:
  "like_ready i \<Longrightarrow> cloudInit ref_lib i ''c0'' ip ssh pw =
     Ok ([], \<lparr>sr_Name = ''u'', sr_Namespace = ''ns''\<rparr>, \<lparr>sr_Name = ''n'', sr_Namespace = ''ns''\<rparr>)"
  by (simp add: like_ready_def cloudInit_def spec_host_def ready_simps gm_get_def ready_host_def Let_def)

lemma ready_get: "Get_bmh ref_client ready_cluster ''b0'' ''ns'' = Ok ready_bmh"
  by code_simp

lemma ready_patch:
  "CreateOrPatch_bmh ref_client ready_cluster ready_bmh (\<lambda>b. Ok (f b)) =
     (Ok (f ready_bmh), ready_cluster\<lparr>k_bmhs := [f ready_bmh]\<rparr>)"
  by (simp add: ref_client_def patch_bmh_def ready_cluster_def same_bmh_def is_bmh_def replace_if_def)

lemma ready_provision:
  assumes "like_ready i"
  shows "\<exists>w' st. BaremetalHostProvision ref_lib ref_client (i, ready_cluster, env) ''b0'' ''c0'' ip ps ssh pw =
    (Ok (), set_status_hosts (Some [(''c0'', st)]) i, w', env) \<and> w' \<noteq> ready_cluster
    \<and> hs_ProvisioningState st = StateProvisioned"
proof -
  let ?f = "provisionMutate ref_lib i ''c0'' ps \<lparr>sr_Name = ''u'', sr_Namespace = ''ns''\<rparr>
    \<lparr>sr_Name = ''n'', sr_Namespace = ''ns''\<rparr>"
  let ?st = "(initialHostStatus i ''b0'' ''c0'' ip)\<lparr>hs_UserDataSecretName := ''u'',
    hs_NetworkDataSecretName := ''n'', hs_ProvisioningState := StateProvisioned\<rparr>"
  let ?w = "ready_cluster\<lparr>k_bmhs := [?f ready_bmh]\<rparr>"
  have "ts_AutomatedCleaningMode (set_Spec i) = ''metadata''"
    using assms by (simp add: like_ready_def ready_set_def sample_set_def)
  then have "?f ready_bmh \<noteq> ready_bmh"
    by (metis provisionMutate_always(4) ready_cleaning list.distinct(1))
  then have ne: "?w \<noteq> ready_cluster" by (auto simp: ready_cluster_def dest: arg_cong [of _ _ k_bmhs])
  have "status_hosts i = Some [(''c0'', ready_status)]" "ts_BmhNamespace (set_Spec i) = ''ns''"
    using assms by (simp_all add: like_ready_def ready_simps)
  then have "BaremetalHostProvision ref_lib ref_client (i, ready_cluster, env) ''b0'' ''c0'' ip ps ssh pw =
    (Ok (), set_status_hosts (Some [(''c0'', ?st)]) i, ?w, env)"
    by (simp add: BaremetalHostProvision_def ready_cloudInit assms ensureCloudInit_def patchHost_def
        ready_simps ready_get ready_patch recordHost_def gm_assign_def gm_put_def)
  with ne show ?thesis by (intro exI [of _ ?w] exI [of _ ?st]) simp
qed

lemma ready_ensure:
  assumes "like_ready i"
  shows "\<exists>w' st. ensureBaremetalHosts ref_lib ref_client ps ssh pw ready_labels (i, ready_cluster, env) =
    (Ok (), set_status_hosts (Some [(''c0'', st)]) i, w', env) \<and> w' \<noteq> ready_cluster
    \<and> hs_ProvisioningState st = StateProvisioned"
proof -
  have "ts_BmhNamespace (set_Spec i) = ''ns''" "ts_BmhLabelSelector (set_Spec i) = None"
    using assms by (simp_all add: like_ready_def ready_simps)
  moreover from ready_provision [OF assms] obtain w' st where
    "BaremetalHostProvision ref_lib ref_client (i, ready_cluster, env) ''b0'' ''c0''
       (is_CtlPlaneIP (spec_host i ''c0'')) ps ssh pw =
     (Ok (), set_status_hosts (Some [(''c0'', st)]) i, w', env)" "w' \<noteq> ready_cluster" "hs_ProvisioningState st = StateProvisioned"
    by blast
  ultimately show ?thesis
    by (simp add: ensureBaremetalHosts_def ready_hosts ready_scale assms ready_merge ready_simps) blast
qed

lemma ready_hostsPhase:
  assumes "like_ready i"
  shows "\<exists>w' st. hostsPhase ref_lib ref_conds ref_client ps ssh pw (i, ready_cluster, env) =
    (Continue (), set_status_hosts (Some [(''c0'', st)]) i, w', env) \<and> w' \<noteq> ready_cluster
    \<and> hs_ProvisioningState st = StateProvisioned"
proof -
  have "set_Meta i = set_Meta ready_set" using assms by (simp add: like_ready_def)
  moreover from ready_ensure [OF assms] obtain w' st where
    "ensureBaremetalHosts ref_lib ref_client ps ssh pw ready_labels (i, ready_cluster, env) =
     (Ok (), set_status_hosts (Some [(''c0'', st)]) i, w', env)" "w' \<noteq> ready_cluster" "hs_ProvisioningState st = StateProvisioned"
    by blast
  ultimately show ?thesis
    by (simp add: hostsPhase_def ready_sync assms hostStep_def with_env_def ready_delete
        ready_labels_def [symmetric]) blast
qed

section \<open>The whole run\<close>

abbreviation ready_conds :: Conditions where
  "ready_conds \<equiv> cond_Init ref_conds [] (initialConditions_set ref_conds)"

text \<open>Marking the three conditions true makes \<open>Ready\<close> true.\<close>

lemma ready_conds_status:
  "cond_status ready_conds t =
     (if t \<in> {ReadyCondition, InputReadyCondition, OpenStackBaremetalSetProvServerReadyCondition,
              OpenStackBaremetalSetBmhProvisioningReadyCondition} then Some CUnknown else None)"
  by (simp add: ref_conds_def initialConditions_set_def ref_cond_def cond_status_def cond_get_def eq_commute)

lemma ready_prepared:
  "\<exists>i. ensureFinalizer_set ref_lib (initStatus_set ref_conds ready_set) = (False, i)
     \<and> like_ready (makeMaps_set i) \<and> set_conds (makeMaps_set i) = ready_conds
     \<and> \<not> om_Deleting (set_Meta (makeMaps_set i))"
  by (simp add: ensureFinalizer_set_def initStatus_set_def Let_def makeMaps_set_def like_ready_def
      ref_lib_def set_status_hosts_def ready_defs set_conds_def conds_of_def upd_conds_def)

lemma ready_final:
  assumes "hs_ProvisioningState st = StateProvisioned" and "status_hosts (fst s) = Some [(''c0'', st)]"
    and "\<And>t. cond_status (set_conds (fst s)) t =
      (if t \<in> {InputReadyCondition, OpenStackBaremetalSetProvServerReadyCondition} then Some CTrue
       else cond_status ready_conds t)"
  shows "\<exists>t. finalPhase ref_conds s = (Continue (Ok 0), t)
    \<and> cond_status (set_conds (fst t)) ReadyCondition = Some CTrue"
proof -
  have "cond_AllSubConditionIsTrue ref_conds (cond_MarkTrue ref_conds (set_conds (fst s))
      OpenStackBaremetalSetBmhProvisioningReadyCondition OpenStackBaremetalSetBmhProvisioningReadyMessage)"
    unfolding rc.AllSub_iff rc.status_MarkTrue using assms(3)
    by (auto simp: ready_conds_status split: if_splits)
  with assms(1,2) show ?thesis by (simp add: finalPhase_def rc.status_MarkTrue)
qed

lemma sample_run:
  "\<exists>i w env. reconcileBody_set ref_lib ref_conds ref_client (ready_set, ready_cluster) = (Ok 0, i, w, env)
     \<and> w \<noteq> ready_cluster
     \<and> cond_status (deferredConditions ref_conds (set_conds ready_set) (set_conds i)) ReadyCondition = Some CTrue"
proof -
  obtain i0 where f: "ensureFinalizer_set ref_lib (initStatus_set ref_conds ready_set) = (False, i0)"
    and l: "like_ready (makeMaps_set i0)" and c: "set_conds (makeMaps_set i0) = ready_conds"
    and d: "\<not> om_Deleting (set_Meta (makeMaps_set i0))"
    using ready_prepared by blast
  let ?i1 = "upd_conds (\<lambda>cs. cond_MarkTrue ref_conds cs InputReadyCondition
      (cond_text ref_conds ''InputReadyMessage'')) (makeMaps_set i0)"
  let ?i2 = "upd_conds (\<lambda>cs. cond_MarkTrue ref_conds cs OpenStackBaremetalSetProvServerReadyCondition
      ''Provision server not needed for PassThrough mode'') ?i1"
  have l2: "like_ready ?i2" using l by simp
  from ready_hostsPhase [OF this] obtain w st where
    h: "hostsPhase ref_lib ref_conds ref_client zero_ProvisionServer sample_ssh None
      (?i2, ready_cluster, gm_put ''ssh'' ''hash'' gm_empty)
      = (Continue (), set_status_hosts (Some [(''c0'', st)]) ?i2, w, gm_put ''ssh'' ''hash'' gm_empty)"
    and st: "hs_ProvisioningState st = StateProvisioned" and ne: "w \<noteq> ready_cluster" by blast
  let ?s = "(set_status_hosts (Some [(''c0'', st)]) ?i2, w, gm_put ''ssh'' ''hash'' gm_empty)"
  have "cond_status (set_conds (fst ?s)) t =
      (if t \<in> {InputReadyCondition, OpenStackBaremetalSetProvServerReadyCondition} then Some CTrue
       else cond_status ready_conds t)" for t
    using c rc.status_MarkTrue by simp
  from ready_final [OF st _ this] obtain t where t: "finalPhase ref_conds ?s = (Continue (Ok 0), t)"
    and r: "cond_status (set_conds (fst t)) ReadyCondition = Some CTrue"
    by (auto simp del: set_conds_upd)
  have new: "sst_Conditions (set_Status ready_set) = Some []" by (simp add: ready_defs)
  have "reconcileBody_set ref_lib ref_conds ref_client (ready_set, ready_cluster) = (Ok 0, t)"
    using f d new l t by (simp add: reconcileBody_set_def reconcileNormal_set_def ready_input l ready_server h)
  moreover have "cond_status (deferredConditions ref_conds (set_conds ready_set) (set_conds (fst t)))
      ReadyCondition = Some CTrue"
    using r by (simp add: deferredConditions_def rc.status_Restore rc.IsUnknown_iff)
  moreover have "fst (snd t) \<noteq> ready_cluster" using t ne by (auto simp: finalPhase_def split: if_splits)
  ultimately show ?thesis by (cases t) auto
qed

end
