(* ===== verification/SetLiveness.thy ===== *)
theory SetLiveness
  imports SetSafety
begin

text \<open>
  The other direction of the overall condition: a reconciliation that runs to its end with every host
  provisioned makes every condition of the set true, and so the set ready. The parts before the end
  either continue with their condition true or return a requeue or an error.
\<close>

section \<open>Conditions along the way\<close>

definition set_cond_types :: "string set" where
  "set_cond_types = {ReadyCondition, InputReadyCondition, OpenStackBaremetalSetProvServerReadyCondition,
     OpenStackBaremetalSetBmhProvisioningReadyCondition}"

text \<open>Only the four conditions of a set are there.\<close>

definition known_conds :: "Conditions \<Rightarrow> bool" where
  "known_conds cs \<longleftrightarrow> (\<forall>t. cond_status cs t \<noteq> None \<longrightarrow> t \<in> set_cond_types)"

lemma requiredSecret_Continue:
  "requiredSecret L C cl n ns s = (Continue x, s') \<Longrightarrow> fst s' = fst s"
  by (cases s) (auto simp: requiredSecret_def split: outcome.splits if_splits)

lemma requiredSecret_Return: "requiredSecret L C cl n ns s = (Return r, s') \<Longrightarrow> r \<noteq> Ok 0"
  by (cases s) (auto simp: requiredSecret_def split: outcome.splits if_splits)

lemma inputPhase_Continue:
  assumes "inputPhase L C cl s = (Continue x, s')"
  shows "set_conds (fst s') =
    cond_MarkTrue C (set_conds (fst s)) InputReadyCondition (cond_text C ''InputReadyMessage'')"
  using assms
  by (auto simp: inputPhase_def Let_def flow_then_Continue_iff split: option.splits
      dest!: requiredSecret_Continue)

lemma inputPhase_Return:
  assumes "inputPhase L C cl s = (Return r, s')"
  shows "r \<noteq> Ok 0"
proof -
  let ?r = "requiredSecret L C cl (ts_DeploymentSSHSecret (set_Spec (fst s))) (set_Namespace (fst s)) s"
  obtain f t where r: "?r = (f, t)" by (metis surj_pair)
  let ?t = "on_inst (upd_conds (\<lambda>cs. cond_MarkTrue C cs InputReadyCondition
    (cond_text C ''InputReadyMessage''))) t"
  show ?thesis
  proof (cases f)
    case (Return q)
    with r assms requiredSecret_Return [of L C cl _ _ s q t] show ?thesis
      by (auto simp: inputPhase_def Let_def)
  next
    case (Continue y)
    show ?thesis
    proof (cases "ts_PasswordSecret (set_Spec (fst s))")
      case None
      with r Continue assms show ?thesis by (simp add: inputPhase_def Let_def)
    next
      case (Some ref)
      obtain g u where "requiredSecret L C cl (sr_Name ref) (sr_Namespace ref) ?t = (g, u)" by (metis surj_pair)
      with r Continue Some assms requiredSecret_Return [of L C cl _ _ ?t _ u] show ?thesis
        by (cases g) (auto simp: inputPhase_def Let_def)
    qed
  qed
qed

lemma provServerPhase_Continue:
  assumes "provServerPhase L C cl s = (Continue ps, s')"
  shows "\<exists>m. set_conds (fst s') =
    cond_MarkTrue C (set_conds (fst s)) OpenStackBaremetalSetProvServerReadyCondition m"
proof -
  obtain r t where a: "acquireProvServer L cl s = (r, t)" by (cases "acquireProvServer L cl s")
  with rc.acquireProvServer_inst [of L cl s] have "fst t = fst s" by simp
  with a assms show ?thesis
    by (auto simp: provServerPhase_def Let_def split: outcome.splits if_splits)
qed

lemma provServerPhase_Return: "provServerPhase L C cl s = (Return r, s') \<Longrightarrow> r \<noteq> Ok 0"
  by (auto simp: provServerPhase_def Let_def split: outcome.splits if_splits prod.splits)

lemma hostStep_Return: "hostStep L C r = (Return q, t) \<Longrightarrow> q \<noteq> Ok 0"
  by (cases r; cases "fst r") (auto simp: hostStep_def)

lemma hostsPhase_Return:
  assumes "hostsPhase L C cl ps ssh pw s = (Return q, t)"
  shows "q \<noteq> Ok 0"
proof -
  have then_Return: "flow_then f k = (Return q, t) \<longleftrightarrow>
      f = (Return q, t) \<or> (\<exists>x s. f = (Continue x, s) \<and> k x s = (Return q, t))"
    for f :: "(nat result, unit) flow \<times> 'a set_state" and k
    by (cases f; cases "fst f") auto
  from assms show ?thesis
    by (auto simp: hostsPhase_def then_Return Let_def case_prod_beta dest: hostStep_Return
        simp del: split_paired_Ex)
qed

lemma hostsPhase_Continue:
  assumes "hostsPhase L C cl ps ssh pw s = (Continue u, s')"
  shows "set_conds (fst s') = set_conds (fst s)"
proof -
  obtain i w env where s: "s = (i, w, env)" by (cases s)
  from assms s obtain i1 where v: "VerifyAndSyncBaremetalStatusBmhRefs cl w i = (Ok (), i1)" and
    rest: "flow_then (hostStep L C (with_env env (deleteBmh L cl
        (GetLabels L (set_Meta i1) (GetGroupLabel L ServiceName) gm_empty) (i1, w))))
      (\<lambda>_ s. hostStep L C (ensureBaremetalHosts L cl ps ssh pw
        (GetLabels L (set_Meta i1) (GetGroupLabel L ServiceName) gm_empty) s)) = (Continue u, s')"
    by (auto simp: hostsPhase_def Let_def flow_then_Continue_iff hostStep_Continue split: prod.splits)
  let ?ls = "GetLabels L (set_Meta i1) (GetGroupLabel L ServiceName) gm_empty"
  from rest obtain i2 w2 where d: "deleteBmh L cl ?ls (i1, w) = (Ok (), i2, w2)"
    and e: "ensureBaremetalHosts L cl ps ssh pw ?ls (i2, w2, env) = (Ok (), s')"
    by (auto simp: flow_then_Continue_iff hostStep_Continue with_env_def split: prod.splits)
  from sync_frame [of i cl w] v deleteBmh_frame [of "(i1, w)" L cl ?ls] d
    ensureBaremetalHosts_frame [of "(i2, w2, env)" L cl ps ssh pw ?ls] e s
  show ?thesis by simp
qed

section \<open>The end\<close>

abbreviation (input) entries_provisioned :: "OpenStackBaremetalSet \<Rightarrow> bool" where
  "entries_provisioned i \<equiv> \<forall>(h, st) \<in> set (gm_items (status_hosts i)). hs_ProvisioningState st = StateProvisioned"

context cond_laws begin

lemma known_MarkTrue:
  "known_conds cs \<Longrightarrow> t \<in> set_cond_types \<Longrightarrow> known_conds (cond_MarkTrue C cs t m)"
  by (auto simp: known_conds_def status_MarkTrue)

lemma finalPhase_ready:
  assumes "finalPhase C s = (f, s')" and "entries_provisioned (fst s')" and "known_conds (set_conds (fst s))"
    and "cond_status (set_conds (fst s)) InputReadyCondition = Some CTrue"
    and "cond_status (set_conds (fst s)) OpenStackBaremetalSetProvServerReadyCondition = Some CTrue"
  shows "cond_status (set_conds (fst s')) ReadyCondition = Some CTrue"
proof -
  let ?cs = "cond_MarkTrue C (set_conds (fst s)) OpenStackBaremetalSetBmhProvisioningReadyCondition
    OpenStackBaremetalSetBmhProvisioningReadyMessage"
  have h: "status_hosts (fst s') = status_hosts (fst s)" using finalPhase_hosts [of C s] assms(1) by simp
  have "\<not> list_ex (\<lambda>(_, st). hs_ProvisioningState st \<noteq> StateProvisioned) (gm_items (status_hosts (fst s)))"
    using assms(2) h by (auto simp: list_ex_iff)
  moreover have "cond_AllSubConditionIsTrue C ?cs"
    using assms(3-5) by (auto simp: AllSub_iff status_MarkTrue known_conds_def set_cond_types_def)
  ultimately show ?thesis using assms(1) by (auto simp: finalPhase_def status_MarkTrue)
qed

lemma reconcileNormal_ready:
  assumes "reconcileNormal_set L C cl (inst, w) = (Ok 0, i', w', env)" and "entries_provisioned i'"
    and "known_conds (set_conds inst)"
  shows "cond_status (set_conds i') ReadyCondition = Some CTrue"
proof -
  let ?hosts = "\<lambda>ps ssh pw s. flow_then (hostsPhase L C cl ps ssh pw s) (\<lambda>_. finalPhase C)"
  let ?prov = "\<lambda>ssh pw s. flow_then (provServerPhase L C cl s) (\<lambda>ps. ?hosts ps ssh pw)"
  obtain f1 s1 where p1: "inputPhase L C cl (inst, w, gm_empty) = (f1, s1)" by (metis surj_pair)
  have run: "flow_end (flow_then (f1, s1) (\<lambda>(ssh, pw). ?prov ssh pw)) = (Ok 0, i', w', env)"
    using assms(1) p1 by (simp add: reconcileNormal_set_def case_prod_beta)
  then obtain ssh pw where c1: "f1 = Continue (ssh, pw)"
    using p1 by (cases f1) (auto dest: inputPhase_Return)
  obtain f2 s2 where p2: "provServerPhase L C cl s1 = (f2, s2)" by (metis surj_pair)
  from run c1 p2 obtain ps where c2: "f2 = Continue ps"
    by (cases f2) (auto dest: provServerPhase_Return)
  obtain f3 s3 where p3: "hostsPhase L C cl ps ssh pw s2 = (f3, s3)" by (metis surj_pair)
  from run c1 p2 c2 p3 obtain u where c3: "f3 = Continue u"
    by (cases f3) (auto dest: hostsPhase_Return)
  obtain f4 s4 where p4: "finalPhase C s3 = (f4, s4)" by (metis surj_pair)
  have s4: "fst s4 = i'" using run c1 p2 c2 p3 c3 p4 by (cases f4) auto
  from provServerPhase_Continue [OF p2 [unfolded c2]] obtain m where
    "set_conds (fst s2) = cond_MarkTrue C (set_conds (fst s1)) OpenStackBaremetalSetProvServerReadyCondition m" by blast
  with inputPhase_Continue [OF p1 [unfolded c1]] hostsPhase_Continue [OF p3 [unfolded c3]]
  have cs: "set_conds (fst s3) = cond_MarkTrue C (cond_MarkTrue C (set_conds inst) InputReadyCondition
      (cond_text C ''InputReadyMessage'')) OpenStackBaremetalSetProvServerReadyCondition m" by simp
  have "known_conds (set_conds (fst s3))"
    unfolding cs by (intro known_MarkTrue assms(3)) (simp_all add: set_cond_types_def)
  from finalPhase_ready [OF p4 _ this] s4 assms(2) cs show ?thesis by (simp add: status_MarkTrue)
qed

lemma initial_known: "known_conds (cond_Init C cs (initialConditions_set C))"
  using Init_only [of cs "initialConditions_set C"]
  by (auto simp: known_conds_def set_cond_types_def initialConditions_set_def UnknownCondition_simps)

end

context controller_laws begin

lemma reconcileBody_ready:
  assumes "GetFinalizer L (set_Meta inst) \<in> set (om_Finalizers (set_Meta inst))"
    and "\<not> om_Deleting (set_Meta inst)" and "sst_Conditions (set_Status inst) \<noteq> None"
    and "reconcileBody_set L C cl (inst, w) = (Ok 0, i', w', env)" and "entries_provisioned i'"
  shows "cond_status (set_conds i') ReadyCondition = Some CTrue"
proof -
  let ?i = "initStatus_set C inst"
  have m: "set_Meta ?i = set_Meta inst" by (simp add: initStatus_set_def Let_def)
  have f: "ensureFinalizer_set L ?i = (False, ?i)"
    using assms(1,2) by (simp add: ensureFinalizer_set_def m AddFinalizer_eq)
  have "set_Meta (makeMaps_set ?i) = set_Meta inst" by (simp add: makeMaps_set_def Let_def m)
  with assms(2-4) f have r: "reconcileNormal_set L C cl (makeMaps_set ?i, w) = (Ok 0, i', w', env)"
    by (simp add: reconcileBody_set_def Let_def del: not_None_eq)
  have "known_conds (set_conds (makeMaps_set ?i))" using initial_known prepared(1,5) by simp
  with reconcileNormal_ready [OF r assms(5)] show ?thesis .
qed

lemma deferred_keeps_ready:
  "cond_status cs ReadyCondition = Some CTrue \<Longrightarrow>
   cond_status (deferredConditions C saved cs) ReadyCondition = Some CTrue"
  by (simp add: deferredConditions_def Let_def IsUnknown_iff status_Restore)

end

end
