(* ===== verification/SetProperties.thy ===== *)
theory SetProperties
  imports SampleRun SetLiveness
begin

text \<open>
  Properties of the provisioning of bare metal hosts and of the controller of
  \<open>OpenStackBaremetalSet\<close>, each with a witness on sample objects. The lemmas they rest on are in
  \<open>HostProvision\<close>, \<open>SetController\<close> and \<open>SetSafety\<close>.
\<close>

section \<open>Sample objects\<close>

definition dead_set :: OpenStackBaremetalSet where
  "dead_set = sample_set None (Some [(''c0'', ready_status), (''c1'', ready_status\<lparr>ip_Hostname := ''c1'', ip_BmhRef := ''b1''\<rparr>)])"

definition half_cluster :: cluster where
  "half_cluster = empty_cluster\<lparr>k_bmhs := [sample_bmh ''b1'' None StateProvisioned]\<rparr>"

definition host_ref :: SecretReference where
  "host_ref = \<lparr>sr_Name = ''u'', sr_Namespace = ''ns''\<rparr>"

definition plain_set :: OpenStackBaremetalSet where
  "plain_set = sample_set (Some [(''c0'', sample_host)]) None"

definition removed_set :: OpenStackBaremetalSet where
  "removed_set = sample_set None (Some [(''c0'', ready_status)])"

text \<open>What is observed of a cluster: the names of the secrets it holds. Deleting a secret by name removes no
  other one, and an update of a bare metal host removes none.\<close>

definition secrets_store :: "'w client \<Rightarrow> ('w \<Rightarrow> (string \<times> string) set) \<Rightarrow> bool" where
  "secrets_store cl S \<longleftrightarrow>
     (\<forall>w n ns r w'. DeleteSecretsWithName cl w n ns = (r, w') \<longrightarrow> S w - {(n, ns)} \<subseteq> S w')
     \<and> (\<forall>w b r w'. Update_bmh cl w b = (r, w') \<longrightarrow> S w \<subseteq> S w')"

text \<open>The secrets of a host: those of the specification, or else those that are created for it.\<close>

definition user_secret_name :: "OpenStackBaremetalSet \<Rightarrow> string \<Rightarrow> string" where
  "user_secret_name inst h = (case is_UserData (spec_host inst h) of
     Some s \<Rightarrow> sr_Name s | None \<Rightarrow> CloudInitUserDataSecretName (set_Name inst) h)"

definition network_secret_name :: "OpenStackBaremetalSet \<Rightarrow> string \<Rightarrow> string" where
  "network_secret_name inst h = (case is_NetworkData (spec_host inst h) of
     Some s \<Rightarrow> sr_Name s | None \<Rightarrow> CloudInitNetworkDataSecretName (set_Name inst) h)"

text \<open>What an entry of the status says of its host besides the state and the secrets.\<close>

definition same_host :: "HostStatus \<Rightarrow> HostStatus \<Rightarrow> bool" where
  "same_host s t \<longleftrightarrow> ip_Hostname s = ip_Hostname t \<and> ip_BmhRef s = ip_BmhRef t
     \<and> ip_IPAddresses s = ip_IPAddresses t"

section \<open>The overall condition\<close>

text \<open>C1. A set is reported \<open>Ready\<close> only when it is: if the instance that a reconciliation patches has
  the condition \<open>Ready\<close>, then every condition it carries is true, every host of the specification has an
  entry in the status, and every entry is of a provisioned host.\<close>

theorem ready_means_provisioned:
  assumes "lib_laws L" and "cond_laws C" and "gm_wf (spec_hosts inst)"
    and "reconcileBody_set L C cl (inst, w) = (res, inst', w', env)"
    and "patched = upd_conds (deferredConditions C (set_conds inst)) inst'"
    and "cond_status (set_conds patched) ReadyCondition = Some CTrue"
  shows "(\<forall>t s. cond_status (set_conds patched) t = Some s \<longrightarrow> s = CTrue) \<and> all_provisioned patched"
proof -
  have l: "controller_laws L C" using assms(1,2) by (simp add: controller_laws_def)
  have "body_post inst'" using controller_laws.reconcileBody_post [OF l assms(3), of cl w] assms(4) by simp
  from controller_laws.deferred_ready [OF l this, of "set_conds inst"] assms(5,6) show ?thesis
    by (auto simp: ready_sound_def all_provisioned_def)
qed

lemma ready_set_wf: "gm_wf (spec_hosts ready_set)" "gm_wf (status_hosts ready_set)"
  by (simp_all add: gm_wf_def gm_keys_def ready_simps)

theorem ready_means_provisioned_witness:
  "\<exists>i w env. reconcileBody_set ref_lib ref_conds ref_client (ready_set, ready_cluster) = (Ok 0, i, w, env)
     \<and> all_provisioned (upd_conds (deferredConditions ref_conds (set_conds ready_set)) i)"
proof -
  obtain i w env where r: "reconcileBody_set ref_lib ref_conds ref_client (ready_set, ready_cluster) = (Ok 0, i, w, env)"
    and c: "cond_status (deferredConditions ref_conds (set_conds ready_set) (set_conds i)) ReadyCondition = Some CTrue"
    using sample_run by blast
  from ready_means_provisioned [OF rl.lib_laws_axioms rc.cond_laws_axioms ready_set_wf(1) r refl] c r
  show ?thesis by auto
qed

text \<open>C11. A set becomes ready as soon as it can: when a reconciliation of a set that carries its finalizer, is
  not being deleted and has been initialised runs to its end without asking for another one, the patched
  instance has the condition \<open>Ready\<close> exactly when every host of the specification has an entry in the
  status and every entry is of a provisioned host.\<close>

theorem ready_iff_provisioned:
  assumes "lib_laws L" and "cond_laws C" and "gm_wf (spec_hosts inst)"
    and "GetFinalizer L (set_Meta inst) \<in> set (om_Finalizers (set_Meta inst))"
    and "\<not> om_Deleting (set_Meta inst)" and "sst_Conditions (set_Status inst) \<noteq> None"
    and "reconcileBody_set L C cl (inst, w) = (Ok 0, inst', w', env)"
    and "patched = upd_conds (deferredConditions C (set_conds inst)) inst'"
  shows "cond_status (set_conds patched) ReadyCondition = Some CTrue \<longleftrightarrow> all_provisioned patched"
proof -
  have l: "controller_laws L C" using assms(1,2) by (simp add: controller_laws_def)
  have post: "body_post inst'" using controller_laws.reconcileBody_post [OF l assms(3), of cl w] assms(7) by simp
  have same: "all_provisioned patched = all_provisioned inst'" by (simp add: assms(8) all_provisioned_def)
  have "cond_status (set_conds patched) ReadyCondition = Some CTrue" if "all_provisioned patched"
  proof -
    from that same have "\<forall>(h, st) \<in> set (gm_items (status_hosts inst')). hs_ProvisioningState st = StateProvisioned"
      by (simp add: all_provisioned_def)
    from controller_laws.reconcileBody_ready [OF l assms(4-7) this] show ?thesis
      by (simp add: assms(8) controller_laws.deferred_keeps_ready [OF l])
  qed
  moreover have "all_provisioned patched" if "cond_status (set_conds patched) ReadyCondition = Some CTrue"
    using controller_laws.deferred_ready [OF l post, of "set_conds inst"] that same by (simp add: assms(8))
  ultimately show ?thesis by blast
qed

theorem ready_iff_provisioned_witness:
  "\<exists>i w env. reconcileBody_set ref_lib ref_conds ref_client (ready_set, ready_cluster) = (Ok 0, i, w, env)
     \<and> (cond_status (set_conds (upd_conds (deferredConditions ref_conds (set_conds ready_set)) i)) ReadyCondition
          = Some CTrue
        \<longleftrightarrow> all_provisioned (upd_conds (deferredConditions ref_conds (set_conds ready_set)) i))"
proof -
  obtain i w env where r: "reconcileBody_set ref_lib ref_conds ref_client (ready_set, ready_cluster) = (Ok 0, i, w, env)"
    using sample_run by blast
  have "GetFinalizer ref_lib (set_Meta ready_set) \<in> set (om_Finalizers (set_Meta ready_set))"
    "\<not> om_Deleting (set_Meta ready_set)" "sst_Conditions (set_Status ready_set) \<noteq> None"
    by (simp_all add: ready_defs ref_lib_def)
  from ready_iff_provisioned [OF rl.lib_laws_axioms rc.cond_laws_axioms ready_set_wf(1) this r refl] r
  show ?thesis by blast
qed

section \<open>Panics\<close>

text \<open>C10. A reconciliation does not panic on its own: as long as the calls out of the repository do not,
  neither does the body, whatever the instance and the cluster are (the map of the status is made before a
  host is recorded in it, and the port loop ends).\<close>

theorem reconcile_set_no_panic:
  assumes "calm_client cl"
  shows "fst (reconcileBody_set L C cl (inst, w)) \<noteq> Panic m"
  using calm_reconcileBody [OF assms, of L C inst w] by (auto simp: calm_def)

theorem reconcile_set_no_panic_witness:
  "calm_client ref_client
   \<and> (\<forall>m. fst (reconcileBody_set ref_lib ref_conds ref_client (dead_set, half_cluster)) \<noteq> Panic m)"
  using reconcile_set_no_panic [OF ref_client_calm] ref_client_calm by blast

section \<open>Provisioning of a host\<close>

text \<open>C18. The outcome of provisioning one host. On success the only change of the instance is the entry
  of the host in the status: it names the secrets of the specification, or else those that are created
  for the host, and the state of the patched bare metal host, and an entry that existed keeps its host
  name, bare metal host and addresses. On an error or a panic the instance is as it was.\<close>

theorem provision_outcome:
  assumes "BaremetalHostProvision L cl (inst, w, env) bmh h ip ps ssh pw = (r, inst', w', env')"
  shows "if r = Ok () then \<exists>st b0 w1 u n b.
      inst' = set_status_hosts (gm_put h st (status_hosts inst)) inst
      \<and> Get_bmh cl w1 bmh (ts_BmhNamespace (set_Spec inst)) = Ok b0
      \<and> CreateOrPatch_bmh cl w1 b0 (\<lambda>b. Ok (provisionMutate L inst h ps u n b)) = (Ok b, w')
      \<and> sr_Name u = user_secret_name inst h \<and> hs_UserDataSecretName st = user_secret_name inst h
      \<and> sr_Name n = network_secret_name inst h \<and> hs_NetworkDataSecretName st = network_secret_name inst h
      \<and> hs_ProvisioningState st = bmh_State b
      \<and> same_host st (case gm_get (status_hosts inst) h of Some old \<Rightarrow> old
           | None \<Rightarrow> zero_HostStatus\<lparr>ip_Hostname := h, ip_BmhRef := bmh,
                       ip_IPAddresses := Some [(''ctlplane'', ip)]\<rparr>)
    else inst' = inst"
proof (cases "r = Ok ()")
  case False
  with provision_not_Ok [of L cl "(inst, w, env)" bmh h ip ps ssh pw] assms show ?thesis by simp
next
  case True
  have names: "sr_Name u = user_secret_name inst h \<and> sr_Name n = network_secret_name inst h"
    if "cloudInit L inst h ip ssh pw = Ok (sts, u, n)" for sts u n
    using that by (auto simp: cloudInit_def user_secret_name_def network_secret_name_def Let_def
        split: option.splits prod.splits)
  from assms True have "BaremetalHostProvision L cl (inst, w, env) bmh h ip ps ssh pw = (Ok (), inst', w', env')"
    by simp
  then show ?thesis
  proof (rule provision_Ok)
    fix sts w1 b0 b and u n :: SecretReference
    let ?st = "(initialHostStatus inst bmh h ip)\<lparr>hs_UserDataSecretName := sr_Name u,
        hs_NetworkDataSecretName := sr_Name n, hs_ProvisioningState := bmh_State b\<rparr>"
    assume c: "cloudInit L inst h ip ssh pw = Ok (sts, u, n)"
      and g: "Get_bmh cl w1 bmh (ts_BmhNamespace (set_Spec inst)) = Ok b0"
      "CreateOrPatch_bmh cl w1 b0 (\<lambda>b. Ok (provisionMutate L inst h ps u n b)) = (Ok b, w')"
      and i: "inst' = set_status_hosts (gm_put h ?st (status_hosts inst)) inst"
    have "same_host ?st (case gm_get (status_hosts inst) h of Some old \<Rightarrow> old
           | None \<Rightarrow> zero_HostStatus\<lparr>ip_Hostname := h, ip_BmhRef := bmh,
                       ip_IPAddresses := Some [(''ctlplane'', ip)]\<rparr>)"
      by (simp add: initialHostStatus_def same_host_def gm_put_def split: option.split)
    with names [OF c] g i True show ?thesis
      by (subst if_P, simp) (intro exI [of _ ?st] exI [of _ b0] exI [of _ w1] exI [of _ u] exI [of _ n]
          exI [of _ b], simp)
  qed
qed

theorem provision_outcome_witness:
  "\<exists>st inst' w'. BaremetalHostProvision ref_lib ref_client (ready_set, ready_cluster, gm_empty) ''b0'' ''c0''
       ''10.0.0.5/24'' zero_ProvisionServer sample_ssh None = (Ok (), inst', w', gm_empty)
     \<and> inst' = set_status_hosts (gm_put ''c0'' st (status_hosts ready_set)) ready_set
     \<and> ip_BmhRef st = ''b0''"
proof -
  have "like_ready ready_set" by (simp add: like_ready_def)
  then obtain i w where p: "BaremetalHostProvision ref_lib ref_client (ready_set, ready_cluster, gm_empty)
      ''b0'' ''c0'' ''10.0.0.5/24'' zero_ProvisionServer sample_ssh None = (Ok (), i, w, gm_empty)"
    using ready_provision by blast
  from provision_outcome [OF p] p show ?thesis by (auto simp: ready_simps gm_get_def same_host_def)
qed

text \<open>The patch of a bare metal host may be applied again: a second application with the same arguments
  changes no field and no label. A host that already has a consumer keeps its consumer, its power
  state and its secrets, and once provisioned its image.\<close>

theorem patch_idempotent:
  assumes "lib_laws L" and "b1 = provisionMutate L i h ps u n b"
  shows "(\<exists>ls. provisionMutate L i h ps u n b1 = b1\<lparr>bmh_Meta := (bmh_Meta b1)\<lparr>om_Labels := ls\<rparr>\<rparr>
        \<and> gm_get ls = gm_get (bmh_Labels b1))
    \<and> (bmh_ConsumerRef b \<noteq> None \<longrightarrow>
        bmh_ConsumerRef b1 = bmh_ConsumerRef b \<and> bmh_Online b1 = bmh_Online b
        \<and> bmh_UserData b1 = bmh_UserData b \<and> bmh_NetworkData b1 = bmh_NetworkData b
        \<and> (bmh_State b = StateProvisioned \<longrightarrow> bmh_Image b1 = bmh_Image b))"
proof -
  have "gm_get (MergeStringMaps L [bmh_Labels b1, hostLabels L i h]) k = gm_get (bmh_Labels b1) k" for k
    using assms(2) lib_laws.provisionMutate_labels [OF assms(1), of i h ps u n b k]
      lib_laws.MergeStringMaps_get [OF assms(1)]
    by (auto split: option.splits)
  then have "gm_get (MergeStringMaps L [bmh_Labels b1, hostLabels L i h]) = gm_get (bmh_Labels b1)"
    by (rule ext)
  with provisionMutate_twice [of L i h ps u n b] assms(2) provisionMutate_claimed [of b] show ?thesis
    by auto
qed

theorem patch_idempotent_witness:
  "\<exists>ls. provisionMutate ref_lib ready_set ''c0'' zero_ProvisionServer host_ref host_ref
        (provisionMutate ref_lib ready_set ''c0'' zero_ProvisionServer host_ref host_ref ready_bmh)
      = (provisionMutate ref_lib ready_set ''c0'' zero_ProvisionServer host_ref host_ref ready_bmh)
         \<lparr>bmh_Meta := (bmh_Meta (provisionMutate ref_lib ready_set ''c0'' zero_ProvisionServer host_ref host_ref ready_bmh))
            \<lparr>om_Labels := ls\<rparr>\<rparr>"
  using patch_idempotent [OF rl.lib_laws_axioms refl, of ready_set "''c0''" zero_ProvisionServer host_ref
      host_ref ready_bmh]
  by blast

section \<open>Cloud-init data\<close>

text \<open>\<open>hostNameIsFQDN\<close> accepts exactly the names that have at least two labels between dots, every
  label a non-empty sequence of letters, digits and dashes, and the last label at least two letters; and
  the user data of a host gets its name with the domain appended exactly when the name is not such and
  there is a domain.\<close>

theorem fqdn_of_host:
  "(hostNameIsFQDN h \<longleftrightarrow>
      (let ls = split_dots h
       in length ls \<ge> 2 \<and> list_all fqdn_label ls \<and> length (last ls) \<ge> 2 \<and> list_all is_letter (last ls)))
   \<and> gm_get (tpl_ConfigOptions (userDataTemplate L inst h ssh pw)) ''FQDN'' =
       Some (TStr (if fqdn_spec h \<or> ts_DomainName (set_Spec inst) = [] then h
                   else h @ ''.'' @ ts_DomainName (set_Spec inst)))"
  using hostNameIsFQDN_spec [of h]
  by (auto simp: userDataTemplate_def fqdn_spec_def Let_def split: option.split)

text \<open>C32. A host with an IPv4 control plane address in the usual notation and no network data of its own
  gets a network data secret with that address, the mask of the prefix length and the version \<open>ipv4\<close>.\<close>

theorem ipv4_network_data:
  assumes "a \<le> 255" and "b \<le> 255" and "c \<le> 255" and "d \<le> 255" and "n \<le> 32"
    and "is_NetworkData (spec_host inst h) = None"
  shows "\<exists>sts u nd. cloudInit L inst h (dotted_quad a b c d @ ''/'' @ itoa_nat n) ssh pw =
      Ok (sts @ [nd], u, \<lparr>sr_Name = network_secret_name inst h, sr_Namespace = ts_BmhNamespace (set_Spec inst)\<rparr>)
    \<and> tpl_Name nd = network_secret_name inst h
    \<and> gm_get (tpl_ConfigOptions nd) ''CtlplaneIp'' = Some (TBytes (replicate 10 0 @ [255, 255, a, b, c, d]))
    \<and> gm_get (tpl_ConfigOptions nd) ''CtlplaneNetmask'' = Some (TBytes (CIDRMask n 32))
    \<and> gm_get (tpl_ConfigOptions nd) ''CtlplaneIpVersion'' = Some (TStr ''ipv4'')"
proof -
  let ?ip = "replicate 10 0 @ [255, 255, a, b, c, d]"
  let ?nd = "networkDataTemplate L inst h ?ip (CIDRMask n 32)"
  have v4: "To4 ?ip \<noteq> None" by (simp add: To4_def numeral_eq_Suc)
  have bond: "gm_get (bondParameters bo p) k = gm_get p k"
    if "k \<in> {''CtlplaneIp'', ''CtlplaneIpVersion''}" for bo p k
    using that by (auto simp: bondParameters_def Let_def split: option.split)
  have "gm_get (tpl_ConfigOptions ?nd) ''CtlplaneIp'' = Some (TBytes ?ip)"
    "gm_get (tpl_ConfigOptions ?nd) ''CtlplaneNetmask'' = Some (TBytes (CIDRMask n 32))"
    "gm_get (tpl_ConfigOptions ?nd) ''CtlplaneIpVersion'' = Some (TStr ''ipv4'')"
    using v4 by (simp_all add: networkDataTemplate_def networkDataParameters_def Let_def bond split: option.split)
  moreover have "tpl_Name ?nd = network_secret_name inst h"
    using assms(6) by (simp add: networkDataTemplate_def network_secret_name_def)
  ultimately show ?thesis
    using assms(6) ParseCIDR_quad [OF assms(1-5)]
    by (auto simp: cloudInit_def Let_def network_secret_name_def split: option.split)
qed

theorem ipv4_network_data_witness:
  "\<exists>sts u nd r. cloudInit ref_lib plain_set ''c0'' (dotted_quad 10 0 0 5 @ ''/'' @ itoa_nat 24) sample_ssh None =
      Ok (sts @ [nd], u, r)
    \<and> gm_get (tpl_ConfigOptions nd) ''CtlplaneIp'' = Some (TBytes (replicate 10 0 @ [255, 255, 10, 0, 0, 5]))"
proof -
  have n: "is_NetworkData (spec_host plain_set ''c0'') = None"
    by (simp add: spec_host_def plain_set_def gm_get_def ready_defs)
  have o: "(10::nat) \<le> 255" "(0::nat) \<le> 255" "(5::nat) \<le> 255" "(24::nat) \<le> 32" by simp_all
  from ipv4_network_data [OF o(1,2,2,3,4) n, of ref_lib sample_ssh None] show ?thesis by blast
qed

section \<open>Release of hosts\<close>

text \<open>C27. Releasing a host undoes what provisioning did: afterwards the host has no consumer, image or
  secrets and is powered off, its labels are those it would have without the provisioning, its events
  cause no reconciliation, and it can be selected again exactly when it is available, of the requested
  hardware and not provisioned otherwise.\<close>

theorem release_undoes_provision:
  assumes "lib_laws L" and "b1 = releaseHost L i h (provisionMutate L i h ps u n b)"
  shows "bmh_ConsumerRef b1 = None \<and> bmh_Image b1 = None \<and> bmh_UserData b1 = None
    \<and> bmh_NetworkData b1 = None \<and> \<not> bmh_Online b1
    \<and> gm_get (bmh_Labels b1) = gm_get (bmh_Labels (releaseHost L i h b))
    \<and> bmhToRequests L b1 = []
    \<and> (bmhUsable j b1 \<longleftrightarrow> verifyBaremetalSetHardwareMatch j b \<and> bmh_State b = StateAvailable
         \<and> \<not> bmh_ExternallyProvisioned b \<and> bmh_CustomDeploy b = None)"
proof -
  have "verifyBaremetalSetHardwareMatch j (provisionMutate L i h ps u n b) = verifyBaremetalSetHardwareMatch j b"
    by (simp add: verifyBaremetalSetHardwareMatch_def)
  moreover have "gm_get (bmh_Labels b1) = gm_get (bmh_Labels (releaseHost L i h b))"
    unfolding assms(2) by (rule ext) (rule lib_laws.release_provision_labels [OF assms(1)])
  ultimately show ?thesis
    using lib_laws.released_host_event [OF assms(1)] unfolding assms(2) by (simp add: releaseHost_usable)
qed

theorem release_undoes_provision_witness:
  "bmhUsable plain_set (releaseHost ref_lib plain_set ''c0'' (provisionMutate ref_lib plain_set ''c0''
      zero_ProvisionServer host_ref host_ref (sample_bmh ''b0'' None StateAvailable)))"
proof -
  have "verifyBaremetalSetHardwareMatch plain_set (sample_bmh ''b0'' None StateAvailable)"
    by (simp add: verifyBaremetalSetHardwareMatch_def plain_set_def sample_set_def)
  with release_undoes_provision [OF rl.lib_laws_axioms refl, of plain_set "''c0''" zero_ProvisionServer
      host_ref host_ref "sample_bmh ''b0'' None StateAvailable" plain_set]
  show ?thesis by (simp add: sample_bmh_def)
qed

text \<open>Provisioning puts the labels on a host by which its events find the set: a host that carried no
  owner labels causes, after the patch, exactly the reconciliation of the set that provisioned it.\<close>

theorem provisioned_host_notifies_its_set:
  assumes "lib_laws L"
    and "\<forall>k \<in> {GetOwnerUIDLabelSelector L (GetGroupLabel L ServiceName),
      GetOwnerNameSpaceLabelSelector L (GetGroupLabel L ServiceName),
      GetOwnerNameLabelSelector L (GetGroupLabel L ServiceName)}. gm_get (bmh_Labels b) k = None"
  shows "bmhToRequests L (provisionMutate L i h ps u n b) = [(set_Namespace i, set_Name i)]"
  using assms by (rule lib_laws.provisioned_host_event)

theorem provisioned_host_notifies_its_set_witness:
  "bmhToRequests ref_lib (provisionMutate ref_lib plain_set ''c0'' zero_ProvisionServer host_ref host_ref
      (sample_bmh ''b0'' None StateAvailable)) = [(''ns'', ''set'')]"
proof -
  have "bmh_Labels (sample_bmh ''b0'' None StateAvailable) = None" by (simp add: sample_bmh_def)
  with provisioned_host_notifies_its_set [OF rl.lib_laws_axioms, of "sample_bmh ''b0'' None StateAvailable"
      plain_set "''c0''" zero_ProvisionServer host_ref host_ref]
  show ?thesis by (simp add: plain_set_def sample_set_def sample_meta_def)
qed

text \<open>C28. Hosts that left the specification are removed from the status, and no others: a successful round
  of deprovisioning deletes exactly the entries of the names that are not in the specification and that
  a bare metal host of the set is labelled with.\<close>

theorem removal_exact:
  assumes "status_consistent inst" and "deleteBmh L cl ls (inst, w) = (Ok (), inst', w')" and "k \<noteq> []"
  shows "\<exists>existing. GetBaremetalHosts cl w (ts_BmhNamespace (set_Spec inst)) ls = Ok existing
    \<and> gm_get (status_hosts inst') k =
        (if k \<notin> set (gm_keys (spec_hosts inst))
            \<and> (\<exists>b \<in> set existing. label_of (bmh_Labels b) (ownershipLabelKey inst) = k)
         then None else gm_get (status_hosts inst) k)"
  using assms by (rule deleteBmh_Ok)

lemma removed_run: "fst (deleteBmh ref_lib ref_client ready_labels (removed_set, ready_cluster)) = Ok ()"
  by code_simp

theorem removal_exact_witness:
  "\<exists>i w. deleteBmh ref_lib ref_client ready_labels (removed_set, ready_cluster) = (Ok (), i, w)
     \<and> gm_get (status_hosts i) ''c0'' = None"
proof -
  obtain i w where d: "deleteBmh ref_lib ref_client ready_labels (removed_set, ready_cluster) = (Ok (), i, w)"
    using removed_run by (cases "deleteBmh ref_lib ref_client ready_labels (removed_set, ready_cluster)") auto
  have c: "status_consistent removed_set"
    by (simp add: status_consistent_def removed_set_def gm_get_def ready_defs)
  have "ts_BmhNamespace (set_Spec removed_set) = ''ns''"
    by (simp add: removed_set_def ready_defs)
  moreover have "label_of (bmh_Labels ready_bmh) (ownershipLabelKey removed_set) = ''c0''" by code_simp
  moreover have "''c0'' \<notin> set (gm_keys (spec_hosts removed_set))"
    by (simp add: removed_set_def sample_set_def gm_keys_def)
  ultimately show ?thesis using removal_exact [OF c d, of "''c0''"] d by (simp add: ready_hosts)
qed

text \<open>C29. The entries of the status stay filed under their own host names: no reconciliation, whatever
  its outcome, leaves an entry under a key that differs from its host name.\<close>

theorem status_names_invariant:
  assumes "gm_wf (status_hosts inst)" and "status_consistent inst"
    and "reconcileBody_set L C cl (inst, w) = (res, inst', w', env)"
  shows "status_consistent inst'"
  using consistent_reconcileBody [OF assms(1,2), of L C cl w] assms(3) by simp

theorem status_names_invariant_witness:
  "\<exists>i w env. reconcileBody_set ref_lib ref_conds ref_client (ready_set, ready_cluster) = (Ok 0, i, w, env)
     \<and> status_consistent i"
proof -
  obtain i w env where r: "reconcileBody_set ref_lib ref_conds ref_client (ready_set, ready_cluster) = (Ok 0, i, w, env)"
    using sample_run by blast
  have "status_consistent ready_set"
    by (simp add: status_consistent_def ready_simps gm_get_def ready_status_def)
  from status_names_invariant [OF ready_set_wf(2) this r] r show ?thesis by blast
qed

section \<open>Deletion of a set\<close>

text \<open>C19. The outcome of the deletion of a set. When every host has been released, the status is empty and
  the finalizer is removed; an error other than a missing object, or a panic, is returned and keeps the
  finalizers, so that the deletion is tried again.\<close>

theorem delete_outcome:
  assumes "lib_laws L" and "status_consistent inst"
    and "baremetalHostCleanup L cl (inst, w) = (r, inst1, w1)"
    and "reconcileDelete_set L cl (inst, w, env) = (res, inst', w', env')"
  shows "w' = w1 \<and> (case r of
      Ok _ \<Rightarrow> res = Ok 0 \<and> (\<forall>k. gm_get (status_hosts inst') k = None)
        \<and> GetFinalizer L (set_Meta inst) \<notin> set (om_Finalizers (set_Meta inst'))
    | Err e \<Rightarrow> if IsNotFound e
        then res = Ok 0 \<and> GetFinalizer L (set_Meta inst) \<notin> set (om_Finalizers (set_Meta inst'))
        else res = Err e \<and> set_Meta inst' = set_Meta inst
    | Panic m \<Rightarrow> res = Panic m \<and> set_Meta inst' = set_Meta inst)"
proof -
  have m: "set_Meta inst1 = set_Meta inst"
    using cleanup_frame [of "(inst, w)" L cl] assms(3) by (simp add: frame_def)
  have e: "gm_get (status_hosts inst1) k = None" if "r = Ok ()" for k
    using cleanup_Ok [of "(inst, w)" L cl "(inst1, w1)" k] assms(2,3) that by simp
  show ?thesis
    using assms(3,4) m e lib_laws.RemoveFinalizer_eq [OF assms(1)]
    by (auto simp: reconcileDelete_set_def Let_def split: outcome.splits if_splits)
qed

lemma cleanup_run: "fst (baremetalHostCleanup ref_lib ref_client (removed_set, ready_cluster)) = Ok ()"
  by code_simp

theorem delete_outcome_witness:
  "\<exists>i w. reconcileDelete_set ref_lib ref_client (removed_set, ready_cluster, gm_empty) = (Ok 0, i, w, gm_empty)
     \<and> (\<forall>k. gm_get (status_hosts i) k = None) \<and> ''finalizer'' \<notin> set (om_Finalizers (set_Meta i))"
proof -
  obtain i1 w1 where c: "baremetalHostCleanup ref_lib ref_client (removed_set, ready_cluster) = (Ok (), i1, w1)"
    using cleanup_run by (cases "baremetalHostCleanup ref_lib ref_client (removed_set, ready_cluster)") auto
  then obtain i where d: "reconcileDelete_set ref_lib ref_client (removed_set, ready_cluster, gm_empty)
      = (Ok 0, i, w1, gm_empty)"
    by (simp add: reconcileDelete_set_def)
  have s: "status_consistent removed_set"
    by (simp add: status_consistent_def removed_set_def gm_get_def ready_defs)
  have "GetFinalizer ref_lib (set_Meta removed_set) = ''finalizer''" by (simp add: ref_lib_def)
  with delete_outcome [OF rl.lib_laws_axioms s c d] d show ?thesis by auto
qed

text \<open>C37. A host that is gone ends the deletion of its set early: when the bare metal host of the first
  entry of the status no longer exists, nothing is released, the status keeps all its entries, and the
  finalizer is removed all the same, so the remaining hosts stay claimed.\<close>

theorem delete_stops_at_missing_host:
  assumes "lib_laws L" and "status_hosts inst = Some ((h, st) # rest)"
    and "Get_bmh cl w (ip_BmhRef st) (ts_BmhNamespace (set_Spec inst)) = Err (NotFound x)"
  shows "\<exists>inst'. reconcileDelete_set L cl (inst, w, env) = (Ok 0, inst', w, env)
    \<and> status_hosts inst' = status_hosts inst
    \<and> GetFinalizer L (set_Meta inst) \<notin> set (om_Finalizers (set_Meta inst'))"
proof -
  have "baremetalHostCleanup L cl (inst, w) = (Err (NotFound x), inst, w)"
    using assms(2,3) by (simp add: baremetalHostCleanup_def gm_keys_def gm_get_def BaremetalHostDeprovision_def Let_def)
  then show ?thesis
    by (simp add: reconcileDelete_set_def IsNotFound_def lib_laws.RemoveFinalizer_eq [OF assms(1)])
qed

theorem delete_stops_at_missing_host_witness:
  "\<exists>i. reconcileDelete_set ref_lib ref_client (dead_set, half_cluster, gm_empty) = (Ok 0, i, half_cluster, gm_empty)
     \<and> gm_get (status_hosts i) ''c1'' \<noteq> None"
proof -
  have s: "status_hosts dead_set = Some ((''c0'', ready_status) #
      [(''c1'', ready_status\<lparr>ip_Hostname := ''c1'', ip_BmhRef := ''b1''\<rparr>)])"
    by (simp add: dead_set_def sample_set_def)
  have "Get_bmh ref_client half_cluster (ip_BmhRef ready_status) (ts_BmhNamespace (set_Spec dead_set))
      = Err (NotFound ''b0'')" by code_simp
  from delete_stops_at_missing_host [OF rl.lib_laws_axioms s this, of gm_empty] s show ?thesis
    by (auto simp: gm_get_def)
qed

section \<open>Finalizer and secrets\<close>

text \<open>C30. A set works on the cluster only under the protection of its finalizer: a reconciliation of a set that is not
  being deleted and does not carry the finalizer either changes nothing or makes one change, the
  patch of the instance at its end, with an instance that carries the finalizer and has the specification and the
  hosts in the status that were read.\<close>

theorem finalizer_before_work:
  assumes "lib_laws L" and "Get_set cl w n ns = Ok inst" and "\<not> om_Deleting (set_Meta inst)"
    and "GetFinalizer L (set_Meta inst) \<notin> set (om_Finalizers (set_Meta inst))"
    and "Reconcile_set L C cl w n ns = (r, w')"
  shows "w' = w \<or> (\<exists>j q. PatchInstance_set cl w j = (q, w')
    \<and> GetFinalizer L (set_Meta inst) \<in> set (om_Finalizers (set_Meta j))
    \<and> set_Spec j = set_Spec inst \<and> status_hosts j = status_hosts inst)"
proof -
  obtain added i1 where f: "ensureFinalizer_set L (initStatus_set C inst) = (added, i1)" by fastforce
  have i: "set_Meta (initStatus_set C inst) = set_Meta inst" "set_Spec (initStatus_set C inst) = set_Spec inst"
    "status_hosts (initStatus_set C inst) = status_hosts inst"
    by (simp_all add: initStatus_set_def Let_def)
  with f assms(3,4) have i1: added "GetFinalizer L (set_Meta inst) \<in> set (om_Finalizers (set_Meta i1))"
    "set_Spec i1 = set_Spec inst" "status_hosts i1 = status_hosts inst"
    by (auto simp: ensureFinalizer_set_def lib_laws.AddFinalizer_eq [OF assms(1)])
  have b: "reconcileBody_set L C cl (inst, w) = (Ok 0, i1, w, gm_empty)"
    using f i1(1) by (simp add: reconcileBody_set_def Let_def)
  let ?j = "upd_conds (deferredConditions C (set_conds inst)) i1"
  obtain q w2 where p: "PatchInstance_set cl w ?j = (q, w2)" by fastforce
  have "w' = w \<or> w' = w2"
    using assms(2,5) b p by (auto simp: Reconcile_set_def deferred_set_def split: if_splits outcome.splits)
  moreover have "GetFinalizer L (set_Meta inst) \<in> set (om_Finalizers (set_Meta ?j))"
    "set_Spec ?j = set_Spec inst" "status_hosts ?j = status_hosts inst"
    using i1(2-4) by simp_all
  ultimately show ?thesis using p by blast
qed

definition new_set :: OpenStackBaremetalSet where
  "new_set = ready_set\<lparr>set_Meta := (set_Meta ready_set)\<lparr>om_Finalizers := []\<rparr>\<rparr>"

theorem finalizer_before_work_witness:
  "\<exists>r w'. Reconcile_set ref_lib ref_conds ref_client (ready_cluster\<lparr>k_sets := [new_set]\<rparr>) ''set'' ''ns'' = (r, w')
     \<and> (w' = ready_cluster\<lparr>k_sets := [new_set]\<rparr>
        \<or> (\<exists>j q. PatchInstance_set ref_client (ready_cluster\<lparr>k_sets := [new_set]\<rparr>) j = (q, w')
             \<and> GetFinalizer ref_lib (set_Meta new_set) \<in> set (om_Finalizers (set_Meta j))))"
proof -
  let ?w = "ready_cluster\<lparr>k_sets := [new_set]\<rparr>"
  obtain r w' where r: "Reconcile_set ref_lib ref_conds ref_client ?w ''set'' ''ns'' = (r, w')" by fastforce
  have g: "Get_set ref_client ?w ''set'' ''ns'' = Ok new_set"
    by (simp add: ref_client_def found_or_def new_set_def ready_defs)
  have "\<not> om_Deleting (set_Meta new_set)"
    "GetFinalizer ref_lib (set_Meta new_set) \<notin> set (om_Finalizers (set_Meta new_set))"
    by (simp_all add: new_set_def ready_defs)
  from finalizer_before_work [OF rl.lib_laws_axioms g this r] r show ?thesis by blast
qed

text \<open>C39. Deprovisioning leaves the secrets of the host behind: it deletes secrets named after the bare
  metal host, while provisioning creates them under the host name, so whenever the two names differ the
  created secrets survive.\<close>

theorem deprovision_leaves_secrets:
  assumes "secrets_store cl S"
    and "BaremetalHostDeprovision L cl (inst, w) st = (r, inst', w')"
    and "ip_Hostname st \<noteq> ip_BmhRef st"
    and "n \<in> {CloudInitUserDataSecretName (set_Name inst) (ip_Hostname st),
              CloudInitNetworkDataSecretName (set_Name inst) (ip_Hostname st)}"
    and "(n, ns) \<in> S w"
  shows "(n, ns) \<in> S w'"
proof -
  have other: "n \<noteq> CloudInitUserDataSecretName (set_Name inst) (ip_BmhRef st)"
    "n \<noteq> CloudInitNetworkDataSecretName (set_Name inst) (ip_BmhRef st)"
    using assms(3,4) by (auto simp: CloudInitUserDataSecretName_def CloudInitNetworkDataSecretName_def)
  have del: "(n, ns) \<in> S v'" if "deleteSecrets cl ms names (i, v) = (q, j, v')" "n \<notin> set names" "(n, ns) \<in> S v"
    for ms names i v q j v'
    using that
  proof (induction names arbitrary: v)
    case (Cons m names)
    obtain q1 v1 where d: "DeleteSecretsWithName cl v m ms = (q1, v1)" by fastforce
    with assms(1) have "S v - {(m, ms)} \<subseteq> S v1" unfolding secrets_store_def by blast
    with Cons.prems(2,3) have "(n, ns) \<in> S v1" by auto
    with Cons d show ?case by (cases q1) auto
  qed simp
  show ?thesis
  proof (cases "Get_bmh cl w (ip_BmhRef st) (ts_BmhNamespace (set_Spec inst))")
    case (Ok b)
    obtain q v where u: "Update_bmh cl w (releaseHost L inst (ip_Hostname st) b) = (q, v)" by fastforce
    with assms(1,5) have "(n, ns) \<in> S v" unfolding secrets_store_def by blast
    moreover obtain q2 j v2 where d: "deleteSecrets cl (ts_BmhNamespace (set_Spec inst))
       [CloudInitUserDataSecretName (set_Name inst) (ip_BmhRef st),
        CloudInitNetworkDataSecretName (set_Name inst) (ip_BmhRef st)] (inst, v) = (q2, j, v2)"
      by (metis surj_pair)
    ultimately have "(n, ns) \<in> S v2" using del [OF d] other by simp
    with Ok u d \<open>(n, ns) \<in> S v\<close> assms(2) show ?thesis
      by (cases q; cases q2) (auto simp: BaremetalHostDeprovision_def Let_def)
  qed (use assms(2,5) in \<open>auto simp: BaremetalHostDeprovision_def Let_def\<close>)
qed

lemma ref_client_secrets: "secrets_store ref_client (\<lambda>w. set (k_secrets w))"
  by (auto simp: secrets_store_def ref_client_def split: if_splits)

theorem deprovision_leaves_secrets_witness:
  "\<exists>i w. BaremetalHostDeprovision ref_lib ref_client
      (removed_set, ready_cluster\<lparr>k_secrets := [(''set-cloudinit-userdata-c0'', ''ns'')]\<rparr>) ready_status = (Ok (), i, w)
    \<and> (''set-cloudinit-userdata-c0'', ''ns'') \<in> set (k_secrets w)"
proof -
  let ?w = "ready_cluster\<lparr>k_secrets := [(''set-cloudinit-userdata-c0'', ''ns'')]\<rparr>"
  have "fst (BaremetalHostDeprovision ref_lib ref_client (removed_set, ?w) ready_status) = Ok ()" by code_simp
  then obtain i w where d: "BaremetalHostDeprovision ref_lib ref_client (removed_set, ?w) ready_status = (Ok (), i, w)"
    by (cases "BaremetalHostDeprovision ref_lib ref_client (removed_set, ?w) ready_status") auto
  have "(''set-cloudinit-userdata-c0'', ''ns'') \<in> set (k_secrets w)"
    by (rule deprovision_leaves_secrets [OF ref_client_secrets d])
      (simp_all add: ready_status_def CloudInitUserDataSecretName_def removed_set_def sample_set_def sample_meta_def)
  with d show ?thesis by blast
qed

end
