(* ===== verification/SampleServer.thy ===== *)
theory SampleServer
  imports RefClient
begin

text \<open>
  A cluster in which every call of the controller of provision servers succeeds, and a complete
  reconciliation of a provision server on it, evaluated part by part (\<open>server_run\<close>).
\<close>

section \<open>The cluster\<close>

definition all_rbac_true :: "Conditions \<Rightarrow> Conditions" where
  "all_rbac_true cs =
     cond_MarkTrue ref_conds (cond_MarkTrue ref_conds (cond_MarkTrue ref_conds cs
       ServiceAccountReadyCondition []) RoleReadyCondition []) RoleBindingReadyCondition []"

definition metal3_provisioning :: "(string \<times> go_any) list" where
  "metal3_provisioning = [(''spec'', AnyMap [(''provisioningNetwork'', AnyString ''Managed''),
     (''provisioningInterface'', AnyString ''eth1'')])]"

definition ref_ps_client :: "nat ps_client" where
  "ref_ps_client = \<lparr>pc_Get = (\<lambda>w n ns. Err (NotFound n)), pc_NewHelper = (\<lambda>w i. Ok ()),
     pc_PatchInstance = (\<lambda>w i. (Ok (), w + 1)),
     pc_ReconcileRbac = (\<lambda>w i rules. (Ok 0, all_rbac_true (ps_conds i), w)),
     pc_EnsureConfigMaps = (\<lambda>w i ts env. (Ok (), env, w)),
     pc_CreateOrPatchDeployment = (\<lambda>w d. (Ok 0,
       \<lparr>do_Generation = 1, do_ObservedGeneration = 1, do_ReadyReplicas = 1, do_Rest = []\<rparr>, w)),
     pc_DoJob = (\<lambda>w j keep h. (Ok \<lparr>jr_Result = 0, jr_Error = None, jr_HasChanged = False, jr_Hash = h\<rparr>, w)),
     pc_GetConfig = (\<lambda>w. Ok ()), pc_NewForConfig = (\<lambda>w. Ok ()),
     pc_GetProvisioning = (\<lambda>w n. Ok metal3_provisioning),
     pc_ListPodHostIPs = (\<lambda>w ns ls. Ok [''10.0.0.9''])\<rparr>"

definition ref_ps_lib :: ps_lib where
  "ref_ps_lib = \<lparr>pl_MergeEnvs = (\<lambda>es env. es @ gm_items env), pl_ObjectHash = (\<lambda>_. Ok ''hash''),
     pl_SetHash = (\<lambda>m k h. if gm_get m k = Some h then (m, False) else (gm_put k h m, True)),
     pl_IsReady = (\<lambda>d. do_ReadyReplicas d > 0),
     pl_IsIPv6 = (\<lambda>ip. case ip of None \<Rightarrow> False | Some b \<Rightarrow> To4 b = None),
     pl_InputHashName = ''input'', pl_AppSelector = ''service''\<rparr>"

definition ready_server :: OpenStackProvisionServer where
  "ready_server = zero_ProvisionServer\<lparr>
     ps_Meta := (sample_meta ''srv'')\<lparr>om_Finalizers := [''finalizer'']\<rparr>,
     ps_Spec := zero_ProvisionServerSpec\<lparr>pss_Port := 6190, pss_OSImage := ''disk.qcow2'',
       pss_OSImageDir := Some ''/img''\<rparr>,
     ps_Status := zero_ProvisionServerStatus\<lparr>pst_Conditions := Some [],
       pst_Hash := Some [(''input'', ''hash'')], pst_OSImageChecksumFilename := ''disk.sha256''\<rparr>\<rparr>"

lemmas server_defs = ready_server_def sample_meta_def zero_defs

section \<open>The parts of the run\<close>

text \<open>The server as the parts of the run pass it on: the conditions and the URLs differ. \<open>ip\<close> is the address that the
  agent has reported, if any.\<close>

definition like_server :: "string \<Rightarrow> OpenStackProvisionServer \<Rightarrow> bool" where
  "like_server ip p \<longleftrightarrow> ps_Spec p = ps_Spec ready_server \<and> ps_Meta p = ps_Meta ready_server
     \<and> pst_Hash (ps_Status p) = pst_Hash (ps_Status ready_server)
     \<and> pst_ProvisionIP (ps_Status p) = ip"

lemma like_server_upd [simp]:
  "like_server ip (upd_ps_conds f p) = like_server ip p"
  "like_server ip (upd_ps_status (pst_LocalImageURL_update g) p) = like_server ip p"
  "like_server ip (upd_ps_status (pst_LocalImageChecksumURL_update g) p) = like_server ip p"
  "like_server ip (upd_ps_status (pst_ReadyCount_update k) p) = like_server ip p"
  by (simp_all add: like_server_def upd_ps_conds_def upd_ps_status_def)

lemma server_config:
  assumes "like_server ip p"
  shows "configPhase ref_lib ref_conds ref_ps_lib ref_ps_client (p, w) =
    (Continue ''hash'', upd_ps_conds (\<lambda>cs. cond_MarkTrue ref_conds cs ServiceConfigReadyCondition
       (cond_text ref_conds ''ServiceConfigReadyMessage'')) p, w)"
proof -
  have "createHashOfInputHashes ref_ps_lib env p = (Ok (''hash'', False), p)" for env
    using assms by (simp add: createHashOfInputHashes_def ref_ps_lib_def like_server_def gm_get_def server_defs)
  then show ?thesis
    by (simp add: configPhase_def generateServiceConfigMaps_def Let_def ref_ps_client_def)
qed

lemma server_interface:
  assumes "like_server ip p"
  shows "interfacePhase ref_lib ref_conds ref_ps_client (p, w) =
    (Continue [], upd_ps_conds (\<lambda>cs. cond_Remove ref_conds cs OpenStackProvisionServerProvIntfReadyCondition) p, w)"
proof -
  have "getProvisioningInterface ref_ps_client w = Ok []"
    by (simp add: getProvisioningInterface_def ref_ps_client_def metal3_provisioning_def)
  moreover have "pss_Interface (ps_Spec p) = []" using assms by (simp add: like_server_def server_defs)
  ultimately show ?thesis by (simp add: interfacePhase_def getProvisioningInterfaceName_def)
qed

lemma server_deployment:
  assumes "like_server ip p"
  shows "\<exists>q. deploymentPhase ref_lib ref_conds ref_ps_lib ref_ps_client h [] (p, w) =
    (Continue (), upd_ps_conds (\<lambda>cs. cond_MarkTrue ref_conds cs DeploymentReadyCondition
       (cond_text ref_conds ''DeploymentReadyMessage'')) q, w) \<and> like_server ip q \<and> ps_conds q = ps_conds p"
proof -
  let ?p = "upd_ps_status (pst_LocalImageURL_update (\<lambda>_. [])) p"
  have "pss_OSImageDir (ps_Spec ?p) = Some ''/img''"
    using assms by (simp add: like_server_def server_defs upd_ps_status_def)
  then have "\<exists>d. Deployment (pl_MergeEnvs ref_ps_lib) ?p h ls [] = Ok d" for ls
    by (simp add: Deployment_def Let_def)
  then obtain d where d: "Deployment (pl_MergeEnvs ref_ps_lib) ?p h (serviceLabels_ps ref_lib ref_ps_lib ?p) [] = Ok d"
    by blast
  then show ?thesis
    using assms
    by (intro exI [of _ "upd_ps_status (pst_ReadyCount_update (\<lambda>_. 1)) ?p"])
      (simp add: deploymentPhase_def Let_def ref_ps_client_def ref_ps_lib_def)
qed

lemma server_url:
  assumes "like_server ip p"
  shows "\<exists>url. getLocalImageURL ref_lib ref_ps_lib ref_ps_client (p, w) f = Ok url \<and> url \<noteq> []"
  using assms by (simp add: getLocalImageURL_def like_server_def ref_ps_client_def)

lemma server_image:
  assumes "like_server ip p"
  shows "\<exists>url. localImagePhase ref_lib ref_conds ref_ps_lib ref_ps_client (p, w) =
    (Continue (), upd_ps_conds (\<lambda>cs. cond_MarkTrue ref_conds cs OpenStackProvisionServerLocalImageURLReadyCondition
       OpenStackProvisionServerLocalImageURLReadyMessage)
       (upd_ps_status (pst_LocalImageURL_update (\<lambda>_. url)) p), w)"
  using server_url [OF assms, of w "pss_OSImage (ps_Spec p)"] by (auto simp: localImagePhase_def Let_def)

lemma server_job:
  assumes "like_server ip p"
  shows "jobPhase ref_lib ref_conds ref_ps_lib ref_ps_client (p, w) = (Continue (), p, w)"
proof -
  have "pss_OSImageDir (ps_Spec p) = Some ''/img''" using assms by (simp add: like_server_def server_defs)
  then obtain j where "ChecksumJob (pl_MergeEnvs ref_ps_lib) p (serviceLabels_ps ref_lib ref_ps_lib p) gm_empty = Ok j"
    by (simp add: ChecksumJob_def Let_def)
  then show ?thesis by (simp add: jobPhase_def Let_def ref_ps_client_def)
qed

lemma server_checksum:
  assumes "like_server ip p"
  shows "\<exists>url. checksumURLPhase ref_lib ref_conds ref_ps_lib ref_ps_client (p, w) =
    (Continue (), upd_ps_conds (\<lambda>cs. cond_MarkTrue ref_conds cs OpenStackProvisionServerChecksumReadyCondition
       OpenStackProvisionServerChecksumReadyMessage)
       (upd_ps_status (pst_LocalImageChecksumURL_update (\<lambda>_. url)) p), w)"
  using server_url [OF assms, of w "pst_OSImageChecksumFilename (ps_Status p)"]
  by (auto simp: checksumURLPhase_def Let_def)

section \<open>The whole run\<close>

abbreviation server_conds :: Conditions where
  "server_conds \<equiv> all_rbac_true (cond_Init ref_conds [] (initialConditions_ps ref_conds))"

lemma server_conds_status:
  "cond_status server_conds t =
     (if t \<in> {ServiceAccountReadyCondition, RoleReadyCondition, RoleBindingReadyCondition} then Some CTrue
      else if t \<in> {ReadyCondition, DeploymentReadyCondition, ServiceConfigReadyCondition,
        OpenStackProvisionServerProvIntfReadyCondition, OpenStackProvisionServerLocalImageURLReadyCondition,
        OpenStackProvisionServerChecksumReadyCondition} then Some CUnknown else None)"
proof -
  have "cond_status (cond_Init ref_conds [] (initialConditions_ps ref_conds)) t =
      (if t \<in> {ReadyCondition, DeploymentReadyCondition, ServiceConfigReadyCondition,
        OpenStackProvisionServerProvIntfReadyCondition, OpenStackProvisionServerLocalImageURLReadyCondition,
        OpenStackProvisionServerChecksumReadyCondition, ServiceAccountReadyCondition, RoleReadyCondition,
        RoleBindingReadyCondition} then Some CUnknown else None)"
    by (simp add: ref_conds_def initialConditions_ps_def ref_cond_def cond_status_def cond_get_def eq_commute)
  then show ?thesis by (simp add: all_rbac_true_def rc.status_MarkTrue)
qed

lemma server_normal:
  assumes "like_server ip p" and "ps_conds p = server_conds"
  shows "\<exists>q. reconcileNormal_ps ref_lib ref_conds ref_ps_lib ref_ps_client (p, w) = (Ok 0, q, w)
    \<and> cond_status (ps_conds q) ReadyCondition = Some CTrue \<and> like_server ip q"
proof -
  let ?t = "\<lambda>t m p. upd_ps_conds (\<lambda>cs. cond_MarkTrue ref_conds cs t m) p"
  let ?p1 = "?t ServiceConfigReadyCondition (cond_text ref_conds ''ServiceConfigReadyMessage'') p"
  let ?p2 = "upd_ps_conds (\<lambda>cs. cond_Remove ref_conds cs OpenStackProvisionServerProvIntfReadyCondition) ?p1"
  have l2: "like_server ip ?p2" using assms(1) by simp
  obtain q3 where d: "deploymentPhase ref_lib ref_conds ref_ps_lib ref_ps_client ''hash'' [] (?p2, w) =
      (Continue (), ?t DeploymentReadyCondition (cond_text ref_conds ''DeploymentReadyMessage'') q3, w)"
    and l3: "like_server ip q3" and c3: "ps_conds q3 = ps_conds ?p2"
    using server_deployment [OF l2] by blast
  let ?p3 = "?t DeploymentReadyCondition (cond_text ref_conds ''DeploymentReadyMessage'') q3"
  have "like_server ip ?p3" using l3 by simp
  from server_image [OF this, of w] obtain u4 where
    i: "localImagePhase ref_lib ref_conds ref_ps_lib ref_ps_client (?p3, w) =
      (Continue (), ?t OpenStackProvisionServerLocalImageURLReadyCondition
        OpenStackProvisionServerLocalImageURLReadyMessage
        (upd_ps_status (pst_LocalImageURL_update (\<lambda>_. u4)) ?p3), w)" by blast
  let ?p4 = "?t OpenStackProvisionServerLocalImageURLReadyCondition
        OpenStackProvisionServerLocalImageURLReadyMessage
        (upd_ps_status (pst_LocalImageURL_update (\<lambda>_. u4)) ?p3)"
  have l4: "like_server ip ?p4" using l3 by simp
  from server_checksum [OF this, of w] obtain u5 where
    c: "checksumURLPhase ref_lib ref_conds ref_ps_lib ref_ps_client (?p4, w) =
      (Continue (), ?t OpenStackProvisionServerChecksumReadyCondition
        OpenStackProvisionServerChecksumReadyMessage
        (upd_ps_status (pst_LocalImageChecksumURL_update (\<lambda>_. u5)) ?p4), w)" by blast
  let ?p5 = "?t OpenStackProvisionServerChecksumReadyCondition OpenStackProvisionServerChecksumReadyMessage
        (upd_ps_status (pst_LocalImageChecksumURL_update (\<lambda>_. u5)) ?p4)"
  have "cond_AllSubConditionIsTrue ref_conds (ps_conds ?p5)"
    unfolding rc.AllSub_iff
    by (auto simp: rc.status_MarkTrue rc.status_Remove c3 assms(2) server_conds_status split: if_splits)
  then have "\<exists>q. finalPhase_ps ref_conds (?p5, w) = (Continue (Ok 0), q, w)
      \<and> cond_status (ps_conds q) ReadyCondition = Some CTrue \<and> like_server ip q"
    using l4 by (simp add: finalPhase_ps_def rc.status_MarkTrue)
  moreover have "provisionIPPhase ref_lib ref_conds [] (?p3, w) = (Continue (), ?p3, w)"
    by (simp add: provisionIPPhase_def)
  ultimately show ?thesis
    using server_config [OF assms(1), of w] server_interface [of ip ?p1 w] assms(1) d i server_job [OF l4, of w] c
    by (auto simp: reconcileNormal_ps_def simp del: ps_conds_upd like_server_upd) (simp)
qed

lemma server_run:
  assumes "like_server ip p" and "pst_Conditions (ps_Status p) = Some []"
  shows "\<exists>q. reconcileBody_ps ref_lib ref_conds ref_ps_lib ref_ps_client (p, w) = (Ok 0, q, w)
     \<and> cond_status (deferredConditions ref_conds (ps_conds p) (ps_conds q)) ReadyCondition = Some CTrue
     \<and> like_server ip q"
proof -
  let ?i = "upd_ps_conds (\<lambda>cs. cond_Init ref_conds cs (initialConditions_ps ref_conds)) p"
  let ?p = "upd_ps_conds (\<lambda>_. all_rbac_true (ps_conds ?i)) ?i"
  have meta: "ps_Meta p = ps_Meta ready_server" "pst_Hash (ps_Status p) = pst_Hash (ps_Status ready_server)"
    using assms(1) by (simp_all add: like_server_def)
  have f: "ensureFinalizer_ps ref_lib ?i = (False, ?i)"
    using meta by (simp add: ensureFinalizer_ps_def ref_lib_def ready_server_def)
  have m: "makeHash_ps ?i = ?i" "\<not> om_Deleting (ps_Meta ?i)"
    using meta by (simp_all add: makeHash_ps_def upd_ps_conds_def server_defs)
  have r: "rbacPhase ref_ps_client (?i, w) = (Continue (), ?p, w)"
    by (simp add: rbacPhase_def ref_ps_client_def check_result_def)
  have "like_server ip ?p" using assms(1) by simp
  moreover have "ps_conds p = []" by (simp add: ps_conds_def conds_of_def assms(2))
  then have "ps_conds ?p = server_conds" by simp
  ultimately obtain q where q: "reconcileNormal_ps ref_lib ref_conds ref_ps_lib ref_ps_client (?p, w) = (Ok 0, q, w)"
    and c: "cond_status (ps_conds q) ReadyCondition = Some CTrue" and l: "like_server ip q"
    using server_normal [of ip ?p w] by blast
  have "reconcileBody_ps ref_lib ref_conds ref_ps_lib ref_ps_client (p, w) = (Ok 0, q, w)"
    using f m r q assms(2) by (simp add: reconcileBody_ps_def)
  moreover have "cond_status (deferredConditions ref_conds (ps_conds p) (ps_conds q)) ReadyCondition = Some CTrue"
    using c by (simp add: deferredConditions_def rc.status_Restore rc.IsUnknown_iff)
  ultimately show ?thesis using l by blast
qed

lemma like_ready_server:
  "like_server [] ready_server" "pst_Conditions (ps_Status ready_server) = Some []"
  by (simp_all add: like_server_def server_defs)

lemma ref_ps_client_rbac: "rbac_frame ref_ps_client"
  by (auto simp: rbac_frame_def ref_ps_client_def all_rbac_true_def rc.status_MarkTrue)

end
