(* ===== verification/ServerProperties.thy ===== *)
theory ServerProperties
  imports SampleServer
begin

text \<open>
  Properties of the controller of \<open>OpenStackProvisionServer\<close> and of the objects it creates, each with a
  witness on sample objects. The lemmas they rest on are in \<open>ProvResources\<close> and \<open>ProvServerSafety\<close>.
\<close>

section \<open>Sample objects\<close>

definition server_without_pod :: "nat ps_client" where
  "server_without_pod = ref_ps_client\<lparr>pc_ListPodHostIPs := (\<lambda>w ns ls. Ok [])\<rparr>"

definition agent_server :: OpenStackProvisionServer where
  "agent_server = upd_ps_status (\<lambda>st. st\<lparr>pst_ProvisionIP := ''10.0.0.9'', pst_OSImageChecksumFilename := []\<rparr>)
     ready_server"

section \<open>The overall condition\<close>

text \<open>C16. A provision server is reported \<open>Ready\<close> only when it can be used: if the instance that a
  reconciliation patches has the condition \<open>Ready\<close>, then every condition it carries is true, both the
  URL of the image and the URL of the checksum are set, and if the status has a provisioning address, they are the
  URLs of the image and of the checksum file at that address and the port of the server.\<close>

theorem server_ready_means_urls:
  assumes "cond_laws C" and "rbac_frame pc"
    and "reconcileBody_ps L C P pc (inst, w) = (res, inst', w')"
    and "patched = upd_ps_conds (deferredConditions C (ps_conds inst)) inst'"
    and "cond_status (ps_conds patched) ReadyCondition = Some CTrue"
  shows "(\<forall>t s. cond_status (ps_conds patched) t = Some s \<longrightarrow> s = CTrue) \<and> urls_current P patched"
  using cond_laws.ready_server_current [OF assms(1-3)] assms(4,5) by (auto simp: ready_sound_def)

theorem server_ready_means_urls_witness:
  "\<exists>q. reconcileBody_ps ref_lib ref_conds ref_ps_lib ref_ps_client (ready_server, 0) = (Ok 0, q, 0)
     \<and> urls_current ref_ps_lib (upd_ps_conds (deferredConditions ref_conds (ps_conds ready_server)) q)"
proof -
  obtain q where r: "reconcileBody_ps ref_lib ref_conds ref_ps_lib ref_ps_client (ready_server, 0) = (Ok 0, q, 0)"
    and c: "cond_status (deferredConditions ref_conds (ps_conds ready_server) (ps_conds q)) ReadyCondition = Some CTrue"
    using server_run [OF like_ready_server] by blast
  from server_ready_means_urls [OF rc.cond_laws_axioms ref_ps_client_rbac r refl] c r show ?thesis by auto
qed

section \<open>URLs\<close>

text \<open>The URL of a file of the image server is \<open>http://\<close>, the provisioning address that the agent
  found or else the address of the node of the first pod, in brackets when it is an IPv6 address, the
  port of the server and the file name; in particular it is never empty.\<close>

theorem image_url_form:
  assumes "getLocalImageURL L P pc (inst, w) f = Ok url"
  shows "\<exists>host. url = ''http://'' @ (if pl_IsIPv6 P (ParseIP host) then ''['' @ host @ '']'' else host)
      @ '':'' @ itoa (ps_Port inst) @ ''/'' @ f
    \<and> (if pst_ProvisionIP (ps_Status inst) \<noteq> [] then host = pst_ProvisionIP (ps_Status inst)
       else \<exists>ips. pc_ListPodHostIPs pc w (ps_Namespace inst) (serviceLabels_ps L P inst) = Ok (host # ips))"
  using assms by (rule getLocalImageURL_Ok)

theorem image_url_form_witness:
  "\<exists>host url. getLocalImageURL ref_lib ref_ps_lib ref_ps_client (agent_server, 0) ''f'' = Ok url
     \<and> url = ''http://'' @ (if pl_IsIPv6 ref_ps_lib (ParseIP host) then ''['' @ host @ '']'' else host)
         @ '':'' @ itoa 6190 @ ''/f''"
proof -
  have "pst_ProvisionIP (ps_Status agent_server) = ''10.0.0.9''" "ps_Port agent_server = 6190"
    by (simp_all add: agent_server_def upd_ps_status_def ready_server_def)
  moreover then obtain url where u: "getLocalImageURL ref_lib ref_ps_lib ref_ps_client (agent_server, 0) ''f'' = Ok url"
    by (simp add: getLocalImageURL_def)
  ultimately show ?thesis using image_url_form [OF u] by auto
qed

text \<open>The condition of the checksum does not wait for the checksum: with a provisioning address and an
  empty checksum file name the phase marks the condition true and records a URL that ends in a slash.\<close>

theorem checksum_ready_without_file:
  assumes "cond_laws C" and "pst_ProvisionIP (ps_Status inst) \<noteq> []"
    and "pst_OSImageChecksumFilename (ps_Status inst) = []"
  shows "\<exists>q. checksumURLPhase L C P pc (inst, w) = (Continue (), q, w)
    \<and> cond_status (ps_conds q) OpenStackProvisionServerChecksumReadyCondition = Some CTrue
    \<and> (\<exists>u. pst_LocalImageChecksumURL (ps_Status q) = u @ ''/'')"
proof -
  let ?ip = "pst_ProvisionIP (ps_Status inst)"
  let ?u = "''http://'' @ (if pl_IsIPv6 P (ParseIP ?ip) then ''['' @ ?ip @ '']'' else ?ip) @ '':'' @ itoa (ps_Port inst)"
  have "getLocalImageURL L P pc (inst, w) [] = Ok (?u @ ''/'')"
    using assms(2) by (simp add: getLocalImageURL_def Let_def)
  then show ?thesis
    using assms(3) cond_laws.status_MarkTrue [OF assms(1)]
    by (auto simp: checksumURLPhase_def Let_def upd_ps_conds_def upd_ps_status_def ps_conds_def conds_of_def)
qed

theorem checksum_ready_without_file_witness:
  "\<exists>q. checksumURLPhase ref_lib ref_conds ref_ps_lib ref_ps_client (agent_server, 0) = (Continue (), q, 0)
    \<and> cond_status (ps_conds q) OpenStackProvisionServerChecksumReadyCondition = Some CTrue"
  using checksum_ready_without_file [OF rc.cond_laws_axioms, of agent_server ref_lib ref_ps_lib ref_ps_client 0]
  by (auto simp: agent_server_def upd_ps_status_def)

text \<open>A server whose pod is not listed yet makes the reconciliation panic: without a provisioning
  address and with an empty list of pods the lookup of the image URL panics, which the deferred function
  turns into an error, leaving the instance unpatched.\<close>

theorem missing_pod_panics:
  assumes "pst_ProvisionIP (ps_Status inst) = []"
    and "pc_ListPodHostIPs pc w (ps_Namespace inst) (serviceLabels_ps L P inst) = Ok []"
  shows "\<exists>m. localImagePhase L C P pc (inst, w) = (Return (Panic m), inst, w)
    \<and> deferred_ps C pc saved (Panic m, inst, w) = (Err (ErrReconciliationPanic m), w)"
  using getLocalImageURL_no_pod [OF assms, of "pss_OSImage (ps_Spec inst)"]
  by (auto simp: localImagePhase_def deferred_ps_def)

theorem missing_pod_panics_witness:
  "\<exists>m. localImagePhase ref_lib ref_conds ref_ps_lib server_without_pod (ready_server, 0)
     = (Return (Panic m), ready_server, 0)"
proof -
  have "pst_ProvisionIP (ps_Status ready_server) = []" by (simp add: server_defs)
  moreover have "pc_ListPodHostIPs server_without_pod 0 (ps_Namespace ready_server)
      (serviceLabels_ps ref_lib ref_ps_lib ready_server) = Ok []"
    by (simp add: server_without_pod_def)
  ultimately show ?thesis using missing_pod_panics [of ready_server server_without_pod 0] by blast
qed

section \<open>Interface\<close>

text \<open>C36. The provisioning interface of Metal3 is never found: the values of a decoded object are plain
  strings, the code compares them with a constant of a named string type, and a comparison of an
  interface value with a value of another type is false; so a discovery that succeeds returns the empty
  name, for every content of the object.\<close>

theorem interface_never_found:
  assumes "\<forall>obj. pc_GetProvisioning pc w ''provisioning-configuration'' = Ok obj \<longrightarrow>
      list_all (\<lambda>kv. json_value (snd kv)) obj"
    and "getProvisioningInterface pc w = Ok name"
  shows "name = []"
  using assms(1) by (intro interface_not_discovered [OF _ assms(2)]) blast

theorem interface_never_found_witness:
  "\<exists>name. getProvisioningInterface ref_ps_client 0 = Ok name \<and> name = []"
proof -
  have "pc_GetProvisioning ref_ps_client 0 ''provisioning-configuration'' = Ok metal3_provisioning"
    by (simp add: ref_ps_client_def)
  then have j: "\<forall>obj. pc_GetProvisioning ref_ps_client 0 ''provisioning-configuration'' = Ok obj \<longrightarrow>
      list_all (\<lambda>kv. json_value (snd kv)) obj"
    by (simp add: metal3_provisioning_def)
  obtain name where n: "getProvisioningInterface ref_ps_client 0 = Ok name"
    by (simp add: getProvisioningInterface_def ref_ps_client_def metal3_provisioning_def)
  with interface_never_found [OF j n] show ?thesis by blast
qed

section \<open>Pods\<close>

text \<open>C35. The pods of the deployment and of the checksum job are well-formed: every volume that a container
  mounts is declared, and no two containers have the same name; and building either object panics exactly
  when the image directory is nil.\<close>

theorem pods_well_formed:
  "(case Deployment me inst h ls intf of
      Ok d \<Rightarrow> mounts_declared (dp_Pod d) \<and> names_distinct (dp_Pod d) \<and> pss_OSImageDir (ps_Spec inst) \<noteq> None
    | Err e \<Rightarrow> False | Panic m \<Rightarrow> pss_OSImageDir (ps_Spec inst) = None)
   \<and> (case ChecksumJob me inst ls an of
      Ok j \<Rightarrow> mounts_declared (jb_Pod j) \<and> names_distinct (jb_Pod j) \<and> pss_OSImageDir (ps_Spec inst) \<noteq> None
    | Err e \<Rightarrow> False | Panic m \<Rightarrow> pss_OSImageDir (ps_Spec inst) = None)"
proof (cases "pss_OSImageDir (ps_Spec inst)")
  case None
  then show ?thesis by (simp add: Deployment_def ChecksumJob_def)
next
  case (Some dir)
  obtain d j where d: "Deployment me inst h ls intf = Ok d" and j: "ChecksumJob me inst ls an = Ok j"
    using Some by (simp add: Deployment_def ChecksumJob_def Let_def)
  with Deployment_pod_ok [OF d] ChecksumJob_pod_ok [OF j] Some show ?thesis by simp
qed

end
