(* ===== verification/GoLoop.thy ===== *)
theory GoLoop
  imports Prelude
begin

text \<open>
  The endless loop of Go, \<open>for { ... }\<close>: the body threads a state and either returns from the
  function or goes on to the next round. \<open>go_loop\<close> is the loop, with the value \<open>None\<close> when no round
  returns; \<open>rounds n\<close> are its first \<open>n\<close> rounds. The locales give the two ways to reason about
  such a loop: \<open>loop_invariant\<close> for what every round keeps, \<open>loop_progress\<close> for a loop whose rounds
  use up a finite amount of work and which therefore returns.
\<close>

section \<open>Definitions\<close>

partial_function (option) go_loop ::
  "('s \<Rightarrow> ('r, unit) flow \<times> 's) \<Rightarrow> 's \<Rightarrow> ('r \<times> 's) option" where
  "go_loop body s =
     (case body s of (Return r, s') \<Rightarrow> Some (r, s') | (Continue _, s') \<Rightarrow> go_loop body s')"

declare go_loop.simps [code]

fun rounds :: "('s \<Rightarrow> ('r, unit) flow \<times> 's) \<Rightarrow> nat \<Rightarrow> 's \<Rightarrow> ('r, unit) flow \<times> 's" where
  "rounds body 0 s = (Continue (), s)"
| "rounds body (Suc n) s =
     (case body s of (Return r, s') \<Rightarrow> (Return r, s') | (Continue _, s') \<Rightarrow> rounds body n s')"

section \<open>The loop and its rounds\<close>

lemma go_loop_Return: "body s = (Return r, s') \<Longrightarrow> go_loop body s = Some (r, s')"
  by (subst go_loop.simps) simp

lemma go_loop_Continue: "body s = (Continue u, s') \<Longrightarrow> go_loop body s = go_loop body s'"
  by (subst go_loop.simps) simp

lemma go_loop_rounds:
  fixes body :: "'s \<Rightarrow> ('r, unit) flow \<times> 's"
  assumes "go_loop body s = Some (r, s')"
  shows "\<exists>n. rounds body n s = (Return r, s')"
proof -
  let ?P = "\<lambda>(b :: 's \<Rightarrow> ('r, unit) flow \<times> 's) s q. \<exists>n. rounds b n s = (Return (fst q), snd q)"
  have "?P body s (r, s')"
  proof (rule go_loop.raw_induct [where P = ?P, OF _ assms])
    fix loop and b :: "'s \<Rightarrow> ('r, unit) flow \<times> 's" and s q
    assume ih: "\<And>b s q. loop b s = Some q \<Longrightarrow> ?P b s q"
      and e: "(case b s of (Return r, s') \<Rightarrow> Some (r, s') | (Continue _, s') \<Rightarrow> loop b s') = Some q"
    obtain f s1 where b: "b s = (f, s1)" by fastforce
    show "?P b s q"
    proof (cases f)
      case (Return r1)
      with b e have "rounds b (Suc 0) s = (Return (fst q), snd q)" by auto
      then show ?thesis by blast
    next
      case (Continue u)
      with e b have "loop b s1 = Some q" by simp
      from ih [OF this] obtain n where "rounds b n s1 = (Return (fst q), snd q)" by blast
      with b Continue have "rounds b (Suc n) s = (Return (fst q), snd q)" by simp
      then show ?thesis by blast
    qed
  qed
  then show ?thesis by simp
qed

lemma rounds_go_loop: "rounds body n s = (Return r, s') \<Longrightarrow> go_loop body s = Some (r, s')"
proof (induction n arbitrary: s)
  case (Suc n)
  then show ?case
    by (cases "body s"; cases "fst (body s)") (auto simp: go_loop_Return go_loop_Continue)
qed simp

theorem go_loop_iff_rounds: "go_loop body s = Some (r, s') \<longleftrightarrow> (\<exists>n. rounds body n s = (Return r, s'))"
  using go_loop_rounds rounds_go_loop by metis

lemma go_loop_None_iff: "go_loop body s = None \<longleftrightarrow> (\<forall>n. \<exists>s'. rounds body n s = (Continue (), s'))"
proof
  assume n: "go_loop body s = None"
  show "\<forall>n. \<exists>s'. rounds body n s = (Continue (), s')"
  proof
    fix n
    obtain f s' where "rounds body n s = (f, s')" by fastforce
    then show "\<exists>s'. rounds body n s = (Continue (), s')"
      using n rounds_go_loop [of body n s] by (cases f) auto
  qed
next
  assume a: "\<forall>n. \<exists>s'. rounds body n s = (Continue (), s')"
  show "go_loop body s = None"
  proof (rule ccontr)
    assume "go_loop body s \<noteq> None"
    then obtain r s' where "go_loop body s = Some (r, s')" by auto
    from go_loop_rounds [OF this] obtain n where "rounds body n s = (Return r, s')" by blast
    then show False using a by (metis flow.distinct(1) prod.inject)
  qed
qed

section \<open>Invariants\<close>

locale loop_invariant =
  fixes body :: "'s \<Rightarrow> ('r, unit) flow \<times> 's" and I :: "'s \<Rightarrow> bool"
  assumes keeps: "I s \<Longrightarrow> body s = (Continue u, s') \<Longrightarrow> I s'"
begin

lemma rounds_keep: "I s \<Longrightarrow> rounds body n s = (Continue u, s') \<Longrightarrow> I s'"
proof (induction n arbitrary: s)
  case (Suc n)
  then show ?case using keeps [of s] by (cases "body s"; cases "fst (body s)") auto
qed simp

text \<open>A loop that returns has a last round, and the invariant holds at its beginning.\<close>

lemma last_round: "rounds body n s = (Return r, s') \<Longrightarrow> I s \<Longrightarrow> \<exists>s0. I s0 \<and> body s0 = (Return r, s')"
proof (induction n arbitrary: s)
  case (Suc n)
  then show ?case using keeps [of s] by (cases "body s"; cases "fst (body s)") auto
qed simp

lemma result_from_round:
  "go_loop body s = Some (r, s') \<Longrightarrow> I s \<Longrightarrow> \<exists>s0. I s0 \<and> body s0 = (Return r, s')"
  using go_loop_rounds last_round by metis

end

section \<open>Progress\<close>

locale loop_progress = loop_invariant body I
  for body :: "'s \<Rightarrow> ('r, unit) flow \<times> 's" and I +
  fixes work :: "'s \<Rightarrow> nat"
  assumes progress: "I s \<Longrightarrow> body s = (Continue u, s') \<Longrightarrow> work s' < work s"
begin

text \<open>Total correctness: the loop returns, out of a round that began under the invariant.\<close>

lemma returns: "I s \<Longrightarrow> \<exists>r s'. go_loop body s = Some (r, s')"
proof (induction "work s" arbitrary: s rule: less_induct)
  case less
  obtain f s1 where b: "body s = (f, s1)" by fastforce
  show ?case
  proof (cases f)
    case (Return r)
    with b show ?thesis using go_loop_Return by fastforce
  next
    case (Continue u)
    with b have "I s1" "work s1 < work s" using keeps progress less.prems by blast+
    with less.hyps b Continue show ?thesis using go_loop_Continue [of body s u s1] by simp
  qed
qed

lemma returns_from_round: "I s \<Longrightarrow> \<exists>r s' s0. go_loop body s = Some (r, s') \<and> I s0 \<and> body s0 = (Return r, s')"
  using returns result_from_round by blast

end

end
