(* ===== verification/GoNetPrint.thy ===== *)
theory GoNetPrint
  imports GoNet
begin

text \<open>
  \<open>net.IP.String\<close> of the standard library: a dotted quad for an address that has a 4-byte form, and
  otherwise eight hexadecimal groups in which the first longest run of at least two zero groups
  is written \<open>::\<close> (\<open>appendTo6\<close> of \<open>net/netip\<close>). What is printed reads back as the address
  (\<open>ParseIP_String\<close>).
\<close>

section \<open>Definitions\<close>

definition hex_char :: "nat \<Rightarrow> char" where
  "hex_char d = (if d < 10 then char_of (48 + d) else char_of (87 + d))"

text \<open>\<open>appendHex\<close>: a 16-bit number without leading zeros.\<close>

definition appendHex :: "nat \<Rightarrow> string" where
  "appendHex x =
     (if x \<ge> 4096 then [hex_char (x div 4096)] else [])
     @ (if x \<ge> 256 then [hex_char (x div 256 mod 16)] else [])
     @ (if x \<ge> 16 then [hex_char (x div 16 mod 16)] else [])
     @ [hex_char (x mod 16)]"

fun groups_of :: "nat list \<Rightarrow> nat list" where
  "groups_of (a # b # bs) = (a * 256 + b) # groups_of bs"
| "groups_of _ = []"

text \<open>The search for the zero run: \<open>i\<close> counts up, \<open>(zs, ze)\<close> is the best run so far.\<close>

fun zeroRun :: "nat list \<Rightarrow> nat \<Rightarrow> nat \<times> nat \<Rightarrow> nat \<times> nat" where
  "zeroRun [] i best = best"
| "zeroRun (g # gs) i (zs, ze) =
     (let l = length (takeWhile (\<lambda>x. x = 0) (g # gs))
      in zeroRun gs (Suc i) (if l \<ge> 2 \<and> l > ze - zs then (i, i + l) else (zs, ze)))"

fun join_groups :: "nat list \<Rightarrow> string" where
  "join_groups [] = []"
| "join_groups [g] = appendHex g"
| "join_groups (g # gs) = appendHex g @ '':'' @ join_groups gs"

definition appendTo6 :: "nat list \<Rightarrow> string" where
  "appendTo6 gs =
     (case zeroRun gs 0 (255, 255) of
        (zs, ze) \<Rightarrow>
          if zs \<ge> 8 then join_groups gs
          else join_groups (take zs gs) @ ''::'' @ join_groups (drop ze gs))"

definition IP_String :: "nat list \<Rightarrow> string" where
  "IP_String ip =
     (case To4 ip of
        Some [a, b, c, d] \<Rightarrow> dotted_quad a b c d
      | _ \<Rightarrow> appendTo6 (groups_of ip))"

section \<open>Hexadecimal groups\<close>

lemma hex_val_char [simp]: "d < 16 \<Longrightarrow> hex_val (hex_char d) = Some d"
  by (auto simp: hex_val_def hex_char_def is_digit_def between_def digit_val_def of_char_of)

lemma appendHex_nonempty [simp]: "appendHex g \<noteq> []"
  by (simp add: appendHex_def)

lemma scanHex_group:
  assumes g: "g < 65536" and r: "rest = [] \<or> hex_val (hd rest) = None"
  shows "\<exists>n > 0. scanHex 0 0 (appendHex g @ rest) = Some (g, n, rest)"
proof -
  have stop: "scanHex acc off rest = Some (acc, off, rest)" for acc off
    using r by (cases rest) auto
  have d: "g div 4096 = g div 256 div 16" "g div 256 = g div 16 div 16" by (simp_all add: div_mult2_eq [symmetric])
  have e: "g div 4096 * 16 + g div 256 mod 16 = g div 256" "g div 256 * 16 + g div 16 mod 16 = g div 16"
    "g div 16 * 16 + g mod 16 = g" unfolding d(1) by (simp_all only: d(2) div_mult_mod_eq)
  have m: "g div 4096 < 16" using g by (simp add: less_mult_imp_div_less)
  consider "g \<ge> 4096" | "g < 4096" "g \<ge> 256" | "g < 256" "g \<ge> 16" | "g < 16" by linarith
  then show ?thesis
  proof cases
    case 1
    then show ?thesis using m by (simp add: appendHex_def stop e)
  next
    case 2
    then have "g div 256 mod 16 = g div 256" using e(1) by simp
    with 2 show ?thesis using e(2,3) by (simp add: appendHex_def stop less_mult_imp_div_less)
  next
    case 3
    then have "g div 16 mod 16 = g div 16" using e(2) by simp
    with 3 show ?thesis using e(3) by (simp add: appendHex_def stop less_mult_imp_div_less)
  next
    case 4
    then show ?thesis by (simp add: appendHex_def stop)
  qed
qed

definition bytes_of :: "nat list \<Rightarrow> nat list" where
  "bytes_of gs = concat (map (\<lambda>g. [g div 256, g mod 256]) gs)"

lemma bytes_of_simps [simp]:
  "bytes_of [] = []" "bytes_of (g # gs) = g div 256 # g mod 256 # bytes_of gs"
  "bytes_of (gs @ hs) = bytes_of gs @ bytes_of hs" "length (bytes_of gs) = 2 * length gs"
  by (simp_all add: bytes_of_def) (induction gs, auto)

lemma bytes_of_groups:
  "even (length ip) \<Longrightarrow> \<forall>b \<in> set ip. b < 256 \<Longrightarrow> bytes_of (groups_of ip) = ip"
  by (induction ip rule: groups_of.induct) auto

lemma groups_of_bound: "\<forall>b \<in> set ip. b < 256 \<Longrightarrow> \<forall>g \<in> set (groups_of ip). g < 65536"
  by (induction ip rule: groups_of.induct) auto

lemma length_groups [simp]: "length (groups_of ip) = length ip div 2"
  by (induction ip rule: groups_of.induct) auto

lemma hex_sep [simp]: "hex_val CHR '':'' = None" "hex_val CHR ''.'' = None" "hex_val CHR ''%'' = None"
  by (simp_all add: hex_val_def is_digit_def between_def)

lemma appendHex_chars: "g < 65536 \<Longrightarrow> c \<in> set (appendHex g) \<Longrightarrow> hex_val c \<noteq> None"
  by (auto simp: appendHex_def less_mult_imp_div_less split: if_splits)

lemma appendHex_hd: "g < 65536 \<Longrightarrow> hd (appendHex g) \<noteq> CHR '':''"
  using appendHex_chars [OF _ hd_in_set [OF appendHex_nonempty]] by force

section \<open>Reading groups back\<close>

lemma v6_step:
  assumes "g < 65536" and "length ip < 16" and "rest = [] \<or> hd rest = CHR '':''"
  shows "v6Loop (appendHex g @ rest) e ip =
    (let ip' = ip @ [g div 256, g mod 256]
     in if rest = [] then Some ([], e, ip')
        else if tl rest = [] then None
        else if hd (tl rest) = CHR '':'' then
          (if e \<noteq> None then None
           else if tl (tl rest) = [] then Some ([], Some (length ip'), ip')
           else v6Loop (tl (tl rest)) (Some (length ip')) ip')
        else v6Loop (tl rest) e ip')"
proof -
  have "rest = [] \<or> hex_val (hd rest) = None" using assms(3) by auto
  from scanHex_group [OF assms(1) this] obtain n where "n > 0"
    and "scanHex 0 0 (appendHex g @ rest) = Some (g, n, rest)" by blast
  then show ?thesis using assms(2,3)
    by (subst v6Loop.simps) (auto simp: Let_def)
qed

lemma join_groups_Cons: "gs \<noteq> [] \<Longrightarrow> join_groups (g # gs) = appendHex g @ '':'' @ join_groups gs"
  by (cases gs) auto

lemma join_groups_hd: "gs \<noteq> [] \<Longrightarrow> \<forall>g \<in> set gs. g < 65536 \<Longrightarrow>
    join_groups gs \<noteq> [] \<and> hd (join_groups gs) \<noteq> CHR '':''"
  by (cases gs rule: join_groups.cases) (auto simp: appendHex_hd)

lemma v6_groups:
  "gs \<noteq> [] \<Longrightarrow> \<forall>g \<in> set gs. g < 65536 \<Longrightarrow> length ip + 2 * length gs \<le> 16 \<Longrightarrow>
   v6Loop (join_groups gs) e ip = Some ([], e, ip @ bytes_of gs)"
proof (induction gs arbitrary: ip rule: join_groups.induct)
  case (2 g)
  then show ?case using v6_step [of g ip "[]" e] by (simp add: Let_def)
next
  case (3 g h gs)
  then show ?case
    using v6_step [of g ip "CHR '':'' # join_groups (h # gs)" e] join_groups_hd [of "h # gs"]
    by (simp add: Let_def)
qed simp

lemma v6_groups_run:
  "gs \<noteq> [] \<Longrightarrow> \<forall>g \<in> set gs. g < 65536 \<Longrightarrow> length ip + 2 * length gs \<le> 16 \<Longrightarrow>
   v6Loop (join_groups gs @ '':'' @ '':'' @ t) None ip =
     (let ip' = ip @ bytes_of gs
      in if t = [] then Some ([], Some (length ip'), ip') else v6Loop t (Some (length ip')) ip')"
proof (induction gs arbitrary: ip rule: join_groups.induct)
  case (2 g)
  then show ?case using v6_step [of g ip "CHR '':'' # CHR '':'' # t" None] by (simp add: Let_def)
next
  case (3 g h gs)
  then show ?case
    using v6_step [of g ip "CHR '':'' # join_groups (h # gs) @ CHR '':'' # CHR '':'' # t" None]
      join_groups_hd [of "h # gs"]
    by (simp add: Let_def)
qed simp

section \<open>The zero run\<close>

definition run_ok :: "nat list \<Rightarrow> nat \<times> nat \<Rightarrow> bool" where
  "run_ok gs b \<longleftrightarrow> b = (255, 255)
     \<or> (fst b + 2 \<le> snd b \<and> snd b \<le> length gs \<and> (\<forall>i. fst b \<le> i \<and> i < snd b \<longrightarrow> gs ! i = 0))"

lemma zeroRun_ok: "run_ok (pre @ gs) b \<Longrightarrow> run_ok (pre @ gs) (zeroRun gs (length pre) b)"
proof (induction gs arbitrary: pre b)
  case (Cons g gs)
  obtain zs ze where b: "b = (zs, ze)" by fastforce
  let ?l = "length (takeWhile (\<lambda>x. x = 0) (g # gs))"
  have len: "?l \<le> length (g # gs)" by (rule length_takeWhile_le)
  have zero: "(g # gs) ! i = 0" if "i < ?l" for i
    using that nth_mem [of i "takeWhile (\<lambda>x. x = 0) (g # gs)"] set_takeWhileD takeWhile_nth [OF that]
    by metis
  have "run_ok (pre @ g # gs) (length pre, length pre + ?l)" if "?l \<ge> 2"
    using that len zero by (auto simp: run_ok_def nth_append simp del: takeWhile.simps)
  with Cons.prems b have "run_ok (pre @ g # gs) (if ?l \<ge> 2 \<and> ?l > ze - zs then (length pre, length pre + ?l) else (zs, ze))"
    by simp
  with Cons.IH [of "pre @ [g]"] show ?case by (simp add: b Let_def del: takeWhile.simps)
qed simp

lemma zero_range:
  assumes "\<forall>i. zs \<le> i \<and> i < ze \<longrightarrow> gs ! i = 0" and "zs \<le> ze" and "ze \<le> length gs"
  shows "gs = take zs gs @ replicate (ze - zs) 0 @ drop ze gs"
proof -
  have "take (ze - zs) (drop zs gs) = replicate (ze - zs) 0"
    using assms by (intro nth_equalityI) auto
  moreover have "drop zs gs = take (ze - zs) (drop zs gs) @ drop ze gs"
    using assms(2) append_take_drop_id [of "ze - zs" "drop zs gs"] by simp
  ultimately show ?thesis using append_take_drop_id [of zs gs] by metis
qed

section \<open>The round trip\<close>

lemma join_groups_chars:
  "\<forall>g \<in> set gs. g < 65536 \<Longrightarrow> c \<in> set (join_groups gs) \<Longrightarrow> c = CHR '':'' \<or> hex_val c \<noteq> None"
  by (induction gs rule: join_groups.induct) (use appendHex_chars in auto)

lemma appendTo6_chars:
  assumes "\<forall>g \<in> set gs. g < 65536" and "c \<in> set (appendTo6 gs)"
  shows "c = CHR '':'' \<or> hex_val c \<noteq> None"
proof -
  obtain zs ze where z: "zeroRun gs 0 (255, 255) = (zs, ze)" by fastforce
  have "\<forall>g \<in> set (take zs gs). g < 65536" "\<forall>g \<in> set (drop ze gs). g < 65536"
    using assms(1) by (auto dest: in_set_takeD in_set_dropD)
  with assms join_groups_chars [of gs c] join_groups_chars [of "take zs gs" c] join_groups_chars [of "drop ze gs" c]
  show ?thesis by (auto simp: appendTo6_def z split: if_splits)
qed

lemma not_leading: "s \<noteq> [] \<Longrightarrow> hd s \<noteq> CHR '':'' \<Longrightarrow> take 2 (s @ t) \<noteq> ''::''"
  by (cases s) auto

lemma bytes_of_zeros [simp]: "bytes_of (replicate n 0) = replicate (2 * n) 0"
  by (induction n) auto

lemma parseIPv6_plain:
  assumes "CHR ''%'' \<notin> set s"
  shows "parseIPv6 s =
    (if take 2 s = ''::''
     then if drop 2 s = [] then Some (AddrV6 (replicate 16 0) [])
          else case v6Loop (drop 2 s) (Some 0) [] of
                 None \<Rightarrow> None | Some r \<Rightarrow> map_option (\<lambda>ip. AddrV6 ip []) (v6Finish r)
     else case v6Loop s None [] of
            None \<Rightarrow> None | Some r \<Rightarrow> map_option (\<lambda>ip. AddrV6 ip []) (v6Finish r))"
proof -
  have t: "takeWhile (\<lambda>c. c \<noteq> CHR ''%'') s = s"
    using assms by (auto simp: takeWhile_eq_all_conv)
  show ?thesis unfolding parseIPv6_def t Let_def using assms by simp
qed

lemma v6Finish_run:
  assumes "length a + k + length b = 16" and "k > 0"
  shows "v6Finish ([], Some (length a), a @ b) = Some (a @ replicate k 0 @ b)"
proof -
  have "16 - length (a @ b) = k" "length (a @ b) < 16" using assms by auto
  then show ?thesis unfolding v6Finish_def by simp
qed

lemma parseIPv6_run:
  assumes gs: "\<forall>g \<in> set gs. g < 65536" "length gs = 8" and z: "zs + 2 \<le> ze" "ze \<le> 8"
    and zero: "\<forall>i. zs \<le> i \<and> i < ze \<longrightarrow> gs ! i = 0"
    and p: "CHR ''%'' \<notin> set (join_groups (take zs gs) @ ''::'' @ join_groups (drop ze gs))"
  shows "parseIPv6 (join_groups (take zs gs) @ ''::'' @ join_groups (drop ze gs)) = Some (AddrV6 (bytes_of gs) [])"
proof -
  let ?a = "take zs gs" and ?b = "drop ze gs"
  have ab: "\<forall>g \<in> set ?a. g < 65536" "\<forall>g \<in> set ?b. g < 65536"
    using gs(1) by (auto dest: in_set_takeD in_set_dropD)
  have "gs = ?a @ replicate (ze - zs) 0 @ ?b"
    by (rule zero_range [OF zero]) (use z gs(2) in auto)
  then have "bytes_of gs = bytes_of (?a @ replicate (ze - zs) 0 @ ?b)" by (rule arg_cong)
  then have g: "bytes_of gs = bytes_of ?a @ replicate (2 * (ze - zs)) 0 @ bytes_of ?b"
    by (simp only: bytes_of_simps bytes_of_zeros)
  have fin: "v6Finish ([], Some (length (bytes_of ?a)), bytes_of ?a @ bytes_of ?b) = Some (bytes_of gs)"
    unfolding g using z gs(2) by (intro v6Finish_run) auto
  have rest: "v6Loop (join_groups ?b) e ip = Some ([], e, ip @ bytes_of ?b)"
    if "?b \<noteq> []" "length ip \<le> 2 * zs" for e ip
    using v6_groups [OF that(1) ab(2), of ip e] that z gs(2) by auto
  have bn: "join_groups ?b = [] \<longleftrightarrow> ?b = []" using join_groups_hd [OF _ ab(2)] by auto
  show ?thesis
  proof (cases "zs = 0")
    case True
    then show ?thesis
    proof (cases "?b = []")
      case b: True
      then have "bytes_of gs = replicate 16 0" using g True z gs(2) by simp
      with True b show ?thesis using p by (simp add: parseIPv6_plain)
    next
      case b: False
      with True p bn rest [OF b, of "[]" "Some 0"] fin show ?thesis by (simp add: parseIPv6_plain)
    qed
  next
    case False
    then have a: "?a \<noteq> []" using gs(2) by auto
    have "take 2 (join_groups ?a @ ''::'' @ join_groups ?b) \<noteq> ''::''"
      using join_groups_hd [OF a ab(1)] not_leading by blast
    moreover have "length ?a \<le> 8" using gs(2) by simp
    ultimately show ?thesis unfolding parseIPv6_plain [OF p]
      using v6_groups_run [OF a ab(1), of "[]" "join_groups ?b"] fin bn z gs(2)
        rest [of "bytes_of ?a" "Some (length (bytes_of ?a))"]
      by (cases "?b = []") (simp_all add: Let_def)
  qed
qed

lemma parseIPv6_appendTo6:
  assumes "\<forall>g \<in> set gs. g < 65536" "length gs = 8"
  shows "parseIPv6 (appendTo6 gs) = Some (AddrV6 (bytes_of gs) [])"
proof -
  obtain zs ze where z: "zeroRun gs 0 (255, 255) = (zs, ze)" by fastforce
  have ok: "run_ok gs (zs, ze)" using zeroRun_ok [of "[]" gs "(255, 255)"] z by (simp add: run_ok_def)
  have p: "CHR ''%'' \<notin> set (appendTo6 gs)"
    using appendTo6_chars [OF assms(1), of "CHR ''%''"] by auto
  show ?thesis
  proof (cases "zs \<ge> 8")
    case True
    then have s: "appendTo6 gs = join_groups gs" by (simp add: appendTo6_def z)
    have "gs \<noteq> []" using assms(2) by auto
    with join_groups_hd [OF this assms(1)] not_leading [of "join_groups gs" "[]"]
      v6_groups [OF this assms(1), of "[]" None] assms(2) p show ?thesis
      by (simp add: s parseIPv6_plain v6Finish_def)
  next
    case False
    with ok assms show ?thesis
      using parseIPv6_run [of gs zs ze] p by (simp add: appendTo6_def z run_ok_def)
  qed
qed

lemma ParseAddr_appendTo6:
  assumes "\<forall>g \<in> set gs. g < 65536" "length gs = 8"
  shows "ParseAddr (appendTo6 gs) = Some (AddrV6 (bytes_of gs) [])"
proof -
  let ?P = "\<lambda>c. c \<in> {CHR ''.'', CHR '':'', CHR ''%''}"
  have "CHR '':'' \<in> set (appendTo6 gs)"
  proof (cases gs rule: join_groups.cases)
    case (3 g h hs)
    obtain zs ze where "zeroRun gs 0 (255, 255) = (zs, ze)" by fastforce
    with 3 show ?thesis by (auto simp: appendTo6_def simp del: zeroRun.simps)
  qed (use assms(2) in auto)
  then obtain c where f: "find ?P (appendTo6 gs) = Some c"
    by (cases "find ?P (appendTo6 gs)") (auto simp: find_None_iff)
  then have "?P c" "c \<in> set (appendTo6 gs)"
    using nth_mem by (auto simp only: find_Some_iff)
  with appendTo6_chars [OF assms(1), of c] have "c = CHR '':''" by auto
  with f show ?thesis by (simp add: ParseAddr_def parseIPv6_appendTo6 [OF assms])
qed

lemma ParseCIDR_appendTo6:
  assumes "\<forall>g \<in> set gs. g < 65536" "length gs = 8" and "n \<le> 128"
  shows "ParseCIDR (appendTo6 gs @ ''/'' @ itoa_nat n) = Some (bytes_of gs, CIDRMask n 128)"
proof -
  let ?q = "appendTo6 gs"
  have "hex_val CHR ''/'' = None" by (simp add: hex_val_def is_digit_def between_def)
  then have "\<forall>x \<in> set ?q. x \<noteq> CHR ''/''" using appendTo6_chars [OF assms(1)] by fastforce
  then have "takeWhile (\<lambda>c. c \<noteq> CHR ''/'') (?q @ ''/'' @ itoa_nat n) = ?q"
    and "dropWhile (\<lambda>c. c \<noteq> CHR ''/'') (?q @ ''/'' @ itoa_nat n) = ''/'' @ itoa_nat n"
    by simp_all
  with assms show ?thesis
    by (simp add: ParseCIDR_def Let_def ParseAddr_appendTo6 dtoi_itoa BitLen_def Zone_def As16_def)
qed

lemma To4_SomeD:
  assumes "To4 ip = Some q" and "length ip = 16"
  shows "\<exists>a b c d. q = [a, b, c, d] \<and> ip = replicate 10 0 @ [255, 255] @ q"
proof -
  from assms have t: "take 12 ip = replicate 10 0 @ [255, 255]" and q: "q = drop 12 ip"
    by (auto simp: To4_def split: if_splits)
  have "length q = Suc (Suc (Suc (Suc 0)))" using q assms(2) by simp
  then have "\<exists>a b c d. q = [a, b, c, d]" by (auto simp: length_Suc_conv)
  with t q append_take_drop_id [of 12 ip] show ?thesis by (metis append.assoc)
qed

text \<open>An address that is printed reads back as the address.\<close>

theorem ParseIP_String:
  assumes "length ip = 16" and "\<forall>b \<in> set ip. b < 256"
  shows "ParseIP (IP_String ip) = Some ip"
proof (cases "To4 ip")
  case None
  then have "IP_String ip = appendTo6 (groups_of ip)" by (simp add: IP_String_def)
  with assms ParseAddr_appendTo6 [OF groups_of_bound [OF assms(2)]] show ?thesis
    by (simp add: ParseIP_def Zone_def As16_def bytes_of_groups)
next
  case (Some q)
  then obtain a b c d where q: "q = [a, b, c, d]" and ip: "ip = replicate 10 0 @ [255, 255] @ [a, b, c, d]"
    using To4_SomeD [OF Some assms(1)] by blast
  then have "a \<le> 255" "b \<le> 255" "c \<le> 255" "d \<le> 255" using assms(2) by auto
  with Some q ip show ?thesis by (simp add: IP_String_def ParseIP_def ParseAddr_quad Zone_def As16_def)
qed

section \<open>What the parser returns\<close>

definition ip_bytes :: "nat list \<Rightarrow> bool" where
  "ip_bytes ip \<longleftrightarrow> length ip = 16 \<and> (\<forall>b \<in> set ip. b < 256)"

lemma v4Fields_bytes:
  "v4Fields st val n fs s = Some r \<Longrightarrow> val < 256 \<Longrightarrow> \<forall>b \<in> set fs. b < 256 \<Longrightarrow> length fs \<le> 3 \<Longrightarrow>
   length r = 4 \<and> (\<forall>b \<in> set r. b < 256)"
proof (induction st val n fs s rule: v4Fields.induct)
  case (1 start val n fs)
  then show ?case by (auto split: if_splits)
next
  case (2 start val n fs c s)
  let ?v = "val * 10 + digit_val c"
  show ?case
  proof (cases "is_digit c")
    case True
    then have v: "\<not> (n = 1 \<and> val = 0)" "\<not> ?v > 255"
      and "v4Fields False ?v (Suc n) fs s = Some r"
      using "2.prems"(1) by (simp_all add: Let_def split: if_split_asm)
    with "2.IH"(1) [OF True v(1) refl v(2)] "2.prems"(3,4) show ?thesis by simp
  next
    case False
    then have c: "c = CHR ''.''" "\<not> (start \<or> s = [])" "length fs \<noteq> 3"
      and "v4Fields True 0 0 (fs @ [val]) s = Some r"
      using "2.prems"(1) by (simp_all split: if_split_asm)
    with "2.IH"(2) [OF False c] "2.prems"(2-4) show ?thesis by simp
  qed
qed

lemma parseIPv4_bytes: "parseIPv4Fields s = Some r \<Longrightarrow> length r = 4 \<and> (\<forall>b \<in> set r. b < 256)"
  unfolding parseIPv4Fields_def by (erule v4Fields_bytes) auto

lemma hex_val_bound: "hex_val c = Some d \<Longrightarrow> d < 16"
  by (auto simp: hex_val_def is_digit_def between_def digit_val_def split: if_splits)

lemma scanHex_bound:
  "scanHex acc off s = Some (acc', off', r) \<Longrightarrow> acc < 16 ^ off \<Longrightarrow> off \<le> 4 \<Longrightarrow> acc' < 65536"
proof (induction acc off s rule: scanHex.induct)
  case (1 acc off)
  then show ?case using power_increasing [of off 4 "16 :: nat"] by auto
next
  case (2 acc off c s)
  show ?case
  proof (cases "hex_val c")
    case None
    with 2 show ?thesis using power_increasing [of off 4 "16 :: nat"] by auto
  next
    case (Some d)
    have "acc * 16 + d < 16 ^ Suc off" using hex_val_bound [OF Some] "2.prems"(2) by simp
    moreover have "\<not> off > 3" using "2.prems"(1) Some by (auto split: if_splits)
    ultimately show ?thesis using "2.IH" [OF Some] "2.prems"(1) Some by simp
  qed
qed

lemma v6Loop_bytes:
  "v6Loop s e ip = Some (s', e', r) \<Longrightarrow> \<forall>b \<in> set ip. b < 256 \<Longrightarrow> even (length ip) \<Longrightarrow> length ip \<le> 16 \<Longrightarrow>
   (\<forall>b \<in> set r. b < 256) \<and> length r \<le> 16"
proof (induction s e ip rule: v6Loop.induct)
  case (1 s e ip)
  show ?case
  proof (cases "length ip \<ge> 16")
    case True
    with "1.prems" show ?thesis by (simp add: v6Loop.simps [of s e ip])
  next
    case False
    then obtain acc off rest where sc: "scanHex 0 0 s = Some (acc, off, rest)"
      using "1.prems"(1) v6Loop.simps [of s e ip] by (cases "scanHex 0 0 s") auto
    have a: "acc div 256 < 256" "length ip + 2 \<le> 16"
      using scanHex_bound [OF sc] False "1.prems"(3) by (auto simp: less_mult_imp_div_less elim!: evenE)
    show ?thesis
    proof (cases "rest \<noteq> [] \<and> hd rest = CHR ''.''")
      case True
      with "1.prems"(1) False sc obtain f where "parseIPv4Fields s = Some f" "r = ip @ f" "length ip + 4 \<le> 16"
        by (subst (asm) v6Loop.simps) (simp split: if_split_asm option.split_asm)
      with parseIPv4_bytes [of s] "1.prems"(2) show ?thesis by auto
    next
      case nodot: False
      let ?ip = "ip @ [acc div 256, acc mod 256]"
      have "off \<noteq> 0" using "1.prems"(1) False sc by (subst (asm) v6Loop.simps) (simp split: if_split_asm)
      note ih = "1.IH" [OF False sc refl refl this nodot refl]
      have n: "\<forall>b \<in> set ?ip. b < 256" "even (length ?ip)" "length ?ip \<le> 16" using a "1.prems"(2,3) by auto
      from "1.prems"(1) nodot False sc \<open>off \<noteq> 0\<close> consider "r = ?ip"
        | "v6Loop (tl (tl rest)) (Some (length ?ip)) ?ip = Some (s', e', r)" "rest \<noteq> []" "hd rest = CHR '':''"
          "tl rest \<noteq> []" "hd (tl rest) = CHR '':''" "e = None" "tl (tl rest) \<noteq> []"
        | "v6Loop (tl rest) e ?ip = Some (s', e', r)" "rest \<noteq> []" "hd rest = CHR '':''"
          "tl rest \<noteq> []" "hd (tl rest) \<noteq> CHR '':''"
        by (subst (asm) v6Loop.simps) (simp add: Let_def split: if_split_asm)
      then show ?thesis
      proof cases
        case 1
        with n show ?thesis by simp
      next
        case 2
        then show ?thesis using ih(1) n by blast
      next
        case 3
        then show ?thesis using ih(2) n by blast
      qed
    qed
  qed
qed

lemma parseIPv6_bytes: "parseIPv6 s = Some a \<Longrightarrow> ip_bytes (As16 a)"
proof -
  have f: "ip_bytes ip" if "v6Loop t e [] = Some r" "v6Finish r = Some ip" for t e r ip
    using that v6Loop_bytes [of t e "[]"]
    by (cases r) (auto 0 4 simp: v6Finish_def ip_bytes_def split: if_splits option.splits
        dest: in_set_takeD in_set_dropD)
  assume "parseIPv6 s = Some a"
  then show ?thesis using f
    by (auto simp: parseIPv6_def Let_def As16_def ip_bytes_def split: if_splits option.splits)
qed

lemma ParseAddr_bytes: "ParseAddr s = Some a \<Longrightarrow> ip_bytes (As16 a)"
  using parseIPv6_bytes [of s a] parseIPv4_bytes [of s]
  by (auto simp: ParseAddr_def As16_def ip_bytes_def split: option.splits if_splits)

lemma ParseCIDR_bytes: "ParseCIDR s = Some (ip, m) \<Longrightarrow> ip_bytes ip"
  by (auto simp: ParseCIDR_def Let_def split: if_splits option.splits dest: ParseAddr_bytes)

lemma String_nonempty: "ip_bytes ip \<Longrightarrow> IP_String ip \<noteq> []"
  using ParseIP_String [of ip] by (auto simp: ip_bytes_def ParseIP_def ParseAddr_def)

end
