(* ===== verification/Agent.thy ===== *)
theory Agent
  imports ProvServerController GoLoop GoNetPrint
begin

text \<open>
  The agent that runs in the pods of a provision server (\<^verbatim>\<open>containers/agent\<close>): the command that
  reports the checksum file of the image (\<^verbatim>\<open>checksum_discovery.go\<close>) and the command that reports the
  address of the provisioning interface (\<^verbatim>\<open>provision_ip_discovery.go\<close>).

  \<open>'w agent\<close> is what the agent finds outside: the flags and the environment of the process, the
  directory with the image, the network interfaces, the dynamic client, and the passing of time.
  \<open>'w\<close> is the state of all that may change while the agent runs; \<open>ag_Sleep n\<close> is the state after
  \<open>n\<close> seconds. The text of an \<open>Err\<close> is a fatal exit (\<open>glog.Fatalf\<close>), a \<open>Panic\<close> a panic. Log
  output is not modelled.

  An unstructured object is the association list of its fields; its values carry their dynamic type.
\<close>

section \<open>The outside of the agent\<close>

record GroupVersionResource =
  gvr_Group :: string
  gvr_Version :: string
  gvr_Resource :: string

type_synonym fields = "(string \<times> go_any) list"

record 'w agent =
  ag_FlagSet :: "string \<Rightarrow> string \<Rightarrow> unit result"
  ag_FlagParse :: "(string, unit) outcome"
  ag_LookupEnv :: "string \<Rightarrow> string option"
  ag_BuildConfigFromFlags :: "string \<Rightarrow> string \<Rightarrow> string result"
  ag_InClusterConfig :: "string result"
  ag_NewForConfigOrDie :: "string \<Rightarrow> (string, unit) outcome"
  ag_Open :: "'w \<Rightarrow> string \<Rightarrow> string result"
  ag_Readdirnames :: "'w \<Rightarrow> string \<Rightarrow> string list result"
  ag_Interfaces :: "'w \<Rightarrow> (string \<times> string list result) list result"
  ag_Get :: "'w \<Rightarrow> GroupVersionResource \<Rightarrow> string \<Rightarrow> string \<Rightarrow> string \<Rightarrow> fields result"
  ag_UpdateStatus :: "'w \<Rightarrow> GroupVersionResource \<Rightarrow> string \<Rightarrow> fields \<Rightarrow> unit result \<times> 'w"
  ag_Sleep :: "nat \<Rightarrow> 'w \<Rightarrow> 'w"

record agent_opts =
  ao_Name :: string
  ao_Namespace :: string
  ao_ImageDir :: string
  ao_Intf :: string

definition openstackProvisionServerGVR :: GroupVersionResource where
  "openstackProvisionServerGVR =
     \<lparr>gvr_Group = ''baremetal.openstack.org'', gvr_Version = ''v1beta1'',
      gvr_Resource = ''openstackprovisionservers''\<rparr>"

text \<open>\<open>os.Getenv\<close>: the empty string for a variable that is not set.\<close>

definition Getenv :: "'w agent \<Rightarrow> string \<Rightarrow> string" where
  "Getenv A v = (case ag_LookupEnv A v of None \<Rightarrow> [] | Some s \<Rightarrow> s)"

text \<open>\<open>panic(err.Error())\<close>.\<close>

definition must :: "lib \<Rightarrow> 'a result \<Rightarrow> (string, 'a) outcome" where
  "must L r = (case r of Ok x \<Rightarrow> Ok x | Err e \<Rightarrow> Panic (Error_text L e) | Panic m \<Rightarrow> Panic m)"

section \<open>The status of an unstructured object\<close>

text \<open>\<open>unstructured.Object["status"].(map[string]any)\<close> after a nil status has been replaced by an
  empty map; the type assertion panics on a value of another type.\<close>

definition statusMap :: "fields \<Rightarrow> ('e, fields) outcome" where
  "statusMap obj =
     (case map_of obj ''status'' of
        None \<Rightarrow> Ok []
      | Some AnyNil \<Rightarrow> Ok []
      | Some (AnyMap m) \<Rightarrow> Ok m
      | Some _ \<Rightarrow> Panic ''interface conversion: interface {} is not map[string]interface {}'')"

definition setStatus :: "fields \<Rightarrow> fields \<Rightarrow> fields" where
  "setStatus st obj = AList.update ''status'' (AnyMap st) obj"

section \<open>Options\<close>

text \<open>An option of the checksum command that was not given as a flag is read from the environment.\<close>

definition checksumOption :: "'w agent \<Rightarrow> string \<Rightarrow> string \<Rightarrow> string \<Rightarrow> (string, string) outcome" where
  "checksumOption A flagName envVar v =
     (if v = [] then
        (case ag_LookupEnv A envVar of
           None \<Rightarrow> Err (flagName @ '' is required'')
         | Some x \<Rightarrow> if x = [] then Err (flagName @ '' is required'') else Ok x)
      else Ok v)"

definition getEnvOrFail :: "'w agent \<Rightarrow> string \<Rightarrow> string \<Rightarrow> (string, string) outcome" where
  "getEnvOrFail A envVar defaultValue =
     (if defaultValue = [] then
        (case ag_LookupEnv A envVar of
           None \<Rightarrow> Err (envVar @ '' is required'')
         | Some x \<Rightarrow> if x = [] then Err (envVar @ '' is required'') else Ok x)
      else Ok defaultValue)"

definition getKubeConfig :: "'w agent \<Rightarrow> string result" where
  "getKubeConfig A =
     (let kubeconfig = Getenv A ''KUBECONFIG''
      in if kubeconfig \<noteq> [] then ag_BuildConfigFromFlags A [] kubeconfig else ag_InClusterConfig A)"

section \<open>The checksum\<close>

text \<open>The constants \<open>MD5\<close>, \<open>SHA256\<close> and \<open>SHA512\<close> of Metal3 stand for their strings.\<close>

fun pickChecksum :: "string list \<Rightarrow> (string \<times> string) option" where
  "pickChecksum [] = None"
| "pickChecksum (item # items) =
     (if strings_Contains item ''md5'' then Some (item, ''md5'')
      else if strings_Contains item ''sha256'' then Some (item, ''sha256'')
      else if strings_Contains item ''sha512'' then Some (item, ''sha512'')
      else pickChecksum items)"

definition checksumStatus :: "string \<Rightarrow> string \<Rightarrow> fields \<Rightarrow> fields" where
  "checksumStatus file typ st =
     AList.update ''osImageChecksumType'' (AnyChecksumType typ)
       (AList.update ''osImageChecksumFilename'' (AnyString file) st)"

definition checksumRound ::
  "lib \<Rightarrow> 'w agent \<Rightarrow> agent_opts \<Rightarrow> string \<Rightarrow> string \<Rightarrow> 'w \<Rightarrow> ((string, unit) outcome, unit) flow \<times> 'w" where
  "checksumRound L A opts file typ w =
     (case ag_Get A w openstackProvisionServerGVR (ao_Namespace opts) (ao_Name opts) ''/status'' of
        Err e \<Rightarrow> if IsNotFound e then (Return (Ok ()), w) else (Return (Panic (Error_text L e)), w)
      | Panic m \<Rightarrow> (Return (Panic m), w)
      | Ok obj \<Rightarrow>
          (case statusMap obj of
             Err e \<Rightarrow> (Return (Err e), w)
           | Panic m \<Rightarrow> (Return (Panic m), w)
           | Ok st \<Rightarrow>
               (case ag_UpdateStatus A w openstackProvisionServerGVR (ao_Namespace opts)
                       (setStatus (checksumStatus file typ st) obj) of
                  (Ok _, w') \<Rightarrow> (Return (Ok ()), w')
                | (Err e, w') \<Rightarrow> (Continue (), ag_Sleep A 1 w')
                | (Panic m, w') \<Rightarrow> (Return (Panic m), w'))))"

definition checksumOptions :: "'w agent \<Rightarrow> agent_opts \<Rightarrow> (string, agent_opts) outcome" where
  "checksumOptions A opts =
     (case checksumOption A ''os-image-dir'' ''OS_IMAGE_DIR'' (ao_ImageDir opts) of
        Err e \<Rightarrow> Err e | Panic m \<Rightarrow> Panic m
      | Ok dir \<Rightarrow>
     (case checksumOption A ''prov-server-name'' ''PROV_SERVER_NAME'' (ao_Name opts) of
        Err e \<Rightarrow> Err e | Panic m \<Rightarrow> Panic m
      | Ok name \<Rightarrow>
     (case checksumOption A ''prov-server-namespace'' ''PROV_SERVER_NAMESPACE'' (ao_Namespace opts) of
        Err e \<Rightarrow> Err e | Panic m \<Rightarrow> Panic m
      | Ok ns \<Rightarrow> Ok (opts\<lparr>ao_ImageDir := dir, ao_Name := name, ao_Namespace := ns\<rparr>))))"

text \<open>Flags, options and client, up to the listing of the image directory.\<close>

definition startFlags :: "lib \<Rightarrow> 'w agent \<Rightarrow> (string, unit) outcome" where
  "startFlags L A =
     (case must L (ag_FlagSet A ''logtostderr'' ''true'') of
        Err e \<Rightarrow> Err e | Panic m \<Rightarrow> Panic m | Ok _ \<Rightarrow> ag_FlagParse A)"

definition startClient :: "lib \<Rightarrow> 'w agent \<Rightarrow> (string, unit) outcome" where
  "startClient L A =
     (case must L (getKubeConfig A) of
        Err e \<Rightarrow> Err e | Panic m \<Rightarrow> Panic m | Ok config \<Rightarrow> ag_NewForConfigOrDie A config)"

definition imageItems :: "lib \<Rightarrow> 'w agent \<Rightarrow> string \<Rightarrow> 'w \<Rightarrow> (string, string list) outcome" where
  "imageItems L A dir w =
     (case must L (ag_Open A w dir) of
        Err e \<Rightarrow> Err e | Panic m \<Rightarrow> Panic m | Ok d \<Rightarrow> must L (ag_Readdirnames A w d))"

text \<open>\<open>None\<close> is a command that never ends.\<close>

definition runChecksumStartCmd ::
  "lib \<Rightarrow> 'w agent \<Rightarrow> agent_opts \<Rightarrow> 'w \<Rightarrow> ((string, unit) outcome \<times> 'w) option" where
  "runChecksumStartCmd L A opts w =
     (case startFlags L A of
        Err e \<Rightarrow> Some (Err e, w) | Panic m \<Rightarrow> Some (Panic m, w)
      | Ok _ \<Rightarrow>
     (case checksumOptions A opts of
        Err e \<Rightarrow> Some (Err e, w) | Panic m \<Rightarrow> Some (Panic m, w)
      | Ok opts \<Rightarrow>
     (case startClient L A of
        Err e \<Rightarrow> Some (Err e, w) | Panic m \<Rightarrow> Some (Panic m, w)
      | Ok _ \<Rightarrow>
     (case imageItems L A (ao_ImageDir opts) w of
        Err e \<Rightarrow> Some (Err e, w) | Panic m \<Rightarrow> Some (Panic m, w)
      | Ok items \<Rightarrow>
     (case pickChecksum items of
        None \<Rightarrow> Some (Panic (''could not find any OSImage checksum file in '' @ ao_ImageDir opts), w)
      | Some (file, typ) \<Rightarrow> go_loop (checksumRound L A opts file typ) w)))))"

section \<open>The address of the provisioning interface\<close>

text \<open>The addresses of one interface: the last IPv4 and the last IPv6 address that parse.\<close>

fun scanAddrs :: "string list \<Rightarrow> string \<times> string \<Rightarrow> string \<times> string" where
  "scanAddrs [] v = v"
| "scanAddrs (addr # addrs) (v4, v6) =
     (case ParseCIDR addr of
        None \<Rightarrow> scanAddrs addrs (v4, v6)
      | Some (ip, _) \<Rightarrow>
          if To4 ip \<noteq> None then scanAddrs addrs (IP_String ip, v6)
          else scanAddrs addrs (v4, IP_String ip))"

fun scanInterfaces ::
  "lib \<Rightarrow> string \<Rightarrow> (string \<times> string list result) list \<Rightarrow> bool \<Rightarrow> (string, string \<times> bool) outcome" where
  "scanInterfaces L name [] intfFound = Ok ([], intfFound)"
| "scanInterfaces L name ((iface, addrs) # ifaces) intfFound =
     (if iface = name then
        (case must L addrs of
           Err e \<Rightarrow> Err e | Panic m \<Rightarrow> Panic m
         | Ok as \<Rightarrow>
             (case scanAddrs as ([], []) of
                (ipv4Addr, ipv6Addr) \<Rightarrow>
                  if ipv4Addr \<noteq> [] then Ok (ipv4Addr, True)
                  else if ipv6Addr \<noteq> [] then Ok (ipv6Addr, True)
                  else scanInterfaces L name ifaces True))
      else scanInterfaces L name ifaces intfFound)"

definition getInterfaceIP :: "lib \<Rightarrow> 'w agent \<Rightarrow> string \<Rightarrow> 'w \<Rightarrow> (string, string \<times> bool) outcome" where
  "getInterfaceIP L A interfaceName w =
     (case must L (ag_Interfaces A w) of
        Err e \<Rightarrow> Err e | Panic m \<Rightarrow> Panic m
      | Ok ifaces \<Rightarrow> scanInterfaces L interfaceName ifaces False)"

definition provisionIPStatus :: "string \<Rightarrow> string \<Rightarrow> bool \<Rightarrow> fields \<Rightarrow> fields" where
  "provisionIPStatus intf curIP intfFound st =
     (if curIP = [] then
        (let errMsg = (if intfFound then ''Unable to find provisioning IP on interface '' @ intf
                       else ''Unable to find provisioning interface '' @ intf)
         in AList.update ''provisionIpError'' (AnyString errMsg)
              (AList.update ''provisionIp'' (AnyString []) st))
      else AList.update ''provisionIpError'' (AnyString [])
             (AList.update ''provisionIp'' (AnyString curIP) st))"

definition updateProvisioningStatus ::
  "'w agent \<Rightarrow> agent_opts \<Rightarrow> string \<Rightarrow> bool \<Rightarrow> 'w \<Rightarrow> unit result \<times> 'w" where
  "updateProvisioningStatus A opts curIP intfFound w =
     (case ag_Get A w openstackProvisionServerGVR (ao_Namespace opts) (ao_Name opts) ''/status'' of
        Err e \<Rightarrow> if IsNotFound e then (Ok (), w) else (Err e, w)
      | Panic m \<Rightarrow> (Panic m, w)
      | Ok obj \<Rightarrow>
          (case statusMap obj of
             Err e \<Rightarrow> (Err e, w)
           | Panic m \<Rightarrow> (Panic m, w)
           | Ok st \<Rightarrow>
               ag_UpdateStatus A w openstackProvisionServerGVR (ao_Namespace opts)
                 (setStatus (provisionIPStatus (ao_Intf opts) curIP intfFound st) obj)))"

text \<open>One round of the endless loop; the state is the variable \<open>ip\<close> and the world.\<close>

definition provisionIPRound ::
  "lib \<Rightarrow> 'w agent \<Rightarrow> agent_opts \<Rightarrow> string \<times> 'w \<Rightarrow>
   ((string, unit) outcome, unit) flow \<times> string \<times> 'w" where
  "provisionIPRound L A opts s =
     (case s of (ip, w) \<Rightarrow>
        case getInterfaceIP L A (ao_Intf opts) w of
          Err e \<Rightarrow> (Return (Err e), ip, w)
        | Panic m \<Rightarrow> (Return (Panic m), ip, w)
        | Ok (curIP, intfFound) \<Rightarrow>
            if curIP = [] \<or> curIP \<noteq> ip then
              (case updateProvisioningStatus A opts curIP intfFound w of
                 (Panic m, w') \<Rightarrow> (Return (Panic m), ip, w')
               | (Err _, w') \<Rightarrow> (Continue (), [], ag_Sleep A 5 w')
               | (Ok _, w') \<Rightarrow> (Continue (), curIP, ag_Sleep A 5 w'))
            else (Continue (), ip, ag_Sleep A 5 w))"

definition provisionIPOptions :: "'w agent \<Rightarrow> agent_opts \<Rightarrow> (string, agent_opts) outcome" where
  "provisionIPOptions A opts =
     (case getEnvOrFail A ''PROV_INTF'' (ao_Intf opts) of
        Err e \<Rightarrow> Err e | Panic m \<Rightarrow> Panic m
      | Ok intf \<Rightarrow>
     (case getEnvOrFail A ''PROV_SERVER_NAME'' (ao_Name opts) of
        Err e \<Rightarrow> Err e | Panic m \<Rightarrow> Panic m
      | Ok name \<Rightarrow>
     (case getEnvOrFail A ''PROV_SERVER_NAMESPACE'' (ao_Namespace opts) of
        Err e \<Rightarrow> Err e | Panic m \<Rightarrow> Panic m
      | Ok ns \<Rightarrow> Ok (opts\<lparr>ao_Intf := intf, ao_Name := name, ao_Namespace := ns\<rparr>))))"

definition runProvisionIPStartCmd ::
  "lib \<Rightarrow> 'w agent \<Rightarrow> agent_opts \<Rightarrow> 'w \<Rightarrow> ((string, unit) outcome \<times> string \<times> 'w) option" where
  "runProvisionIPStartCmd L A opts w =
     (case startFlags L A of
        Err e \<Rightarrow> Some (Err e, [], w) | Panic m \<Rightarrow> Some (Panic m, [], w)
      | Ok _ \<Rightarrow>
     (case provisionIPOptions A opts of
        Err e \<Rightarrow> Some (Err e, [], w) | Panic m \<Rightarrow> Some (Panic m, [], w)
      | Ok opts \<Rightarrow>
     (case startClient L A of
        Err e \<Rightarrow> Some (Err e, [], w) | Panic m \<Rightarrow> Some (Panic m, [], w)
      | Ok _ \<Rightarrow> go_loop (provisionIPRound L A opts) ([], w))))"

text \<open>The version command prints one line.\<close>

definition runVersionCmd :: "lib \<Rightarrow> 'w agent \<Rightarrow> (string, string) outcome" where
  "runVersionCmd L A =
     (case startFlags L A of
        Err e \<Rightarrow> Err e | Panic m \<Rightarrow> Panic m | Ok _ \<Rightarrow> Ok ''OpenStackBaremetalOperatorAgent v1.4.0'')"

end
