(* ===== verification/AgentSafety.thy ===== *)
theory AgentSafety
  imports Agent
begin

text \<open>
  The lemmas on the agent: the choice of the checksum file, the reading of the addresses, the status
  that is sent, and the two loops. The
  locale \<open>agent_retries\<close> holds the law under which the loop of the checksum command returns, and
  \<open>agent_store\<close> those under which the loop of the other command keeps its report current; the first is
  connected to the loops by a \<^theory_text>\<open>sublocale\<close> declaration, and both are interpreted on the reference
  agent of \<open>SampleAgent\<close>, whose world holds one object and a number of pending conflicts.
\<close>

section \<open>Definitions\<close>

text \<open>A field of the status as the typed client decodes it: the zero value if it is absent, no
  value if it is not a string.\<close>

definition json_text :: "go_any option \<Rightarrow> string option" where
  "json_text v = (case v of
      None \<Rightarrow> Some [] | Some AnyNil \<Rightarrow> Some []
    | Some (AnyString s) \<Rightarrow> Some s | Some (AnyChecksumType s) \<Rightarrow> Some s
    | Some (AnyProvisioningNetwork s) \<Rightarrow> Some s | _ \<Rightarrow> None)"

text \<open>The fields that the agent writes, by the JSON names of \<open>OpenStackProvisionServerStatus\<close>.\<close>

definition status_decodes :: "fields \<Rightarrow> OpenStackProvisionServerStatus \<Rightarrow> bool" where
  "status_decodes st s \<longleftrightarrow>
     json_text (map_of st ''provisionIp'') = Some (pst_ProvisionIP s)
     \<and> json_text (map_of st ''provisionIpError'') = Some (pst_ProvisionIPError s)
     \<and> json_text (map_of st ''osImageChecksumFilename'') = Some (pst_OSImageChecksumFilename s)
     \<and> json_text (map_of st ''osImageChecksumType'') = Some (pst_OSImageChecksumType s)"

definition reported :: "fields \<Rightarrow> string option \<times> string option" where
  "reported obj = (case (statusMap obj :: fields result) of
      Ok st \<Rightarrow> (json_text (map_of st ''provisionIp''), json_text (map_of st ''provisionIpError''))
    | _ \<Rightarrow> (None, None))"

text \<open>What the agent remembers is what the server reports, if there is a server.\<close>

definition report_current :: "('w \<Rightarrow> fields option) \<Rightarrow> string \<times> 'w \<Rightarrow> bool" where
  "report_current obj s \<longleftrightarrow> (case s of (ip, w) \<Rightarrow>
     ip \<noteq> [] \<longrightarrow> (\<forall>x. obj w = Some x \<longrightarrow> reported x = (Some ip, Some [])))"

definition has_marker :: "string \<Rightarrow> bool" where
  "has_marker f \<longleftrightarrow> (\<exists>m \<in> {''md5'', ''sha256'', ''sha512''}. sublist m f)"

definition marker_of :: "string \<Rightarrow> string" where
  "marker_of f = (if sublist ''md5'' f then ''md5'' else if sublist ''sha256'' f then ''sha256'' else ''sha512'')"

definition server_gone :: "'w agent \<Rightarrow> agent_opts \<Rightarrow> 'w \<Rightarrow> bool" where
  "server_gone A opts w \<longleftrightarrow>
     (\<exists>e. ag_Get A w openstackProvisionServerGVR (ao_Namespace opts) (ao_Name opts) ''/status'' = Err e \<and> IsNotFound e)"

text \<open>The world is the one after an update that the API server accepted: the object sent is the object
  read, except that its status names the file and its type.\<close>

definition checksum_reported :: "'w agent \<Rightarrow> agent_opts \<Rightarrow> string \<Rightarrow> 'w \<Rightarrow> bool" where
  "checksum_reported A opts f w' \<longleftrightarrow>
     (\<exists>w0 obj st sent st'.
        ag_Get A w0 openstackProvisionServerGVR (ao_Namespace opts) (ao_Name opts) ''/status'' = Ok obj
        \<and> statusMap obj = (Ok st :: fields result)
        \<and> ag_UpdateStatus A w0 openstackProvisionServerGVR (ao_Namespace opts) sent = (Ok (), w')
        \<and> (\<forall>k. k \<noteq> ''status'' \<longrightarrow> map_of sent k = map_of obj k) \<and> statusMap sent = (Ok st' :: fields result)
        \<and> json_text (map_of st' ''osImageChecksumFilename'') = Some f
        \<and> json_text (map_of st' ''osImageChecksumType'') = Some (marker_of f)
        \<and> (\<forall>k. k \<notin> {''osImageChecksumFilename'', ''osImageChecksumType''} \<longrightarrow> map_of st' k = map_of st k))"

section \<open>The checksum file\<close>

lemma pickChecksum_None: "pickChecksum items = None \<longleftrightarrow> (\<forall>f \<in> set items. \<not> has_marker f)"
  by (induction items) (auto simp: has_marker_def strings_Contains_iff)

lemma pickChecksum_Some:
  "pickChecksum items = Some (f, t) \<longleftrightarrow>
   (\<exists>pre post. items = pre @ f # post \<and> (\<forall>x \<in> set pre. \<not> has_marker x) \<and> has_marker f \<and> t = marker_of f)"
proof (induction items)
  case (Cons x xs)
  show ?case
  proof (cases "has_marker x")
    case True
    then have "pickChecksum (x # xs) = Some (x, marker_of x)"
      by (auto simp: has_marker_def marker_of_def strings_Contains_iff)
    with True show ?thesis by (auto simp: Cons_eq_append_conv)
  next
    case False
    then have "pickChecksum (x # xs) = pickChecksum xs"
      by (auto simp: has_marker_def strings_Contains_iff)
    moreover have "(\<exists>pre post. x # xs = pre @ f # post \<and> (\<forall>y \<in> set pre. \<not> has_marker y) \<and> has_marker f \<and> t = marker_of f)
      \<longleftrightarrow> (\<exists>pre post. xs = pre @ f # post \<and> (\<forall>y \<in> set pre. \<not> has_marker y) \<and> has_marker f \<and> t = marker_of f)"
      (is "?l \<longleftrightarrow> ?r")
    proof
      assume ?l
      then obtain pre post where p: "x # xs = pre @ f # post" "\<forall>y \<in> set pre. \<not> has_marker y" "has_marker f" "t = marker_of f"
        by blast
      then obtain pre' where "pre = x # pre'" using False by (cases pre) auto
      with p show ?r by auto
    next
      assume ?r
      then obtain pre post where "xs = pre @ f # post" "\<forall>y \<in> set pre. \<not> has_marker y" "has_marker f" "t = marker_of f"
        by blast
      with False have "x # xs = (x # pre) @ f # post" "\<forall>y \<in> set (x # pre). \<not> has_marker y" by auto
      with \<open>has_marker f\<close> \<open>t = marker_of f\<close> show ?l by blast
    qed
    ultimately show ?thesis using Cons.IH by simp
  qed
qed simp

section \<open>Addresses of an interface\<close>

definition v4_addr :: "string \<Rightarrow> bool" where
  "v4_addr a \<longleftrightarrow> (\<exists>ip m. ParseCIDR a = Some (ip, m) \<and> To4 ip \<noteq> None)"

text \<open>An address text as it is printed from an address in CIDR notation.\<close>

definition printed_from :: "string \<Rightarrow> string \<Rightarrow> bool" where
  "printed_from a s \<longleftrightarrow> (\<exists>ip m. ParseCIDR a = Some (ip, m) \<and> s = IP_String ip)"

lemma must_not_Err [simp]: "must L r \<noteq> Err x"
  by (cases r) (auto simp: must_def)

lemma scanAddrs_spec:
  assumes "scanAddrs as (v4, v6) = (r4, r6)"
  shows "(r4 = v4 \<and> (\<forall>a \<in> set as. \<not> v4_addr a) \<or> (\<exists>a \<in> set as. v4_addr a \<and> printed_from a r4))
    \<and> (r6 = v6 \<and> (\<forall>a \<in> set as. v4_addr a \<or> ParseCIDR a = None)
       \<or> (\<exists>a \<in> set as. \<not> v4_addr a \<and> printed_from a r6))"
  using assms
proof (induction as "(v4, v6)" arbitrary: v4 v6 rule: scanAddrs.induct)
  case (2 a as v4 v6)
  show ?case
  proof (cases "ParseCIDR a")
    case None
    with 2 show ?thesis by (auto simp: v4_addr_def)
  next
    case (Some q)
    obtain ip m where q: "q = (ip, m)" by fastforce
    have p: "printed_from a (IP_String ip)" using Some q by (auto simp: printed_from_def)
    show ?thesis
    proof (cases "To4 ip")
      case None
      then have "\<not> v4_addr a" using Some q by (auto simp: v4_addr_def)
      with None Some q p "2.hyps"(3) [OF Some q [symmetric]] "2.prems" show ?thesis by auto
    next
      case t: (Some x)
      then have "v4_addr a" using Some q by (auto simp: v4_addr_def)
      with t Some q p "2.hyps"(2) [OF Some q [symmetric]] "2.prems" show ?thesis by auto
    qed
  qed
qed simp

lemma printed_nonempty: "printed_from a s \<Longrightarrow> s \<noteq> []"
  by (auto simp: printed_from_def dest: ParseCIDR_bytes String_nonempty)

lemma printed_reads_back: "printed_from a s \<Longrightarrow> \<exists>ip m. ParseCIDR a = Some (ip, m) \<and> s = IP_String ip \<and> ParseIP s = Some ip"
  using ParseIP_String ParseCIDR_bytes unfolding printed_from_def ip_bytes_def by metis

lemma must_Ok [simp]: "must L r = Ok x \<longleftrightarrow> r = Ok x"
  by (cases r) (auto simp: must_def)

definition found_addr :: "string \<Rightarrow> (string \<times> string list result) list \<Rightarrow> string \<Rightarrow> bool" where
  "found_addr name ifs s \<longleftrightarrow>
     (if s = [] then \<forall>as. (name, Ok as) \<in> set ifs \<longrightarrow> (\<forall>a \<in> set as. ParseCIDR a = None)
      else \<exists>as a. (name, Ok as) \<in> set ifs \<and> a \<in> set as \<and> printed_from a s
        \<and> (v4_addr a \<or> (\<forall>c \<in> set as. \<not> v4_addr c)))"

lemma found_addr_Cons:
  "found_addr name ifs s \<Longrightarrow> (\<And>as. (iface, addrs) = (name, Ok as) \<Longrightarrow> \<forall>a \<in> set as. ParseCIDR a = None) \<Longrightarrow>
   found_addr name ((iface, addrs) # ifs) s"
  unfolding found_addr_def by (cases "s = []") (auto 0 3)

lemma found_addr_here:
  "s \<noteq> [] \<Longrightarrow> a \<in> set as \<Longrightarrow> printed_from a s \<Longrightarrow> v4_addr a \<or> (\<forall>c \<in> set as. \<not> v4_addr c) \<Longrightarrow>
   found_addr name ((name, Ok as) # ifs) s"
  unfolding found_addr_def by (simp, blast)

lemma scanInterfaces_spec:
  "scanInterfaces L name ifs b = Ok (s, found) \<Longrightarrow>
     (found \<longleftrightarrow> b \<or> name \<in> fst ` set ifs) \<and> found_addr name ifs s"
proof (induction L name ifs b rule: scanInterfaces.induct)
  case (1 L name b)
  then show ?case by (simp add: found_addr_def)
next
  case (2 L name iface addrs ifs b)
  show ?case
  proof (cases "iface = name")
    case False
    with 2 found_addr_Cons [of name ifs s iface addrs] show ?thesis by auto
  next
    case True
    from "2.prems" True obtain as where as: "addrs = Ok as"
      by (cases "must L addrs") (auto split: outcome.splits)
    obtain r4 r6 where r: "scanAddrs as ([], []) = (r4, r6)" by fastforce
    note sp = scanAddrs_spec [OF r]
    consider "r4 \<noteq> []" | "r4 = []" "r6 \<noteq> []" | "r4 = []" "r6 = []" by blast
    then show ?thesis
    proof cases
      case 1
      with sp obtain a where "a \<in> set as" "v4_addr a" "printed_from a r4" by blast
      with found_addr_here [OF 1] 1 "2.prems" True as r show ?thesis by (auto simp: must_def)
    next
      case 2
      with sp printed_nonempty have "\<forall>a \<in> set as. \<not> v4_addr a" by blast
      moreover from 2 sp obtain a where "a \<in> set as" "printed_from a r6" by blast
      ultimately show ?thesis using found_addr_here [OF 2(2)] 2 "2.prems" True as r by (auto simp: must_def)
    next
      case 3
      with sp printed_nonempty have "\<forall>a \<in> set as. ParseCIDR a = None" by blast
      moreover have m: "must L addrs = Ok as" using as by simp
      moreover have "scanInterfaces L name ifs True = Ok (s, found)" using "2.prems" 3 True as r by (simp add: must_def)
      ultimately show ?thesis
        using "2.IH"(1) [OF True m r [symmetric]] 3 True as found_addr_Cons [of name ifs s iface addrs] by auto
    qed
  qed
qed

lemma getInterfaceIP_spec:
  assumes "getInterfaceIP L A name w = Ok (s, found)"
  shows "\<exists>ifs. ag_Interfaces A w = Ok ifs \<and> (found \<longleftrightarrow> name \<in> fst ` set ifs) \<and> found_addr name ifs s"
proof -
  from assms obtain ifs where "must L (ag_Interfaces A w) = Ok ifs" and s: "scanInterfaces L name ifs False = Ok (s, found)"
    by (auto simp: getInterfaceIP_def split: outcome.splits)
  with scanInterfaces_spec [OF s] show ?thesis by simp
qed

section \<open>The status that is sent\<close>

lemma statusMap_set [simp]: "statusMap (setStatus st obj) = Ok st"
  by (simp add: statusMap_def setStatus_def update_conv)

lemma setStatus_other: "k \<noteq> ''status'' \<Longrightarrow> map_of (setStatus st obj) k = map_of obj k"
  by (simp add: setStatus_def update_conv)

lemma provisionIPStatus_fields:
  "map_of (provisionIPStatus intf ip f st) k =
     (if k = ''provisionIp'' then Some (AnyString ip)
      else if k = ''provisionIpError'' then
        Some (AnyString (if ip \<noteq> [] then []
          else if f then ''Unable to find provisioning IP on interface '' @ intf
          else ''Unable to find provisioning interface '' @ intf))
      else map_of st k)"
  by (simp add: provisionIPStatus_def Let_def update_conv)

lemma checksumStatus_fields:
  "map_of (checksumStatus file typ st) k =
     (if k = ''osImageChecksumType'' then Some (AnyChecksumType typ)
      else if k = ''osImageChecksumFilename'' then Some (AnyString file) else map_of st k)"
  by (simp add: checksumStatus_def update_conv)

lemma reported_sent: "reported (setStatus (provisionIPStatus intf ip f st) obj) =
    (Some ip, Some (if ip \<noteq> [] then [] else if f then ''Unable to find provisioning IP on interface '' @ intf
          else ''Unable to find provisioning interface '' @ intf))"
  by (simp add: reported_def provisionIPStatus_fields json_text_def)

lemma sent_checksum:
  assumes "ag_Get A w openstackProvisionServerGVR (ao_Namespace opts) (ao_Name opts) ''/status'' = Ok obj"
    and "statusMap obj = (Ok st :: fields result)"
    and "ag_UpdateStatus A w openstackProvisionServerGVR (ao_Namespace opts)
      (setStatus (checksumStatus f (marker_of f) st) obj) = (Ok (), w')"
  shows "checksum_reported A opts f w'"
  unfolding checksum_reported_def using assms
  by (intro exI [of _ w] exI [of _ obj] exI [of _ st] exI [of _ "setStatus (checksumStatus f (marker_of f) st) obj"]
      exI [of _ "checksumStatus f (marker_of f) st"])
    (simp add: setStatus_other checksumStatus_fields json_text_def)

section \<open>The loop of the checksum command\<close>

text \<open>Every refused write is followed by progress of the others, so only finitely many are refused:
  \<open>pending\<close> bounds their number. Any call may fail otherwise.\<close>

locale agent_retries =
  fixes L :: lib and A :: "'w agent" and opts :: agent_opts and pending :: "'w \<Rightarrow> nat"
  assumes refused: "ag_Get A w openstackProvisionServerGVR (ao_Namespace opts) (ao_Name opts) ''/status'' = Ok x \<Longrightarrow>
      is_ok (statusMap obj :: fields result) \<Longrightarrow>
      ag_UpdateStatus A w openstackProvisionServerGVR (ao_Namespace opts) obj = (Err e, w') \<Longrightarrow>
      pending (ag_Sleep A 1 w') < pending w"

text \<open>What makes a round panic: a read fails, other than because the server is gone; the status that is read is not
  a map; a call panics.\<close>

definition round_panics :: "lib \<Rightarrow> 'w agent \<Rightarrow> agent_opts \<Rightarrow> 'w \<Rightarrow> string \<Rightarrow> bool" where
  "round_panics L A opts w m \<longleftrightarrow>
     (case ag_Get A w openstackProvisionServerGVR (ao_Namespace opts) (ao_Name opts) ''/status'' of
        Err e \<Rightarrow> \<not> IsNotFound e \<and> m = Error_text L e
      | Panic p \<Rightarrow> m = p
      | Ok obj \<Rightarrow> statusMap obj = (Panic m :: fields result)
          \<or> (\<exists>sent. fst (ag_UpdateStatus A w openstackProvisionServerGVR (ao_Namespace opts) sent) = Panic m))"

lemma statusMap_Err [simp]: "statusMap obj \<noteq> Err e"
  by (auto simp: statusMap_def split: option.split go_any.split)

lemma statusMap_any_error:
  "statusMap obj = (Ok st :: ('e, fields) outcome) \<Longrightarrow> statusMap obj = (Ok st :: ('f, fields) outcome)"
  "statusMap obj = (Panic m :: ('e, fields) outcome) \<Longrightarrow> statusMap obj = (Panic m :: ('f, fields) outcome)"
  by (auto simp: statusMap_def split: option.splits go_any.splits)

lemma checksumRound_cases:
  "(\<exists>m w'. checksumRound L A opts fname ctype w = (Return (Panic m), w') \<and> round_panics L A opts w m)
   \<or> (\<exists>e. ag_Get A w openstackProvisionServerGVR (ao_Namespace opts) (ao_Name opts) ''/status'' = Err e
       \<and> IsNotFound e \<and> checksumRound L A opts fname ctype w = (Return (Ok ()), w))
   \<or> (\<exists>obj st r w1. ag_Get A w openstackProvisionServerGVR (ao_Namespace opts) (ao_Name opts) ''/status'' = Ok obj
       \<and> statusMap obj = (Ok st :: fields result)
       \<and> ag_UpdateStatus A w openstackProvisionServerGVR (ao_Namespace opts)
           (setStatus (checksumStatus fname ctype st) obj) = (r, w1)
       \<and> (r = Ok () \<and> checksumRound L A opts fname ctype w = (Return (Ok ()), w1)
          \<or> (\<exists>e. r = Err e \<and> checksumRound L A opts fname ctype w = (Continue (), ag_Sleep A 1 w1))))"
proof (cases "ag_Get A w openstackProvisionServerGVR (ao_Namespace opts) (ao_Name opts) ''/status''")
  case (Ok obj)
  show ?thesis
  proof (cases "statusMap obj :: (string, fields) outcome")
    case st: (Ok st)
    obtain r w1 where u: "ag_UpdateStatus A w openstackProvisionServerGVR (ao_Namespace opts)
        (setStatus (checksumStatus fname ctype st) obj) = (r, w1)" by fastforce
    show ?thesis
    proof (cases r)
      case (Panic m)
      then have "round_panics L A opts w m" using Ok u by (auto simp: round_panics_def intro!: exI [of _ "setStatus (checksumStatus fname ctype st) obj"])
      with Ok st u Panic show ?thesis by (simp add: checksumRound_def)
    qed (use Ok st u statusMap_any_error(1) [OF st] in \<open>auto simp: checksumRound_def\<close>)
  next
    case (Panic m)
    have "statusMap obj = (Panic m :: fields result)" by (rule statusMap_any_error(2) [OF Panic])
    with Ok Panic show ?thesis by (simp add: checksumRound_def round_panics_def)
  qed simp
next
  case (Err e)
  then show ?thesis by (simp add: checksumRound_def round_panics_def)
next
  case (Panic m)
  then show ?thesis by (simp add: checksumRound_def round_panics_def)
qed

sublocale agent_retries \<subseteq> checksum_loop: loop_progress "checksumRound L A opts fname ctype" "\<lambda>_. True" pending
  for fname ctype
proof
  fix s u s' assume "checksumRound L A opts fname ctype s = (Continue u, s')"
  with checksumRound_cases [of L A opts fname ctype s] show "pending s' < pending s"
    by (auto intro!: refused [where obj = "setStatus st x" for st x, simplified, unfolded One_nat_def] simp: is_ok_def)
qed simp

context agent_retries
begin

lemma checksum_loop_ends:
  "\<exists>r w'. go_loop (checksumRound L A opts fname (marker_of fname)) w = Some (r, w')
     \<and> (r = Ok () \<and> (server_gone A opts w' \<or> checksum_reported A opts fname w')
        \<or> (\<exists>m w0. r = Panic m \<and> round_panics L A opts w0 m))"
proof -
  let ?round = "checksumRound L A opts fname (marker_of fname)"
  obtain r w' w0 where g: "go_loop ?round w = Some (r, w')" and r: "?round w0 = (Return r, w')"
    using checksum_loop.returns_from_round [of fname "marker_of fname" w] by blast
  from checksumRound_cases [of L A opts fname "marker_of fname" w0] r consider m where "r = Panic m" "round_panics L A opts w0 m"
    | "r = Ok ()" "server_gone A opts w'"
    | obj st where "r = Ok ()"
      "ag_Get A w0 openstackProvisionServerGVR (ao_Namespace opts) (ao_Name opts) ''/status'' = Ok obj"
      "statusMap obj = (Ok st :: fields result)"
      "ag_UpdateStatus A w0 openstackProvisionServerGVR (ao_Namespace opts)
         (setStatus (checksumStatus fname (marker_of fname) st) obj) = (Ok (), w')"
    by (auto simp: server_gone_def)
  then show ?thesis
  proof cases
    case 3
    then have "checksum_reported A opts fname w'" by (intro sent_checksum)
    with 3(1) g show ?thesis by blast
  qed (use g in blast)+
qed

end

section \<open>The loop of the address command\<close>

lemma provisionIPRound_cases:
  assumes "provisionIPRound L A opts (ip, w) = (Continue u, ip', w')"
  obtains cur f where "getInterfaceIP L A (ao_Intf opts) w = Ok (cur, f)"
    and "cur = ip" "cur \<noteq> []" "ip' = ip" "w' = ag_Sleep A 5 w"
  | cur f w1 where "getInterfaceIP L A (ao_Intf opts) w = Ok (cur, f)" and "cur = [] \<or> cur \<noteq> ip"
    and "updateProvisioningStatus A opts cur f w = (Ok (), w1)" "ip' = cur" "w' = ag_Sleep A 5 w1"
  | cur f w1 e where "getInterfaceIP L A (ao_Intf opts) w = Ok (cur, f)" and "cur = [] \<or> cur \<noteq> ip"
    and "updateProvisioningStatus A opts cur f w = (Err e, w1)" "ip' = []" "w' = ag_Sleep A 5 w1"
proof -
  obtain cur f where g: "getInterfaceIP L A (ao_Intf opts) w = Ok (cur, f)"
    using assms by (cases "getInterfaceIP L A (ao_Intf opts) w") (auto simp: provisionIPRound_def)
  obtain r w1 where u: "updateProvisioningStatus A opts cur f w = (r, w1)" by fastforce
  show thesis
  proof (cases "cur = [] \<or> cur \<noteq> ip")
    case True
    show ?thesis
    proof (cases r)
      case (Ok x)
      then show ?thesis by (intro that(2) [OF g True, of w1]) (use assms g u True in \<open>simp_all add: provisionIPRound_def\<close>)
    next
      case (Err e)
      then show ?thesis by (intro that(3) [OF g True, of e w1]) (use assms g u True in \<open>simp_all add: provisionIPRound_def\<close>)
    next
      case (Panic m)
      with assms g u True show ?thesis by (simp add: provisionIPRound_def)
    qed
  next
    case False
    then have "cur = ip" "cur \<noteq> []" by auto
    then show ?thesis by (intro that(1) [OF g]) (use assms g in \<open>simp_all add: provisionIPRound_def\<close>)
  qed
qed

text \<open>The loop ends only by a panic.\<close>

lemma getInterfaceIP_no_exit: "getInterfaceIP L A intf w \<noteq> Err e"
proof -
  have "scanInterfaces L intf ifs b \<noteq> Err e" for ifs b
    by (induction L intf ifs b rule: scanInterfaces.induct) (auto split: outcome.splits prod.splits)
  then show ?thesis by (auto simp: getInterfaceIP_def split: outcome.splits)
qed

lemma provision_loop_panics:
  assumes "go_loop (provisionIPRound L A opts) s = Some (r, s')"
  shows "\<exists>m. r = Panic m"
proof -
  have l: "loop_invariant (provisionIPRound L A opts) (\<lambda>_. True)" by unfold_locales simp
  from loop_invariant.result_from_round [OF l assms TrueI] obtain s0
    where "provisionIPRound L A opts s0 = (Return r, s')" by blast
  then show ?thesis
    by (cases s0) (auto simp: provisionIPRound_def getInterfaceIP_no_exit split: outcome.splits prod.splits if_splits)
qed

text \<open>The API server as the agent sees it: \<open>obj\<close> is the server object. While the agent sleeps, others may
  change the object, delete it or create it again; while it exists, the two fields of the report are the agent's.\<close>

locale agent_store =
  fixes L :: lib and A :: "'w agent" and opts :: agent_opts and obj :: "'w \<Rightarrow> fields option"
  assumes get_some: "obj w = Some x \<Longrightarrow>
      ag_Get A w openstackProvisionServerGVR (ao_Namespace opts) (ao_Name opts) ''/status'' = Ok x
      \<or> (\<exists>e. ag_Get A w openstackProvisionServerGVR (ao_Namespace opts) (ao_Name opts) ''/status'' = Err e
            \<and> \<not> IsNotFound e)"
    and update_ok: "ag_UpdateStatus A w openstackProvisionServerGVR (ao_Namespace opts) x = (Ok (), w') \<Longrightarrow>
      \<exists>y. obj w' = Some y \<and> reported y = reported x"
    and sleep_some: "obj w = Some x \<Longrightarrow> obj (ag_Sleep A n w) = Some y \<Longrightarrow> reported y = reported x"
begin

lemma current_sleep:
  "report_current obj (ip, w) \<Longrightarrow> obj w = Some x \<Longrightarrow> report_current obj (ip, ag_Sleep A n w)"
  using sleep_some by (auto simp: report_current_def)

lemma update_current:
  assumes "updateProvisioningStatus A opts cur f w = (Ok (), w1)" and o: "obj w = Some x"
  shows "report_current obj (cur, w1) \<and> obj w1 \<noteq> None"
proof -
  from get_some [OF o] assms have "ag_Get A w openstackProvisionServerGVR (ao_Namespace opts) (ao_Name opts) ''/status'' = Ok x"
    by (auto simp: updateProvisioningStatus_def)
  with assms show ?thesis using update_ok
    by (fastforce simp: updateProvisioningStatus_def report_current_def reported_sent split: outcome.splits)
qed

text \<open>A round on a server that exists keeps the report current.\<close>

lemma round_current:
  assumes c: "report_current obj (ip, w)" and o: "obj w = Some x"
    and "provisionIPRound L A opts (ip, w) = (Continue u, ip', w')"
  shows "report_current obj (ip', w')"
  using assms(3)
proof (cases rule: provisionIPRound_cases)
  case 1
  with current_sleep [OF c o] show ?thesis by simp
next
  case (2 cur f w1)
  with update_current [OF _ o] obtain y where "report_current obj (cur, w1)" "obj w1 = Some y" by blast
  with 2 current_sleep show ?thesis by blast
next
  case 3
  then show ?thesis by (simp add: report_current_def)
qed

lemma rounds_current:
  assumes "rounds (provisionIPRound L A opts) n (ip0, w) = (Continue u, ip, w')" and "report_current obj (ip0, w)"
    and "\<And>k s. k < n \<Longrightarrow> rounds (provisionIPRound L A opts) k (ip0, w) = (Continue (), s) \<Longrightarrow> obj (snd s) \<noteq> None"
  shows "report_current obj (ip, w')"
  using assms
proof (induction n arbitrary: ip0 w)
  case (Suc n)
  obtain f ip1 w1 where b: "provisionIPRound L A opts (ip0, w) = (f, ip1, w1)" by (metis surj_pair)
  with Suc.prems(1) have f: "f = Continue ()" and r: "rounds (provisionIPRound L A opts) n (ip1, w1) = (Continue u, ip, w')"
    by (cases f; simp)+
  obtain x where "obj w = Some x" using Suc.prems(3) [of 0 "(ip0, w)"] by auto
  from round_current [OF Suc.prems(2) this b [unfolded f]] have "report_current obj (ip1, w1)" .
  moreover have "obj (snd s) \<noteq> None" if "k < n" "rounds (provisionIPRound L A opts) k (ip1, w1) = (Continue (), s)" for k s
    using Suc.prems(3) [of "Suc k" s] that b f by simp
  ultimately show ?case by (rule Suc.IH [OF r])
qed simp

end

text \<open>The remembered address has been read from the interface.\<close>

interpretation ip_read: loop_invariant "provisionIPRound L A opts"
  "\<lambda>(ip, w). ip \<noteq> [] \<longrightarrow> (\<exists>w0 f. getInterfaceIP L A (ao_Intf opts) w0 = Ok (ip, f))" for L A opts
proof
  fix s u s'
  assume c: "case s of (ip, w) \<Rightarrow> ip \<noteq> [] \<longrightarrow> (\<exists>w0 f. getInterfaceIP L A (ao_Intf opts) w0 = Ok (ip, f))"
    and b: "provisionIPRound L A opts s = (Continue u, s')"
  obtain ip w ip' w' where s: "s = (ip, w)" "s' = (ip', w')" by fastforce
  from b [unfolded s] c s have "ip' \<noteq> [] \<longrightarrow> (\<exists>w0 f. getInterfaceIP L A (ao_Intf opts) w0 = Ok (ip', f))"
    by (cases rule: provisionIPRound_cases) auto
  with s show "case s' of (ip, w) \<Rightarrow> ip \<noteq> [] \<longrightarrow> (\<exists>w0 f. getInterfaceIP L A (ao_Intf opts) w0 = Ok (ip, f))"
    by simp
qed

section \<open>What the controller reads\<close>

lemma decoded_report:
  assumes "status_decodes (provisionIPStatus intf cur f st) s"
  shows "pst_ProvisionIP s = cur"
    and "pst_ProvisionIPError s = (if cur \<noteq> [] then []
          else if f then ''Unable to find provisioning IP on interface '' @ intf
          else ''Unable to find provisioning interface '' @ intf)"
  using assms by (auto simp: status_decodes_def provisionIPStatus_fields json_text_def)

end
