(* ===== verification/SampleAgent.thy ===== *)
theory SampleAgent
  imports AgentSafety RefClient
begin

text \<open>
  A reference agent for the witnesses: its world is the status and the other fields of one server
  object, if there is one, and a number of pending conflicts, each of which refuses one update of the
  status. The laws of \<open>agent_retries\<close> and of \<open>agent_store\<close> hold of it.
\<close>

section \<open>Definitions\<close>

record agent_world =
  aw_Server :: "(fields \<times> fields) option"
  aw_Conflicts :: nat

definition aw_object :: "agent_world \<Rightarrow> fields option" where
  "aw_object w = map_option (\<lambda>(st, rest). setStatus st rest) (aw_Server w)"

definition ref_agent :: "agent_world agent" where [wit_defs]:
  "ref_agent =
     \<lparr>ag_FlagSet = (\<lambda>_ _. Ok ()), ag_FlagParse = Ok (),
      ag_LookupEnv = map_of [(''OS_IMAGE_DIR'', ''/images''), (''PROV_SERVER_NAME'', ''ps''),
        (''PROV_SERVER_NAMESPACE'', ''openstack''), (''PROV_INTF'', ''eth1'')],
      ag_BuildConfigFromFlags = (\<lambda>_ _. Err (ApiError ''no file'')), ag_InClusterConfig = Ok ''cluster'',
      ag_NewForConfigOrDie = (\<lambda>_. Ok ()),
      ag_Open = (\<lambda>_ d. Ok d),
      ag_Readdirnames = (\<lambda>_ _. Ok [''image.qcow2'', ''image.qcow2.sha256'', ''old.md5'']),
      ag_Interfaces = (\<lambda>_. Ok [(''lo'', Ok [''127.0.0.1/8'']),
        (''eth1'', Ok [''fe80::1/64'', ''192.168.122.5/24'']), (''eth2'', Ok [''fd00::2:0:5/64''])]),
      ag_Get = (\<lambda>w _ _ name _. case aw_object w of None \<Rightarrow> Err (NotFound name) | Some x \<Rightarrow> Ok x),
      ag_UpdateStatus = (\<lambda>w _ _ x.
        case (statusMap x :: fields result) of
          Ok st \<Rightarrow>
            (case aw_Server w of
               None \<Rightarrow> (Err (NotFound ''server''), w)
             | Some (_, rest) \<Rightarrow>
                 if aw_Conflicts w > 0 then (Err (ApiError ''the object has been modified''), w)
                 else (Ok (), w\<lparr>aw_Server := Some (st, rest)\<rparr>))
        | _ \<Rightarrow> (Err (ApiError ''invalid''), w)),
      ag_Sleep = (\<lambda>_ w. w\<lparr>aw_Conflicts := aw_Conflicts w - 1\<rparr>)\<rparr>"

definition sample_world :: agent_world where [wit_defs]:
  "sample_world = \<lparr>aw_Server = Some ([(''readyCount'', AnyOther ''1'')], [(''kind'', AnyString ''OpenStackProvisionServer'')]),
     aw_Conflicts = 2\<rparr>"

definition sample_opts :: agent_opts where [wit_defs]:
  "sample_opts = \<lparr>ao_Name = [], ao_Namespace = [], ao_ImageDir = [], ao_Intf = ''eth1''\<rparr>"

definition full_opts :: agent_opts where [wit_defs]:
  "full_opts = \<lparr>ao_Name = ''ps'', ao_Namespace = ''openstack'', ao_ImageDir = ''/images'', ao_Intf = ''eth1''\<rparr>"

section \<open>The laws\<close>

lemma reported_setStatus: "reported (setStatus st rest) = reported (setStatus st rest')"
  by (simp add: reported_def)

interpretation ref_retries: agent_retries L ref_agent opts aw_Conflicts for L opts
  by unfold_locales
    (auto simp: ref_agent_def aw_object_def is_ok_def split: option.splits outcome.splits if_splits prod.splits)

interpretation ref_store: agent_store L ref_agent opts aw_object for L opts
proof
  show "\<exists>y. aw_object w' = Some y \<and> reported y = reported x"
    if "ag_UpdateStatus ref_agent w openstackProvisionServerGVR (ao_Namespace opts) x = (Ok (), w')" for w x w'
  proof -
    from that obtain st r0 rest where "statusMap x = (Ok st :: fields result)" "aw_Server w = Some (r0, rest)"
      "w' = w\<lparr>aw_Server := Some (st, rest)\<rparr>"
      by (auto simp: ref_agent_def split: outcome.splits option.splits if_splits prod.splits)
    then show ?thesis by (simp add: aw_object_def reported_def)
  qed
qed (auto simp: ref_agent_def aw_object_def split: option.splits)

end
