(* ===== verification/AgentProperties.thy ===== *)
theory AgentProperties
  imports SampleAgent SampleServer
begin

text \<open>
  Properties of the discovery agent, and of what the controller makes of its reports, each with a
  witness on the reference agent. The lemmas they rest on are in \<open>AgentSafety\<close>.
\<close>

section \<open>Sample objects\<close>

definition reporting_server :: OpenStackProvisionServer where
  "reporting_server = upd_ps_status (\<lambda>st. st\<lparr>pst_ProvisionIP := ''fd00::2:0:5'', pst_ProvisionIPError := [],
     pst_OSImageChecksumFilename := [], pst_OSImageChecksumType := []\<rparr>) ready_server"

definition v6_lib :: ps_lib where
  "v6_lib = ref_ps_lib\<lparr>pl_IsIPv6 := (\<lambda>x. case x of None \<Rightarrow> False | Some ip \<Rightarrow> To4 ip = None)\<rparr>"

section \<open>The address of the interface\<close>

text \<open>The address that the agent finds belongs to the interface: the flag says whether an interface of
  that name exists; an empty result means that no address of it parses; and any other result is printed
  from an address of the interface, reads back as that address, and is an IPv6 address only if the
  interface has no IPv4 address.\<close>

theorem interface_address:
  assumes "getInterfaceIP L A name w = Ok (s, found)"
  shows "\<exists>ifs. ag_Interfaces A w = Ok ifs \<and> (found \<longleftrightarrow> name \<in> fst ` set ifs)
    \<and> (if s = [] then \<forall>as. (name, Ok as) \<in> set ifs \<longrightarrow> (\<forall>a \<in> set as. ParseCIDR a = None)
       else \<exists>as a ip m. (name, Ok as) \<in> set ifs \<and> a \<in> set as \<and> ParseCIDR a = Some (ip, m)
         \<and> s = IP_String ip \<and> ParseIP s = Some ip
         \<and> (To4 ip = None \<longrightarrow> (\<forall>c \<in> set as. \<forall>ip' m'. ParseCIDR c = Some (ip', m') \<longrightarrow> To4 ip' = None)))"
proof -
  from getInterfaceIP_spec [OF assms] obtain ifs where i: "ag_Interfaces A w = Ok ifs"
    "found \<longleftrightarrow> name \<in> fst ` set ifs" and f: "found_addr name ifs s" by blast
  show ?thesis
  proof (cases "s = []")
    case True
    with i f show ?thesis by (simp add: found_addr_def)
  next
    case False
    with f obtain as a where a: "(name, Ok as) \<in> set ifs" "a \<in> set as" "printed_from a s"
      and v: "v4_addr a \<or> (\<forall>c \<in> set as. \<not> v4_addr c)" by (auto simp: found_addr_def)
    from printed_reads_back [OF a(3)] obtain ip m where p: "ParseCIDR a = Some (ip, m)" "s = IP_String ip"
      "ParseIP s = Some ip" by blast
    have "To4 ip = None \<longrightarrow> (\<forall>c \<in> set as. \<forall>ip' m'. ParseCIDR c = Some (ip', m') \<longrightarrow> To4 ip' = None)"
      using v p(1) unfolding v4_addr_def by fastforce
    with a(1,2) p have "\<exists>as a ip m. (name, Ok as) \<in> set ifs \<and> a \<in> set as \<and> ParseCIDR a = Some (ip, m)
         \<and> s = IP_String ip \<and> ParseIP s = Some ip
         \<and> (To4 ip = None \<longrightarrow> (\<forall>c \<in> set as. \<forall>ip' m'. ParseCIDR c = Some (ip', m') \<longrightarrow> To4 ip' = None))"
      by (intro exI [of _ as] exI [of _ a] exI [of _ ip] exI [of _ m] conjI)
    with False i show ?thesis by simp
  qed
qed

lemmas digits = itoa_nat.simps digit_char_def char_of_def bit_0 dotted_quad_def appendTo6_def appendHex_def hex_char_def

lemma ten_zeros: "replicate 10 (0 :: nat) = [0, 0, 0, 0, 0, 0, 0, 0, 0, 0]"
  by (simp add: eval_nat_numeral)

lemma sample_parse:
  "ParseCIDR ''fe80::1/64'' = Some ([254, 128, 0, 0, 0, 0, 0, 0, 0, 0, 0, 0, 0, 0, 0, 1], CIDRMask 64 128)"
  "ParseCIDR ''fd00::2:0:5/64'' = Some ([253, 0, 0, 0, 0, 0, 0, 0, 0, 0, 0, 2, 0, 0, 0, 5], CIDRMask 64 128)"
  "ParseCIDR ''192.168.122.5/24'' = Some ([0, 0, 0, 0, 0, 0, 0, 0, 0, 0, 255, 255, 192, 168, 122, 5], CIDRMask 24 32)"
proof -
  have a: "appendTo6 [65152, 0, 0, 0, 0, 0, 0, 1] = ''fe80::1''"
    "appendTo6 [64768, 0, 0, 0, 0, 2, 0, 5] = ''fd00::2:0:5''"
    "dotted_quad 192 168 122 5 = ''192.168.122.5''" "itoa_nat 64 = ''64''" "itoa_nat 24 = ''24''"
    by (simp_all add: digits)
  show "ParseCIDR ''fe80::1/64'' = Some ([254, 128, 0, 0, 0, 0, 0, 0, 0, 0, 0, 0, 0, 0, 0, 1], CIDRMask 64 128)"
    using ParseCIDR_appendTo6 [of "[65152, 0, 0, 0, 0, 0, 0, 1]" 64] by (simp add: a [simplified])
  show "ParseCIDR ''fd00::2:0:5/64'' = Some ([253, 0, 0, 0, 0, 0, 0, 0, 0, 0, 0, 2, 0, 0, 0, 5], CIDRMask 64 128)"
    using ParseCIDR_appendTo6 [of "[64768, 0, 0, 0, 0, 2, 0, 5]" 64] by (simp add: a [simplified])
  show "ParseCIDR ''192.168.122.5/24'' = Some ([0, 0, 0, 0, 0, 0, 0, 0, 0, 0, 255, 255, 192, 168, 122, 5], CIDRMask 24 32)"
    using ParseCIDR_quad [of 192 168 122 5 24] by (simp add: a ten_zeros)
qed

lemma sample_interface:
  "getInterfaceIP ref_lib ref_agent ''eth1'' w = Ok (''192.168.122.5'', True)"
  "getInterfaceIP ref_lib ref_agent ''eth2'' w = Ok (''fd00::2:0:5'', True)"
  by (simp_all add: getInterfaceIP_def ref_agent_def must_def sample_parse To4_def ten_zeros IP_String_def digits)

theorem interface_address_witness:
  "\<exists>ifs. ag_Interfaces ref_agent sample_world = Ok ifs \<and> ''eth1'' \<in> fst ` set ifs
    \<and> (\<exists>as a ip m. (''eth1'', Ok as) \<in> set ifs \<and> a \<in> set as \<and> ParseCIDR a = Some (ip, m)
         \<and> ''192.168.122.5'' = IP_String ip)"
proof -
  from interface_address [OF sample_interface(1), of sample_world] obtain ifs where
    "ag_Interfaces ref_agent sample_world = Ok ifs" "''eth1'' \<in> fst ` set ifs"
    and "\<exists>as a ip m. (''eth1'', Ok as) \<in> set ifs \<and> a \<in> set as \<and> ParseCIDR a = Some (ip, m)
         \<and> ''192.168.122.5'' = IP_String ip" by (simp, blast)
  then show ?thesis by blast
qed

text \<open>C21. What the controller makes of the report of the agent. When the agent found no address, the phase of
  the provisioning address ends the reconciliation with the error text of the agent; otherwise the phase
  goes on, and the URL of every file of the server has the address that the agent read from the
  interface, in brackets exactly when it is an IPv6 address.\<close>

theorem agent_report_decides:
  assumes "getInterfaceIP L A intf w0 = Ok (cur, found)"
    and "status_decodes (provisionIPStatus intf cur found st) (ps_Status p)"
    and "\<forall>ip. pl_IsIPv6 P (Some ip) \<longleftrightarrow> To4 ip = None" and "name \<noteq> []"
  shows "if cur = []
    then fst (provisionIPPhase L C name (p, w)) = Return (Err (ErrProvisioningAgent
      ((if found then ''Unable to find provisioning IP on interface '' else ''Unable to find provisioning interface '') @ intf)))
    else fst (provisionIPPhase L C name (p, w)) = Continue ()
      \<and> (\<exists>ifs as a ip m. ag_Interfaces A w0 = Ok ifs \<and> (intf, Ok as) \<in> set ifs \<and> a \<in> set as
          \<and> ParseCIDR a = Some (ip, m) \<and> cur = IP_String ip
          \<and> getLocalImageURL L P pc (p, w) f = Ok (''http://''
              @ (if To4 ip = None then ''['' @ cur @ '']'' else cur) @ '':'' @ itoa (ps_Port p) @ ''/'' @ f))"
proof -
  note d = decoded_report [OF assms(2)]
  from getInterfaceIP_spec [OF assms(1)] obtain ifs where i: "ag_Interfaces A w0 = Ok ifs"
    and f: "found_addr intf ifs cur" by blast
  show ?thesis
  proof (cases "cur = []")
    case True
    with d assms(4) show ?thesis by (simp add: provisionIPPhase_def Let_def)
  next
    case False
    with f obtain as a where a: "(intf, Ok as) \<in> set ifs" "a \<in> set as" "printed_from a cur"
      by (auto simp: found_addr_def)
    from printed_reads_back [OF a(3)] obtain ip m where p: "ParseCIDR a = Some (ip, m)" "cur = IP_String ip"
      "ParseIP cur = Some ip" by blast
    have "fst (provisionIPPhase L C name (p, w)) = Continue ()"
      using d assms(4) False by (simp add: provisionIPPhase_def Let_def)
    moreover have "getLocalImageURL L P pc (p, w) f = Ok (''http://''
        @ (if To4 ip = None then ''['' @ cur @ '']'' else cur) @ '':'' @ itoa (ps_Port p) @ ''/'' @ f)"
      using d(1) False p(3) assms(3) by (simp add: getLocalImageURL_def Let_def)
    ultimately show ?thesis using False i a(1,2) p(1,2) by (simp, blast)
  qed
qed

theorem agent_report_decides_witness:
  "fst (provisionIPPhase ref_lib ref_conds ''eth2'' (reporting_server, 0 :: nat)) = Continue ()
   \<and> (\<exists>ip. ''fd00::2:0:5'' = IP_String ip \<and> getLocalImageURL ref_lib v6_lib ref_ps_client (reporting_server, 0) ''f''
     = Ok (''http://'' @ (if To4 ip = None then ''[fd00::2:0:5]'' else ''fd00::2:0:5'') @ '':'' @ itoa 6190 @ ''/f''))"
proof -
  have "status_decodes (provisionIPStatus ''eth2'' ''fd00::2:0:5'' True []) (ps_Status reporting_server)"
    by (simp add: status_decodes_def provisionIPStatus_fields json_text_def reporting_server_def upd_ps_status_def)
  moreover have "\<forall>ip. pl_IsIPv6 v6_lib (Some ip) \<longleftrightarrow> To4 ip = None" by (simp add: v6_lib_def)
  moreover have "ps_Port reporting_server = 6190"
    by (simp add: reporting_server_def upd_ps_status_def ready_server_def)
  ultimately show ?thesis
    using agent_report_decides [OF sample_interface(2) [of sample_world], of "[]" reporting_server v6_lib "''eth2''"
        ref_conds 0 ref_ps_client "''f''"] by auto
qed

section \<open>The loops\<close>

text \<open>The checksum command does its work. When the flags, the options, the client and the image directory
  are available and the API server refuses an update only finitely often, the command ends: with a panic if no
  file of the directory has a checksum marker in its name; otherwise successfully, either because the
  server object is gone or after an update whose status names the first marked file and its type and
  keeps every other field of the object that was read; or with the panic of a round in which a read failed otherwise,
  the status was not a map or a call panicked.\<close>

theorem checksum_agent_run:
  assumes "agent_retries A opts pending" and "startFlags L A = Ok ()" and "checksumOptions A opts0 = Ok opts"
    and "startClient L A = Ok ()" and "imageItems L A (ao_ImageDir opts) w = Ok items"
  shows "if \<forall>x \<in> set items. \<not> has_marker x
    then \<exists>m. runChecksumStartCmd L A opts0 w = Some (Panic m, w)
    else \<exists>pre x post r w'. items = pre @ x # post \<and> (\<forall>y \<in> set pre. \<not> has_marker y) \<and> has_marker x
      \<and> runChecksumStartCmd L A opts0 w = Some (r, w')
      \<and> (r = Ok () \<and> (server_gone A opts w' \<or> checksum_reported A opts x w')
         \<or> (\<exists>m w0. r = Panic m \<and> round_panics L A opts w0 m))"
proof (cases "pickChecksum items")
  case None
  then have "\<forall>x \<in> set items. \<not> has_marker x" by (simp add: pickChecksum_None)
  with None assms(2-5) show ?thesis by (simp add: runChecksumStartCmd_def)
next
  case (Some q)
  then obtain x where q: "pickChecksum items = Some (x, marker_of x)" and m: "has_marker x" "x \<in> set items"
    by (cases q) (auto simp: pickChecksum_Some)
  then obtain pre post where p: "items = pre @ x # post" "\<forall>y \<in> set pre. \<not> has_marker y"
    unfolding pickChecksum_Some by blast
  have "runChecksumStartCmd L A opts0 w = go_loop (checksumRound L A opts x (marker_of x)) w"
    using q assms(2-5) by (simp add: runChecksumStartCmd_def)
  with agent_retries.checksum_loop_ends [OF assms(1), of L x w] obtain r w'
    where "runChecksumStartCmd L A opts0 w = Some (r, w')"
      "r = Ok () \<and> (server_gone A opts w' \<or> checksum_reported A opts x w')
       \<or> (\<exists>m w0. r = Panic m \<and> round_panics L A opts w0 m)"
    by auto
  with p m show ?thesis by auto
qed

lemma ref_agent_no_panic: "\<not> round_panics L ref_agent opts w m"
  by (auto simp: round_panics_def ref_agent_def aw_object_def split: option.splits outcome.splits if_splits prod.splits)

theorem checksum_agent_run_witness:
  "\<exists>x w'. has_marker x \<and> runChecksumStartCmd ref_lib ref_agent sample_opts sample_world = Some (Ok (), w')
     \<and> (server_gone ref_agent full_opts w' \<or> checksum_reported ref_agent full_opts x w')"
proof -
  let ?items = "[''image.qcow2'', ''image.qcow2.sha256'', ''old.md5'']"
  have a: "startFlags ref_lib ref_agent = Ok ()" "startClient ref_lib ref_agent = Ok ()"
    "imageItems ref_lib ref_agent (ao_ImageDir full_opts) sample_world = Ok ?items"
    by (simp_all add: startFlags_def startClient_def imageItems_def getKubeConfig_def Getenv_def ref_agent_def must_def)
  have o: "checksumOptions ref_agent sample_opts = Ok full_opts"
    by (simp add: checksumOptions_def checksumOption_def ref_agent_def sample_opts_def full_opts_def)
  have "has_marker ''old.md5''"
    unfolding has_marker_def by (intro bexI [of _ "''md5''"]) (simp_all add: strings_Contains_iff [symmetric])
  then have "\<not> (\<forall>x \<in> set ?items. \<not> has_marker x)" by simp
  with checksum_agent_run [OF ref_retries.agent_retries_axioms a(1) o a(2,3)] ref_agent_no_panic show ?thesis
    by (simp only: if_False) blast
qed

text \<open>The report of the agent is current: after any number of rounds of the address command, if it remembers
  an address and the server object has been there at the beginning of every round and still exists, then that
  address was read from the interface, it is the one in the status of the server, and the error text there is empty.\<close>

theorem reported_address_current:
  assumes "agent_store A opts obj" and "rounds (provisionIPRound L A opts) n ([], w) = (Continue (), ip, w')"
    and "\<And>k s. k < n \<Longrightarrow> rounds (provisionIPRound L A opts) k ([], w) = (Continue (), s) \<Longrightarrow> obj (snd s) \<noteq> None"
    and "ip \<noteq> []" and "obj w' = Some x"
  shows "reported x = (Some ip, Some []) \<and> (\<exists>w0 found. getInterfaceIP L A (ao_Intf opts) w0 = Ok (ip, found))"
  using agent_store.rounds_current [OF assms(1,2) _ assms(3)] ip_read.rounds_keep [OF _ assms(2)] assms(4,5)
  by (auto simp: report_current_def)

lemma sample_round:
  assumes "aw_Server w = Some (st, rest)"
  shows "provisionIPRound ref_lib ref_agent full_opts ([], w) =
    (if aw_Conflicts w > 0 then (Continue (), [], w\<lparr>aw_Conflicts := aw_Conflicts w - 1\<rparr>)
     else (Continue (), ''192.168.122.5'',
       w\<lparr>aw_Server := Some (provisionIPStatus ''eth1'' ''192.168.122.5'' True st, rest), aw_Conflicts := 0\<rparr>))"
proof -
  have i: "ao_Intf full_opts = ''eth1''" by (simp add: full_opts_def)
  show ?thesis unfolding provisionIPRound_def updateProvisioningStatus_def i sample_interface using assms
    by (simp add: ref_agent_def aw_object_def)
qed

lemma sample_server_stays:
  assumes "k < 3" and "rounds (provisionIPRound ref_lib ref_agent full_opts) k ([], sample_world) = (Continue (), s)"
  shows "aw_object (snd s) \<noteq> None"
proof -
  have "k = 0 \<or> k = Suc 0 \<or> k = Suc (Suc 0)" using assms(1) by linarith
  with assms(2) show ?thesis by (auto simp: sample_round sample_world_def aw_object_def)
qed

theorem reported_address_current_witness:
  "\<exists>w' x. rounds (provisionIPRound ref_lib ref_agent full_opts) 3 ([], sample_world) = (Continue (), ''192.168.122.5'', w')
     \<and> aw_object w' = Some x \<and> reported x = (Some ''192.168.122.5'', Some [])"
proof -
  obtain w' where r: "rounds (provisionIPRound ref_lib ref_agent full_opts) 3 ([], sample_world) = (Continue (), ''192.168.122.5'', w')"
    and "aw_Server w' \<noteq> None"
    by (simp add: numeral_3_eq_3 sample_round sample_world_def)
  then obtain x where x: "aw_object w' = Some x" by (auto simp: aw_object_def)
  with reported_address_current [OF ref_store.agent_store_axioms r sample_server_stays _ x] r x show ?thesis by simp
qed

text \<open>The loop of the address command does not stop when the server is deleted, and a server that is
  created again gets no report: a round that finds no server remembers the address all the same, and as
  long as the address stays, no later round writes anything, whatever the server object is.\<close>

theorem recreated_server_not_reported:
  assumes "ag_Get A w openstackProvisionServerGVR (ao_Namespace opts) (ao_Name opts) ''/status'' = Err (NotFound e)"
    and "getInterfaceIP L A (ao_Intf opts) w = Ok (cur, found)" and "cur \<noteq> []" and "ip \<noteq> cur"
    and "getInterfaceIP L A (ao_Intf opts) w2 = Ok (cur, found2)"
  shows "provisionIPRound L A opts (ip, w) = (Continue (), cur, ag_Sleep A 5 w)
    \<and> provisionIPRound L A opts (cur, w2) = (Continue (), cur, ag_Sleep A 5 w2)"
  using assms by (simp add: provisionIPRound_def updateProvisioningStatus_def)

theorem recreated_server_not_reported_witness:
  "provisionIPRound ref_lib ref_agent full_opts (''192.168.122.5'', sample_world)
     = (Continue (), ''192.168.122.5'', ag_Sleep ref_agent 5 sample_world)"
proof -
  have "ag_Get ref_agent (sample_world\<lparr>aw_Server := None\<rparr>) openstackProvisionServerGVR (ao_Namespace full_opts)
      (ao_Name full_opts) ''/status'' = Err (NotFound ''ps'')"
    by (simp add: ref_agent_def aw_object_def full_opts_def)
  from recreated_server_not_reported [OF this, of ref_lib "''192.168.122.5''" True "[]" sample_world True]
  show ?thesis using sample_interface(1) by (simp add: full_opts_def)
qed

end
