(* ===== verification/GoSlice.thy ===== *)
theory GoSlice
  imports Prelude
begin

text \<open>
  Go slices over an explicit store of arrays. A slice is nil or a pair of the address of an array and a
  length; the capacity is the length of the array. \<open>append\<close> writes into the array of the slice when
  there is spare capacity, so that other slices of the same array may change, and otherwise copies
  into a new array whose capacity is \<open>grow n\<close> for a slice of length \<open>n\<close>. The language leaves \<open>grow\<close> to
  the implementation (\<open>growslice\<close> of the runtime); \<open>go_grow\<close> is its value for pointers and short slices.
\<close>

section \<open>Definitions\<close>

type_synonym 'a store = "'a option list list"

datatype slice = NilSlice | Slice nat nat

definition slice_contents :: "'a store \<Rightarrow> slice \<Rightarrow> 'a list" where
  "slice_contents h s = (case s of NilSlice \<Rightarrow> [] | Slice a n \<Rightarrow> map the (take n (h ! a)))"

definition slice_append :: "(nat \<Rightarrow> nat) \<Rightarrow> slice \<Rightarrow> 'a \<Rightarrow> 'a store \<Rightarrow> slice \<times> 'a store" where
  "slice_append grow s x h =
     (case s of
        NilSlice \<Rightarrow> (Slice (length h) 1, h @ [Some x # replicate (grow 0 - 1) None])
      | Slice a n \<Rightarrow>
          if n < length (h ! a) then (Slice a (Suc n), h[a := (h ! a)[n := Some x]])
          else (Slice (length h) (Suc n), h @ [take n (h ! a) @ Some x # replicate (grow n - Suc n) None]))"

definition go_grow :: "nat \<Rightarrow> nat" where
  "go_grow n = (if n = 0 then 1 else 2 * n)"

definition slice_wf :: "'a store \<Rightarrow> slice \<Rightarrow> bool" where
  "slice_wf h s = (case s of NilSlice \<Rightarrow> True
     | Slice a n \<Rightarrow> a < length h \<and> n \<le> length (h ! a) \<and> None \<notin> set (take n (h ! a)))"

text \<open>A full slice has no spare capacity.\<close>

definition slice_full :: "'a store \<Rightarrow> slice \<Rightarrow> bool" where
  "slice_full h s = (case s of NilSlice \<Rightarrow> True | Slice a n \<Rightarrow> length (h ! a) = n)"

section \<open>Facts\<close>

lemma append_contents:
  assumes "slice_wf h s" and "slice_append grow s x h = (s', h')"
  shows "slice_contents h' s' = slice_contents h s @ [x]" and "slice_wf h' s'"
proof -
  have "slice_contents h' s' = slice_contents h s @ [x] \<and> slice_wf h' s'"
  proof (cases s)
    case NilSlice
    with assms(2) show ?thesis by (auto simp: slice_append_def slice_contents_def slice_wf_def)
  next
    case (Slice a n)
    with assms show ?thesis
      by (auto simp: slice_append_def slice_contents_def slice_wf_def take_Suc_conv_app_nth nth_append
          split: if_splits)
  qed
  then show "slice_contents h' s' = slice_contents h s @ [x]" "slice_wf h' s'" by simp_all
qed

text \<open>An append to a full slice changes no other slice.\<close>

lemma append_full_frame:
  assumes "slice_full h s" and "slice_append grow s x h = (s', h')" and "slice_wf h t"
  shows "slice_contents h' t = slice_contents h t" and "slice_wf h' t" and "slice_full h t \<Longrightarrow> slice_full h' t"
proof -
  obtain r where "h' = h @ [r]" using assms(1,2)
    by (cases s) (auto simp: slice_append_def slice_full_def)
  with assms(3) show "slice_contents h' t = slice_contents h t" "slice_wf h' t"
    "slice_full h t \<Longrightarrow> slice_full h' t"
    by (cases t; simp add: slice_contents_def slice_wf_def slice_full_def nth_append)+
qed

text \<open>An append to a slice with spare capacity overwrites what another slice of the array has put there.\<close>

lemma append_shared:
  assumes "s = Slice a n" and "n < length (h ! a)" and "a < length h"
    and "slice_append grow s x h = (sx, h1)" and "slice_append grow s y h1 = (sy, h2)"
  shows "slice_contents h2 sx ! n = y"
  using assms by (auto simp: slice_append_def slice_contents_def nth_list_update)

lemma slice_wf_Nil [simp]: "slice_wf h NilSlice" and slice_full_Nil [simp]: "slice_full h NilSlice"
  and slice_contents_Nil [simp]: "slice_contents h NilSlice = []"
  by (simp_all add: slice_wf_def slice_full_def slice_contents_def)

lemma append_full:
  assumes "slice_full h s" and "slice_append grow s x h = (s', h')"
    and "slice_wf h s" and "grow (length (slice_contents h s)) = Suc (length (slice_contents h s))"
  shows "slice_full h' s'"
  using assms by (cases s) (auto simp: slice_append_def slice_full_def slice_contents_def slice_wf_def)

end
