(* ===== verification/Scheme.thy ===== *)
theory Scheme
  imports External
begin

text \<open>
  The registration of the API types: \<^verbatim>\<open>api/v1beta1/groupversion_info.go\<close>, the \<open>init\<close> functions of the two
  files of types, and the \<open>init\<close> function of \<^verbatim>\<open>cmd/main.go\<close>, which fills the scheme of the manager.

  The scheme and its builder are types of apimachinery and controller-runtime: \<open>('b, 's) scheme_lib\<close> holds
  their operations and the \<open>AddToScheme\<close> functions of the two other packages. \<open>sl_Recognizes\<close> is
  \<open>Scheme.Recognizes\<close>, on a group, a version and a kind; the kind of a type is its name. The locale
  \<open>scheme_laws\<close> holds the documented behaviour, interpreted on schemes that are lists of kinds.
\<close>

section \<open>Definitions\<close>

record group_version =
  gv_Group :: string
  gv_Version :: string

record ('b, 's) scheme_lib =
  sl_NewScheme :: 's
  sl_Builder :: "group_version \<Rightarrow> 'b"
  sl_Register :: "'b \<Rightarrow> string list \<Rightarrow> 'b"
  sl_BuilderAddToScheme :: "'b \<Rightarrow> 's \<Rightarrow> 's result"
  sl_clientgoAddToScheme :: "'s \<Rightarrow> 's result"
  sl_metal3AddToScheme :: "'s \<Rightarrow> 's result"
  sl_Recognizes :: "'s \<Rightarrow> group_version \<Rightarrow> string \<Rightarrow> bool"

definition GroupVersion :: group_version where
  "GroupVersion = \<lparr>gv_Group = ''baremetal.openstack.org'', gv_Version = ''v1beta1''\<rparr>"

definition SchemeBuilder :: "('b, 's) scheme_lib \<Rightarrow> 'b" where
  "SchemeBuilder S = sl_Builder S GroupVersion"

definition init_set_types :: "('b, 's) scheme_lib \<Rightarrow> 'b \<Rightarrow> 'b" where
  "init_set_types S b = sl_Register S b [''OpenStackBaremetalSet'', ''OpenStackBaremetalSetList'']"

definition init_ps_types :: "('b, 's) scheme_lib \<Rightarrow> 'b \<Rightarrow> 'b" where
  "init_ps_types S b = sl_Register S b [''OpenStackProvisionServer'', ''OpenStackProvisionServerList'']"

definition AddToScheme :: "('b, 's) scheme_lib \<Rightarrow> 's \<Rightarrow> 's result" where
  "AddToScheme S = sl_BuilderAddToScheme S (init_ps_types S (init_set_types S (SchemeBuilder S)))"

text \<open>\<open>utilruntime.Must\<close>.\<close>

definition Must :: "lib \<Rightarrow> 'a result \<Rightarrow> 'a result" where
  "Must L r = (case r of Err e \<Rightarrow> Panic (Error_text L e) | _ \<Rightarrow> r)"

definition init_scheme :: "lib \<Rightarrow> ('b, 's) scheme_lib \<Rightarrow> 's result" where
  "init_scheme L S =
     (case Must L (sl_clientgoAddToScheme S (sl_NewScheme S)) of
        Err e \<Rightarrow> Err e | Panic m \<Rightarrow> Panic m
      | Ok sc \<Rightarrow>
     (case Must L (sl_metal3AddToScheme S sc) of
        Err e \<Rightarrow> Err e | Panic m \<Rightarrow> Panic m
      | Ok sc \<Rightarrow> Must L (AddToScheme S sc)))"

section \<open>The laws of schemes\<close>

text \<open>A builder adds the registered kinds and keeps those that were known; it may add others, as
  controller-runtime does for the options and events of a group and version.

  The kinds of the other packages that the operator works with, and the group and version of every kind.\<close>

definition clientgo_kinds :: "(string \<times> group_version) list" where
  "clientgo_kinds =
     [(''Deployment'', \<lparr>gv_Group = ''apps'', gv_Version = ''v1''\<rparr>), (''ConfigMap'', \<lparr>gv_Group = [], gv_Version = ''v1''\<rparr>),
      (''ServiceAccount'', \<lparr>gv_Group = [], gv_Version = ''v1''\<rparr>), (''Secret'', \<lparr>gv_Group = [], gv_Version = ''v1''\<rparr>),
      (''Pod'', \<lparr>gv_Group = [], gv_Version = ''v1''\<rparr>), (''Job'', \<lparr>gv_Group = ''batch'', gv_Version = ''v1''\<rparr>),
      (''Role'', \<lparr>gv_Group = ''rbac.authorization.k8s.io'', gv_Version = ''v1''\<rparr>),
      (''RoleBinding'', \<lparr>gv_Group = ''rbac.authorization.k8s.io'', gv_Version = ''v1''\<rparr>)]"

definition metal3_kinds :: "(string \<times> group_version) list" where
  "metal3_kinds =
     [(''BareMetalHost'', \<lparr>gv_Group = ''metal3.io'', gv_Version = ''v1alpha1''\<rparr>),
      (''BareMetalHostList'', \<lparr>gv_Group = ''metal3.io'', gv_Version = ''v1alpha1''\<rparr>)]"

definition own_kinds :: "(string \<times> group_version) list" where
  "own_kinds = map (\<lambda>k. (k, GroupVersion))
     [''OpenStackBaremetalSet'', ''OpenStackBaremetalSetList'', ''OpenStackProvisionServer'', ''OpenStackProvisionServerList'']"

definition knows_kind :: "('b, 's) scheme_lib \<Rightarrow> 's \<Rightarrow> string \<Rightarrow> bool" where
  "knows_kind S sc k \<longleftrightarrow>
     (\<exists>gv. map_of (clientgo_kinds @ metal3_kinds @ own_kinds) k = Some gv \<and> sl_Recognizes S sc gv k)"

locale scheme_laws =
  fixes S :: "('b, 's) scheme_lib" and types :: "'b \<Rightarrow> (group_version \<times> string list)"
  assumes new_builder: "types (sl_Builder S gv) = (gv, [])"
    and register: "types (sl_Register S b ks) = (fst (types b), snd (types b) @ ks)"
    and builder_adds: "sl_BuilderAddToScheme S b sc = Ok sc' \<Longrightarrow> k \<in> set (snd (types b)) \<Longrightarrow>
      sl_Recognizes S sc' (fst (types b)) k"
    and builder_keeps: "sl_BuilderAddToScheme S b sc = Ok sc' \<Longrightarrow> sl_Recognizes S sc gv k \<Longrightarrow> sl_Recognizes S sc' gv k"
    and clientgo_adds: "sl_clientgoAddToScheme S sc = Ok sc' \<Longrightarrow> (k, gv) \<in> set clientgo_kinds \<Longrightarrow> sl_Recognizes S sc' gv k"
    and metal3_adds: "sl_metal3AddToScheme S sc = Ok sc' \<Longrightarrow> (k, gv) \<in> set metal3_kinds \<Longrightarrow> sl_Recognizes S sc' gv k"
    and metal3_keeps: "sl_metal3AddToScheme S sc = Ok sc' \<Longrightarrow> sl_Recognizes S sc gv k \<Longrightarrow> sl_Recognizes S sc' gv k"
begin

lemma AddToScheme_adds:
  assumes "AddToScheme S sc = Ok sc'" and "sl_Recognizes S sc gv k \<or> (k, gv) \<in> set own_kinds"
  shows "sl_Recognizes S sc' gv k"
  using assms(2) builder_adds [OF assms(1) [unfolded AddToScheme_def], of k]
    builder_keeps [OF assms(1) [unfolded AddToScheme_def], of gv k]
  by (auto simp: init_ps_types_def init_set_types_def SchemeBuilder_def register new_builder own_kinds_def)

lemma init_scheme_knows:
  assumes "init_scheme L S = Ok sc" and "k \<in> fst ` set (clientgo_kinds @ metal3_kinds @ own_kinds)"
  shows "knows_kind S sc k"
proof -
  obtain sc1 sc2 where i: "sl_clientgoAddToScheme S (sl_NewScheme S) = Ok sc1" "sl_metal3AddToScheme S sc1 = Ok sc2"
    "AddToScheme S sc2 = Ok sc"
    using assms(1) by (auto simp: init_scheme_def Must_def split: outcome.splits)
  from assms(2) obtain gv where g: "map_of (clientgo_kinds @ metal3_kinds @ own_kinds) k = Some gv"
    using weak_map_of_SomeI by (metis imageE prod.collapse)
  then have "(k, gv) \<in> set clientgo_kinds \<or> (k, gv) \<in> set metal3_kinds \<or> (k, gv) \<in> set own_kinds"
    by (auto simp: map_add_Some_iff dest!: map_of_SomeD)
  then have "sl_Recognizes S sc gv k"
    using AddToScheme_adds [OF i(3), of gv k] clientgo_adds [OF i(1)] metal3_adds [OF i(2)] metal3_keeps [OF i(2)] by blast
  with g show ?thesis unfolding knows_kind_def by blast
qed

end

section \<open>A reference scheme\<close>

definition meta_kinds :: "group_version \<Rightarrow> (string \<times> group_version) list" where
  "meta_kinds gv = [(''ListOptions'', gv), (''WatchEvent'', gv)]"

definition ref_schemes :: "(group_version \<times> string list, (string \<times> group_version) list) scheme_lib" where
  "ref_schemes = \<lparr>sl_NewScheme = [], sl_Builder = (\<lambda>gv. (gv, [])), sl_Register = (\<lambda>(gv, ks) ks'. (gv, ks @ ks')),
     sl_BuilderAddToScheme = (\<lambda>(gv, ks) sc. Ok (sc @ map (\<lambda>k. (k, gv)) ks @ meta_kinds gv)),
     sl_clientgoAddToScheme = (\<lambda>sc. Ok (sc @ clientgo_kinds)), sl_metal3AddToScheme = (\<lambda>sc. Ok (sc @ metal3_kinds)),
     sl_Recognizes = (\<lambda>sc gv k. (k, gv) \<in> set sc)\<rparr>"

interpretation ref_schemes: scheme_laws ref_schemes id
  by unfold_locales (auto simp: ref_schemes_def)

lemma ref_init_scheme: "init_scheme L ref_schemes = Ok (clientgo_kinds @ metal3_kinds @ own_kinds @ meta_kinds GroupVersion)"
  by (simp add: init_scheme_def Must_def AddToScheme_def init_ps_types_def init_set_types_def SchemeBuilder_def
      ref_schemes_def own_kinds_def)

end
