(* ===== verification/Manager.thy ===== *)
theory Manager
  imports GoSlice PortAssign Scheme
begin

text \<open>
  The entry point of the operator (\<^verbatim>\<open>cmd/main.go\<close>): from the flags and the environment to the
  manager that runs the controllers and the webhooks.

  The calls into controller-runtime are \<open>mgr_call\<close> values; \<open>me_Call\<close> says whether a call succeeds. The state
  is the store of the slices of TLS options and the manager once it is created. The result is an
  \<open>outcome\<close>: \<open>Err n\<close> is \<open>os.Exit(n)\<close>. The flags are those after \<open>flag.Parse\<close>, with the defaults of
  \<open>default_flags\<close>. A TLS option is a function on the configuration; the model names the three functions
  of the source and \<open>applyTLS\<close> has their bodies. The servers apply their options when the manager starts,
  so they see the final contents of their slices.
\<close>

section \<open>Flags and paths\<close>

record main_flags =
  mf_MetricsAddr :: string
  mf_ProbeAddr :: string
  mf_LeaderElect :: bool
  mf_MetricsSecure :: bool
  mf_WebhookCertPath :: string
  mf_WebhookCertName :: string
  mf_WebhookCertKey :: string
  mf_MetricsCertPath :: string
  mf_MetricsCertName :: string
  mf_MetricsCertKey :: string
  mf_PprofAddr :: string
  mf_WebhookPort :: int
  mf_EnableHTTP2 :: bool

definition default_flags :: main_flags where
  "default_flags =
     \<lparr>mf_MetricsAddr = ''0'', mf_ProbeAddr = '':8081'', mf_LeaderElect = False, mf_MetricsSecure = True,
      mf_WebhookCertPath = [], mf_WebhookCertName = ''tls.crt'', mf_WebhookCertKey = ''tls.key'',
      mf_MetricsCertPath = [], mf_MetricsCertName = ''tls.crt'', mf_MetricsCertKey = ''tls.key'',
      mf_PprofAddr = [], mf_WebhookPort = 9443, mf_EnableHTTP2 = False\<rparr>"

text \<open>\<open>filepath.Join\<close> of two elements: the non-empty ones joined by a slash and cleaned.\<close>

fun path_split :: "string \<Rightarrow> string list" where
  "path_split [] = [[]]"
| "path_split (c # s) =
     (if c = CHR ''/'' then [] # path_split s
      else case path_split s of [] \<Rightarrow> [[c]] | e # es \<Rightarrow> (c # e) # es)"

fun clean_elems :: "bool \<Rightarrow> string list \<Rightarrow> string list \<Rightarrow> string list" where
  "clean_elems rooted acc [] = rev acc"
| "clean_elems rooted acc (e # es) =
     (if e = [] \<or> e = ''.'' then clean_elems rooted acc es
      else if e = ''..'' then
        (if acc \<noteq> [] \<and> hd acc \<noteq> ''..'' then clean_elems rooted (tl acc) es
         else if rooted then clean_elems rooted acc es
         else clean_elems rooted (e # acc) es)
      else clean_elems rooted (e # acc) es)"

fun join_slash :: "string list \<Rightarrow> string" where
  "join_slash [] = []"
| "join_slash [e] = e"
| "join_slash (e # es) = e @ ''/'' @ join_slash es"

definition filepath_Clean :: "string \<Rightarrow> string" where
  "filepath_Clean p =
     (if p = [] then ''.''
      else let rooted = (hd p = CHR ''/'');
               out = (if rooted then ''/'' else []) @ join_slash (clean_elems rooted [] (path_split p))
           in if out = [] then ''.'' else out)"

definition filepath_Join :: "string \<Rightarrow> string \<Rightarrow> string" where
  "filepath_Join a b =
     (if a = [] then (if b = [] then [] else filepath_Clean b)
      else filepath_Clean (if b = [] then a else a @ ''/'' @ b))"

text \<open>\<open>strings.ToLower\<close> on ASCII letters; no other character becomes a letter of the text that the result
  is compared with.\<close>

definition to_lower :: "string \<Rightarrow> string" where
  "to_lower s = map (\<lambda>c. if (65 :: nat) \<le> of_char c \<and> of_char c \<le> (90 :: nat) then char_of ((of_char c :: nat) + 32) else c) s"

section \<open>TLS options\<close>

type_synonym watcher = "string \<times> string"

datatype tls_opt = OptMinVersionTLS13 | OptDisableHTTP2 | OptGetCertificate watcher

record tls_config =
  tc_MinVersion :: nat
  tc_NextProtos :: "string list"
  tc_GetCertificate :: "watcher option"

definition VersionTLS13 :: nat where
  "VersionTLS13 = 772"

definition tls_apply :: "tls_opt \<Rightarrow> tls_config \<Rightarrow> tls_config" where
  "tls_apply opt c = (case opt of
      OptMinVersionTLS13 \<Rightarrow> c\<lparr>tc_MinVersion := VersionTLS13\<rparr>
    | OptDisableHTTP2 \<Rightarrow> c\<lparr>tc_NextProtos := [''http/1.1'']\<rparr>
    | OptGetCertificate w \<Rightarrow> c\<lparr>tc_GetCertificate := Some w\<rparr>)"

definition applyTLS :: "tls_opt list \<Rightarrow> tls_config \<Rightarrow> tls_config" where
  "applyTLS opts c = fold tls_apply opts c"

section \<open>The manager\<close>

datatype mgr_call =
    CNewCertWatcher watcher
  | CGetConfigOrDie
  | CNewManager
  | CGetConfig
  | CNewForConfig
  | CSetupController string
  | CSetupWebhook string
  | CAdd watcher
  | CAddHealthzCheck
  | CAddReadyzCheck
  | CStart

record mgr_env =
  me_Call :: "mgr_call \<Rightarrow> bool"
  me_Getenv :: "string \<Rightarrow> string"
  me_GetEnvVar :: "string \<Rightarrow> string \<Rightarrow> string"
  me_Grow :: "nat \<Rightarrow> nat"

record manager_options =
  mo_BindAddress :: string
  mo_SecureServing :: bool
  mo_FilterProvider :: bool
  mo_MetricsTLSOpts :: slice
  mo_WebhookPort :: int
  mo_WebhookTLSOpts :: slice
  mo_ProbeAddr :: string
  mo_PprofAddr :: string
  mo_LeaderElection :: bool
  mo_LeaderElectionID :: string

datatype watch_spec = For string | Owns string | WatchesStatus string

datatype checker = Ping | WebhookStarted

record manager =
  mg_Options :: manager_options
  mg_Controllers :: "watch_spec list list"
  mg_Webhooks :: "string list"
  mg_WebhookClient :: bool
  mg_Defaults :: "OpenStackProvisionServerDefaults option"
  mg_Runnables :: "watcher list"
  mg_Healthz :: "(string \<times> checker) list"
  mg_Readyz :: "(string \<times> checker) list"
  mg_Started :: bool

definition new_manager :: "manager_options \<Rightarrow> manager" where
  "new_manager mo = \<lparr>mg_Options = mo, mg_Controllers = [], mg_Webhooks = [], mg_WebhookClient = False,
     mg_Defaults = None, mg_Runnables = [], mg_Healthz = [], mg_Readyz = [], mg_Started = False\<rparr>"

definition try_call :: "mgr_env \<Rightarrow> mgr_call \<Rightarrow> 's \<Rightarrow> (nat, unit) outcome \<times> 's" where
  "try_call E c s = (if me_Call E c then Ok () else Err 1, s)"

text \<open>The controllers and what they watch.\<close>

definition SetupWithManager_set :: "mgr_env \<Rightarrow> manager \<Rightarrow> (nat, unit) outcome \<times> manager" where
  "SetupWithManager_set E m =
     and_then (try_call E (CSetupController ''OpenStackBaremetalSet'') m) (\<lambda>_ m.
       (Ok (), m\<lparr>mg_Controllers := mg_Controllers m @
          [[For ''OpenStackBaremetalSet'', Owns ''OpenStackProvisionServer'', WatchesStatus ''BareMetalHost'']]\<rparr>))"

definition SetupWithManager_ps :: "mgr_env \<Rightarrow> manager \<Rightarrow> (nat, unit) outcome \<times> manager" where
  "SetupWithManager_ps E m =
     and_then (try_call E (CSetupController ''OpenStackProvisionServer'') m) (\<lambda>_ m.
       (Ok (), m\<lparr>mg_Controllers := mg_Controllers m @
          [[For ''OpenStackProvisionServer'', Owns ''Deployment'', Owns ''ConfigMap'', Owns ''ServiceAccount'',
            Owns ''Role'', Owns ''RoleBinding'']]\<rparr>))"

text \<open>The two package variables of the API: the client of the webhooks and the defaults of the servers.\<close>

definition SetupWebhookClient :: "manager \<Rightarrow> manager" where
  "SetupWebhookClient m = m\<lparr>mg_WebhookClient := True\<rparr>"

definition SetupOpenStackProvisionServerDefaults :: "OpenStackProvisionServerDefaults \<Rightarrow> manager \<Rightarrow> manager" where
  "SetupOpenStackProvisionServerDefaults d m = m\<lparr>mg_Defaults := Some d\<rparr>"

definition SetupOpenStackBaremetalSetWebhookWithManager ::
  "mgr_env \<Rightarrow> manager \<Rightarrow> (nat, unit) outcome \<times> manager" where
  "SetupOpenStackBaremetalSetWebhookWithManager E m =
     (let m = SetupWebhookClient m
      in and_then (try_call E (CSetupWebhook ''OpenStackBaremetalSet'') m) (\<lambda>_ m.
           (Ok (), m\<lparr>mg_Webhooks := mg_Webhooks m @ [''OpenStackBaremetalSet'']\<rparr>)))"

definition SetupOpenStackProvisionServerWebhookWithManager ::
  "mgr_env \<Rightarrow> manager \<Rightarrow> (nat, unit) outcome \<times> manager" where
  "SetupOpenStackProvisionServerWebhookWithManager E m =
     (let m = SetupWebhookClient m
      in and_then (try_call E (CSetupWebhook ''OpenStackProvisionServer'') m) (\<lambda>_ m.
           (Ok (), m\<lparr>mg_Webhooks := mg_Webhooks m @ [''OpenStackProvisionServer'']\<rparr>)))"

section \<open>The parts of \<open>main\<close>\<close>

definition baseTLSOpts :: "mgr_env \<Rightarrow> main_flags \<Rightarrow> tls_opt store \<Rightarrow> slice \<times> tls_opt store" where
  "baseTLSOpts E fl h =
     (case slice_append (me_Grow E) NilSlice OptMinVersionTLS13 h of
        (tlsOpts, h) \<Rightarrow>
          if \<not> mf_EnableHTTP2 fl then slice_append (me_Grow E) tlsOpts OptDisableHTTP2 h else (tlsOpts, h))"

text \<open>A certificate watcher and the options of its server; without a path there is none.\<close>

definition certOpts ::
  "mgr_env \<Rightarrow> string \<Rightarrow> string \<Rightarrow> string \<Rightarrow> slice \<Rightarrow> tls_opt store \<Rightarrow>
   (nat, watcher option \<times> slice) outcome \<times> tls_opt store" where
  "certOpts E path name key opts h =
     (if length path > 0 then
        (let cw = (filepath_Join path name, filepath_Join path key)
         in and_then (try_call E (CNewCertWatcher cw) h) (\<lambda>_ h.
              case slice_append (me_Grow E) opts (OptGetCertificate cw) h of (opts', h) \<Rightarrow> (Ok (Some cw, opts'), h)))
      else (Ok (None, opts), h))"

definition managerOptions :: "main_flags \<Rightarrow> slice \<Rightarrow> slice \<Rightarrow> manager_options" where
  "managerOptions fl metricsTLSOpts webhookTLSOpts =
     \<lparr>mo_BindAddress = mf_MetricsAddr fl, mo_SecureServing = mf_MetricsSecure fl,
      mo_FilterProvider = mf_MetricsSecure fl, mo_MetricsTLSOpts = metricsTLSOpts,
      mo_WebhookPort = mf_WebhookPort fl, mo_WebhookTLSOpts = webhookTLSOpts,
      mo_ProbeAddr = mf_ProbeAddr fl, mo_PprofAddr = mf_PprofAddr fl,
      mo_LeaderElection = mf_LeaderElect fl, mo_LeaderElectionID = ''dedc2245.openstack.org''\<rparr>"

definition serverOptions ::
  "mgr_env \<Rightarrow> main_flags \<Rightarrow> tls_opt store \<Rightarrow>
   (nat, manager_options \<times> watcher option \<times> watcher option) outcome \<times> tls_opt store" where
  "serverOptions E fl h =
     (case baseTLSOpts E fl h of
        (tlsOpts, h) \<Rightarrow>
          and_then (certOpts E (mf_WebhookCertPath fl) (mf_WebhookCertName fl) (mf_WebhookCertKey fl) tlsOpts h)
            (\<lambda>(webhookCertWatcher, webhookTLSOpts) h.
          and_then (certOpts E (mf_MetricsCertPath fl) (mf_MetricsCertName fl) (mf_MetricsCertKey fl) tlsOpts h)
            (\<lambda>(metricsCertWatcher, metricsTLSOpts) h.
          (Ok (managerOptions fl metricsTLSOpts webhookTLSOpts, metricsCertWatcher, webhookCertWatcher), h))))"

definition addWatcher :: "mgr_env \<Rightarrow> watcher option \<Rightarrow> manager \<Rightarrow> (nat, unit) outcome \<times> manager" where
  "addWatcher E cw m =
     (case cw of
        None \<Rightarrow> (Ok (), m)
      | Some x \<Rightarrow> and_then (try_call E (CAdd x) m) (\<lambda>_ m. (Ok (), m\<lparr>mg_Runnables := mg_Runnables m @ [x]\<rparr>)))"

definition setupWebhooks :: "mgr_env \<Rightarrow> manager \<Rightarrow> (nat, checker) outcome \<times> manager" where
  "setupWebhooks E m =
     (if to_lower (me_Getenv E ''ENABLE_WEBHOOKS'') \<noteq> ''false'' then
        and_then (SetupOpenStackBaremetalSetWebhookWithManager E m) (\<lambda>_ m.
        and_then (SetupOpenStackProvisionServerWebhookWithManager E m) (\<lambda>_ m.
        (Ok WebhookStarted, m)))
      else (Ok Ping, m))"

definition setupChecks :: "mgr_env \<Rightarrow> checker \<Rightarrow> manager \<Rightarrow> (nat, unit) outcome \<times> manager" where
  "setupChecks E ch m =
     and_then (try_call E CAddHealthzCheck m) (\<lambda>_ m.
     let m = m\<lparr>mg_Healthz := mg_Healthz m @ [(''healthz'', ch)]\<rparr>
     in and_then (try_call E CAddReadyzCheck m) (\<lambda>_ m.
        (Ok (), m\<lparr>mg_Readyz := mg_Readyz m @ [(''readyz'', ch)]\<rparr>)))"

definition runManager ::
  "mgr_env \<Rightarrow> watcher option \<Rightarrow> watcher option \<Rightarrow> manager \<Rightarrow> (nat, unit) outcome \<times> manager" where
  "runManager E metricsCertWatcher webhookCertWatcher m =
     and_then (try_call E CGetConfig m) (\<lambda>_ m.
     and_then (try_call E CNewForConfig m) (\<lambda>_ m.
     and_then (SetupWithManager_ps E m) (\<lambda>_ m.
     and_then (SetupWithManager_set E m) (\<lambda>_ m.
     let m = SetupOpenStackProvisionServerDefaults (SetupDefaults (me_GetEnvVar E)) m
     in and_then (setupWebhooks E m) (\<lambda>checker m.
     and_then (addWatcher E metricsCertWatcher m) (\<lambda>_ m.
     and_then (addWatcher E webhookCertWatcher m) (\<lambda>_ m.
     and_then (setupChecks E checker m) (\<lambda>_ m.
     try_call E CStart (m\<lparr>mg_Started := True\<rparr>)))))))))"

definition main :: "mgr_env \<Rightarrow> main_flags \<Rightarrow> (nat, unit) outcome \<times> manager option \<times> tls_opt store" where
  "main E fl =
     (case serverOptions E fl [] of
        (Err n, h) \<Rightarrow> (Err n, None, h)
      | (Panic p, h) \<Rightarrow> (Panic p, None, h)
      | (Ok (mo, metricsCertWatcher, webhookCertWatcher), h) \<Rightarrow>
          if me_Call E CGetConfigOrDie \<and> me_Call E CNewManager then
            (case runManager E metricsCertWatcher webhookCertWatcher (new_manager mo) of
               (r, m) \<Rightarrow> (r, Some m, h))
          else (Err 1, None, h))"

end
