(* ===== verification/ManagerProperties.thy ===== *)
theory ManagerProperties
  imports Manager
begin

text \<open>
  Properties of the entry point of the operator: what has been set up when the manager starts, and the
  TLS configurations of its two servers, which share a slice of options.
\<close>

section \<open>Definitions\<close>

definition own_cert :: "string \<Rightarrow> string \<Rightarrow> string \<Rightarrow> watcher option" where
  "own_cert path name key =
     (if path = [] then None else Some (filepath_Join path name, filepath_Join path key))"

definition webhooks_enabled :: "mgr_env \<Rightarrow> bool" where
  "webhooks_enabled E \<longleftrightarrow> to_lower (me_Getenv E ''ENABLE_WEBHOOKS'') \<noteq> ''false''"

definition base_opts :: "main_flags \<Rightarrow> tls_opt list" where
  "base_opts fl = OptMinVersionTLS13 # (if mf_EnableHTTP2 fl then [] else [OptDisableHTTP2])"

definition cert_opt :: "watcher option \<Rightarrow> tls_opt list" where
  "cert_opt cw = (case cw of None \<Rightarrow> [] | Some x \<Rightarrow> [OptGetCertificate x])"

text \<open>The manager once it runs.\<close>

definition watchers :: "watcher option \<Rightarrow> watcher option \<Rightarrow> watcher list" where
  "watchers mcw wcw = (case mcw of None \<Rightarrow> [] | Some x \<Rightarrow> [x]) @ (case wcw of None \<Rightarrow> [] | Some x \<Rightarrow> [x])"

definition running :: "mgr_env \<Rightarrow> manager_options \<Rightarrow> watcher option \<Rightarrow> watcher option \<Rightarrow> manager" where
  "running E mo mcw wcw =
     (let ch = (if webhooks_enabled E then WebhookStarted else Ping) in
      \<lparr>mg_Options = mo,
       mg_Controllers =
         [[For ''OpenStackProvisionServer'', Owns ''Deployment'', Owns ''ConfigMap'', Owns ''ServiceAccount'',
           Owns ''Role'', Owns ''RoleBinding''],
          [For ''OpenStackBaremetalSet'', Owns ''OpenStackProvisionServer'', WatchesStatus ''BareMetalHost'']],
       mg_Webhooks = (if webhooks_enabled E then [''OpenStackBaremetalSet'', ''OpenStackProvisionServer''] else []),
       mg_WebhookClient = webhooks_enabled E, mg_Defaults = Some (SetupDefaults (me_GetEnvVar E)),
       mg_Runnables = watchers mcw wcw, mg_Healthz = [(''healthz'', ch)], mg_Readyz = [(''readyz'', ch)],
       mg_Started = True\<rparr>)"

text \<open>The kind of object that a watch is about.\<close>

definition watch_kind :: "watch_spec \<Rightarrow> string" where
  "watch_kind x = (case x of For k \<Rightarrow> k | Owns k \<Rightarrow> k | WatchesStatus k \<Rightarrow> k)"

definition calm_env :: mgr_env where
  "calm_env = \<lparr>me_Call = (\<lambda>_. True), me_Getenv = (\<lambda>_. ''False''), me_GetEnvVar = (\<lambda>_ d. d), me_Grow = go_grow\<rparr>"

definition cert_flags :: main_flags where
  "cert_flags = default_flags\<lparr>mf_WebhookCertPath := ''/webhook'', mf_MetricsCertPath := ''/metrics/''\<rparr>"

section \<open>The options\<close>

lemma baseTLSOpts_facts:
  assumes "me_Grow E 0 = 1" and "me_Grow E 1 = 2" and "baseTLSOpts E fl h = (s, h')"
  shows "slice_wf h' s \<and> slice_full h' s \<and> slice_contents h' s = base_opts fl"
proof -
  obtain s1 h1 where a: "slice_append (me_Grow E) NilSlice OptMinVersionTLS13 h = (s1, h1)" by fastforce
  note c1 = append_contents [OF slice_wf_Nil a] and f1 = append_full [OF slice_full_Nil a slice_wf_Nil]
  have f1: "slice_full h1 s1" using f1 assms(1) by simp
  show ?thesis
  proof (cases "mf_EnableHTTP2 fl")
    case True
    with assms(3) a c1 f1 show ?thesis by (simp add: baseTLSOpts_def base_opts_def)
  next
    case False
    then have b: "slice_append (me_Grow E) s1 OptDisableHTTP2 h1 = (s, h')"
      using assms(3) a by (simp add: baseTLSOpts_def)
    have "slice_full h' s" using append_full [OF f1 b c1(2)] c1(1) assms(2) by simp
    with append_contents [OF c1(2) b] c1(1) False show ?thesis by (simp add: base_opts_def)
  qed
qed

lemma certOpts_facts:
  assumes "certOpts E path name key s h = (Ok (cw, s'), h')" and "slice_wf h s" and "slice_full h s"
  shows "cw = own_cert path name key" and "slice_contents h' s' = slice_contents h s @ cert_opt cw"
    and "slice_wf h' s'"
    and "slice_wf h t \<Longrightarrow> slice_contents h' t = slice_contents h t \<and> slice_wf h' t
      \<and> (slice_full h t \<longrightarrow> slice_full h' t)"
proof -
  have *: "cw = own_cert path name key \<and> slice_contents h' s' = slice_contents h s @ cert_opt cw \<and> slice_wf h' s'
    \<and> (\<forall>t. slice_wf h t \<longrightarrow> slice_contents h' t = slice_contents h t \<and> slice_wf h' t
        \<and> (slice_full h t \<longrightarrow> slice_full h' t))"
  proof (cases "path = []")
    case True
    with assms show ?thesis by (simp add: certOpts_def own_cert_def cert_opt_def)
  next
    case False
    let ?cw = "(filepath_Join path name, filepath_Join path key)"
    obtain s1 h1 where a: "slice_append (me_Grow E) s (OptGetCertificate ?cw) h = (s1, h1)" by fastforce
    with False assms(1) have "me_Call E (CNewCertWatcher ?cw)" "cw = Some ?cw" "s' = s1" "h' = h1"
      by (auto simp: certOpts_def try_call_def Let_def split: if_splits)
    with False append_contents [OF assms(2) a] append_full_frame [OF assms(3) a] show ?thesis
      by (simp add: own_cert_def cert_opt_def)
  qed
  then show "cw = own_cert path name key" "slice_contents h' s' = slice_contents h s @ cert_opt cw" "slice_wf h' s'"
    "slice_wf h t \<Longrightarrow> slice_contents h' t = slice_contents h t \<and> slice_wf h' t \<and> (slice_full h t \<longrightarrow> slice_full h' t)"
    by simp_all
qed

lemma certOpts_watcher: "certOpts E path name key s h = (Ok (cw, s'), h') \<Longrightarrow> cw = own_cert path name key"
  by (auto simp: certOpts_def own_cert_def Let_def try_call_def split: if_splits prod.splits)

lemma serverOptions_Ok:
  assumes "serverOptions E fl h = (Ok (mo, mcw, wcw), h')"
  obtains s h0 ws h1 ms where "baseTLSOpts E fl h = (s, h0)"
    and "certOpts E (mf_WebhookCertPath fl) (mf_WebhookCertName fl) (mf_WebhookCertKey fl) s h0 = (Ok (wcw, ws), h1)"
    and "certOpts E (mf_MetricsCertPath fl) (mf_MetricsCertName fl) (mf_MetricsCertKey fl) s h1 = (Ok (mcw, ms), h')"
    and "mo = managerOptions fl ms ws"
proof -
  obtain s h0 where b: "baseTLSOpts E fl h = (s, h0)" by fastforce
  with assms that show thesis by (auto simp: serverOptions_def and_then_Ok_iff)
qed

lemma serverOptions_contents:
  assumes "me_Grow E 0 = 1" and "me_Grow E 1 = 2" and "serverOptions E fl h = (Ok (mo, mcw, wcw), h')"
  shows "slice_contents h' (mo_WebhookTLSOpts mo) = base_opts fl
      @ cert_opt (own_cert (mf_WebhookCertPath fl) (mf_WebhookCertName fl) (mf_WebhookCertKey fl))"
    and "slice_contents h' (mo_MetricsTLSOpts mo) = base_opts fl
      @ cert_opt (own_cert (mf_MetricsCertPath fl) (mf_MetricsCertName fl) (mf_MetricsCertKey fl))"
proof -
  from serverOptions_Ok [OF assms(3)] obtain s h0 ws h1 ms where
    b: "baseTLSOpts E fl h = (s, h0)"
    and w: "certOpts E (mf_WebhookCertPath fl) (mf_WebhookCertName fl) (mf_WebhookCertKey fl) s h0 = (Ok (wcw, ws), h1)"
    and m: "certOpts E (mf_MetricsCertPath fl) (mf_MetricsCertName fl) (mf_MetricsCertKey fl) s h1 = (Ok (mcw, ms), h')"
    and mo: "mo = managerOptions fl ms ws" by metis
  from baseTLSOpts_facts [OF assms(1,2) b] have s: "slice_wf h0 s" "slice_full h0 s" "slice_contents h0 s = base_opts fl"
    by simp_all
  note wf = certOpts_facts [OF w s(1,2)]
  from wf(4) [OF s(1)] s have s1: "slice_wf h1 s" "slice_full h1 s" "slice_contents h1 s = base_opts fl" by simp_all
  note mf = certOpts_facts [OF m s1(1,2)]
  show "slice_contents h' (mo_WebhookTLSOpts mo) = base_opts fl
      @ cert_opt (own_cert (mf_WebhookCertPath fl) (mf_WebhookCertName fl) (mf_WebhookCertKey fl))"
    using mf(4) [OF wf(3)] wf(1,2) s(3) by (simp add: mo managerOptions_def)
  show "slice_contents h' (mo_MetricsTLSOpts mo) = base_opts fl
      @ cert_opt (own_cert (mf_MetricsCertPath fl) (mf_MetricsCertName fl) (mf_MetricsCertKey fl))"
    using mf(1,2) s1(3) by (simp add: mo managerOptions_def)
qed

section \<open>The run of the manager\<close>

lemma try_call_then: "and_then (try_call E c s) k = (if me_Call E c then k () s else (Err 1, s))"
  by (simp add: try_call_def)

lemmas run_defs = runManager_def SetupWithManager_ps_def SetupWithManager_set_def setupWebhooks_def
  SetupOpenStackBaremetalSetWebhookWithManager_def SetupOpenStackProvisionServerWebhookWithManager_def
  SetupWebhookClient_def SetupOpenStackProvisionServerDefaults_def addWatcher_def setupChecks_def try_call_then Let_def

lemma package_vars_frame [simp]:
  "mg_Options (SetupOpenStackProvisionServerDefaults d m) = mg_Options m"
  "mg_Started (SetupOpenStackProvisionServerDefaults d m) = mg_Started m"
  "mg_Started (SetupWebhookClient m) = mg_Started m"
  by (simp_all add: SetupOpenStackProvisionServerDefaults_def SetupWebhookClient_def)

lemma runManager_options: "mg_Options (snd (runManager E mcw wcw m)) = mg_Options m"
proof -
  have c: "mg_Options (snd (try_call E c x)) = mg_Options x" for c x by (simp add: try_call_def)
  have w: "mg_Options (snd (addWatcher E cw x)) = mg_Options x" for cw x
    by (simp add: addWatcher_def try_call_def split: option.split)
  have s: "mg_Options (snd (SetupWithManager_ps E x)) = mg_Options x"
    "mg_Options (snd (SetupWithManager_set E x)) = mg_Options x"
    "mg_Options (snd (setupWebhooks E x)) = mg_Options x"
    "mg_Options (snd (setupChecks E ch x)) = mg_Options x" for ch x
    by (simp_all add: run_defs try_call_def)
  show ?thesis
    unfolding runManager_def Let_def
    by (intro and_then_inv [of "\<lambda>x. mg_Options x = mg_Options m"]) (simp_all add: c w s)
qed

text \<open>A manager that has started has passed every call before the start.\<close>

lemma started_then:
  "\<not> mg_Started (snd f) \<Longrightarrow>
   mg_Started (snd (and_then f k)) \<longleftrightarrow> (\<exists>x s. f = (Ok x, s) \<and> mg_Started (snd (k x s)))"
  by (cases f; cases "fst f") auto

lemma part_started:
  "mg_Started (snd (try_call E c m)) = mg_Started m" "mg_Started (snd (SetupWithManager_ps E m)) = mg_Started m"
  "mg_Started (snd (SetupWithManager_set E m)) = mg_Started m"
  "mg_Started (snd (setupWebhooks E m)) = mg_Started m" "mg_Started (snd (setupChecks E ch m)) = mg_Started m"
  "mg_Started (snd (addWatcher E cw m)) = mg_Started m"
  by (simp_all add: run_defs try_call_def split: option.split)

lemma part_Ok:
  "try_call E c m = (Ok u, s) \<Longrightarrow> me_Call E c \<and> s = m"
  "SetupWithManager_ps E m = (Ok u, s) \<Longrightarrow> me_Call E (CSetupController ''OpenStackProvisionServer'')"
  "SetupWithManager_set E m = (Ok u, s) \<Longrightarrow> me_Call E (CSetupController ''OpenStackBaremetalSet'')"
  "setupWebhooks E m = (Ok ch, s) \<Longrightarrow> webhooks_enabled E \<longrightarrow>
     me_Call E (CSetupWebhook ''OpenStackBaremetalSet'') \<and> me_Call E (CSetupWebhook ''OpenStackProvisionServer'')"
  "setupChecks E ch m = (Ok u, s) \<Longrightarrow> me_Call E CAddHealthzCheck \<and> me_Call E CAddReadyzCheck"
  "addWatcher E cw m = (Ok u, s) \<Longrightarrow> \<forall>x \<in> set_option cw. me_Call E (CAdd x)"
  by (auto simp: run_defs try_call_def webhooks_enabled_def split: if_splits option.splits)

lemma started_conj:
  assumes "mg_Started (snd (and_then f k))" and "\<not> mg_Started (snd f)"
    and "\<And>x s. f = (Ok x, s) \<Longrightarrow> P"
    and "\<And>x s. \<not> mg_Started s \<Longrightarrow> mg_Started (snd (k x s)) \<Longrightarrow> Q"
  shows "P \<and> Q"
  using assms started_then [OF assms(2), of k] by (metis snd_conv)

lemma runManager_calls:
  assumes "mg_Started (snd (runManager E mcw wcw m))" and "\<not> mg_Started m"
  shows "me_Call E CGetConfig \<and> me_Call E CNewForConfig
    \<and> me_Call E (CSetupController ''OpenStackProvisionServer'') \<and> me_Call E (CSetupController ''OpenStackBaremetalSet'')
    \<and> (webhooks_enabled E \<longrightarrow> me_Call E (CSetupWebhook ''OpenStackBaremetalSet'')
         \<and> me_Call E (CSetupWebhook ''OpenStackProvisionServer''))
    \<and> (\<forall>x \<in> set_option mcw. me_Call E (CAdd x)) \<and> (\<forall>x \<in> set_option wcw. me_Call E (CAdd x))
    \<and> (me_Call E CAddHealthzCheck \<and> me_Call E CAddReadyzCheck) \<and> True"
  using assms unfolding runManager_def Let_def
  by (elim started_conj) (simp_all add: part_started part_Ok)

lemma new_manager_unstarted: "\<not> mg_Started (new_manager mo)"
  by (simp add: new_manager_def)

lemma runManager_started:
  assumes "mg_Started (snd (runManager E mcw wcw (new_manager mo)))"
  shows "runManager E mcw wcw (new_manager mo) = (if me_Call E CStart then Ok () else Err 1, running E mo mcw wcw)"
  using runManager_calls [OF assms new_manager_unstarted]
  by (cases mcw; cases wcw; cases "webhooks_enabled E")
    (simp_all add: run_defs new_manager_def running_def watchers_def webhooks_enabled_def try_call_def)

lemma main_manager:
  assumes "main E fl = (r, Some m, h)"
  obtains mo mcw wcw where "serverOptions E fl [] = (Ok (mo, mcw, wcw), h)"
    and "runManager E mcw wcw (new_manager mo) = (r, m)"
  using assms by (auto simp: main_def split: prod.splits outcome.splits if_splits)

section \<open>Properties\<close>

text \<open>C33. The manager starts only when everything is set up: at that moment both controllers are registered with
  what they watch, the defaults of the provision servers are read, both webhooks and their client are set up
  unless the environment disables them, the certificate watchers of the configured paths are added, and the
  health and the readiness check wait for the webhook server exactly when there are webhooks; and the scheme that the
  initialisation of the program has filled knows every kind that a controller watches or a webhook
  serves. The process then exits with an error exactly when the manager does.\<close>

theorem manager_started_complete:
  assumes "main E fl = (r, Some m, h)" and "mg_Started m" and "scheme_laws S types" and "init_scheme L S = Ok sc"
  shows "r = (if me_Call E CStart then Ok () else Err 1)
    \<and> mg_Controllers m =
        [[For ''OpenStackProvisionServer'', Owns ''Deployment'', Owns ''ConfigMap'', Owns ''ServiceAccount'',
          Owns ''Role'', Owns ''RoleBinding''],
         [For ''OpenStackBaremetalSet'', Owns ''OpenStackProvisionServer'', WatchesStatus ''BareMetalHost'']]
    \<and> mg_Defaults m = Some (SetupDefaults (me_GetEnvVar E))
    \<and> mg_Webhooks m = (if webhooks_enabled E then [''OpenStackBaremetalSet'', ''OpenStackProvisionServer''] else [])
    \<and> mg_WebhookClient m = webhooks_enabled E
    \<and> mg_Runnables m = watchers (own_cert (mf_MetricsCertPath fl) (mf_MetricsCertName fl) (mf_MetricsCertKey fl))
        (own_cert (mf_WebhookCertPath fl) (mf_WebhookCertName fl) (mf_WebhookCertKey fl))
    \<and> mg_Healthz m = [(''healthz'', if webhooks_enabled E then WebhookStarted else Ping)]
    \<and> mg_Readyz m = [(''readyz'', if webhooks_enabled E then WebhookStarted else Ping)]
    \<and> (\<forall>x \<in> set (concat (mg_Controllers m)). knows_kind S sc (watch_kind x))
    \<and> (\<forall>k \<in> set (mg_Webhooks m). knows_kind S sc k)"
proof -
  have k: "knows_kind S sc k" if "k \<in> fst ` set (clientgo_kinds @ metal3_kinds @ own_kinds)" for k
    using scheme_laws.init_scheme_knows [OF assms(3,4) that] .
  have kinds: "knows_kind S sc ''OpenStackProvisionServer''" "knows_kind S sc ''OpenStackBaremetalSet''"
    "knows_kind S sc ''Deployment''" "knows_kind S sc ''ConfigMap''" "knows_kind S sc ''ServiceAccount''"
    "knows_kind S sc ''Role''" "knows_kind S sc ''RoleBinding''" "knows_kind S sc ''BareMetalHost''"
    by (rule k; simp add: clientgo_kinds_def metal3_kinds_def own_kinds_def)+
  from main_manager [OF assms(1)] obtain mo mcw wcw where
    s: "serverOptions E fl [] = (Ok (mo, mcw, wcw), h)" and run: "runManager E mcw wcw (new_manager mo) = (r, m)" by metis
  have "mcw = own_cert (mf_MetricsCertPath fl) (mf_MetricsCertName fl) (mf_MetricsCertKey fl)"
    "wcw = own_cert (mf_WebhookCertPath fl) (mf_WebhookCertName fl) (mf_WebhookCertKey fl)"
    using serverOptions_Ok [OF s] certOpts_watcher by metis+
  with runManager_started [of E mcw wcw mo] run assms(2) kinds show ?thesis
    by (cases "webhooks_enabled E") (simp_all add: running_def Let_def watch_kind_def)
qed

lemmas sample_defs = main_def serverOptions_def baseTLSOpts_def certOpts_def cert_flags_def default_flags_def
  try_call_def managerOptions_def slice_append_def slice_contents_def

lemma sample_main:
  "\<exists>m h. main calm_env cert_flags = (Ok (), Some m, h) \<and> mg_Started m"
  by (simp add: sample_defs calm_env_def run_defs new_manager_def)

theorem manager_started_complete_witness:
  "\<exists>m h. main calm_env cert_flags = (Ok (), Some m, h) \<and> mg_Webhooks m = [] \<and> length (mg_Runnables m) = 2
     \<and> (\<forall>x \<in> set (concat (mg_Controllers m)).
          knows_kind ref_schemes (clientgo_kinds @ metal3_kinds @ own_kinds @ meta_kinds GroupVersion) (watch_kind x))"
proof -
  obtain m h where m: "main calm_env cert_flags = (Ok (), Some m, h)" "mg_Started m" using sample_main by blast
  have "\<not> webhooks_enabled calm_env" by (simp add: webhooks_enabled_def calm_env_def to_lower_def char_of_def bit_0)
  with manager_started_complete [OF m ref_schemes.scheme_laws_axioms ref_init_scheme] m(1) show ?thesis
    by (simp add: watchers_def own_cert_def cert_flags_def default_flags_def)
qed

text \<open>C34. The TLS configurations of the two servers: with the capacities that the runtime gives to short slices,
  both the webhook server and the metrics server require TLS 1.3, speak only HTTP/1.1 unless HTTP/2 is enabled,
  and each gets the certificate of its own watcher, although the options of both are appended to the
  same slice.\<close>

theorem servers_have_own_certificates:
  assumes "me_Grow E 0 = 1" and "me_Grow E 1 = 2" and "main E fl = (r, Some m, h)"
    and "webhook = applyTLS (slice_contents h (mo_WebhookTLSOpts (mg_Options m))) c"
    and "metrics = applyTLS (slice_contents h (mo_MetricsTLSOpts (mg_Options m))) c"
    and "tc_GetCertificate c = None"
  shows "tc_MinVersion webhook = VersionTLS13 \<and> tc_MinVersion metrics = VersionTLS13
    \<and> (\<not> mf_EnableHTTP2 fl \<longrightarrow> tc_NextProtos webhook = [''http/1.1''] \<and> tc_NextProtos metrics = [''http/1.1''])
    \<and> tc_GetCertificate webhook = own_cert (mf_WebhookCertPath fl) (mf_WebhookCertName fl) (mf_WebhookCertKey fl)
    \<and> tc_GetCertificate metrics = own_cert (mf_MetricsCertPath fl) (mf_MetricsCertName fl) (mf_MetricsCertKey fl)"
proof -
  from main_manager [OF assms(3)] obtain mo mcw wcw where
    s: "serverOptions E fl [] = (Ok (mo, mcw, wcw), h)" and run: "runManager E mcw wcw (new_manager mo) = (r, m)" by metis
  have "mg_Options m = mo" using runManager_options [of E mcw wcw "new_manager mo"] run by (simp add: new_manager_def)
  then have "webhook = applyTLS (base_opts fl
        @ cert_opt (own_cert (mf_WebhookCertPath fl) (mf_WebhookCertName fl) (mf_WebhookCertKey fl))) c"
    "metrics = applyTLS (base_opts fl
        @ cert_opt (own_cert (mf_MetricsCertPath fl) (mf_MetricsCertName fl) (mf_MetricsCertKey fl))) c"
    using serverOptions_contents [OF assms(1,2) s] assms(4,5) by simp_all
  then show ?thesis using assms(6)
    by (simp add: applyTLS_def base_opts_def cert_opt_def tls_apply_def split: option.splits)
qed

theorem servers_have_own_certificates_witness:
  "\<exists>m h. main calm_env cert_flags = (Ok (), Some m, h)
     \<and> tc_GetCertificate (applyTLS (slice_contents h (mo_WebhookTLSOpts (mg_Options m)))
          \<lparr>tc_MinVersion = 0, tc_NextProtos = [''h2''], tc_GetCertificate = None\<rparr>)
        = Some (filepath_Join ''/webhook'' ''tls.crt'', filepath_Join ''/webhook'' ''tls.key'')"
proof -
  obtain m h where m: "main calm_env cert_flags = (Ok (), Some m, h)" using sample_main by blast
  have "me_Grow calm_env 0 = 1" "me_Grow calm_env 1 = 2" by (simp_all add: calm_env_def go_grow_def)
  from servers_have_own_certificates [OF this m refl refl, of "\<lparr>tc_MinVersion = 0, tc_NextProtos = [''h2''], tc_GetCertificate = None\<rparr>"] m
  show ?thesis by (simp add: own_cert_def cert_flags_def default_flags_def)
qed

text \<open>The law on the capacities is needed: with a growth that leaves spare capacity, which the language allows,
  the append for the metrics server overwrites the option of the webhook server.\<close>

theorem spare_capacity_mixes_certificates:
  "\<exists>m h. main (calm_env\<lparr>me_Grow := \<lambda>n. n + 3\<rparr>) cert_flags = (Ok (), Some m, h)
     \<and> tc_GetCertificate (applyTLS (slice_contents h (mo_WebhookTLSOpts (mg_Options m))) c)
        = Some (filepath_Join ''/metrics/'' ''tls.crt'', filepath_Join ''/metrics/'' ''tls.key'')"
  by (simp add: sample_defs calm_env_def run_defs new_manager_def applyTLS_def tls_apply_def numeral_2_eq_2)

end
