(* ===== verification/Ownership.thy ===== *)
theory Ownership
  imports SetSafety
begin

text \<open>
  Which set a bare metal host belongs to. Several sets share the hosts of a namespace: a set finds its
  hosts by the labels that provisioning puts on them and by the entries of its status, and takes a free
  host by writing itself as its consumer.

  The theory states when the hosts, their labels and the statuses agree (\<open>labelled\<close>, \<open>owns_hosts\<close>), what
  a reconciliation of a set may do to the hosts (\<open>touched_by\<close>), and the laws of a cluster
  (\<open>host_store\<close>, \<open>set_store\<close>); and proves that the patch, the release and the record of one host
  keep the agreement. \<open>OwnershipKept\<close> carries this through a reconciliation.
\<close>

section \<open>Agreement of hosts, labels and statuses\<close>

type_synonym host_view = "string \<times> string \<Rightarrow> BareMetalHost option"

definition bmh_key :: "BareMetalHost \<Rightarrow> string \<times> string" where
  "bmh_key b = (bmh_Name b, om_Namespace (bmh_Meta b))"

definition consumer_ref :: "OpenStackBaremetalSet \<Rightarrow> ObjectReference" where
  "consumer_ref i = \<lparr>or_Kind = set_Kind i, or_Namespace = set_Namespace i, or_Name = set_Name i\<rparr>"

definition uid_key :: "lib \<Rightarrow> string" where
  "uid_key L = GetOwnerUIDLabelSelector L (GetGroupLabel L ServiceName)"

definition uid_label :: "lib \<Rightarrow> BareMetalHost \<Rightarrow> string option" where
  "uid_label L b = gm_get (bmh_Labels b) (uid_key L)"

definition hostname_label :: "string \<Rightarrow> BareMetalHost \<Rightarrow> string option" where
  "hostname_label n b = gm_get (bmh_Labels b) (n @ HostnameLabelSelectorSuffix)"

text \<open>A label of the operator is only on a host with a consumer, and the label with the host name only on
  a host whose consumer has the name that the label begins with.\<close>

definition well_labelled :: "lib \<Rightarrow> BareMetalHost \<Rightarrow> bool" where
  "well_labelled L b \<longleftrightarrow>
     (uid_label L b \<noteq> None \<longrightarrow> bmh_ConsumerRef b \<noteq> None)
     \<and> (\<forall>n. hostname_label n b \<noteq> None \<longrightarrow> map_option or_Name (bmh_ConsumerRef b) = Some n)"

definition labelled :: "lib \<Rightarrow> host_view \<Rightarrow> bool" where
  "labelled L H \<longleftrightarrow> (\<forall>k. pred_option (well_labelled L) (H k))"

text \<open>A host with the identifier of the set is consumed by it; the host of an entry of the status, if it
  still exists, is consumed by the set and labelled with the name of the entry.\<close>

definition owns_hosts :: "lib \<Rightarrow> host_view \<Rightarrow> OpenStackBaremetalSet \<Rightarrow> bool" where
  "owns_hosts L H i \<longleftrightarrow>
     gm_wf (spec_hosts i) \<and> gm_wf (status_hosts i) \<and> status_consistent i
     \<and> (\<forall>k b. H k = Some b \<longrightarrow> uid_label L b = Some (om_UID (set_Meta i)) \<longrightarrow>
          bmh_ConsumerRef b = Some (consumer_ref i))
     \<and> (\<forall>h st b. gm_get (status_hosts i) h = Some st \<longrightarrow>
          H (ip_BmhRef st, ts_BmhNamespace (set_Spec i)) = Some b \<longrightarrow>
          bmh_ConsumerRef b = Some (consumer_ref i) \<and> hostname_label (set_Name i) b = Some h)"

text \<open>What a set may do to a host: only a free host or one of its own changes, and it is free or its own
  afterwards.\<close>

definition may_change :: "lib \<Rightarrow> OpenStackBaremetalSet \<Rightarrow> BareMetalHost \<Rightarrow> BareMetalHost \<Rightarrow> bool" where
  "may_change L i b b' \<longleftrightarrow>
     bmh_ConsumerRef b \<in> {None, Some (consumer_ref i)}
     \<and> (bmh_ConsumerRef b' = None
        \<or> bmh_ConsumerRef b' = Some (consumer_ref i) \<and> uid_label L b' = Some (om_UID (set_Meta i)))"

definition touched_by :: "lib \<Rightarrow> OpenStackBaremetalSet \<Rightarrow> host_view \<Rightarrow> host_view \<Rightarrow> bool" where
  "touched_by L i H H' \<longleftrightarrow>
     (\<forall>k. H' k = H k
        \<or> (case (H k, H' k) of (Some b, Some b') \<Rightarrow> may_change L i b b' | _ \<Rightarrow> False))"

lemma touched_by_refl [simp]: "touched_by L i H H"
  by (simp add: touched_by_def)

lemma may_change_trans: "may_change L i a b \<Longrightarrow> may_change L i b c \<Longrightarrow> may_change L i a c"
  by (simp add: may_change_def)

lemma touched_by_trans:
  assumes "touched_by L i H H'" and "touched_by L i H' H''"
  shows "touched_by L i H H''"
  unfolding touched_by_def
proof
  fix k
  from assms(1) [unfolded touched_by_def, rule_format, of k]
    assms(2) [unfolded touched_by_def, rule_format, of k]
  show "H'' k = H k
      \<or> (case (H k, H'' k) of (Some b, Some b') \<Rightarrow> may_change L i b b' | _ \<Rightarrow> False)"
    by (cases "H k"; cases "H' k"; cases "H'' k") (auto intro: may_change_trans)
qed

lemma touched_by_upd:
  "H k = Some b \<Longrightarrow> may_change L i b b' \<Longrightarrow> touched_by L i H (H(k \<mapsto> b'))"
  by (simp add: touched_by_def)

text \<open>The identity of a set, which no reconciliation changes.\<close>

definition same_set :: "OpenStackBaremetalSet \<Rightarrow> OpenStackBaremetalSet \<Rightarrow> bool" where
  "same_set i j \<longleftrightarrow> set_Kind j = set_Kind i \<and> set_Name j = set_Name i \<and> set_Namespace j = set_Namespace i
     \<and> om_UID (set_Meta j) = om_UID (set_Meta i)
     \<and> ts_BmhNamespace (set_Spec j) = ts_BmhNamespace (set_Spec i)"

lemma same_set_refl [simp]: "same_set i i"
  by (simp add: same_set_def)

lemma same_set_trans: "same_set i j \<Longrightarrow> same_set j k \<Longrightarrow> same_set i k"
  by (simp add: same_set_def)

lemma frame_same_set: "frame i j \<Longrightarrow> same_set i j"
  by (simp add: frame_def same_set_def)

lemma same_set_ref: "same_set i j \<Longrightarrow> consumer_ref j = consumer_ref i"
  by (simp add: same_set_def consumer_ref_def)

lemma same_set_change: "same_set i j \<Longrightarrow> may_change L j = may_change L i"
  unfolding same_set_def by (intro ext) (simp add: may_change_def consumer_ref_def)

lemma same_set_touched:
  assumes "same_set i j"
  shows "touched_by L j = touched_by L i"
  unfolding touched_by_def same_set_change [OF assms] by (rule refl)

lemma owns_hostsI:
  assumes "gm_wf (spec_hosts i)" and "gm_wf (status_hosts i)" and "status_consistent i"
    and "\<And>k b. H k = Some b \<Longrightarrow> uid_label L b = Some (om_UID (set_Meta i)) \<Longrightarrow>
      bmh_ConsumerRef b = Some (consumer_ref i)"
    and "\<And>h st b. gm_get (status_hosts i) h = Some st \<Longrightarrow>
      H (ip_BmhRef st, ts_BmhNamespace (set_Spec i)) = Some b \<Longrightarrow>
      bmh_ConsumerRef b = Some (consumer_ref i) \<and> hostname_label (set_Name i) b = Some h"
  shows "owns_hosts L H i"
  using assms unfolding owns_hosts_def by blast

lemma owns_hostsD:
  assumes "owns_hosts L H i"
  shows "gm_wf (spec_hosts i)" and "gm_wf (status_hosts i)" and "status_consistent i"
    and "H k = Some b \<Longrightarrow> uid_label L b = Some (om_UID (set_Meta i)) \<Longrightarrow>
      bmh_ConsumerRef b = Some (consumer_ref i)"
    and "gm_get (status_hosts i) h = Some st \<Longrightarrow>
      H (ip_BmhRef st, ts_BmhNamespace (set_Spec i)) = Some b \<Longrightarrow>
      bmh_ConsumerRef b = Some (consumer_ref i) \<and> hostname_label (set_Name i) b = Some h"
  using assms unfolding owns_hosts_def by blast+

text \<open>Entries may go.\<close>

lemma owns_hosts_fewer:
  assumes "owns_hosts L H i" and "same_set i j" and "gm_wf (spec_hosts j)" and "gm_wf (status_hosts j)"
    and "\<And>h st. gm_get (status_hosts j) h = Some st \<Longrightarrow> gm_get (status_hosts i) h = Some st"
  shows "owns_hosts L H j"
proof (rule owns_hostsI)
  note d = owns_hostsD [OF assms(1)] and r = same_set_ref [OF assms(2)]
  show "status_consistent j" using d(3) assms(5) by (auto simp: status_consistent_def)
  show "bmh_ConsumerRef b = Some (consumer_ref j)"
    if "H k = Some b" "uid_label L b = Some (om_UID (set_Meta j))" for k b
    using d(4) [of k b] that assms(2) r by (simp add: same_set_def)
  show "bmh_ConsumerRef b = Some (consumer_ref j) \<and> hostname_label (set_Name j) b = Some h"
    if "gm_get (status_hosts j) h = Some st" "H (ip_BmhRef st, ts_BmhNamespace (set_Spec j)) = Some b" for h st b
    using d(5) [OF assms(5) [OF that(1)], of b] that(2) assms(2) r by (simp add: same_set_def)
qed (fact assms)+

section \<open>The laws of a cluster\<close>

text \<open>\<open>hosts\<close> and \<open>sets\<close> are what a cluster stores. Reads return what is stored, a write changes the object
  it names and no other, and the name of an object is not empty. A call may fail, and an update or a patch that
  fails may have been applied, but not an update of an object that was not found. Nothing is said of when a call succeeds.\<close>

locale host_store = lib_laws L for L :: lib +
  fixes cl :: "'w client" and hosts :: "'w \<Rightarrow> host_view"
  assumes owner_key: "k \<in> {GetOwnerUIDLabelSelector L (GetGroupLabel L ServiceName),
      GetOwnerNameSpaceLabelSelector L (GetGroupLabel L ServiceName),
      GetOwnerNameLabelSelector L (GetGroupLabel L ServiceName)} \<Longrightarrow> k \<noteq> n @ HostnameLabelSelectorSuffix"
    and stored_key: "hosts w c = Some b \<Longrightarrow> bmh_key b = c \<and> fst c \<noteq> []"
    and list_stored: "List_bmhs cl w opts = Ok bs \<Longrightarrow> b \<in> set bs \<Longrightarrow> hosts w (bmh_key b) = Some b"
    and list_namespace: "List_bmhs cl w opts = Ok bs \<Longrightarrow> b \<in> set bs \<Longrightarrow> InNamespace ns \<in> set opts \<Longrightarrow>
      om_Namespace (bmh_Meta b) = ns"
    and list_labels: "List_bmhs cl w opts = Ok bs \<Longrightarrow> b \<in> set bs \<Longrightarrow> MatchingLabels ls \<in> set opts \<Longrightarrow>
      gm_get ls x = Some v \<Longrightarrow> gm_get (bmh_Labels b) x = Some v"
    and get_stored: "Get_bmh cl w n ns = Ok b \<Longrightarrow> hosts w (n, ns) = Some b"
    and patch_stored: "CreateOrPatch_bmh cl w b f = (r, w') \<Longrightarrow> hosts w (bmh_key b) = Some b0 \<Longrightarrow>
      (\<And>x y. f x = Ok y \<Longrightarrow> bmh_key y = bmh_key x) \<Longrightarrow>
      hosts w' = hosts w \<and> \<not> (\<exists>b'. r = Ok b')
      \<or> (\<exists>b'. f b0 = Ok b' \<and> hosts w' = (hosts w)(bmh_key b \<mapsto> b'))"
    and update_stored: "Update_bmh cl w b = (q, w') \<Longrightarrow>
      hosts w' = (hosts w)(bmh_key b \<mapsto> b) \<or> hosts w' = hosts w \<and> q \<noteq> Ok ()"
    and update_missing: "Update_bmh cl w b = (Err e, w') \<Longrightarrow> IsNotFound e \<Longrightarrow> hosts w' = hosts w"
    and secrets_hosts: "hosts (snd (EnsureSecrets cl w i ts env)) = hosts w"
      "hosts (snd (DeleteSecretsWithName cl w n ns)) = hosts w"
    and servers_hosts: "hosts (snd (Delete_ps cl w p)) = hosts w"
      "hosts (snd (CreateOrPatch_ps cl w p f')) = hosts w"
    and patch_set_hosts: "hosts (snd (PatchInstance_set cl w i)) = hosts w"

definition set_key :: "OpenStackBaremetalSet \<Rightarrow> string \<times> string" where
  "set_key i = (set_Name i, set_Namespace i)"

text \<open>\<open>set_store\<close> adds the stored sets: a patch that succeeds has stored the instance, or the set is gone with
  its last finalizer; a secret that is already absent is deleted without an error.\<close>

locale set_store = host_store L cl hosts for L and cl :: "'w client" and hosts +
  fixes sets :: "'w \<Rightarrow> string \<times> string \<Rightarrow> OpenStackBaremetalSet option"
  assumes set_stored_key: "sets w c = Some i \<Longrightarrow> set_key i = c"
    and get_set: "Get_set cl w n ns = Ok i \<Longrightarrow> sets w (n, ns) = Some i"
    and set_patched: "PatchInstance_set cl w i = (Ok (), w') \<Longrightarrow>
      sets w' = (sets w)(set_key i \<mapsto> i) \<or> sets w' = (sets w)(set_key i := None)"
    and absent_deleted: "DeleteSecretsWithName cl w n ns = (Err e, w') \<Longrightarrow> \<not> IsNotFound e"
    and hosts_sets: "sets (snd (CreateOrPatch_bmh cl w b f)) = sets w"
      "sets (snd (Update_bmh cl w b)) = sets w"
    and secrets_sets: "sets (snd (EnsureSecrets cl w i ts env)) = sets w"
      "sets (snd (DeleteSecretsWithName cl w n ns)) = sets w"
    and servers_sets: "sets (snd (Delete_ps cl w p)) = sets w"
      "sets (snd (CreateOrPatch_ps cl w p f')) = sets w"

text \<open>Whether a cluster is reliable is not among its laws: where a property needs it, it says so.\<close>

definition secrets_deletable :: "'w client \<Rightarrow> bool" where
  "secrets_deletable cl \<longleftrightarrow> (\<forall>w n ns. fst (DeleteSecretsWithName cl w n ns) = Ok ())"

text \<open>A failed update of a host was not applied.\<close>

definition updates_atomic :: "'w client \<Rightarrow> ('w \<Rightarrow> host_view) \<Rightarrow> bool" where
  "updates_atomic cl hosts \<longleftrightarrow> (\<forall>w b q w'. Update_bmh cl w b = (q, w') \<longrightarrow> q = Ok () \<or> hosts w' = hosts w)"

abbreviation (input) whole_releases :: "'w client \<Rightarrow> ('w \<Rightarrow> host_view) \<Rightarrow> bool" where
  "whole_releases cl hosts \<equiv> secrets_deletable cl \<and> updates_atomic cl hosts"

definition sets_patchable :: "'w client \<Rightarrow> bool" where
  "sets_patchable cl \<longleftrightarrow> (\<forall>w i. fst (PatchInstance_set cl w i) = Ok ())"

section \<open>The patch and the release keep the labels\<close>

lemma bmh_key_patched [simp]:
  "bmh_key (provisionMutate L i h ps u n b) = bmh_key b" "bmh_key (releaseHost L i h b) = bmh_key b"
  by (simp_all add: bmh_key_def releaseHost_def)

lemma patched_consumer:
  "bmh_ConsumerRef (provisionMutate L i h ps u n b) =
     (if bmh_ConsumerRef b = None then Some (consumer_ref i) else bmh_ConsumerRef b)"
  by (simp add: provisionMutate_claimed provisionMutate_unclaimed consumer_ref_def)

lemma suffix_inj: "n @ HostnameLabelSelectorSuffix = m @ HostnameLabelSelectorSuffix \<longleftrightarrow> n = m"
  by simp

context host_store begin

lemma owner_key_simps [simp]:
  "n @ HostnameLabelSelectorSuffix \<noteq> GetOwnerUIDLabelSelector L (GetGroupLabel L ServiceName)"
  "n @ HostnameLabelSelectorSuffix \<noteq> GetOwnerNameSpaceLabelSelector L (GetGroupLabel L ServiceName)"
  "n @ HostnameLabelSelectorSuffix \<noteq> GetOwnerNameLabelSelector L (GetGroupLabel L ServiceName)"
  using owner_key by (metis insertCI)+

lemma hostLabels_get:
  "gm_get (hostLabels L i h) (uid_key L) = Some (om_UID (set_Meta i))"
  "gm_get (hostLabels L i h) (n @ HostnameLabelSelectorSuffix) = (if n = set_Name i then Some h else None)"
  by (simp_all add: hostLabels_def GetLabels_get uid_key_def gm_get_literal)

lemma patched_labels:
  "uid_label L (provisionMutate L i h ps u n b) =
     (case uid_label L b of Some v \<Rightarrow> Some v | None \<Rightarrow> Some (om_UID (set_Meta i)))"
  "hostname_label m (provisionMutate L i h ps u n b) =
     (case hostname_label m b of Some v \<Rightarrow> Some v | None \<Rightarrow> if m = set_Name i then Some h else None)"
  by (simp_all only: uid_label_def hostname_label_def provisionMutate_labels hostLabels_get)

lemma released_labels:
  "uid_label L (releaseHost L i h b) = None"
  "hostname_label m (releaseHost L i h b) = (if m = set_Name i then None else hostname_label m b)"
  by (simp_all add: uid_label_def hostname_label_def releaseHost_labels hostLabels_keys uid_key_def)

lemma patched_well_labelled:
  assumes "well_labelled L b" and "bmh_ConsumerRef b \<in> {None, Some (consumer_ref i)}"
  shows "well_labelled L (provisionMutate L i h ps u n b)"
proof -
  have "or_Name (consumer_ref i) = set_Name i" by (simp add: consumer_ref_def)
  with assms show ?thesis
    by (auto simp: well_labelled_def patched_labels patched_consumer split: option.splits if_splits)
qed

lemma released_well_labelled:
  assumes "well_labelled L b" and "bmh_ConsumerRef b = Some (consumer_ref i)"
  shows "well_labelled L (releaseHost L i h b)"
  using assms by (auto simp: well_labelled_def released_labels consumer_ref_def split: if_splits)

end

section \<open>One host\<close>

text \<open>What holds of the instance and the cluster at every point of a reconciliation that began in
  \<open>(i0, w0)\<close>.\<close>

definition keeps_own ::
  "lib \<Rightarrow> ('w \<Rightarrow> host_view) \<Rightarrow> ('w \<Rightarrow> 'k \<Rightarrow> OpenStackBaremetalSet option) \<Rightarrow>
   OpenStackBaremetalSet \<times> 'w \<Rightarrow> OpenStackBaremetalSet \<Rightarrow> 'w \<Rightarrow> bool" where
  "keeps_own L hosts sets s0 i w \<longleftrightarrow>
     same_set (fst s0) i \<and> labelled L (hosts w) \<and> owns_hosts L (hosts w) i
     \<and> touched_by L (fst s0) (hosts (snd s0)) (hosts w) \<and> sets w = sets (snd s0)"

text \<open>What holds even after a release that failed half way, which leaves the entry of a host that the set has
  given back.\<close>

definition touches_own ::
  "lib \<Rightarrow> ('w \<Rightarrow> host_view) \<Rightarrow> ('w \<Rightarrow> 'k \<Rightarrow> OpenStackBaremetalSet option) \<Rightarrow>
   OpenStackBaremetalSet \<times> 'w \<Rightarrow> OpenStackBaremetalSet \<Rightarrow> 'w \<Rightarrow> bool" where
  "touches_own L hosts sets s0 i w \<longleftrightarrow>
     same_set (fst s0) i \<and> touched_by L (fst s0) (hosts (snd s0)) (hosts w) \<and> sets w = sets (snd s0)"

lemma keeps_touches: "keeps_own L hosts sets s0 i w \<Longrightarrow> touches_own L hosts sets s0 i w"
  by (simp add: keeps_own_def touches_own_def)

lemma keeps_own_same:
  "keeps_own L hosts sets s0 i w \<Longrightarrow> hosts w' = hosts w \<Longrightarrow> sets w' = sets w \<Longrightarrow>
   keeps_own L hosts sets s0 i w'"
  by (simp add: keeps_own_def)

lemma keeps_own_fewer:
  assumes "keeps_own L hosts sets s0 i w" and "same_set i j" and "gm_wf (spec_hosts j)"
    and "gm_wf (status_hosts j)"
    and "\<And>h st. gm_get (status_hosts j) h = Some st \<Longrightarrow> gm_get (status_hosts i) h = Some st"
  shows "keeps_own L hosts sets s0 j w"
  using assms owns_hosts_fewer [OF _ assms(2-5)] same_set_trans by (auto simp: keeps_own_def)

lemma labelled_upd: "labelled L H \<Longrightarrow> well_labelled L b \<Longrightarrow> labelled L (H(k \<mapsto> b))"
  by (simp add: labelled_def)

lemma labelledD: "labelled L H \<Longrightarrow> H k = Some b \<Longrightarrow> well_labelled L b"
  unfolding labelled_def by (metis option.pred_inject(2))

text \<open>The host of an entry is released and the entry goes: no other entry has this host.\<close>

context set_store begin

abbreviation own :: "OpenStackBaremetalSet \<times> 'w \<Rightarrow> OpenStackBaremetalSet \<Rightarrow> 'w \<Rightarrow> bool" where
  "own \<equiv> keeps_own L hosts sets"

lemma own_released:
  assumes "own s0 i w" and e: "gm_get (status_hosts i) h = Some st"
    and b: "hosts w (ip_BmhRef st, ts_BmhNamespace (set_Spec i)) = Some b"
    and w': "hosts w' = (hosts w)(bmh_key b \<mapsto> releaseHost L i (ip_Hostname st) b)" "sets w' = sets w"
  shows "own s0 (set_status_hosts (gm_del (ip_Hostname st) (status_hosts i)) i) w'"
proof -
  let ?k = "(ip_BmhRef st, ts_BmhNamespace (set_Spec i))" and ?b' = "releaseHost L i (ip_Hostname st) b"
  let ?j = "set_status_hosts (gm_del (ip_Hostname st) (status_hosts i)) i"
  from assms(1) have s: "same_set (fst s0) i" and l: "labelled L (hosts w)" and o: "owns_hosts L (hosts w) i"
    and t: "touched_by L (fst s0) (hosts (snd s0)) (hosts w)" by (simp_all add: keeps_own_def)
  note d = owns_hostsD [OF o]
  have name: "ip_Hostname st = h" using d(3) e by (simp add: status_consistent_def)
  have own: "bmh_ConsumerRef b = Some (consumer_ref i)" "hostname_label (set_Name i) b = Some h"
    using d(5) [OF e b] by auto
  have k: "bmh_key b = ?k" using stored_key [OF b] by simp
  have "owns_hosts L (hosts w') ?j"
  proof (rule owns_hostsI)
    show "bmh_ConsumerRef c = Some (consumer_ref ?j)"
      if "hosts w' k = Some c" "uid_label L c = Some (om_UID (set_Meta ?j))" for k c
      using that d(4) [of k c] w'(1) released_labels(1) [of i "ip_Hostname st" b]
      by (auto simp: consumer_ref_def split: if_splits)
    show "bmh_ConsumerRef c = Some (consumer_ref ?j) \<and> hostname_label (set_Name ?j) c = Some g"
      if "gm_get (status_hosts ?j) g = Some tt" "hosts w' (ip_BmhRef tt, ts_BmhNamespace (set_Spec ?j)) = Some c"
      for g tt c
    proof -
      from that(1) name have g: "g \<noteq> h" "gm_get (status_hosts i) g = Some tt" by (auto split: if_splits)
      have "ip_BmhRef tt \<noteq> ip_BmhRef st" using d(5) [OF g(2), of b] b own(2) g(1) by auto
      then have "hosts w (ip_BmhRef tt, ts_BmhNamespace (set_Spec i)) = Some c" using that(2) w'(1) k by simp
      with d(5) [OF g(2), of c] show ?thesis by (simp add: consumer_ref_def)
    qed
  qed (use d(1-3) in \<open>auto simp: status_consistent_def\<close>)
  moreover have "may_change L i b ?b'" using own(1) by (simp add: may_change_def)
  with b k have "touched_by L i (hosts w) (hosts w')" using w'(1) touched_by_upd by metis
  then have "touched_by L (fst s0) (hosts (snd s0)) (hosts w')"
    using t same_set_touched [OF s] touched_by_trans by metis
  moreover have "labelled L (hosts w')"
    using l w'(1) labelled_upd released_well_labelled [OF labelledD [OF l b] own(1)] by simp
  ultimately show ?thesis using s w'(2) assms(1) by (simp add: keeps_own_def same_set_def)
qed

text \<open>A free host, or one with the identifier of the set, is patched.\<close>

lemma own_patched:
  assumes "own s0 i w" and b: "hosts w k = Some b"
    and free: "bmh_ConsumerRef b = None \<or> uid_label L b = Some (om_UID (set_Meta i))"
    and w': "hosts w' = (hosts w)(k \<mapsto> provisionMutate L i h ps u n b)" "sets w' = sets w"
  shows "own s0 i w'"
proof -
  let ?b' = "provisionMutate L i h ps u n b"
  from assms(1) have s: "same_set (fst s0) i" and l: "labelled L (hosts w)" and o: "owns_hosts L (hosts w) i"
    and t: "touched_by L (fst s0) (hosts (snd s0)) (hosts w)" by (simp_all add: keeps_own_def)
  note d = owns_hostsD [OF o]
  have c: "bmh_ConsumerRef b \<in> {None, Some (consumer_ref i)}" using free d(4) [OF b] by blast
  then have c': "bmh_ConsumerRef ?b' = Some (consumer_ref i)" by (auto simp: patched_consumer)
  have wl: "well_labelled L b" by (rule labelledD [OF l b])
  have uid: "uid_label L ?b' = Some (om_UID (set_Meta i))"
    using free wl by (auto simp: patched_labels well_labelled_def split: option.split)
  have "owns_hosts L (hosts w') i"
  proof (rule owns_hostsI)
    show "bmh_ConsumerRef x = Some (consumer_ref i)"
      if "hosts w' g = Some x" "uid_label L x = Some (om_UID (set_Meta i))" for g x
      using that d(4) [of g x] w'(1) c' by (auto split: if_splits)
    show "bmh_ConsumerRef x = Some (consumer_ref i) \<and> hostname_label (set_Name i) x = Some g"
      if e: "gm_get (status_hosts i) g = Some st" "hosts w' (ip_BmhRef st, ts_BmhNamespace (set_Spec i)) = Some x"
      for g st x
      using e(2) w'(1) c' d(5) [OF e(1), of b] d(5) [OF e(1), of x] b
      by (auto simp: patched_labels split: if_splits)
  qed (fact d)+
  moreover have "may_change L i b ?b'" using c c' uid by (simp add: may_change_def)
  with b have "touched_by L i (hosts w) (hosts w')" using w'(1) touched_by_upd by metis
  then have "touched_by L (fst s0) (hosts (snd s0)) (hosts w')"
    using t same_set_touched [OF s] touched_by_trans by metis
  moreover have "labelled L (hosts w')"
    using l w'(1) labelled_upd patched_well_labelled [OF wl c] by simp
  ultimately show ?thesis using s w'(2) assms(1) by (simp add: keeps_own_def)
qed

text \<open>An entry is written for a host that the set has.\<close>

lemma own_recorded:
  assumes "own s0 i w" and b: "hosts w (n, ts_BmhNamespace (set_Spec i)) = Some b"
    and own: "bmh_ConsumerRef b = Some (consumer_ref i)" "hostname_label (set_Name i) b = Some h"
    and st: "ip_Hostname st = h"
      "ip_BmhRef st = (case gm_get (status_hosts i) h of None \<Rightarrow> n | Some old \<Rightarrow> ip_BmhRef old)"
  shows "own s0 (set_status_hosts (gm_put h st (status_hosts i)) i) w"
proof -
  let ?j = "set_status_hosts (gm_put h st (status_hosts i)) i"
  from assms(1) have o: "owns_hosts L (hosts w) i" by (simp add: keeps_own_def)
  note d = owns_hostsD [OF o]
  have "owns_hosts L (hosts w) ?j"
  proof (rule owns_hostsI)
    show "bmh_ConsumerRef c = Some (consumer_ref ?j)"
      if "hosts w k = Some c" "uid_label L c = Some (om_UID (set_Meta ?j))" for k c
      using that d(4) [of k c] by (simp add: consumer_ref_def)
    show "bmh_ConsumerRef c = Some (consumer_ref ?j) \<and> hostname_label (set_Name ?j) c = Some g"
      if e: "gm_get (status_hosts ?j) g = Some tt" "hosts w (ip_BmhRef tt, ts_BmhNamespace (set_Spec ?j)) = Some c"
      for g tt c
    proof (cases "g = h")
      case True
      with e st d(5) [of h _ c] b own show ?thesis
        by (cases "gm_get (status_hosts i) h") (auto simp: consumer_ref_def)
    next
      case False
      with e d(5) [of g tt c] show ?thesis by (simp add: consumer_ref_def)
    qed
  qed (use d(1-3) st(1) in \<open>auto simp: status_consistent_def\<close>)
  with assms(1) show ?thesis by (simp add: keeps_own_def same_set_def)
qed

end

end
