(* ===== verification/OwnershipKept.thy ===== *)
theory OwnershipKept
  imports Ownership
begin

text \<open>
  A reconciliation of a set touches only free hosts and its own, whatever fails (\<open>Reconcile_touched\<close>), and
  keeps the agreement of hosts, labels and statuses unless a host was released whose entry then stayed
  (\<open>Reconcile_own\<close>): every operation on hosts, every phase and \<open>Reconcile_set\<close> as a whole keep
  \<open>touches_own\<close>, and \<open>keeps_own\<close> where no release failed half way.
\<close>

section \<open>The operations on hosts\<close>

text \<open>A result that says that no release was left half way: a success, or that an object was not found.\<close>

definition release_clean :: "'a result \<Rightarrow> bool" where
  "release_clean r \<longleftrightarrow> (case r of Ok _ \<Rightarrow> True | Err e \<Rightarrow> IsNotFound e | Panic _ \<Rightarrow> False)"

context set_store begin

lemma deleteSecrets_view:
  "\<exists>r w'. deleteSecrets cl ns names (i, w) = (r, i, w') \<and> hosts w' = hosts w \<and> sets w' = sets w
     \<and> (release_clean r \<or> secrets_deletable cl \<longrightarrow> r = Ok ())"
proof (induction names arbitrary: w)
  case (Cons n names)
  obtain q w1 where d: "DeleteSecretsWithName cl w n ns = (q, w1)" by fastforce
  have v: "hosts w1 = hosts w" "sets w1 = sets w"
    using secrets_hosts(2) [of w n ns] secrets_sets(2) [of w n ns] d by simp_all
  have D: "q = Ok ()" if "secrets_deletable cl"
    using that [unfolded secrets_deletable_def, rule_format, of w n ns] d by simp
  show ?case
  proof (cases q)
    case (Ok u)
    with Cons [of w1] d v show ?thesis by simp
  next
    case (Err e)
    with absent_deleted [of w n ns e w1] d v D show ?thesis by (auto simp: release_clean_def)
  next
    case (Panic m)
    with d v D show ?thesis by (auto simp: release_clean_def)
  qed
qed (simp add: release_clean_def)

text \<open>After an operation with result \<open>r\<close>: the agreement holds unless it says that a release may have failed half way.\<close>

definition after_own :: "OpenStackBaremetalSet \<times> 'w \<Rightarrow> 'a result \<times> OpenStackBaremetalSet \<times> 'w \<Rightarrow> bool" where
  "after_own s0 r \<longleftrightarrow> touches_own L hosts sets s0 (fst (snd r)) (snd (snd r))
     \<and> (release_clean (fst r) \<or> whole_releases cl hosts \<longrightarrow> own s0 (fst (snd r)) (snd (snd r)))"

lemma after_ownI [intro]: "own s0 i w \<Longrightarrow> after_own s0 (r, i, w)"
  by (simp add: after_own_def keeps_touches)

lemma after_then:
  assumes "after_own s0 r" and "\<And>s. own s0 (fst s) (snd s) \<Longrightarrow> after_own s0 (k s)"
  shows "after_own s0 (and_then r (\<lambda>_. k))"
proof (cases "fst r")
  case (Ok x)
  with assms show ?thesis by (simp add: after_own_def release_clean_def and_then_def)
qed (use assms(1) in \<open>simp_all add: after_own_def release_clean_def and_then_def\<close>)

lemma touches_released:
  assumes "own s0 i w" and "own s0 j w'"
  shows "touches_own L hosts sets s0 i w'"
  using assms by (simp add: keeps_own_def touches_own_def)

lemma after_deprovision:
  assumes o: "own s0 i w" and e: "gm_get (status_hosts i) h = Some st \<or> ip_BmhRef st = []"
  shows "after_own s0 (BaremetalHostDeprovision L cl (i, w) st)"
proof (cases "Get_bmh cl w (ip_BmhRef st) (ts_BmhNamespace (set_Spec i))")
  case (Ok b)
  let ?rel = "releaseHost L i (ip_Hostname st) b"
  have b: "hosts w (ip_BmhRef st, ts_BmhNamespace (set_Spec i)) = Some b" by (rule get_stored [OF Ok])
  with stored_key [OF b] e have e': "gm_get (status_hosts i) h = Some st" by auto
  obtain q w1 where u: "Update_bmh cl w ?rel = (q, w1)" by fastforce
  have s1: "sets w1 = sets w" using hosts_sets(2) [of w ?rel] u by simp
  show ?thesis
  proof (cases "q = Ok ()")
    case True
    then have h1: "hosts w1 = (hosts w)(bmh_key b \<mapsto> ?rel)" using update_stored [OF u] by simp
    obtain r2 w2 where d2: "deleteSecrets cl (ts_BmhNamespace (set_Spec i))
        [CloudInitUserDataSecretName (set_Name i) (ip_BmhRef st),
         CloudInitNetworkDataSecretName (set_Name i) (ip_BmhRef st)] (i, w1) = (r2, i, w2)"
      and w2: "hosts w2 = hosts w1" "sets w2 = sets w1" and r2: "release_clean r2 \<or> secrets_deletable cl \<longrightarrow> r2 = Ok ()"
      using deleteSecrets_view by blast
    let ?j = "set_status_hosts (gm_del (ip_Hostname st) (status_hosts i)) i"
    have o2: "own s0 ?j w2" by (rule own_released [OF o e' b]) (simp_all add: w2 h1 s1)
    have run: "BaremetalHostDeprovision L cl (i, w) st =
        (case r2 of Ok _ \<Rightarrow> (Ok (), ?j, w2) | Err x \<Rightarrow> (Err x, i, w2) | Panic m \<Rightarrow> (Panic m, i, w2))"
      using Ok u True d2 by (cases r2) (simp_all add: BaremetalHostDeprovision_def Let_def)
    show ?thesis
    proof (cases r2)
      case (Ok x)
      with run o2 show ?thesis by auto
    qed (use run r2 touches_released [OF o o2] in \<open>auto simp: after_own_def\<close>)
  next
    case False
    then have run: "snd (BaremetalHostDeprovision L cl (i, w) st) = (i, w1)"
      "fst (BaremetalHostDeprovision L cl (i, w) st) = q"
      using Ok u by (cases q; auto simp: BaremetalHostDeprovision_def Let_def)+
    show ?thesis
    proof (cases "hosts w1 = hosts w")
      case True
      from keeps_own_same [OF o this s1] run(1) show ?thesis by (metis after_ownI prod.collapse)
    next
      case ne: False
      with update_stored [OF u] have "hosts w1 = (hosts w)(bmh_key b \<mapsto> ?rel)" by simp
      from touches_released [OF o own_released [OF o e' b this s1]] have "touches_own L hosts sets s0 i w1" .
      moreover have "\<not> release_clean q" using update_missing [of w ?rel _ w1] u False ne
        by (cases q) (auto simp: release_clean_def)
      moreover have "\<not> updates_atomic cl hosts" using u False ne unfolding updates_atomic_def by blast
      ultimately show ?thesis using run by (simp add: after_own_def)
    qed
  qed
qed (use o in \<open>auto simp: BaremetalHostDeprovision_def Let_def\<close>)

lemma after_deprovisionHosts:
  "own s0 (fst s) (snd s) \<Longrightarrow> after_own s0 (deprovisionHosts L cl hs s)"
proof (induction hs arbitrary: s)
  case (Cons h hs)
  obtain i w where s: "s = (i, w)" by (cases s)
  have "gm_get (status_hosts i) h = Some (status_host i h) \<or> ip_BmhRef (status_host i h) = []"
    by (auto simp: status_host_def zero_HostStatus_def split: option.split)
  with Cons s show ?case by (simp add: after_then after_deprovision)
qed (metis after_ownI deprovisionHosts.simps(1) prod.collapse)

lemma after_cleanupHosts:
  "own s0 (fst s) (snd s) \<Longrightarrow> after_own s0 (cleanupHosts L cl hs s)"
proof (induction hs arbitrary: s)
  case (Cons h hs)
  obtain i w where s: "s = (i, w)" by (cases s)
  show ?case
  proof (cases "gm_get (status_hosts i) h")
    case (Some st)
    from after_deprovision [OF _ disjI1 [OF Some]] Cons s Some show ?thesis by (simp add: after_then)
  qed (use Cons s in simp)
qed (metis after_ownI cleanupHosts.simps(1) prod.collapse)

lemma after_deleteBmh: "own s0 (fst s) (snd s) \<Longrightarrow> after_own s0 (deleteBmh L cl ls s)"
  using after_deprovisionHosts [of s0 s]
  by (cases s) (auto simp: deleteBmh_def and_then_def split: outcome.split)

lemma ensureCloudInit_view:
  "\<exists>q w1 env1. ensureCloudInit cl sts (i, w, env) = (q, i, w1, env1) \<and> hosts w1 = hosts w \<and> sets w1 = sets w"
  using secrets_hosts(1) [of w i sts env] secrets_sets(1) [of w i sts env]
  by (auto simp: ensureCloudInit_def split: prod.split outcome.split)

end

text \<open>Provisioning is given a free host that no entry names yet, or a host with the labels of the set.\<close>

definition may_provision :: "lib \<Rightarrow> OpenStackBaremetalSet \<Rightarrow> string \<Rightarrow> BareMetalHost \<Rightarrow> bool" where
  "may_provision L i h b \<longleftrightarrow>
     bmh_ConsumerRef b = None \<and> gm_get (status_hosts i) h = None
     \<or> uid_label L b = Some (om_UID (set_Meta i)) \<and> hostname_label (set_Name i) b = Some h"

text \<open>A call for host \<open>h\<close> on bare metal host \<open>n\<close> changes no other entry and no other host.\<close>

definition elsewhere ::
  "('w \<Rightarrow> host_view) \<Rightarrow> string \<Rightarrow> string \<Rightarrow> OpenStackBaremetalSet \<Rightarrow> 'w \<Rightarrow> OpenStackBaremetalSet \<Rightarrow> 'w \<Rightarrow> bool" where
  "elsewhere hosts n h i w i' w' \<longleftrightarrow>
     (\<forall>k. fst k \<noteq> n \<longrightarrow> hosts w' k = hosts w k)
     \<and> (\<forall>g. g \<noteq> h \<longrightarrow> gm_get (status_hosts i') g = gm_get (status_hosts i) g)"

lemma elsewhere_same: "hosts w' = hosts w \<Longrightarrow> elsewhere hosts n h i w i w'"
  by (simp add: elsewhere_def)

context set_store begin

lemma own_patchHost:
  assumes o: "own s0 i w"
    and m: "\<And>c. hosts w (n, ts_BmhNamespace (set_Spec i)) = Some c \<Longrightarrow> may_provision L i h c"
    and p: "patchHost L cl n h ps u nd (i, w, env) = (r, i', w', env')"
  shows "i' = i \<and> own s0 i w' \<and> elsewhere hosts n h i w i w'
    \<and> (\<forall>b. r = Ok b \<longrightarrow> (\<exists>c. hosts w' (n, ts_BmhNamespace (set_Spec i)) = Some c
         \<and> bmh_ConsumerRef c = Some (consumer_ref i) \<and> hostname_label (set_Name i) c = Some h))"
proof (cases "Get_bmh cl w n (ts_BmhNamespace (set_Spec i))")
  case (Ok b0)
  let ?k = "(n, ts_BmhNamespace (set_Spec i))" and ?f = "provisionMutate L i h ps u nd"
  have b0: "hosts w ?k = Some b0" by (rule get_stored [OF Ok])
  then have k: "bmh_key b0 = ?k" using stored_key by blast
  from p Ok have c: "CreateOrPatch_bmh cl w b0 (\<lambda>b. Ok (?f b)) = (r, w')" and i': "i' = i"
    by (auto simp: patchHost_def split: prod.splits)
  have sets: "sets w' = sets w" using hosts_sets(1) [of w b0 "\<lambda>b. Ok (?f b)"] c by simp
  have own: "bmh_ConsumerRef (?f b0) = Some (consumer_ref i) \<and> hostname_label (set_Name i) (?f b0) = Some h"
  proof -
    from o have l: "labelled L (hosts w)" and oh: "owns_hosts L (hosts w) i" by (simp_all add: keeps_own_def)
    show ?thesis using m [OF b0] labelledD [OF l b0] owns_hostsD(4) [OF oh b0]
      by (auto simp: may_provision_def patched_consumer patched_labels well_labelled_def split: option.split)
  qed
  from patch_stored [OF c, of b0] b0 k consider
      (same) "hosts w' = hosts w" "\<nexists>b. r = Ok b" | (upd) "hosts w' = (hosts w)(?k \<mapsto> ?f b0)"
    by auto
  then show ?thesis
  proof cases
    case same
    with keeps_own_same [OF o _ sets] i' show ?thesis by (simp add: elsewhere_same)
  next
    case upd
    have "bmh_ConsumerRef b0 = None \<or> uid_label L b0 = Some (om_UID (set_Meta i))"
      using m [OF b0] by (auto simp: may_provision_def)
    from own_patched [OF o b0 this upd sets] own upd i' show ?thesis by (auto simp: elsewhere_def)
  qed
qed (use p o in \<open>auto simp: patchHost_def elsewhere_def\<close>)

lemma own_provision:
  assumes o: "own s0 i w"
    and m: "\<And>c. hosts w (n, ts_BmhNamespace (set_Spec i)) = Some c \<Longrightarrow> may_provision L i h c"
    and p: "BaremetalHostProvision L cl (i, w, env) n h ip ps ssh pw = (r, i', w', env')"
  shows "own s0 i' w' \<and> elsewhere hosts n h i w i' w'"
proof (cases "cloudInit L i h ip ssh pw")
  case (Ok x)
  obtain sts u nd where x: "x = (sts, u, nd)" by (cases x)
  obtain q w1 env1 where e: "ensureCloudInit cl sts (i, w, env) = (q, i, w1, env1)"
    and w1: "hosts w1 = hosts w" "sets w1 = sets w" using ensureCloudInit_view by blast
  have o1: "own s0 i w1" by (rule keeps_own_same [OF o w1])
  obtain r2 i2 w2 env2 where p2: "patchHost L cl n h ps u nd (i, w1, env1) = (r2, i2, w2, env2)"
    by (metis surj_pair)
  from own_patchHost [OF o1 _ p2] m w1(1) have i2: "i2 = i" and o2: "own s0 i w2"
    and el: "elsewhere hosts n h i w i w2"
    and rec: "\<And>b. r2 = Ok b \<Longrightarrow> \<exists>c. hosts w2 (n, ts_BmhNamespace (set_Spec i)) = Some c
         \<and> bmh_ConsumerRef c = Some (consumer_ref i) \<and> hostname_label (set_Name i) c = Some h"
    by (auto simp: elsewhere_def)
  have sc: "status_consistent i" using o owns_hostsD(3) by (auto simp: keeps_own_def)
  show ?thesis
  proof (cases "\<exists>b. q = Ok () \<and> r2 = Ok b \<and> status_hosts i \<noteq> None")
    case False
    then have "i' = i \<and> (w' = w1 \<or> w' = w2)"
      using p Ok x e p2 i2
      by (cases q; cases r2) (auto simp: BaremetalHostProvision_def Let_def recordHost_def gm_assign_def)
    with o1 o2 el w1 show ?thesis by (auto simp: elsewhere_same)
  next
    case True
    then obtain b where t: "q = Ok ()" "r2 = Ok b" "status_hosts i \<noteq> None" by blast
    let ?st = "(initialHostStatus i n h ip)\<lparr>hs_UserDataSecretName := sr_Name u,
      hs_NetworkDataSecretName := sr_Name nd, hs_ProvisioningState := bmh_State b\<rparr>"
    have f: "i' = set_status_hosts (gm_put h ?st (status_hosts i)) i \<and> w' = w2"
      using p Ok x e p2 i2 t
      by (auto simp: BaremetalHostProvision_def Let_def recordHost_def gm_assign_def)
    from rec [OF t(2)] obtain c where c: "hosts w2 (n, ts_BmhNamespace (set_Spec i)) = Some c"
      "bmh_ConsumerRef c = Some (consumer_ref i)" "hostname_label (set_Name i) c = Some h" by blast
    have "own s0 i' w2" using f initialHostStatus_name [OF sc, of n h ip]
      by (auto intro!: own_recorded [OF o2 c] simp: initialHostStatus_def split: option.split)
    with f el show ?thesis by (auto simp: elsewhere_def)
  qed
qed (use p o in \<open>auto simp: BaremetalHostProvision_def elsewhere_def\<close>)

end

section \<open>The hosts of a reconciliation\<close>

lemma existingHosts_get:
  "gm_get (existingHosts key bs m) h = Some b \<Longrightarrow>
   gm_get m h = Some b \<or> b \<in> set bs \<and> gm_get (bmh_Labels b) key = Some h"
proof (induction key bs m rule: existingHosts.induct)
  case (2 key b' rest m)
  show ?case
  proof (cases "gm_get (bmh_Labels b') key")
    case None
    with 2 show ?thesis by auto
  next
    case (Some g)
    with 2 show ?thesis by (cases "h = g") auto
  qed
qed simp

text \<open>The items of the merged map may all be provisioned, each on a bare metal host of its own.\<close>

definition may_provision_all ::
  "lib \<Rightarrow> host_view \<Rightarrow> OpenStackBaremetalSet \<Rightarrow> (string \<times> BareMetalHost) list \<Rightarrow> bool" where
  "may_provision_all L H i xs \<longleftrightarrow>
     distinct (map fst xs) \<and> distinct (map (\<lambda>x. bmh_Name (snd x)) xs)
     \<and> list_all (\<lambda>x. pred_option (may_provision L i (fst x))
          (H (bmh_Name (snd x), ts_BmhNamespace (set_Spec i)))) xs"

lemma may_provision_all_step:
  assumes "may_provision_all L (hosts w) i ((h, b) # xs)" and "elsewhere hosts (bmh_Name b) h i w i' w'"
    and "same_set i i'"
  shows "may_provision_all L (hosts w') i' xs"
proof -
  have "pred_option (may_provision L i' (fst x)) (hosts w' (bmh_Name (snd x), ts_BmhNamespace (set_Spec i')))"
    if x: "x \<in> set xs" for x
  proof -
    from assms(1) have "h \<notin> fst ` set xs" "bmh_Name b \<notin> (\<lambda>x. bmh_Name (snd x)) ` set xs"
      by (simp_all add: may_provision_all_def)
    with x have ne: "fst x \<noteq> h" "bmh_Name (snd x) \<noteq> bmh_Name b" by (metis imageI)+
    with assms(2,3) have "may_provision L i' (fst x) = may_provision L i (fst x)"
      by (intro ext) (simp add: may_provision_def elsewhere_def same_set_def)
    moreover have "hosts w' (bmh_Name (snd x), ts_BmhNamespace (set_Spec i')) =
        hosts w (bmh_Name (snd x), ts_BmhNamespace (set_Spec i))"
      using assms(2,3) ne by (simp add: elsewhere_def same_set_def)
    ultimately show ?thesis using assms(1) x by (simp add: may_provision_all_def list_all_iff)
  qed
  with assms(1) show ?thesis by (simp add: may_provision_all_def list_all_iff)
qed

context set_store begin

lemma own_provisionHosts:
  assumes "own s0 (fst s) (fst (snd s))" and "may_provision_all L (hosts (fst (snd s))) (fst s) xs"
  shows "own s0 (fst (snd (provisionHosts L cl ps ssh pw xs s))) (fst (snd (snd (provisionHosts L cl ps ssh pw xs s))))"
  using assms
proof (induction xs arbitrary: s)
  case (Cons x xs)
  obtain h b where x: "x = (h, b)" by (cases x)
  obtain i w env where s: "s = (i, w, env)" by (cases s)
  let ?p = "BaremetalHostProvision L cl (i, w, env) (bmh_Name b) h (is_CtlPlaneIP (spec_host i h)) ps ssh pw"
  obtain r i' w' env' where p: "?p = (r, i', w', env')" by (metis surj_pair)
  have m: "may_provision L i h c" if "hosts w (bmh_Name b, ts_BmhNamespace (set_Spec i)) = Some c" for c
    using that Cons.prems(2) x s by (simp add: may_provision_all_def)
  from own_provision [OF _ m p] Cons.prems(1) s have o: "own s0 i' w'" "elsewhere hosts (bmh_Name b) h i w i' w'"
    by simp_all
  have "frame i i'" using provision_frame [of "(i, w, env)" L cl] p by (metis fst_conv snd_conv)
  then have "may_provision_all L (hosts w') i' xs"
    using may_provision_all_step [OF _ o(2) frame_same_set] Cons.prems(2) x s by simp
  with Cons.IH [of "(i', w', env')"] o(1) p x s show ?case by (cases r) simp_all
qed simp

lemma listed:
  assumes "GetBaremetalHosts cl w ns ls = Ok bs" and "b \<in> set bs"
  shows "hosts w (bmh_Name b, ns) = Some b" and "gm_get ls x = Some v \<Longrightarrow> gm_get (bmh_Labels b) x = Some v"
proof -
  obtain opts where l: "List_bmhs cl w opts = Ok bs" and o: "InNamespace ns \<in> set opts"
    "gm_len ls > 0 \<longrightarrow> MatchingLabels ls \<in> set opts"
    using assms(1) by (cases "gm_len ls > 0") (auto simp: GetBaremetalHosts_def Let_def simp del: gm_len_0)
  show "hosts w (bmh_Name b, ns) = Some b"
    using list_stored [OF l assms(2)] list_namespace [OF l assms(2) o(1)] by (simp add: bmh_key_def)
  show "gm_get (bmh_Labels b) x = Some v" if g: "gm_get ls x = Some v"
  proof -
    have "gm_items ls \<noteq> []" using gm_get_SomeD [OF g] by auto
    with o(2) have "MatchingLabels ls \<in> set opts" by (simp add: gm_len_def)
    with list_labels [OF l assms(2) _ g] show ?thesis by blast
  qed
qed

lemma ensure_items:
  assumes o: "own s0 i w"
    and all: "GetBaremetalHosts cl w (ts_BmhNamespace (set_Spec i)) (ts_BmhLabelSelector (set_Spec i)) = Ok all"
    and ex: "GetBaremetalHosts cl w (ts_BmhNamespace (set_Spec i))
      (GetLabels L (set_Meta i) (GetGroupLabel L ServiceName) gm_empty) = Ok existing"
    and sel: "VerifyBaremetalSetScaleUp i all existing = Ok selected"
  shows "may_provision_all L (hosts w) i (gm_items (MergeMaps L selected (buildExistingHostBMHMap i existing)))"
proof -
  let ?m = "MergeMaps L selected (buildExistingHostBMHMap i existing)" and ?ns = "ts_BmhNamespace (set_Spec i)"
  let ?new = "\<lambda>h b. gm_get selected h = Some b \<and> gm_get (status_hosts i) h = None \<and> bmh_ConsumerRef b = None"
  let ?old = "\<lambda>h b. uid_label L b = Some (om_UID (set_Meta i)) \<and> hostname_label (set_Name i) b = Some h"
  from o have oh: "owns_hosts L (hosts w) i" by (simp add: keeps_own_def)
  note wf = owns_hostsD(1) [OF oh]
  have item: "hosts w (bmh_Name b, ?ns) = Some b \<and> (?new h b \<or> ?old h b)" if "gm_get ?m h = Some b" for h b
  proof (cases "gm_get selected h = Some b")
    case True
    with scaleUp_selected [OF wf sel True] listed(1) [OF all, of b] show ?thesis by (simp add: bmhUsable_iff)
  next
    case False
    with that have "gm_get (buildExistingHostBMHMap i existing) h = Some b"
      by (auto simp: MergeMaps_get split: option.splits)
    then have b: "b \<in> set existing" and l: "gm_get (bmh_Labels b) (ownershipLabelKey i) = Some h"
      using existingHosts_get [of _ existing gm_empty h b] by (simp_all add: buildExistingHostBMHMap_def)
    from listed [OF ex b] l show ?thesis
      by (simp add: uid_label_def uid_key_def hostname_label_def ownershipLabelKey_def GetLabels_get)
  qed
  have inj: "h = h'" if h: "gm_get ?m h = Some b" "gm_get ?m h' = Some b'" "bmh_Name b = bmh_Name b'" for h h' b b'
  proof -
    have eq: "b = b'"
      using item [OF h(1), THEN conjunct1] item [OF h(2), THEN conjunct1] h(3) by (metis option.inject)
    consider "?new h b" "?new h' b" | "?old h b" "?old h' b" | "bmh_ConsumerRef b = None" "?old h b \<or> ?old h' b"
      using item [OF h(1), THEN conjunct2] item [OF h(2) [folded eq], THEN conjunct2] by argo
    then show ?thesis
    proof cases
      case 1
      with scaleUp_placement [OF wf sel] show ?thesis unfolding placement_def by blast
    next
      case 3
      with owns_hostsD(4) [OF oh, of _ b] item [OF h(1)] show ?thesis by auto
    qed simp
  qed
  have gwf: "gm_wf ?m" by (rule MergeMaps_wf)
  then have d: "distinct (map fst (gm_items ?m))" by (simp add: gm_wf_def gm_keys_def)
  have "inj_on (\<lambda>x. bmh_Name (snd x)) (set (gm_items ?m))"
  proof (rule inj_onI)
    fix x y assume x: "x \<in> set (gm_items ?m)" and y: "y \<in> set (gm_items ?m)"
      and n: "bmh_Name (snd x) = bmh_Name (snd y)"
    have g: "gm_get ?m (fst x) = Some (snd x)" "gm_get ?m (fst y) = Some (snd y)"
      using x y gm_wf_get_iff [OF gwf] by simp_all
    with inj [OF g n] show "x = y" by (simp add: prod_eq_iff)
  qed
  then have "distinct (map (\<lambda>x. bmh_Name (snd x)) (gm_items ?m))"
    using d by (simp add: distinct_map)
  moreover have "pred_option (may_provision L i (fst x)) (hosts w (bmh_Name (snd x), ?ns))"
    if "x \<in> set (gm_items ?m)" for x
  proof -
    from that have "gm_get ?m (fst x) = Some (snd x)" using gm_wf_get_iff [OF gwf] by simp
    from item [OF this] show ?thesis by (auto simp: may_provision_def)
  qed
  ultimately show ?thesis using d by (simp add: may_provision_all_def list_all_iff)
qed

lemma own_ensure:
  assumes "own s0 (fst s) (fst (snd s))"
    and "ls = GetLabels L (set_Meta (fst s)) (GetGroupLabel L ServiceName) gm_empty"
  shows "own s0 (fst (snd (ensureBaremetalHosts L cl ps ssh pw ls s)))
    (fst (snd (snd (ensureBaremetalHosts L cl ps ssh pw ls s))))"
proof -
  obtain i w env where s: "s = (i, w, env)" by (cases s)
  let ?ns = "ts_BmhNamespace (set_Spec i)"
  have o: "own s0 i w" using assms(1) s by simp
  show ?thesis
  proof (cases "\<exists>all existing selected. GetBaremetalHosts cl w ?ns (ts_BmhLabelSelector (set_Spec i)) = Ok all
      \<and> GetBaremetalHosts cl w ?ns ls = Ok existing \<and> VerifyBaremetalSetScaleUp i all existing = Ok selected")
    case True
    then obtain all existing selected where
      g: "GetBaremetalHosts cl w ?ns (ts_BmhLabelSelector (set_Spec i)) = Ok all"
        "GetBaremetalHosts cl w ?ns ls = Ok existing" "VerifyBaremetalSetScaleUp i all existing = Ok selected"
      by blast
    have "may_provision_all L (hosts w) i (gm_items (MergeMaps L selected (buildExistingHostBMHMap i existing)))"
      using ensure_items [OF o g(1) _ g(3)] g(2) assms(2) s by simp
    with own_provisionHosts [of s0 s] assms(1) s g show ?thesis
      by (simp add: ensureBaremetalHosts_def Let_def)
  next
    case False
    then have "snd (ensureBaremetalHosts L cl ps ssh pw ls s) = s"
      by (auto simp: s ensureBaremetalHosts_def Let_def and_then_def split: outcome.split)
    with assms(1) show ?thesis by simp
  qed
qed

end

section \<open>The phases\<close>

lemma upd_conds_own [simp]: "keeps_own L hosts sets s0 (upd_conds f i) w = keeps_own L hosts sets s0 i w"
proof -
  have "same_set a (upd_conds f i) = same_set a i" for a by (simp add: same_set_def)
  moreover have "consumer_ref (upd_conds f i) = consumer_ref i" by (simp add: consumer_ref_def)
  then have "owns_hosts L H (upd_conds f i) = owns_hosts L H i" for H
    unfolding owns_hosts_def by simp
  ultimately show ?thesis by (simp add: keeps_own_def)
qed

abbreviation (input) at_state :: "(OpenStackBaremetalSet \<Rightarrow> 'w \<Rightarrow> bool) \<Rightarrow> 'w set_state \<Rightarrow> bool" where
  "at_state P s \<equiv> P (fst s) (fst (snd s))"

lemma on_inst_snd [simp]: "snd (on_inst f s) = snd s"
  by (cases s) simp

context set_store begin

lemma own_sync:
  assumes "own s0 i w"
  shows "own s0 (snd (VerifyAndSyncBaremetalStatusBmhRefs cl w i)) w"
proof (cases "GetBaremetalHosts cl w (ts_BmhNamespace (set_Spec i)) gm_empty")
  case (Ok bmhs)
  from assms have "owns_hosts L (hosts w) i" by (simp add: keeps_own_def)
  note wf = owns_hostsD(1,2) [OF this]
  let ?m = "syncRefs bmhs (gm_items (status_hosts i)) (status_hosts i)"
  have "own s0 (set_status_hosts ?m i) w"
    by (rule keeps_own_fewer [OF assms])
      (use wf sync_status_get [OF wf(2), of bmhs] syncRefs_wf [OF wf(2)] in
        \<open>auto simp: same_set_def split: option.splits if_splits\<close>)
  with Ok show ?thesis by (simp add: VerifyAndSyncBaremetalStatusBmhRefs_def)
qed (use assms in \<open>simp_all add: VerifyAndSyncBaremetalStatusBmhRefs_def\<close>)

lemma own_hostStep: "at_state (own s0) (snd r) \<Longrightarrow> at_state (own s0) (snd (hostStep L C r))"
  by (cases r; cases "fst r") (auto simp: hostStep_def)

text \<open>The same for a step of the controller, which goes on only after a success.\<close>

definition flow_own :: "OpenStackBaremetalSet \<times> 'w \<Rightarrow> (nat result, 'a) flow \<times> 'w set_state \<Rightarrow> bool" where
  "flow_own s0 f \<longleftrightarrow> at_state (touches_own L hosts sets s0) (snd f)
     \<and> ((\<exists>x. fst f = Continue x) \<or> (\<exists>q. fst f = Return (Ok q)) \<or> whole_releases cl hosts \<longrightarrow> at_state (own s0) (snd f))"

lemma flow_ownI: "at_state (own s0) (snd f) \<Longrightarrow> flow_own s0 f"
  by (simp add: flow_own_def keeps_touches)

lemma flow_own_then:
  assumes "flow_own s0 f" and "\<And>x s. f = (Continue x, s) \<Longrightarrow> at_state (own s0) s \<Longrightarrow> flow_own s0 (k x s)"
  shows "flow_own s0 (flow_then f k)"
  using assms by (cases f; cases "fst f") (auto simp: flow_own_def)

lemma flow_own_hostStep:
  assumes "after_own s0 (r, i, w)"
  shows "flow_own s0 (hostStep L C (r, i, w, env))"
proof -
  have "touches_own L hosts sets s0 (upd_conds f i) w = touches_own L hosts sets s0 i w" for f
    by (simp add: touches_own_def same_set_def)
  with assms show ?thesis
    by (cases r) (auto simp: hostStep_def flow_own_def after_own_def release_clean_def)
qed

lemma own_hostsPhase:
  assumes "at_state (own s0) s"
  shows "flow_own s0 (hostsPhase L C cl ps ssh pw s)"
proof -
  obtain i w env where s: "s = (i, w, env)" by (cases s)
  obtain r i1 where v: "VerifyAndSyncBaremetalStatusBmhRefs cl w i = (r, i1)" by fastforce
  have o1: "own s0 i1 w" using own_sync [of s0 i w] assms s v by simp
  let ?ls = "GetLabels L (set_Meta i1) (GetGroupLabel L ServiceName) gm_empty"
  obtain r2 i2 w2 where d: "deleteBmh L cl ?ls (i1, w) = (r2, i2, w2)" by (metis surj_pair)
  have o2: "after_own s0 (r2, i2, w2)" using after_deleteBmh [of s0 "(i1, w)" ?ls] o1 d by simp
  have m: "set_Meta i2 = set_Meta i1" using deleteBmh_frame [of "(i1, w)" L cl ?ls] d by (simp add: frame_def)
  have "flow_own s0 (flow_then (hostStep L C (r2, i2, w2, env)) (\<lambda>_ s.
      hostStep L C (ensureBaremetalHosts L cl ps ssh pw ?ls s)))"
    by (intro flow_own_then flow_own_hostStep o2 flow_ownI own_hostStep own_ensure)
      (use m in \<open>auto simp: hostStep_Continue\<close>)
  then show ?thesis
    unfolding hostsPhase_def s prod.case v Let_def
    by (intro flow_own_then flow_own_hostStep)
      (use o1 in \<open>auto simp: hostStep_Continue with_env_def d\<close>)
qed

lemma own_requiredSecret: "at_state (own s0) s \<Longrightarrow> at_state (own s0) (snd (requiredSecret L C cl n ns s))"
  by (cases s) (auto simp: requiredSecret_def split: outcome.split)

lemma own_inputPhase: "at_state (own s0) s \<Longrightarrow> at_state (own s0) (snd (inputPhase L C cl s))"
  unfolding inputPhase_def Let_def
  by (intro flow_then_inv [of "at_state (own s0)"] own_requiredSecret)
    (auto split: option.split intro!: flow_then_inv [of "at_state (own s0)"] own_requiredSecret)

lemma own_acquire:
  assumes "at_state (own s0) s"
  shows "at_state (own s0) (snd (acquireProvServer L cl s))"
proof -
  obtain i w env where s: "s = (i, w, env)" by (cases s)
  have o: "own s0 i w" using assms s by simp
  have "own s0 i (snd (CreateOrPatch_ps cl w p f))" for p f
    by (rule keeps_own_same [OF o]) (simp_all add: servers_hosts servers_sets)
  moreover have "own s0 i (snd (Delete_ps cl w p))" for p
    by (rule keeps_own_same [OF o]) (simp_all add: servers_hosts servers_sets)
  ultimately show ?thesis using o s
    by (auto simp: acquireProvServer_def provisionServerCreateOrUpdate_def provisionServerDelete_def
        and_then_def split: prod.split outcome.split) (metis snd_conv)+
qed

lemma own_provServerPhase:
  assumes "at_state (own s0) s"
  shows "at_state (own s0) (snd (provServerPhase L C cl s))"
proof -
  obtain r t where a: "acquireProvServer L cl s = (r, t)" by (cases "acquireProvServer L cl s")
  with own_acquire [OF assms] have "at_state (own s0) t" by simp
  with a assms show ?thesis by (auto simp: provServerPhase_def Let_def split: outcome.split)
qed

lemma own_finalPhase: "at_state (own s0) s \<Longrightarrow> at_state (own s0) (snd (finalPhase C s))"
  by (auto simp: finalPhase_def)

lemma own_reconcileNormal:
  assumes "own s0 i w" and r: "reconcileNormal_set L C cl (i, w) = (r, i', w', env)"
  shows "touches_own L hosts sets s0 i' w' \<and> ((\<exists>q. r = Ok q) \<or> whole_releases cl hosts \<longrightarrow> own s0 i' w')"
proof -
  have h: "flow_own s0 (flow_then (hostsPhase L C cl ps ssh pw s) (\<lambda>_. finalPhase C))"
    if "at_state (own s0) s" for ps ssh pw s
    using that by (intro flow_own_then own_hostsPhase flow_ownI own_finalPhase)
  have p: "flow_own s0 (flow_then (provServerPhase L C cl s)
      (\<lambda>ps s. flow_then (hostsPhase L C cl ps ssh pw s) (\<lambda>_. finalPhase C)))"
    if "at_state (own s0) s" for ssh pw s
    using that by (intro flow_own_then flow_ownI [OF own_provServerPhase] h)
  obtain f t where f: "inputPhase L C cl (i, w, gm_empty) = (f, t)"
    by (cases "inputPhase L C cl (i, w, gm_empty)")
  have t: "at_state (own s0) t" using own_inputPhase [of s0 "(i, w, gm_empty)" C] assms(1) f by simp
  let ?n = "flow_then (inputPhase L C cl (i, w, gm_empty)) (\<lambda>(ssh, pw) s. flow_then (provServerPhase L C cl s)
      (\<lambda>ps s. flow_then (hostsPhase L C cl ps ssh pw s) (\<lambda>_. finalPhase C)))"
  have "flow_own s0 ?n" using f t
    by (intro flow_own_then) (auto intro!: flow_ownI p simp del: split_paired_All)
  moreover have "flow_end ?n = (r, i', w', env)"
    using r by (simp add: reconcileNormal_set_def split_def)
  ultimately show ?thesis by (cases "fst ?n") (auto simp: flow_own_def flow_end_def)
qed

lemma own_reconcileDelete:
  assumes "own s0 i w" and r: "reconcileDelete_set L cl (i, w, env) = (r, i', w', env')"
  shows "touches_own L hosts sets s0 i' w' \<and> ((\<exists>q. r = Ok q) \<or> whole_releases cl hosts \<longrightarrow> own s0 i' w')"
proof -
  obtain q j v where c: "baremetalHostCleanup L cl (i, w) = (q, j, v)" by (metis surj_pair)
  let ?j = "j\<lparr>set_Meta := RemoveFinalizer L (set_Meta j) (GetFinalizer L (set_Meta j))\<rparr>"
  have a: "after_own s0 (q, j, v)"
    using after_cleanupHosts [of s0 "(i, w)" "gm_keys (status_hosts i)"] assms(1) c
    by (cases "status_hosts i") (auto simp: baremetalHostCleanup_def)
  have o: "own s0 ?j v" if "own s0 j v"
  proof -
    from that have "gm_wf (spec_hosts j)" "gm_wf (status_hosts j)"
      using owns_hostsD(1,2) by (auto simp: keeps_own_def)
    then show ?thesis by (intro keeps_own_fewer [OF that]) (simp_all add: same_set_def RemoveFinalizer_eq)
  qed
  have t: "touches_own L hosts sets s0 ?j v" if "touches_own L hosts sets s0 j v"
    using that by (simp add: touches_own_def same_set_def RemoveFinalizer_eq)
  from a c r o t show ?thesis
    by (cases q) (auto simp: reconcileDelete_set_def Let_def after_own_def release_clean_def split: if_splits)
qed

lemma own_reconcileBody:
  assumes l: "labelled L (hosts w)" and oh: "owns_hosts L (hosts w) i"
    and r: "reconcileBody_set L C cl (i, w) = (r, i', w', env)"
  shows "touches_own L hosts sets (i, w) i' w' \<and> ((\<exists>q. r = Ok q) \<or> whole_releases cl hosts \<longrightarrow> own (i, w) i' w')"
proof -
  obtain added j where f: "ensureFinalizer_set L (initStatus_set C i) = (added, j)" by fastforce
  have same: "same_set i j" "spec_hosts j = spec_hosts i" "status_hosts j = status_hosts i"
    using f by (auto simp: ensureFinalizer_set_def initStatus_set_def Let_def upd_conds_def AddFinalizer_eq
        same_set_def split: if_splits)
  note wf = owns_hostsD(1,2) [OF oh]
  have "own (i, w) i w" using l oh by (simp add: keeps_own_def)
  then have o: "own (i, w) j w"
    by (rule keeps_own_fewer) (use same wf in simp_all)
  have m: "same_set j (makeMaps_set j)" "spec_hosts (makeMaps_set j) = spec_hosts j"
    "gm_get (status_hosts (makeMaps_set j)) h = gm_get (status_hosts j) h"
    "gm_wf (status_hosts j) \<Longrightarrow> gm_wf (status_hosts (makeMaps_set j))" for h
    by (auto simp: makeMaps_set_def Let_def same_set_def)
  from o have om: "own (i, w) (makeMaps_set j) w"
    by (rule keeps_own_fewer) (use m same wf in simp_all)
  consider "i' = j" "w' = w" | "reconcileDelete_set L cl (makeMaps_set j, w, gm_empty) = (r, i', w', env)"
    | "reconcileNormal_set L C cl (makeMaps_set j, w) = (r, i', w', env)"
    using r f by (auto simp: reconcileBody_set_def Let_def split: if_splits)
  then show ?thesis
  proof cases
    case 1
    with o show ?thesis by (simp add: keeps_touches)
  qed (use own_reconcileDelete [OF om] own_reconcileNormal [OF om] in blast)+
qed

text \<open>The deferred patch changes no host.\<close>

lemma Reconcile_touched:
  assumes l: "labelled L (hosts w)" and oh: "\<And>i. sets w (n, ns) = Some i \<Longrightarrow> owns_hosts L (hosts w) i"
    and r: "Reconcile_set L C cl w n ns = (r, w')"
  shows "w' = w \<or> (\<exists>i. sets w (n, ns) = Some i \<and> touched_by L i (hosts w) (hosts w'))"
proof (cases "Get_set cl w n ns")
  case (Ok i)
  then have si: "sets w (n, ns) = Some i" by (rule get_set)
  obtain res i1 w1 env where b: "reconcileBody_set L C cl (i, w) = (res, i1, w1, env)" by (metis surj_pair)
  from own_reconcileBody [OF l oh [OF si] b] have t: "touched_by L i (hosts w) (hosts w1)"
    by (simp add: touches_own_def)
  have "hosts (snd (deferred_set C cl cs (res, i1, w1, env))) = hosts w1" for cs
    using patch_set_hosts [of w1 "upd_conds (deferredConditions C cs) i1"]
    by (cases res) (auto simp: deferred_set_def split: prod.split outcome.split)
  from this [of "set_conds i"] have "w' = w \<or> hosts w' = hosts w1"
    using r Ok b by (auto simp: Reconcile_set_def split: if_splits outcome.splits)
  with si t show ?thesis by auto
qed (use r in \<open>auto simp: Reconcile_set_def\<close>)

end

text \<open>A reconciliation that returns without an error, or one of a cluster in which no release of a host fails half way, no
  patch of an instance fails and no call panics.\<close>

definition orderly :: "'w client \<Rightarrow> ('w \<Rightarrow> host_view) \<Rightarrow> nat result \<Rightarrow> bool" where
  "orderly cl hosts r \<longleftrightarrow> (\<exists>q. r = Ok q)
     \<or> secrets_deletable cl \<and> updates_atomic cl hosts \<and> sets_patchable cl \<and> calm_client cl"

context set_store begin

text \<open>After an orderly reconciliation the cluster is as it was, or the set has done what it may and its new
  instance is stored.\<close>

lemma Reconcile_own:
  assumes l: "labelled L (hosts w)" and oh: "\<And>i. sets w (n, ns) = Some i \<Longrightarrow> owns_hosts L (hosts w) i"
    and r: "Reconcile_set L C cl w n ns = (r, w')" and ok: "orderly cl hosts r"
  shows "w' = w \<or> (\<exists>i j. sets w (n, ns) = Some i \<and> same_set i j \<and> labelled L (hosts w')
    \<and> owns_hosts L (hosts w') j \<and> touched_by L i (hosts w) (hosts w')
    \<and> (sets w' = (sets w)(set_key i \<mapsto> j) \<or> sets w' = (sets w)(set_key i := None)))"
proof (cases "Get_set cl w n ns")
  case (Ok i)
  then have si: "sets w (n, ns) = Some i" by (rule get_set)
  obtain res i1 w1 env where b: "reconcileBody_set L C cl (i, w) = (res, i1, w1, env)" by (metis surj_pair)
  note body = own_reconcileBody [OF l oh [OF si] b]
  let ?j = "upd_conds (deferredConditions C (set_conds i)) i1"
  obtain q w2 where p: "PatchInstance_set cl w1 ?j = (q, w2)" by fastforce
  have h2: "hosts w2 = hosts w1" using patch_set_hosts [of w1 ?j] p by simp
  have run: "w' = w \<or> (r, w') = deferred_set C cl (set_conds i) (res, i1, w1, env)"
    using r Ok b by (auto simp: Reconcile_set_def split: if_splits outcome.splits)
  have good: "q = Ok () \<and> own (i, w) i1 w1 \<and> w' = w2" if d: "(r, w') = deferred_set C cl (set_conds i) (res, i1, w1, env)"
  proof (cases "\<exists>x. r = Ok x")
    case True
    with d p body show ?thesis by (cases res; cases q) (auto simp: deferred_set_def)
  next
    case False
    with ok have rel: "whole_releases cl hosts" "sets_patchable cl" "calm_client cl" by (simp_all add: orderly_def)
    from rel(2) have "q = Ok ()" using p unfolding sets_patchable_def by (metis fst_conv)
    moreover have "calm res" using calm_reconcileBody [OF rel(3), of L C i w] b by simp
    ultimately show ?thesis using d p body rel(1) by (cases res) (auto simp: deferred_set_def)
  qed
  show ?thesis
  proof (rule disjE [OF run])
    assume "(r, w') = deferred_set C cl (set_conds i) (res, i1, w1, env)"
    from good [OF this] have q: "q = Ok ()" and o: "own (i, w) i1 w1" and w': "w' = w2" by auto
    have k: "set_key ?j = set_key i" using o by (simp add: keeps_own_def same_set_def set_key_def)
    have "own (i, w) ?j w1" using o by simp
    with set_patched [OF p [unfolded q]] si h2 k w' show ?thesis
      by (auto simp: keeps_own_def simp del: upd_conds_own)
  qed simp
qed (use r in \<open>auto simp: Reconcile_set_def\<close>)

end

end
