(* ===== verification/World.thy ===== *)
theory World
  imports OwnershipKept
begin

text \<open>
  The cluster with all its sets. \<open>world_step\<close> has one rule for an orderly reconciliation of any set and one for
  each thing that others do to hosts and sets: the bare metal operator changes hosts but not their consumer nor
  the labels of this operator, users register hosts without these labels and under a name that no status has,
  remove hosts, create sets with an identifier that is new, edit sets but not their namespace of hosts
  (\<open>same_set\<close>), and remove sets. \<open>world_sound\<close> is the agreement of the hosts with all sets;
  every step keeps it.
\<close>

section \<open>Steps\<close>

inductive world_step ::
  "lib \<Rightarrow> cond_ops \<Rightarrow> 'w client \<Rightarrow> ('w \<Rightarrow> host_view) \<Rightarrow>
   ('w \<Rightarrow> string \<times> string \<Rightarrow> OpenStackBaremetalSet option) \<Rightarrow> 'w \<Rightarrow> 'w \<Rightarrow> bool"
  for L :: lib and C :: cond_ops and cl :: "'w client" and hosts :: "'w \<Rightarrow> host_view"
    and sets :: "'w \<Rightarrow> string \<times> string \<Rightarrow> OpenStackBaremetalSet option"
where
  reconciled: "Reconcile_set L C cl w n ns = (r, w') \<Longrightarrow> orderly cl hosts r \<Longrightarrow> world_step L C cl hosts sets w w'"
| host_changed: "hosts w k = Some b \<Longrightarrow> hosts w' = (hosts w)(k \<mapsto> b') \<Longrightarrow> sets w' = sets w \<Longrightarrow>
    bmh_ConsumerRef b' = bmh_ConsumerRef b \<Longrightarrow> uid_label L b' = uid_label L b \<Longrightarrow>
    (\<And>n. hostname_label n b' = hostname_label n b) \<Longrightarrow> world_step L C cl hosts sets w w'"
| host_added: "hosts w k = None \<Longrightarrow> hosts w' = (hosts w)(k \<mapsto> b) \<Longrightarrow> sets w' = sets w \<Longrightarrow>
    uid_label L b = None \<Longrightarrow> (\<And>n. hostname_label n b = None) \<Longrightarrow>
    (\<And>c i h st. sets w c = Some i \<Longrightarrow> gm_get (status_hosts i) h = Some st \<Longrightarrow>
       k \<noteq> (ip_BmhRef st, ts_BmhNamespace (set_Spec i))) \<Longrightarrow> world_step L C cl hosts sets w w'"
| host_removed: "hosts w' = (hosts w)(k := None) \<Longrightarrow> sets w' = sets w \<Longrightarrow> world_step L C cl hosts sets w w'"
| set_created: "hosts w' = hosts w \<Longrightarrow> sets w c = None \<Longrightarrow> sets w' = (sets w)(c \<mapsto> i) \<Longrightarrow>
    gm_wf (spec_hosts i) \<Longrightarrow> gm_items (status_hosts i) = [] \<Longrightarrow>
    (\<And>k b. hosts w k = Some b \<Longrightarrow> uid_label L b \<noteq> Some (om_UID (set_Meta i))) \<Longrightarrow>
    (\<And>d j. sets w d = Some j \<Longrightarrow> om_UID (set_Meta j) \<noteq> om_UID (set_Meta i)) \<Longrightarrow>
    world_step L C cl hosts sets w w'"
| set_edited: "hosts w' = hosts w \<Longrightarrow> sets w c = Some i \<Longrightarrow> sets w' = (sets w)(c \<mapsto> j) \<Longrightarrow> same_set i j \<Longrightarrow>
    gm_wf (spec_hosts j) \<Longrightarrow> status_hosts j = status_hosts i \<Longrightarrow> world_step L C cl hosts sets w w'"
| set_removed: "hosts w' = hosts w \<Longrightarrow> sets w' = (sets w)(c := None) \<Longrightarrow> world_step L C cl hosts sets w w'"

inductive_cases world_stepE: "world_step L C cl hosts sets w w'"

definition world_sound ::
  "lib \<Rightarrow> ('w \<Rightarrow> host_view) \<Rightarrow> ('w \<Rightarrow> string \<times> string \<Rightarrow> OpenStackBaremetalSet option) \<Rightarrow> 'w \<Rightarrow> bool" where
  "world_sound L hosts sets w \<longleftrightarrow>
     labelled L (hosts w)
     \<and> (\<forall>c. pred_option (owns_hosts L (hosts w)) (sets w c))
     \<and> (\<forall>c d i j. sets w c = Some i \<longrightarrow> sets w d = Some j \<longrightarrow> om_UID (set_Meta i) = om_UID (set_Meta j) \<longrightarrow> c = d)"

lemma world_soundI:
  assumes "labelled L (hosts w)" and "\<And>c i. sets w c = Some i \<Longrightarrow> owns_hosts L (hosts w) i"
    and "\<And>c d i j. sets w c = Some i \<Longrightarrow> sets w d = Some j \<Longrightarrow>
      om_UID (set_Meta i) = om_UID (set_Meta j) \<Longrightarrow> c = d"
  shows "world_sound L hosts sets w"
proof -
  have "pred_option (owns_hosts L (hosts w)) (sets w c)" for c
    using assms(2) [of c] by (cases "sets w c") simp_all
  moreover have "\<forall>c d i j. sets w c = Some i \<longrightarrow> sets w d = Some j \<longrightarrow>
      om_UID (set_Meta i) = om_UID (set_Meta j) \<longrightarrow> c = d" using assms(3) by blast
  ultimately show ?thesis using assms(1) unfolding world_sound_def by blast
qed

lemma world_soundD:
  assumes "world_sound L hosts sets w"
  shows "labelled L (hosts w)" and "sets w c = Some i \<Longrightarrow> owns_hosts L (hosts w) i"
    and "sets w c = Some i \<Longrightarrow> sets w d = Some j \<Longrightarrow> om_UID (set_Meta i) = om_UID (set_Meta j) \<Longrightarrow> c = d"
proof -
  show "labelled L (hosts w)" using assms unfolding world_sound_def by blast
  show "owns_hosts L (hosts w) i" if "sets w c = Some i"
    using assms that unfolding world_sound_def by (metis option.pred_inject(2))
  show "c = d" if "sets w c = Some i" "sets w d = Some j" "om_UID (set_Meta i) = om_UID (set_Meta j)"
    using assms that unfolding world_sound_def by blast
qed

section \<open>Changes of the hosts and other sets\<close>

text \<open>Hosts that others change, remove, or add under a new name.\<close>

lemma owns_hosts_other:
  assumes o: "owns_hosts L H i"
    and uid: "\<And>k b. H' k = Some b \<Longrightarrow> uid_label L b = Some (om_UID (set_Meta i)) \<Longrightarrow>
      H k = Some b \<or> bmh_ConsumerRef b = Some (consumer_ref i)"
    and ref: "\<And>h st b. gm_get (status_hosts i) h = Some st \<Longrightarrow>
      H' (ip_BmhRef st, ts_BmhNamespace (set_Spec i)) = Some b \<Longrightarrow>
      H (ip_BmhRef st, ts_BmhNamespace (set_Spec i)) = Some b
      \<or> bmh_ConsumerRef b = Some (consumer_ref i) \<and> hostname_label (set_Name i) b = Some h"
  shows "owns_hosts L H' i"
proof (rule owns_hostsI)
  note d = owns_hostsD [OF o]
  show "bmh_ConsumerRef b = Some (consumer_ref i)"
    if "H' k = Some b" "uid_label L b = Some (om_UID (set_Meta i))" for k b
    using uid [OF that] d(4) [OF _ that(2)] by blast
  show "bmh_ConsumerRef b = Some (consumer_ref i) \<and> hostname_label (set_Name i) b = Some h"
    if "gm_get (status_hosts i) h = Some st" "H' (ip_BmhRef st, ts_BmhNamespace (set_Spec i)) = Some b" for h st b
    using ref [OF that] d(5) [OF that(1)] by blast
qed (fact owns_hostsD [OF o])+

lemma touched_byD:
  assumes "touched_by L i H H'" and "H' k = Some b'"
  shows "H k = Some b' \<or> (\<exists>b. H k = Some b \<and> may_change L i b b')"
  using assms(1) [unfolded touched_by_def, rule_format, of k] assms(2)
  by (cases "H k") auto

lemma touched_by_keeps:
  assumes "touched_by L i H H'" and "H k = Some b" and "bmh_ConsumerRef b \<notin> {None, Some (consumer_ref i)}"
  shows "H' k = Some b"
  using assms(1) [unfolded touched_by_def, rule_format, of k] assms(2,3)
  by (cases "H' k") (auto simp: may_change_def)

text \<open>What one set does keeps the hosts of another.\<close>

lemma owns_hosts_touched:
  assumes t: "touched_by L i H H'" and l: "labelled L H'" and o: "owns_hosts L H j"
    and ne: "consumer_ref i \<noteq> consumer_ref j" "om_UID (set_Meta i) \<noteq> om_UID (set_Meta j)"
  shows "owns_hosts L H' j"
proof (rule owns_hosts_other [OF o])
  show "H k = Some b \<or> bmh_ConsumerRef b = Some (consumer_ref j)"
    if b: "H' k = Some b" "uid_label L b = Some (om_UID (set_Meta j))" for k b
    using touched_byD [OF t b(1)] labelledD [OF l b(1)] b(2) ne(2)
    by (auto simp: may_change_def well_labelled_def simp del: not_None_eq split_paired_Ex)
  show "H (ip_BmhRef st, ts_BmhNamespace (set_Spec j)) = Some b
      \<or> bmh_ConsumerRef b = Some (consumer_ref j) \<and> hostname_label (set_Name j) b = Some h"
    if e: "gm_get (status_hosts j) h = Some st" "H' (ip_BmhRef st, ts_BmhNamespace (set_Spec j)) = Some b" for h st b
  proof -
    from touched_byD [OF t e(2)] show ?thesis
    proof (elim disjE exE conjE)
      fix c assume c: "H (ip_BmhRef st, ts_BmhNamespace (set_Spec j)) = Some c" "may_change L i c b"
      from owns_hostsD(5) [OF o e(1) c(1)] have "bmh_ConsumerRef c = Some (consumer_ref j)" by blast
      with c(2) ne(1) show ?thesis by (simp add: may_change_def)
    qed simp
  qed
qed

section \<open>Every step keeps the agreement\<close>

context set_store begin

lemma sound_reconciled:
  assumes s: "world_sound L hosts sets w" and r: "Reconcile_set L C cl w n ns = (r, w')"
    and ok: "orderly cl hosts r"
  shows "world_sound L hosts sets w'"
proof (cases "w' = w")
  case False
  have oh: "owns_hosts L (hosts w) i" if "sets w (n, ns) = Some i" for i
    using that by (rule world_soundD(2) [OF s])
  from False Reconcile_own [OF world_soundD(1) [OF s] oh r ok] obtain i j where
    i: "sets w (n, ns) = Some i" "same_set i j" and l: "labelled L (hosts w')" and oj: "owns_hosts L (hosts w') j"
    and t: "touched_by L i (hosts w) (hosts w')"
    and st: "sets w' = (sets w)(set_key i \<mapsto> j) \<or> sets w' = (sets w)(set_key i := None)"
    by blast
  have k: "set_key i = (n, ns)" by (rule set_stored_key [OF i(1)])
  have old: "sets w c = Some x \<and> c \<noteq> (n, ns) \<or> c = (n, ns) \<and> x = j" if "sets w' c = Some x" for c x
    using that st k by (auto split: if_splits)
  have other: "owns_hosts L (hosts w') x" if x: "sets w c = Some x" "c \<noteq> (n, ns)" for c x
  proof (rule owns_hosts_touched [OF t l world_soundD(2) [OF s x(1)]])
    show "om_UID (set_Meta i) \<noteq> om_UID (set_Meta x)" using world_soundD(3) [OF s i(1) x(1)] x(2) by blast
    have "set_key x \<noteq> set_key i" using set_stored_key [OF x(1)] k x(2) by simp
    then show "consumer_ref i \<noteq> consumer_ref x" by (auto simp: consumer_ref_def set_key_def)
  qed
  show ?thesis
  proof (rule world_soundI [where hosts = hosts and sets = sets])
    show "owns_hosts L (hosts w') x" if "sets w' c = Some x" for c x
      using old [OF that] other oj by blast
    show "c = d" if "sets w' c = Some x" "sets w' d = Some y" "om_UID (set_Meta x) = om_UID (set_Meta y)" for c d x y
    proof -
      have "om_UID (set_Meta j) = om_UID (set_Meta i)" using i(2) by (simp add: same_set_def)
      then have "\<exists>x'. sets w c = Some x' \<and> om_UID (set_Meta x') = om_UID (set_Meta x)"
        and "\<exists>y'. sets w d = Some y' \<and> om_UID (set_Meta y') = om_UID (set_Meta y)"
        using old [OF that(1)] old [OF that(2)] i(1) by metis+
      with that(3) world_soundD(3) [OF s] show ?thesis by metis
    qed
  qed (fact l)
qed (use s in simp)

end

lemma sound_hosts:
  assumes s: "world_sound L hosts sets w" and "sets w' = sets w" and "labelled L (hosts w')"
    and "\<And>c i. sets w c = Some i \<Longrightarrow> owns_hosts L (hosts w) i \<Longrightarrow> owns_hosts L (hosts w') i"
  shows "world_sound L hosts sets w'"
proof (rule world_soundI [where hosts = hosts and sets = sets])
  show "owns_hosts L (hosts w') i" if "sets w' c = Some i" for c i
    using assms(2,4) world_soundD(2) [OF s] that by metis
  show "c = d" if "sets w' c = Some i" "sets w' d = Some j" "om_UID (set_Meta i) = om_UID (set_Meta j)" for c d i j
    using world_soundD(3) [OF s] that assms(2) by metis
qed (fact assms)

lemma sound_host_changed:
  assumes s: "world_sound L hosts sets w" and b: "hosts w k = Some b" "hosts w' = (hosts w)(k \<mapsto> b')"
    and "sets w' = sets w" and c: "bmh_ConsumerRef b' = bmh_ConsumerRef b"
    and lb: "uid_label L b' = uid_label L b" "\<And>n. hostname_label n b' = hostname_label n b"
  shows "world_sound L hosts sets w'"
proof (rule sound_hosts [OF s assms(4)])
  have "well_labelled L b'" using labelledD [OF world_soundD(1) [OF s] b(1)] c lb by (simp add: well_labelled_def)
  then show "labelled L (hosts w')" using b(2) labelled_upd [OF world_soundD(1) [OF s]] by simp
  show "owns_hosts L (hosts w') i" if o: "owns_hosts L (hosts w) i" for i
    by (rule owns_hosts_other [OF o])
      (use b c lb owns_hostsD(4) [OF o b(1)] owns_hostsD(5) [OF o, of _ _ b] in \<open>auto split: if_splits\<close>)
qed

lemma sound_host_added:
  assumes s: "world_sound L hosts sets w" and b: "hosts w k = None" "hosts w' = (hosts w)(k \<mapsto> b)"
    and "sets w' = sets w" and lb: "uid_label L b = None" "\<And>n. hostname_label n b = None"
    and new: "\<And>c i h st. sets w c = Some i \<Longrightarrow> gm_get (status_hosts i) h = Some st \<Longrightarrow>
      k \<noteq> (ip_BmhRef st, ts_BmhNamespace (set_Spec i))"
  shows "world_sound L hosts sets w'"
proof (rule sound_hosts [OF s assms(4)])
  have "well_labelled L b" using lb by (simp add: well_labelled_def)
  then show "labelled L (hosts w')" using b(2) labelled_upd [OF world_soundD(1) [OF s]] by simp
  show "owns_hosts L (hosts w') i" if i: "sets w c = Some i" and o: "owns_hosts L (hosts w) i" for c i
    by (rule owns_hosts_other [OF o]) (use b lb new [OF i] in \<open>auto split: if_splits\<close>)
qed

lemma sound_host_removed:
  assumes s: "world_sound L hosts sets w" and b: "hosts w' = (hosts w)(k := None)" and "sets w' = sets w"
  shows "world_sound L hosts sets w'"
proof (rule sound_hosts [OF s assms(3)])
  show "labelled L (hosts w')" using world_soundD(1) [OF s] b by (simp add: labelled_def)
  show "owns_hosts L (hosts w') i" if o: "owns_hosts L (hosts w) i" for i
    by (rule owns_hosts_other [OF o]) (use b in \<open>auto split: if_splits\<close>)
qed

lemma sound_sets:
  assumes s: "world_sound L hosts sets w" and "hosts w' = hosts w"
    and new: "\<And>c i. sets w' c = Some i \<Longrightarrow> sets w c \<noteq> Some i \<Longrightarrow> owns_hosts L (hosts w) i"
    and uid: "\<And>c i d j. sets w' c = Some i \<Longrightarrow> sets w' d = Some j \<Longrightarrow>
      om_UID (set_Meta i) = om_UID (set_Meta j) \<Longrightarrow> c = d"
  shows "world_sound L hosts sets w'"
proof (rule world_soundI [where hosts = hosts and sets = sets])
  show "labelled L (hosts w')" using world_soundD(1) [OF s] assms(2) by simp
  show "owns_hosts L (hosts w') i" if "sets w' c = Some i" for c i
    using new [OF that] world_soundD(2) [OF s] assms(2) by metis
  show "c = d" if "sets w' c = Some i" "sets w' d = Some j" "om_UID (set_Meta i) = om_UID (set_Meta j)" for c d i j
    using uid [OF that] .
qed

lemma sound_set_created:
  assumes s: "world_sound L hosts sets w" and "hosts w' = hosts w" and sw: "sets w' = (sets w)(c \<mapsto> i)"
    and wf: "gm_wf (spec_hosts i)" and st: "gm_items (status_hosts i) = []"
    and nh: "\<And>k b. hosts w k = Some b \<Longrightarrow> uid_label L b \<noteq> Some (om_UID (set_Meta i))"
    and ns: "\<And>d j. sets w d = Some j \<Longrightarrow> om_UID (set_Meta j) \<noteq> om_UID (set_Meta i)"
  shows "world_sound L hosts sets w'"
proof (rule sound_sets [OF s assms(2)])
  have none: "gm_get (status_hosts i) h = None" for h using st by (simp add: gm_get_def)
  then have "owns_hosts L (hosts w) i"
    by (intro owns_hostsI) (use wf st nh in \<open>auto simp: gm_wf_def gm_keys_def status_consistent_def\<close>)
  then show "owns_hosts L (hosts w) x" if "sets w' d = Some x" "sets w d \<noteq> Some x" for d x
    using that sw by (auto split: if_splits)
  show "d = e" if "sets w' d = Some x" "sets w' e = Some y" "om_UID (set_Meta x) = om_UID (set_Meta y)" for d x e y
    using that sw ns [of d x] ns [of e y] world_soundD(3) [OF s, of d x e y]
    by (auto simp del: split_paired_All split: if_splits)
qed

lemma sound_set_edited:
  assumes s: "world_sound L hosts sets w" and "hosts w' = hosts w" and i: "sets w c = Some i"
    and sw: "sets w' = (sets w)(c \<mapsto> j)" and same: "same_set i j"
    and "gm_wf (spec_hosts j)" and "status_hosts j = status_hosts i"
  shows "world_sound L hosts sets w'"
proof (rule sound_sets [OF s assms(2)])
  have o: "owns_hosts L (hosts w) i" by (rule world_soundD(2) [OF s i])
  then have "owns_hosts L (hosts w) j"
    by (rule owns_hosts_fewer [OF _ same]) (use assms(6,7) owns_hostsD(2) [OF o] in simp_all)
  then show "owns_hosts L (hosts w) x" if "sets w' d = Some x" "sets w d \<noteq> Some x" for d x
    using that sw by (auto split: if_splits)
  have u: "om_UID (set_Meta j) = om_UID (set_Meta i)" using same by (simp add: same_set_def)
  show "d = e" if "sets w' d = Some x" "sets w' e = Some y" "om_UID (set_Meta x) = om_UID (set_Meta y)" for d x e y
  proof -
    have "\<exists>z'. sets w f = Some z' \<and> om_UID (set_Meta z') = om_UID (set_Meta z)" if "sets w' f = Some z" for f z
      using that sw u i by (cases "f = c") auto
    with that world_soundD(3) [OF s] show ?thesis by metis
  qed
qed

lemma sound_set_removed:
  assumes s: "world_sound L hosts sets w" and "hosts w' = hosts w" and sw: "sets w' = (sets w)(c := None)"
  shows "world_sound L hosts sets w'"
proof (rule sound_sets [OF s assms(2)])
  show "owns_hosts L (hosts w) x" if "sets w' d = Some x" "sets w d \<noteq> Some x" for d x
    using that sw by (auto split: if_splits)
  show "d = e" if "sets w' d = Some x" "sets w' e = Some y" "om_UID (set_Meta x) = om_UID (set_Meta y)" for d x e y
    using that sw world_soundD(3) [OF s, of d x e y] by (auto simp del: split_paired_All split: if_splits)
qed

context set_store begin

lemma world_step_sound:
  assumes "world_step L C cl hosts sets w w'" and "world_sound L hosts sets w"
  shows "world_sound L hosts sets w'"
  using assms
proof (induction rule: world_step.induct)
  case (reconciled w n ns r w')
  then show ?case using sound_reconciled by blast
next
  case (host_changed w k b w' b')
  then show ?case by (intro sound_host_changed [of L hosts sets w k b w' b'])
next
  case (host_added w k w' b)
  then show ?case by (intro sound_host_added [of L hosts sets w k w' b])
next
  case (host_removed w' w k)
  then show ?case by (intro sound_host_removed [of L hosts sets w w' k])
next
  case (set_created w' w c i)
  then show ?case by (intro sound_set_created [of L hosts sets w w' c i])
next
  case (set_edited w' w c i j)
  then show ?case by (intro sound_set_edited [of L hosts sets w w' c i j])
next
  case (set_removed w' w c)
  then show ?case by (intro sound_set_removed [of L hosts sets w w' c])
qed

lemma world_steps_sound:
  "(world_step L C cl hosts sets)\<^sup>*\<^sup>* w w' \<Longrightarrow> world_sound L hosts sets w \<Longrightarrow> world_sound L hosts sets w'"
  by (induction rule: rtranclp_induct) (auto intro: world_step_sound)

text \<open>No host is in two entries, of one set or of two.\<close>

lemma sound_exclusive:
  assumes s: "world_sound L hosts sets w" and i: "sets w c = Some i" "sets w d = Some j"
    and e: "gm_get (status_hosts i) h = Some st" "gm_get (status_hosts j) g = Some tt"
    and b: "hosts w (ip_BmhRef st, ts_BmhNamespace (set_Spec i)) = Some b"
    and eq: "ip_BmhRef tt = ip_BmhRef st" "ts_BmhNamespace (set_Spec j) = ts_BmhNamespace (set_Spec i)"
  shows "c = d \<and> h = g"
proof -
  have a: "bmh_ConsumerRef b = Some (consumer_ref i)" "hostname_label (set_Name i) b = Some h"
    using owns_hostsD(5) [OF world_soundD(2) [OF s i(1)] e(1) b] by simp_all
  moreover have "bmh_ConsumerRef b = Some (consumer_ref j)" "hostname_label (set_Name j) b = Some g"
    using owns_hostsD(5) [OF world_soundD(2) [OF s i(2)] e(2), of b] b eq by simp_all
  ultimately have "set_key i = set_key j" "h = g" by (auto simp: consumer_ref_def set_key_def)
  with set_stored_key [OF i(1)] set_stored_key [OF i(2)] show ?thesis by simp
qed

end

end
