(* ===== verification/SampleWorld.thy ===== *)
theory SampleWorld
  imports World RefClient
begin

text \<open>
  A cluster in memory that satisfies the laws of \<open>set_store\<close>: hosts and sets are found by their
  keys, a host without a name is not stored. It extends \<open>ref_client\<close>, whose other calls it keeps.
\<close>

section \<open>The store\<close>

definition view_host :: "cluster \<Rightarrow> host_view" where
  "view_host w k = (if fst k = [] then None else find (\<lambda>b. bmh_key b = k) (k_bmhs w))"

definition view_set :: "cluster \<Rightarrow> string \<times> string \<Rightarrow> OpenStackBaremetalSet option" where
  "view_set w c = find (\<lambda>i. set_key i = c) (k_sets w)"

definition put_host :: "BareMetalHost \<Rightarrow> cluster \<Rightarrow> cluster" where
  "put_host b w = w\<lparr>k_bmhs := b # k_bmhs w\<rparr>"

definition store_patch ::
  "cluster \<Rightarrow> BareMetalHost \<Rightarrow> (BareMetalHost \<Rightarrow> BareMetalHost result) \<Rightarrow> BareMetalHost result \<times> cluster" where
  "store_patch w b f =
     (case f (case view_host w (bmh_key b) of Some b0 \<Rightarrow> b0 | None \<Rightarrow> b) of
        Ok b' \<Rightarrow> (Ok b', put_host b' w) | r \<Rightarrow> (r, w))"

definition store_client :: "cluster client" where
  "store_client = ref_client\<lparr>
     List_bmhs := (\<lambda>w opts. Ok (filter (\<lambda>b. view_host w (bmh_key b) = Some b \<and> list_all (opt_matches b) opts)
       (k_bmhs w))),
     Get_bmh := (\<lambda>w n ns. found_or n (view_host w (n, ns))),
     CreateOrPatch_bmh := store_patch,
     Update_bmh := (\<lambda>w b. if view_host w (bmh_key b) = None then (Err (NotFound (bmh_Name b)), w)
       else (Ok (), put_host b w)),
     Get_set := (\<lambda>w n ns. found_or n (view_set w (n, ns))),
     PatchInstance_set := (\<lambda>w i. (Ok (), w\<lparr>k_sets := i # k_sets w\<rparr>))\<rparr>"

lemma view_host_put: "bmh_Name b \<noteq> [] \<Longrightarrow> view_host (put_host b w) = (view_host w)(bmh_key b \<mapsto> b)"
  by (intro ext) (simp add: view_host_def put_host_def bmh_key_def)

lemma view_hostD: "view_host w k = Some b \<Longrightarrow> bmh_key b = k \<and> fst k \<noteq> []"
  by (auto simp: view_host_def find_Some_iff split: if_splits)

lemma view_other [simp]:
  "view_host (w\<lparr>k_secrets := x\<rparr>) = view_host w" "view_host (w\<lparr>k_servers := y\<rparr>) = view_host w"
  "view_host (w\<lparr>k_sets := z\<rparr>) = view_host w" "view_set (w\<lparr>k_secrets := x\<rparr>) = view_set w"
  "view_set (w\<lparr>k_servers := y\<rparr>) = view_set w" "view_set (w\<lparr>k_bmhs := v\<rparr>) = view_set w"
  "view_set (put_host b w) = view_set w"
  by (intro ext, simp add: view_host_def view_set_def put_host_def)+

lemma patch_ps_view: "view_host (snd (patch_ps w p f)) = view_host w" "view_set (snd (patch_ps w p f)) = view_set w"
  by (simp_all add: patch_ps_def split: option.split outcome.split)

lemma store_client_calm: "calm_client store_client"
proof -
  have "calm (fst (store_patch w b f))" if "\<forall>b. calm (f b)" for w b f
    using that by (auto simp: store_patch_def split: outcome.split) (metis calm_simps(3))+
  with ref_client_calm show ?thesis by (simp add: calm_client_def store_client_def)
qed

lemma found_or_Ok: "found_or n x = Ok y \<longleftrightarrow> x = Some y"
  by (simp add: found_or_def split: option.split)

lemma ref_owner_key:
  "k \<in> {GetOwnerUIDLabelSelector ref_lib (GetGroupLabel ref_lib ServiceName),
      GetOwnerNameSpaceLabelSelector ref_lib (GetGroupLabel ref_lib ServiceName),
      GetOwnerNameLabelSelector ref_lib (GetGroupLabel ref_lib ServiceName)} \<Longrightarrow>
   k \<noteq> n @ HostnameLabelSelectorSuffix"
proof
  assume k: "k \<in> {GetOwnerUIDLabelSelector ref_lib (GetGroupLabel ref_lib ServiceName),
      GetOwnerNameSpaceLabelSelector ref_lib (GetGroupLabel ref_lib ServiceName),
      GetOwnerNameLabelSelector ref_lib (GetGroupLabel ref_lib ServiceName)}"
    and e: "k = n @ HostnameLabelSelectorSuffix"
  from e have "rev k = rev HostnameLabelSelectorSuffix @ rev n" by simp
  then have "take 9 (rev k) = rev ''-hostname''" by (simp add: HostnameLabelSelectorSuffix_def)
  with k show False by (auto simp: ref_lib_def ServiceName_def)
qed

interpretation rw: set_store ref_lib store_client view_host view_set
proof unfold_locales
  fix w w' :: cluster and c d :: "string \<times> string" and n ns x v m opts ls b b0 bs f f' p env ts i
    and r :: "BareMetalHost result" and q q' :: "unit result"
  note sc = store_client_def
  show "k \<noteq> m @ HostnameLabelSelectorSuffix" if "k \<in> {GetOwnerUIDLabelSelector ref_lib (GetGroupLabel ref_lib ServiceName),
      GetOwnerNameSpaceLabelSelector ref_lib (GetGroupLabel ref_lib ServiceName),
      GetOwnerNameLabelSelector ref_lib (GetGroupLabel ref_lib ServiceName)}" for k
    using ref_owner_key [OF that] .
  show "bmh_key b = c \<and> fst c \<noteq> []" if "view_host w c = Some b" using view_hostD [OF that] .
  show "view_host w (bmh_key b) = Some b" if "List_bmhs store_client w opts = Ok bs" "b \<in> set bs"
    using that by (auto simp: sc)
  show "om_Namespace (bmh_Meta b) = ns"
    if "List_bmhs store_client w opts = Ok bs" "b \<in> set bs" "InNamespace ns \<in> set opts"
    using that by (fastforce simp: sc list_all_iff opt_matches_def)
  show "gm_get (bmh_Labels b) x = Some v"
    if "List_bmhs store_client w opts = Ok bs" "b \<in> set bs" "MatchingLabels ls \<in> set opts" "gm_get ls x = Some v"
    using that gm_get_SomeD [OF that(4)] by (fastforce simp: sc list_all_iff opt_matches_def)
  show "view_host w (n, ns) = Some b" if "Get_bmh store_client w n ns = Ok b"
    using that by (simp add: sc found_or_Ok)
  show "view_host w' = view_host w \<and> (\<nexists>b'. r = Ok b')
      \<or> (\<exists>b'. f b0 = Ok b' \<and> view_host w' = (view_host w)(bmh_key b \<mapsto> b'))"
    if h: "CreateOrPatch_bmh store_client w b f = (r, w')" "view_host w (bmh_key b) = Some b0"
      "\<And>x y. f x = Ok y \<Longrightarrow> bmh_key y = bmh_key x"
  proof (cases "f b0")
    case (Ok b')
    have "bmh_key b' = bmh_key b" using h(3) [OF Ok] view_hostD [OF h(2)] by simp
    moreover have "bmh_Name b' \<noteq> []" using calculation view_hostD [OF h(2)] by (simp add: bmh_key_def)
    ultimately have "view_host (put_host b' w) = (view_host w)(bmh_key b \<mapsto> b')" using view_host_put by metis
    moreover have "w' = put_host b' w" using h(1,2) Ok by (simp add: sc store_patch_def)
    ultimately show ?thesis using Ok by blast
  qed (use h in \<open>auto simp: sc store_patch_def\<close>)
  show "view_host w' = (view_host w)(bmh_key b \<mapsto> b) \<or> view_host w' = view_host w \<and> q \<noteq> Ok ()"
    if "Update_bmh store_client w b = (q, w')"
    using that view_host_put [of b w] by (auto simp: sc view_host_def bmh_key_def split: if_splits)
  show "view_host w' = view_host w" if "Update_bmh store_client w b = (Err e, w')" "IsNotFound e" for e
    using that by (auto simp: sc split: if_splits)
  show "view_set w' = (view_set w)(set_key i \<mapsto> i) \<or> view_set w' = (view_set w)(set_key i := None)"
    if "PatchInstance_set store_client w i = (Ok (), w')"
  proof -
    from that have "w' = w\<lparr>k_sets := i # k_sets w\<rparr>" by (auto simp: sc)
    moreover have "view_set (w\<lparr>k_sets := i # k_sets w\<rparr>) = (view_set w)(set_key i \<mapsto> i)"
      by (intro ext) (simp add: view_set_def)
    ultimately show ?thesis by simp
  qed
  show "set_key i = c" if "view_set w c = Some i" using that by (auto simp: view_set_def find_Some_iff)
  show "view_set w (n, ns) = Some i" if "Get_set store_client w n ns = Ok i" using that by (simp add: sc found_or_Ok)
  show "view_set (snd (CreateOrPatch_bmh store_client w b f)) = view_set w"
    by (simp add: sc store_patch_def split: outcome.split)
  show "view_set (snd (Update_bmh store_client w b)) = view_set w" by (simp add: sc)
qed (simp_all add: store_client_def ref_client_def patch_ps_view)

lemma store_client_reliable: "orderly store_client view_host r"
proof -
  have "updates_atomic store_client view_host" by (auto simp: updates_atomic_def store_client_def split: if_splits)
  with store_client_calm show ?thesis
    by (simp add: orderly_def secrets_deletable_def sets_patchable_def store_client_def ref_client_def)
qed

text \<open>The same cluster with secrets that cannot be deleted and instances that cannot be patched.\<close>

definition stuck_client :: "cluster client" where
  "stuck_client = store_client\<lparr>
     DeleteSecretsWithName := (\<lambda>w n ns. (Err (ApiError ''connection refused''), w)),
     PatchInstance_set := (\<lambda>w i. (Err (ApiError ''connection refused''), w))\<rparr>"

interpretation rs: set_store ref_lib stuck_client view_host view_set
proof unfold_locales
  note eq = stuck_client_def
  show "view_host (snd (DeleteSecretsWithName stuck_client w n ns)) = view_host w" for w n ns by (simp add: eq)
  show "view_set (snd (DeleteSecretsWithName stuck_client w n ns)) = view_set w" for w n ns by (simp add: eq)
  show "view_host (snd (PatchInstance_set stuck_client w i)) = view_host w" for w i by (simp add: eq)
  show "view_host (snd (EnsureSecrets stuck_client w i ts env)) = view_host w" for w i ts env
    using rw.secrets_hosts(1) by (simp add: eq)
  show "view_set (snd (EnsureSecrets stuck_client w i ts env)) = view_set w" for w i ts env
    using rw.secrets_sets(1) by (simp add: eq)
qed (use rw.owner_key rw.stored_key rw.list_stored rw.list_namespace rw.list_labels rw.get_stored
    rw.patch_stored rw.update_stored rw.update_missing rw.servers_hosts rw.set_stored_key rw.get_set rw.hosts_sets rw.servers_sets
    in \<open>auto simp: stuck_client_def\<close>)

section \<open>Two sets and three hosts\<close>

text \<open>Two sets, \<open>set\<close> with a host that it is to give back and \<open>other\<close> with a host of its own; the third
  host is free.\<close>

definition owned_bmh :: "string \<Rightarrow> OpenStackBaremetalSet \<Rightarrow> string \<Rightarrow> BareMetalHost" where
  "owned_bmh n i h = (sample_bmh n (hostLabels ref_lib i h) StateProvisioned)\<lparr>bmh_ConsumerRef := Some (consumer_ref i)\<rparr>"

definition first_set :: OpenStackBaremetalSet where
  "first_set = sample_set None (Some [(''c0'', zero_HostStatus\<lparr>ip_Hostname := ''c0'', ip_BmhRef := ''b0''\<rparr>)])"

definition second_set :: OpenStackBaremetalSet where
  "second_set = (sample_set (Some [(''d0'', sample_host)])
     (Some [(''d0'', zero_HostStatus\<lparr>ip_Hostname := ''d0'', ip_BmhRef := ''b1''\<rparr>)]))
     \<lparr>set_Meta := (sample_meta ''other'')\<lparr>om_UID := ''uid2''\<rparr>\<rparr>"

definition two_sets :: cluster where
  "two_sets = empty_cluster\<lparr>
     k_bmhs := [owned_bmh ''b0'' first_set ''c0'', owned_bmh ''b1'' second_set ''d0'',
                sample_bmh ''b2'' None StateAvailable],
     k_sets := [first_set, second_set]\<rparr>"

lemmas two_sets_defs = two_sets_def first_set_def second_set_def owned_bmh_def sample_set_def sample_meta_def
  sample_bmh_def empty_cluster_def zero_ObjectMeta_def

lemma two_sets_meta:
  "set_key first_set = (''set'', ''ns'')" "set_key second_set = (''other'', ''ns'')"
  "set_Name first_set = ''set''" "set_Name second_set = ''other''"
  "om_UID (set_Meta first_set) = ''uid''" "om_UID (set_Meta second_set) = ''uid2''"
  "ts_BmhNamespace (set_Spec first_set) = ''ns''" "ts_BmhNamespace (set_Spec second_set) = ''ns''"
  "gm_get (status_hosts first_set) h =
     (if h = ''c0'' then Some (zero_HostStatus\<lparr>ip_Hostname := ''c0'', ip_BmhRef := ''b0''\<rparr>) else None)"
  "gm_get (status_hosts second_set) h =
     (if h = ''d0'' then Some (zero_HostStatus\<lparr>ip_Hostname := ''d0'', ip_BmhRef := ''b1''\<rparr>) else None)"
  by (simp_all add: two_sets_defs set_key_def gm_get_def)

lemma sample_bmh_key:
  "bmh_key (owned_bmh n i h) = (n, ''ns'')" "bmh_key (sample_bmh n ls st) = (n, ''ns'')"
  by (simp_all add: bmh_key_def two_sets_defs)

lemma two_sets_hosts:
  "view_host two_sets k =
     (if k = (''b0'', ''ns'') then Some (owned_bmh ''b0'' first_set ''c0'')
      else if k = (''b1'', ''ns'') then Some (owned_bmh ''b1'' second_set ''d0'')
      else if k = (''b2'', ''ns'') then Some (sample_bmh ''b2'' None StateAvailable) else None)"
  by (auto simp: view_host_def two_sets_def sample_bmh_key)

lemma two_sets_sets:
  "view_set two_sets c = (if c = (''set'', ''ns'') then Some first_set
     else if c = (''other'', ''ns'') then Some second_set else None)"
  by (simp add: view_set_def two_sets_def two_sets_meta)

lemma owned_bmh_labels:
  "uid_label ref_lib (owned_bmh n i h) = Some (om_UID (set_Meta i))"
  "hostname_label m (owned_bmh n i h) = (if m = set_Name i then Some h else None)"
  "bmh_ConsumerRef (owned_bmh n i h) = Some (consumer_ref i)"
  using rw.hostLabels_get [of i h]
  by (simp_all add: uid_label_def hostname_label_def owned_bmh_def sample_bmh_def)

lemma free_bmh_labels:
  "uid_label ref_lib (sample_bmh n None st) = None" "hostname_label m (sample_bmh n None st) = None"
  "bmh_ConsumerRef (sample_bmh n None st) = None"
  by (simp_all add: uid_label_def hostname_label_def sample_bmh_def)

lemma owns_one:
  assumes "gm_wf (spec_hosts i)" and st: "status_hosts i = Some [(ip_Hostname st, st)]"
    and b: "H (ip_BmhRef st, ts_BmhNamespace (set_Spec i)) = Some (owned_bmh n i (ip_Hostname st))"
    and uid: "\<And>k b. H k = Some b \<Longrightarrow> uid_label ref_lib b = Some (om_UID (set_Meta i)) \<Longrightarrow>
      b = owned_bmh n i (ip_Hostname st)"
  shows "owns_hosts ref_lib H i"
proof (rule owns_hostsI)
  have get: "gm_get (status_hosts i) h = Some s \<longleftrightarrow> h = ip_Hostname st \<and> s = st" for h s
    by (auto simp: st gm_get_def)
  show "status_consistent i" by (simp add: status_consistent_def get)
  show "gm_wf (status_hosts i)" by (simp add: st gm_wf_def gm_keys_def)
  show "bmh_ConsumerRef b = Some (consumer_ref i)"
    if "H k = Some b" "uid_label ref_lib b = Some (om_UID (set_Meta i))" for k b
    by (simp add: uid [OF that] owned_bmh_labels)
  show "bmh_ConsumerRef c = Some (consumer_ref i) \<and> hostname_label (set_Name i) c = Some h"
    if "gm_get (status_hosts i) h = Some s" "H (ip_BmhRef s, ts_BmhNamespace (set_Spec i)) = Some c" for h s c
  proof -
    from that(1) have "h = ip_Hostname st" "s = st" by (simp_all add: get)
    with that(2) b have "c = owned_bmh n i h" by simp
    with \<open>h = _\<close> show ?thesis by (simp add: owned_bmh_labels)
  qed
qed (fact assms)

lemma two_sets_sound: "world_sound ref_lib view_host view_set two_sets"
proof (rule world_soundI)
  have "or_Name (consumer_ref i) = set_Name i" for i by (simp add: consumer_ref_def)
  then show "labelled ref_lib (view_host two_sets)"
    by (simp add: labelled_def two_sets_hosts well_labelled_def owned_bmh_labels free_bmh_labels)
  have uid: "uid_label ref_lib b = Some u \<Longrightarrow>
      u = ''uid'' \<and> b = owned_bmh ''b0'' first_set ''c0'' \<or> u = ''uid2'' \<and> b = owned_bmh ''b1'' second_set ''d0''"
    if "view_host two_sets k = Some b" for k b u
    using that by (auto simp: two_sets_hosts owned_bmh_labels free_bmh_labels two_sets_meta split: if_splits)
  have "owns_hosts ref_lib (view_host two_sets) first_set"
  proof (rule owns_one [where st = "zero_HostStatus\<lparr>ip_Hostname := ''c0'', ip_BmhRef := ''b0''\<rparr>" and n = "''b0''"])
    show "b = owned_bmh ''b0'' first_set (ip_Hostname (zero_HostStatus\<lparr>ip_Hostname := ''c0'', ip_BmhRef := ''b0''\<rparr>))"
      if "view_host two_sets k = Some b" "uid_label ref_lib b = Some (om_UID (set_Meta first_set))" for k b
      using uid [OF that] by (simp add: two_sets_meta)
  qed (simp_all add: two_sets_meta two_sets_hosts, simp_all add: first_set_def sample_set_def)
  moreover have "owns_hosts ref_lib (view_host two_sets) second_set"
  proof (rule owns_one [where st = "zero_HostStatus\<lparr>ip_Hostname := ''d0'', ip_BmhRef := ''b1''\<rparr>" and n = "''b1''"])
    show "b = owned_bmh ''b1'' second_set (ip_Hostname (zero_HostStatus\<lparr>ip_Hostname := ''d0'', ip_BmhRef := ''b1''\<rparr>))"
      if "view_host two_sets k = Some b" "uid_label ref_lib b = Some (om_UID (set_Meta second_set))" for k b
      using uid [OF that] by (simp add: two_sets_meta)
  qed (simp_all add: two_sets_meta two_sets_hosts, simp_all add: second_set_def sample_set_def gm_wf_def gm_keys_def)
  ultimately show "owns_hosts ref_lib (view_host two_sets) i" if "view_set two_sets c = Some i" for c i
    using that by (auto simp: two_sets_sets split: if_splits)
  show "c = d" if "view_set two_sets c = Some i" "view_set two_sets d = Some j"
    "om_UID (set_Meta i) = om_UID (set_Meta j)" for c d i j
    using that by (auto simp: two_sets_sets two_sets_meta split: if_splits)
qed

end
