(* ===== verification/OwnershipProperties.thy ===== *)
theory OwnershipProperties
  imports SampleWorld
begin

text \<open>
  Properties of several sets that share the bare metal hosts of a cluster, with witnesses on the two sets
  of \<open>SampleWorld\<close>. The lemmas they rest on are in \<open>OwnershipKept\<close> and \<open>World\<close>.
\<close>

section \<open>Exclusive allocation\<close>

text \<open>C2. No bare metal host is allocated twice: from a cluster whose hosts, labels and statuses agree,
  however many reconciliations of any sets follow, interleaved with changes of hosts and sets by others,
  whenever an entry of the status of a set names a host that exists, that host has the set as its
  consumer, and no other entry, of this set or of another, names the same host. Provided that each
  reconciliation returned without an error or, for those that returned one, that the deletion of secrets
  and the patch of an instance never fail, a failed update of a host is not applied and no call panics (C38 shows
  why); and that the others do not change the consumer of a host nor the labels of this operator, register only
  hosts without these labels and under a name that no status still has, do not change the bmhNamespace of a
  set, and create sets with an empty status and a new UID.\<close>

theorem hosts_allocated_once:
  assumes "set_store L cl hosts sets" and "world_sound L hosts sets w0"
    and "(world_step L C cl hosts sets)\<^sup>*\<^sup>* w0 w"
    and "sets w c = Some i" and "gm_get (status_hosts i) h = Some st"
    and "hosts w (ip_BmhRef st, ts_BmhNamespace (set_Spec i)) = Some b"
  shows "bmh_ConsumerRef b = Some (consumer_ref i)
    \<and> (\<forall>d j g tt. sets w d = Some j \<and> gm_get (status_hosts j) g = Some tt \<and> ip_BmhRef tt = ip_BmhRef st
         \<and> ts_BmhNamespace (set_Spec j) = ts_BmhNamespace (set_Spec i) \<longrightarrow> d = c \<and> g = h)"
proof -
  have s: "world_sound L hosts sets w"
    by (rule set_store.world_steps_sound [OF assms(1,3,2)])
  have "bmh_ConsumerRef b = Some (consumer_ref i)"
    using owns_hostsD(5) [OF world_soundD(2) [OF s assms(4)] assms(5,6)] by blast
  moreover have "d = c \<and> g = h"
    if "sets w d = Some j" "gm_get (status_hosts j) g = Some tt" "ip_BmhRef tt = ip_BmhRef st"
      "ts_BmhNamespace (set_Spec j) = ts_BmhNamespace (set_Spec i)" for d j g tt
    using set_store.sound_exclusive [OF assms(1) s assms(4) that(1) assms(5) that(2) assms(6) that(3,4)] by blast
  ultimately show ?thesis by blast
qed

text \<open>One set is reconciled; the host of the other keeps its consumer.\<close>

theorem hosts_allocated_once_witness:
  "\<exists>w b. w = snd (Reconcile_set ref_lib ref_conds store_client two_sets ''set'' ''ns'')
     \<and> world_step ref_lib ref_conds store_client view_host view_set two_sets w
     \<and> view_host w (''b1'', ''ns'') = Some b \<and> bmh_ConsumerRef b = Some (consumer_ref second_set)"
proof -
  obtain r w where run: "Reconcile_set ref_lib ref_conds store_client two_sets ''set'' ''ns'' = (r, w)" by fastforce
  let ?st = "zero_HostStatus\<lparr>ip_Hostname := ''d0'', ip_BmhRef := ''b1''\<rparr>"
  have step: "world_step ref_lib ref_conds store_client view_host view_set two_sets w"
    by (rule world_step.reconciled [OF run store_client_reliable])
  have oh: "owns_hosts ref_lib (view_host two_sets) i" if "view_set two_sets (''set'', ''ns'') = Some i" for i
    using that by (rule world_soundD(2) [OF two_sets_sound])
  have b1: "view_host two_sets (''b1'', ''ns'') = Some (owned_bmh ''b1'' second_set ''d0'')"
    by (simp add: two_sets_hosts)
  consider "w = two_sets" | i j where "view_set two_sets (''set'', ''ns'') = Some i"
      "touched_by ref_lib i (view_host two_sets) (view_host w)"
      "view_set w = (view_set two_sets)(set_key i \<mapsto> j) \<or> view_set w = (view_set two_sets)(set_key i := None)"
    using rw.Reconcile_own [OF world_soundD(1) [OF two_sets_sound] oh run store_client_reliable] by blast
  then have other: "view_set w (''other'', ''ns'') = Some second_set
      \<and> view_host w (''b1'', ''ns'') = Some (owned_bmh ''b1'' second_set ''d0'')"
  proof cases
    case (2 i j)
    have f: "i = first_set" using 2(1) by (simp add: two_sets_sets)
    have "view_host w (''b1'', ''ns'') = Some (owned_bmh ''b1'' second_set ''d0'')"
      by (rule touched_by_keeps [OF 2(2) b1]) (simp add: owned_bmh_labels f consumer_ref_def two_sets_meta)
    moreover have "view_set w (''other'', ''ns'') = Some second_set"
      using 2(3) by (auto simp: f two_sets_meta two_sets_sets)
    ultimately show ?thesis by blast
  qed (simp add: two_sets_sets b1)
  have e: "gm_get (status_hosts second_set) ''d0'' = Some ?st" by (simp add: two_sets_meta)
  have b: "view_host w (ip_BmhRef ?st, ts_BmhNamespace (set_Spec second_set)) = Some (owned_bmh ''b1'' second_set ''d0'')"
    using other by (simp add: two_sets_meta)
  have "(world_step ref_lib ref_conds store_client view_host view_set)\<^sup>*\<^sup>* two_sets w" using step by blast
  note once = hosts_allocated_once [OF rw.set_store_axioms two_sets_sound this,
    where c = "(''other'', ''ns'')" and i = second_set and h = "''d0''" and st = ?st
      and b = "owned_bmh ''b1'' second_set ''d0''"]
  have "bmh_ConsumerRef (owned_bmh ''b1'' second_set ''d0'') = Some (consumer_ref second_set)"
    by (rule conjunct1 [OF once]) (use other e b in blast)+
  with step other run show ?thesis by (metis snd_conv)
qed

text \<open>C6. A reconciliation leaves the hosts of others alone: in a cluster whose hosts, labels and statuses
  agree, a host whose consumer is not the reconciled set is the same afterwards, whatever the outcome: also
  when the deletion of secrets, the patch of the instance or another call fails or panics, and when a failed
  update of a host was applied all the same.\<close>

theorem reconcile_leaves_other_hosts:
  assumes "set_store L cl hosts sets" and "world_sound L hosts sets w"
    and "Reconcile_set L C cl w n ns = (r, w')"
    and "hosts w k = Some b" and "bmh_ConsumerRef b = Some x" and "(or_Name x, or_Namespace x) \<noteq> (n, ns)"
  shows "hosts w' k = Some b"
proof -
  have oh: "owns_hosts L (hosts w) i" if "sets w (n, ns) = Some i" for i
    using that by (rule world_soundD(2) [OF assms(2)])
  from set_store.Reconcile_touched [OF assms(1) world_soundD(1) [OF assms(2)] oh assms(3)]
  consider "w' = w" | i where "sets w (n, ns) = Some i" "touched_by L i (hosts w) (hosts w')" by blast
  then show ?thesis
  proof cases
    case 2
    have "set_key i = (n, ns)" by (rule set_store.set_stored_key [OF assms(1) 2(1)])
    then have "Some x \<noteq> Some (consumer_ref i)" using assms(6) by (auto simp: consumer_ref_def set_key_def)
    with touched_by_keeps [OF 2(2) assms(4)] assms(5) show ?thesis by simp
  qed (use assms(4) in simp)
qed

text \<open>In the cluster in which neither the deletion of secrets nor the patch of an instance succeeds.\<close>

theorem reconcile_leaves_other_hosts_witness:
  "view_host (snd (Reconcile_set ref_lib ref_conds stuck_client two_sets ''set'' ''ns'')) (''b1'', ''ns'') =
     Some (owned_bmh ''b1'' second_set ''d0'')"
  by (rule reconcile_leaves_other_hosts [OF rs.set_store_axioms two_sets_sound prod.collapse [symmetric] _
        owned_bmh_labels(3)])
    (simp_all add: two_sets_hosts, simp add: consumer_ref_def two_sets_meta)

section \<open>What the agreement rests on\<close>

text \<open>C38. A deprovisioning that fails after the release of the host endangers the next owner: once the
  release is stored, the host has no consumer, no UID label of an owner and no label with the host name, whichever set
  the consumer was and whatever the outcome; and when the deletion of one of the two secrets then fails, the call returns
  the error and the entry of the status stays.\<close>

theorem failed_deprovision_releases:
  assumes "host_store L cl hosts"
    and "Get_bmh cl w (ip_BmhRef st) (ts_BmhNamespace (set_Spec inst)) = Ok b"
    and "Update_bmh cl w (releaseHost L inst (ip_Hostname st) b) = (Ok (), w1)"
    and "BaremetalHostDeprovision L cl (inst, w) st = (r, inst', w')"
  shows "(\<exists>b'. hosts w' (ip_BmhRef st, ts_BmhNamespace (set_Spec inst)) = Some b'
        \<and> bmh_ConsumerRef b' = None \<and> uid_label L b' = None \<and> hostname_label (set_Name inst) b' = None)
    \<and> (\<forall>e w2. DeleteSecretsWithName cl w1 (CloudInitUserDataSecretName (set_Name inst) (ip_BmhRef st))
          (ts_BmhNamespace (set_Spec inst)) = (Err e, w2) \<longrightarrow> r = Err e \<and> inst' = inst)
    \<and> (\<forall>e w2 w3. DeleteSecretsWithName cl w1 (CloudInitUserDataSecretName (set_Name inst) (ip_BmhRef st))
          (ts_BmhNamespace (set_Spec inst)) = (Ok (), w2) \<longrightarrow>
        DeleteSecretsWithName cl w2 (CloudInitNetworkDataSecretName (set_Name inst) (ip_BmhRef st))
          (ts_BmhNamespace (set_Spec inst)) = (Err e, w3) \<longrightarrow> r = Err e \<and> inst' = inst)"
proof -
  let ?ns = "ts_BmhNamespace (set_Spec inst)" and ?b' = "releaseHost L inst (ip_Hostname st) b"
  let ?names = "[CloudInitUserDataSecretName (set_Name inst) (ip_BmhRef st),
    CloudInitNetworkDataSecretName (set_Name inst) (ip_BmhRef st)]"
  have key: "bmh_key b = (ip_BmhRef st, ?ns)"
    using host_store.stored_key [OF assms(1) host_store.get_stored [OF assms(1,2)]] by simp
  have del: "hosts v' = hosts v" if "deleteSecrets cl ?ns names (i, v) = (q, j, v')" for names i v q j v'
    using that
  proof (induction names arbitrary: v)
    case (Cons m names)
    obtain q1 v1 where d: "DeleteSecretsWithName cl v m ?ns = (q1, v1)" by fastforce
    with host_store.secrets_hosts(2) [OF assms(1), of v m ?ns] have "hosts v1 = hosts v" by simp
    with Cons d show ?case by (cases q1) auto
  qed simp
  obtain q j v where d: "deleteSecrets cl ?ns ?names (inst, w1) = (q, j, v)" by (metis surj_pair)
  have "w' = v" and run: "r = q" and stay: "q \<noteq> Ok () \<Longrightarrow> inst' = j"
    using assms(2-4) d by (cases q; auto simp: BaremetalHostDeprovision_def Let_def)+
  have "hosts w1 = (hosts w)(bmh_key ?b' \<mapsto> ?b')"
    using host_store.update_stored [OF assms(1) assms(3)] by simp
  with del [OF d] key \<open>w' = v\<close> have host: "hosts w' (ip_BmhRef st, ?ns) = Some ?b'" by simp
  have labels: "uid_label L ?b' = None" "hostname_label (set_Name inst) ?b' = None"
    using host_store.released_labels [OF assms(1)] by simp_all
  show ?thesis
  proof (intro conjI exI [of _ ?b'] allI impI)
    fix e w2
    assume "DeleteSecretsWithName cl w1 (CloudInitUserDataSecretName (set_Name inst) (ip_BmhRef st)) ?ns = (Err e, w2)"
    then show "r = Err e" "inst' = inst" using d run stay by auto
  next
    fix e w2 w3
    assume "DeleteSecretsWithName cl w1 (CloudInitUserDataSecretName (set_Name inst) (ip_BmhRef st)) ?ns = (Ok (), w2)"
      "DeleteSecretsWithName cl w2 (CloudInitNetworkDataSecretName (set_Name inst) (ip_BmhRef st)) ?ns = (Err e, w3)"
    then show "r = Err e" "inst' = inst" using d run stay by auto
  qed (simp_all add: host labels)
qed

theorem failed_deprovision_releases_witness:
  "\<exists>e i w b. BaremetalHostDeprovision ref_lib stuck_client (first_set, two_sets)
       (zero_HostStatus\<lparr>ip_Hostname := ''c0'', ip_BmhRef := ''b1''\<rparr>) = (Err e, i, w)
     \<and> i = first_set \<and> view_host w (''b1'', ''ns'') = Some b \<and> bmh_ConsumerRef b = None"
proof -
  let ?st = "zero_HostStatus\<lparr>ip_Hostname := ''c0'', ip_BmhRef := ''b1''\<rparr>"
  let ?b = "owned_bmh ''b1'' second_set ''d0''"
  obtain r i w where d: "BaremetalHostDeprovision ref_lib stuck_client (first_set, two_sets) ?st = (r, i, w)"
    by (metis surj_pair)
  have g: "Get_bmh stuck_client two_sets (ip_BmhRef ?st) (ts_BmhNamespace (set_Spec first_set)) = Ok ?b"
    by (simp add: stuck_client_def store_client_def found_or_Ok two_sets_meta two_sets_hosts)
  let ?rel = "releaseHost ref_lib first_set (ip_Hostname ?st) ?b"
  have "view_host two_sets (bmh_key ?b) \<noteq> None"
    by (simp add: two_sets_hosts sample_bmh_key)
  then have u: "Update_bmh stuck_client two_sets ?rel = (Ok (), put_host ?rel two_sets)"
    by (simp add: stuck_client_def store_client_def)
  have "DeleteSecretsWithName stuck_client (put_host ?rel two_sets)
      (CloudInitUserDataSecretName (set_Name first_set) (ip_BmhRef ?st)) (ts_BmhNamespace (set_Spec first_set))
    = (Err (ApiError ''connection refused''), put_host ?rel two_sets)"
    by (simp add: stuck_client_def)
  with failed_deprovision_releases [OF rs.host_store_axioms g u d] d show ?thesis
    by (auto simp: two_sets_meta)
qed

end
