(* ===== verification/Allocation.thy ===== *)
theory Allocation
  imports OwnershipKept Admission
begin

text \<open>
  From admission to allocation: on a cluster whose calls succeed, the host phase of the controller gives a bare metal
  host to every host of a set that the webhook has admitted. The locale \<open>responsive_store\<close> adds to \<open>host_store\<close> that the
  calls of the provisioning succeed.
\<close>

section \<open>A responsive cluster\<close>

locale responsive_store = host_store L cl hosts for L and cl :: "'w client" and hosts +
  assumes list_ok: "\<exists>bs. List_bmhs cl w opts = Ok bs"
    and get_ok: "hosts w (n, ns) = Some b \<Longrightarrow> Get_bmh cl w n ns = Ok b"
    and patch_ok: "hosts w (bmh_key b) = Some b0 \<Longrightarrow> f b0 = Ok b' \<Longrightarrow> bmh_key b' = bmh_key b \<Longrightarrow>
      \<exists>w'. CreateOrPatch_bmh cl w b f = (Ok b', w') \<and> hosts w' = (hosts w)(bmh_key b \<mapsto> b')"
    and secrets_ok: "\<exists>env'. fst (EnsureSecrets cl w i ts env) = Ok env'"

text \<open>A host of the specification whose network data can be made: it names its own, or its address parses.\<close>

definition address_ok :: "OpenStackBaremetalSet \<Rightarrow> string \<Rightarrow> bool" where
  "address_ok i h \<longleftrightarrow>
     is_NetworkData (spec_host i h) \<noteq> None \<or> ParseCIDR (is_CtlPlaneIP (spec_host i h)) \<noteq> None"

lemma cloudInit_succeeds:
  assumes "address_ok i h"
  shows "\<exists>sts u n. cloudInit L i h (is_CtlPlaneIP (spec_host i h)) ssh pw = Ok (sts, u, n)"
  using assms by (auto simp: cloudInit_def address_ok_def Let_def split: option.splits prod.splits)

lemma status_irrelevant [simp]:
  "provisionMutate L (set_status_hosts m i) = provisionMutate L i"
  "address_ok (set_status_hosts m i) h = address_ok i h"
  "bmhUsable (set_status_hosts m i) = bmhUsable i"
  by (simp_all add: fun_eq_iff provisionMutate_def hostLabels_def provisionImage_def address_ok_def bmhUsable_def
      verifyBaremetalSetHardwareMatch_def Let_def)

lemma cloudInit_status [simp]: "cloudInit L (set_status_hosts m i) h ip ssh pw = cloudInit L i h ip ssh pw"
  unfolding cloudInit_def userDataTemplate_def networkDataTemplate_def networkDataParameters_def
    spec_host_status set_status_hosts_simps ..

section \<open>One host\<close>

text \<open>The status entry of \<open>h\<close> names the host \<open>b\<close>, its secrets and its state, and the cluster holds the patched
  host.\<close>

definition taken ::
  "lib \<Rightarrow> OpenStackProvisionServer \<Rightarrow> Secret \<Rightarrow> Secret option \<Rightarrow> OpenStackBaremetalSet \<Rightarrow> (string, HostStatus) gomap \<Rightarrow>
   host_view \<Rightarrow> string \<Rightarrow> BareMetalHost \<Rightarrow> bool" where
  "taken L ps ssh pw i m H h b \<longleftrightarrow>
     (\<exists>st sts u n. gm_get m h = Some st \<and> ip_Hostname st = h \<and> ip_BmhRef st = bmh_Name b
       \<and> cloudInit L i h (is_CtlPlaneIP (spec_host i h)) ssh pw = Ok (sts, u, n)
       \<and> hs_UserDataSecretName st = sr_Name u \<and> hs_NetworkDataSecretName st = sr_Name n
       \<and> hs_ProvisioningState st = bmh_State b
       \<and> H (bmh_Name b, ts_BmhNamespace (set_Spec i)) = Some (provisionMutate L i h ps u n b))"

lemma taken_cong:
  "gm_get m h = gm_get m' h \<Longrightarrow>
   H (bmh_Name b, ts_BmhNamespace (set_Spec i)) = H' (bmh_Name b, ts_BmhNamespace (set_Spec i)) \<Longrightarrow>
   taken L ps ssh pw i m H h b = taken L ps ssh pw i m' H' h b"
  by (simp add: taken_def)

context responsive_store
begin

lemma secrets_ensured:
  "\<exists>w' env'. ensureCloudInit cl sts (i, w, env) = (Ok (), i, w', env') \<and> hosts w' = hosts w"
proof (cases "length sts > 0")
  case True
  obtain env' w' where e: "EnsureSecrets cl w i sts env = (Ok env', w')"
    using secrets_ok [of w i sts env] by (metis prod.collapse)
  with secrets_hosts(1) [of w i sts env] True show ?thesis by (auto simp: ensureCloudInit_def)
qed (auto simp: ensureCloudInit_def)

lemma provision_succeeds:
  assumes b: "hosts w (n, ts_BmhNamespace (set_Spec i)) = Some b" and a: "address_ok i h"
    and m: "status_hosts i = Some m" "gm_get (Some m) h = None"
  shows "\<exists>st w' env'. BaremetalHostProvision L cl (i, w, env) n h (is_CtlPlaneIP (spec_host i h)) ps ssh pw
        = (Ok (), set_status_hosts (gm_put h st (Some m)) i, w', env')
      \<and> (\<exists>sts u nd. hosts w' = (hosts w)((n, ts_BmhNamespace (set_Spec i)) \<mapsto> provisionMutate L i h ps u nd b)
           \<and> cloudInit L i h (is_CtlPlaneIP (spec_host i h)) ssh pw = Ok (sts, u, nd)
           \<and> hs_UserDataSecretName st = sr_Name u \<and> hs_NetworkDataSecretName st = sr_Name nd)
      \<and> ip_Hostname st = h \<and> ip_BmhRef st = n \<and> hs_ProvisioningState st = bmh_State b"
proof -
  let ?k = "(n, ts_BmhNamespace (set_Spec i))" and ?ip = "is_CtlPlaneIP (spec_host i h)"
  obtain sts u nd where c: "cloudInit L i h ?ip ssh pw = Ok (sts, u, nd)" using cloudInit_succeeds [OF a] by blast
  obtain w1 env1 where e: "ensureCloudInit cl sts (i, w, env) = (Ok (), i, w1, env1)" "hosts w1 = hosts w"
    using secrets_ensured by blast
  let ?f = "provisionMutate L i h ps u nd"
  have k: "bmh_key b = ?k" using stored_key [OF b] by simp
  have b1: "hosts w1 ?k = Some b" using b e(2) by simp
  obtain w2 where p: "CreateOrPatch_bmh cl w1 b (\<lambda>b. Ok (?f b)) = (Ok (?f b), w2)" "hosts w2 = (hosts w1)(?k \<mapsto> ?f b)"
    using patch_ok [of w1 b b "\<lambda>b. Ok (?f b)" "?f b"] k b1 by auto
  have q: "patchHost L cl n h ps u nd (i, w1, env1) = (Ok (?f b), i, w2, env1)"
    using get_ok [OF b1] p(1) by (simp add: patchHost_def)
  let ?st = "(initialHostStatus i n h ?ip)\<lparr>hs_UserDataSecretName := sr_Name u,
      hs_NetworkDataSecretName := sr_Name nd, hs_ProvisioningState := bmh_State (?f b)\<rparr>"
  have "BaremetalHostProvision L cl (i, w, env) n h ?ip ps ssh pw
      = (Ok (), set_status_hosts (gm_put h ?st (Some m)) i, w2, env1)"
    using c e(1) q m(1) by (simp add: BaremetalHostProvision_def Let_def recordHost_def gm_assign_def)
  moreover have "ip_Hostname ?st = h" "ip_BmhRef ?st = n" using m by (simp_all add: initialHostStatus_def)
  moreover have "hosts w2 = (hosts w)(?k \<mapsto> ?f b)" using p(2) e(2) by simp
  moreover have "hs_UserDataSecretName ?st = sr_Name u" "hs_NetworkDataSecretName ?st = sr_Name nd"
    "hs_ProvisioningState ?st = bmh_State b" by simp_all
  ultimately show ?thesis using c by blast
qed

end

section \<open>All hosts\<close>

context responsive_store
begin

lemma provisionHosts_succeeds:
  assumes "distinct (map fst xs)" and "distinct (map (\<lambda>x. bmh_Name (snd x)) xs)"
    and "list_all (\<lambda>x. hosts w (bmh_Name (snd x), ts_BmhNamespace (set_Spec i)) = Some (snd x)
      \<and> address_ok i (fst x) \<and> gm_get (Some m) (fst x) = None) xs"
  shows "\<exists>m' w' env'. provisionHosts L cl ps ssh pw xs (set_status_hosts (Some m) i, w, env)
        = (Ok (), set_status_hosts (Some m') i, w', env')
      \<and> (gm_wf (Some m) \<longrightarrow> gm_wf (Some m'))
      \<and> (\<forall>h. h \<notin> fst ` set xs \<longrightarrow> gm_get (Some m') h = gm_get (Some m) h)
      \<and> (\<forall>n ns. n \<notin> (\<lambda>x. bmh_Name (snd x)) ` set xs \<longrightarrow> hosts w' (n, ns) = hosts w (n, ns))
      \<and> list_all (\<lambda>x. taken L ps ssh pw i (Some m') (hosts w') (fst x) (snd x)) xs"
  using assms
proof (induction xs arbitrary: m w env)
  case (Cons x xs)
  obtain h b where x: "x = (h, b)" by (cases x)
  let ?ns = "ts_BmhNamespace (set_Spec i)" and ?n = "bmh_Name b"
  from Cons.prems(3) x have b: "hosts w (?n, ?ns) = Some b" "address_ok i h" "gm_get (Some m) h = None" by simp_all
  obtain st w1 env1 sts u nd where
    p: "BaremetalHostProvision L cl (set_status_hosts (Some m) i, w, env) ?n h (is_CtlPlaneIP (spec_host i h)) ps ssh pw
        = (Ok (), set_status_hosts (gm_put h st (Some m)) i, w1, env1)"
    and w1: "hosts w1 = (hosts w)((?n, ?ns) \<mapsto> provisionMutate L i h ps u nd b)"
    and st: "ip_Hostname st = h" "ip_BmhRef st = ?n" "hs_ProvisioningState st = bmh_State b"
      "cloudInit L i h (is_CtlPlaneIP (spec_host i h)) ssh pw = Ok (sts, u, nd)"
      "hs_UserDataSecretName st = sr_Name u" "hs_NetworkDataSecretName st = sr_Name nd"
    using provision_succeeds [of w ?n "set_status_hosts (Some m) i" b h m env ps ssh pw] b by auto
  obtain m1 where m1: "gm_put h st (Some m) = Some m1" by (simp add: gm_put_def)
  from Cons.prems(1,2) x have new: "h \<notin> fst ` set xs" "?n \<notin> (\<lambda>x. bmh_Name (snd x)) ` set xs" by simp_all
  have g1: "gm_get (Some m1) h' = (if h' = h then Some st else gm_get (Some m) h')" for h'
    using m1 by (metis gm_get_put)
  have "list_all (\<lambda>x. hosts w1 (bmh_Name (snd x), ?ns) = Some (snd x) \<and> address_ok i (fst x)
      \<and> gm_get (Some m1) (fst x) = None) xs"
    using Cons.prems(3) new w1 g1 by (auto simp: list_all_iff image_iff)
  from Cons.IH [OF _ _ this, of env1] Cons.prems(1,2) obtain m' w' env' where
    q: "provisionHosts L cl ps ssh pw xs (set_status_hosts (Some m1) i, w1, env1)
        = (Ok (), set_status_hosts (Some m') i, w', env')"
    and wf': "gm_wf (Some m1) \<Longrightarrow> gm_wf (Some m')"
    and m': "\<And>h. h \<notin> fst ` set xs \<Longrightarrow> gm_get (Some m') h = gm_get (Some m1) h"
    and w': "\<And>n ns. n \<notin> (\<lambda>x. bmh_Name (snd x)) ` set xs \<Longrightarrow> hosts w' (n, ns) = hosts w1 (n, ns)"
    and t: "list_all (\<lambda>x. taken L ps ssh pw i (Some m') (hosts w') (fst x) (snd x)) xs" by auto
  have "taken L ps ssh pw i (Some m') (hosts w') h b"
    unfolding taken_def using m' [OF new(1)] w' [OF new(2), of ?ns] g1 w1 st
    by (intro exI [of _ st] exI [of _ sts] exI [of _ u] exI [of _ nd]) simp
  moreover have "gm_wf (Some m) \<Longrightarrow> gm_wf (Some m')" using wf' gm_wf_put [of "Some m" h st] m1 by simp
  moreover have "provisionHosts L cl ps ssh pw (x # xs) (set_status_hosts (Some m) i, w, env)
      = (Ok (), set_status_hosts (Some m') i, w', env')"
    using p q x m1 by simp
  ultimately show ?case using t x m' w' g1 w1
    by (intro exI [of _ m'] exI [of _ w'] exI [of _ env']) (simp add: list_all_iff)
qed auto

text \<open>No host carries the identifier of the set, so the set owns none yet.\<close>

lemma none_existing:
  assumes "\<And>k. pred_option (\<lambda>b. uid_label L b \<noteq> Some (om_UID (set_Meta i))) (hosts w k)"
  shows "GetBaremetalHosts cl w ns (GetLabels L (set_Meta i) (GetGroupLabel L ServiceName) gm_empty) = Ok []"
proof -
  let ?ls = "GetLabels L (set_Meta i) (GetGroupLabel L ServiceName) gm_empty"
  have g: "gm_get ?ls (uid_key L) = Some (om_UID (set_Meta i))" by (simp add: GetLabels_get uid_key_def)
  then have "gm_items ?ls \<noteq> []" using gm_get_SomeD by fastforce
  then have len: "gm_len ?ls > 0" by (simp add: gm_len_def)
  let ?opts = "[InNamespace ns, MatchingLabels ?ls]"
  obtain bs where bs: "List_bmhs cl w ?opts = Ok bs" using list_ok by blast
  have "b \<notin> set bs" for b
  proof
    assume b: "b \<in> set bs"
    from list_stored [OF bs b] assms [of "bmh_key b"] have "uid_label L b \<noteq> Some (om_UID (set_Meta i))" by simp
    with list_labels [OF bs b _ g] show False by (simp add: uid_label_def)
  qed
  with bs have "List_bmhs cl w ?opts = Ok []" by (cases bs) auto
  with len show ?thesis by (simp add: GetBaremetalHosts_def Let_def del: gm_len_0)
qed

lemma listed_stored:
  assumes "GetBaremetalHosts cl w ns ls = Ok bs" and "b \<in> set bs"
  shows "hosts w (bmh_Name b, ns) = Some b"
proof -
  obtain opts where "List_bmhs cl w opts = Ok bs" "InNamespace ns \<in> set opts"
    using assms(1) by (cases "gm_len ls > 0") (auto simp: GetBaremetalHosts_def Let_def simp del: gm_len_0)
  from list_stored [OF this(1) assms(2)] list_namespace [OF this(1) assms(2) this(2)]
  show ?thesis by (simp add: bmh_key_def)
qed

lemma merged_fresh:
  assumes wf: "gm_wf (spec_hosts i)" and all: "GetBaremetalHosts cl w (ts_BmhNamespace (set_Spec i)) ls = Ok all"
    and sel: "VerifyBaremetalSetScaleUp i all [] = Ok selected"
    and a: "\<And>h. h \<in> set (gm_keys (spec_hosts i)) \<Longrightarrow> address_ok i h"
    and st: "status_hosts i = Some []"
  defines "xs \<equiv> gm_items (MergeMaps L selected gm_empty)"
  shows "distinct (map fst xs)" and "distinct (map (\<lambda>x. bmh_Name (snd x)) xs)"
    and "list_all (\<lambda>x. hosts w (bmh_Name (snd x), ts_BmhNamespace (set_Spec i)) = Some (snd x)
      \<and> address_ok i (fst x) \<and> gm_get (Some ([] :: (string \<times> HostStatus) list)) (fst x) = None) xs"
    and "(h, b) \<in> set xs \<longleftrightarrow> gm_get selected h = Some b"
proof -
  let ?m = "MergeMaps L selected gm_empty"
  have mwf: "gm_wf ?m" by (rule MergeMaps_wf)
  have get: "gm_get ?m h = gm_get selected h" for h by (simp add: MergeMaps_get split: option.split)
  show d: "distinct (map fst xs)" using mwf by (simp add: xs_def gm_wf_def gm_keys_def)
  show mem: "(h, b) \<in> set xs \<longleftrightarrow> gm_get selected h = Some b" for h b
    using gm_wf_get_iff [OF mwf] get by (simp add: xs_def)
  have pl: "placement (newComputes i) (filter (bmhUsable i) all) (gm_get selected)"
    using scaleUp_placement [OF wf sel] by simp
  have "inj_on (\<lambda>x. bmh_Name (snd x)) (set xs)"
  proof (rule inj_onI)
    fix x y assume x: "x \<in> set xs" and y: "y \<in> set xs" and n: "bmh_Name (snd x) = bmh_Name (snd y)"
    have g: "gm_get selected (fst x) = Some (snd x)" "gm_get selected (fst y) = Some (snd y)"
      using x y mem [of "fst x" "snd x"] mem [of "fst y" "snd y"] by simp_all
    with n pl have "fst x = fst y" unfolding placement_def by blast
    with g show "x = y" by (simp add: prod_eq_iff)
  qed
  with d show "distinct (map (\<lambda>x. bmh_Name (snd x)) xs)" by (simp add: distinct_map)
  have "hosts w (bmh_Name (snd x), ts_BmhNamespace (set_Spec i)) = Some (snd x) \<and> address_ok i (fst x)"
    if "x \<in> set xs" for x
  proof -
    from that mem [of "fst x" "snd x"] have "gm_get selected (fst x) = Some (snd x)" by simp
    from scaleUp_selected [OF wf sel this] obtain spec where
      g: "gm_get (spec_hosts i) (fst x) = Some spec" and b: "snd x \<in> set all" by blast
    have "fst x \<in> set (gm_keys (spec_hosts i))" using g by (auto simp: gm_keys_iff)
    with a listed_stored [OF all b] show ?thesis by blast
  qed
  then show "list_all (\<lambda>x. hosts w (bmh_Name (snd x), ts_BmhNamespace (set_Spec i)) = Some (snd x)
      \<and> address_ok i (fst x) \<and> gm_get (Some ([] :: (string \<times> HostStatus) list)) (fst x) = None) xs"
    by (simp add: list_all_iff gm_get_def)
qed

lemma hostsPhase_allocates:
  assumes wf: "gm_wf (spec_hosts i)" and st: "status_hosts i = Some []"
    and fresh: "\<And>k. pred_option (\<lambda>b. uid_label L b \<noteq> Some (om_UID (set_Meta i))) (hosts w k)"
    and a: "\<And>h. h \<in> set (gm_keys (spec_hosts i)) \<Longrightarrow> address_ok i h"
    and all: "GetBaremetalHosts cl w (ts_BmhNamespace (set_Spec i)) (ts_BmhLabelSelector (set_Spec i)) = Ok all"
    and pl: "\<exists>f. placement (newComputes i) (filter (bmhUsable i) all) f"
  shows "\<exists>m' w' env'. hostsPhase L C cl ps ssh pw (i, w, env) = (Continue (), set_status_hosts (Some m') i, w', env')
    \<and> (\<forall>h. h \<in> set (gm_keys (spec_hosts i)) \<longrightarrow>
         (\<exists>b. b \<in> set all \<and> bmhUsable i b \<and> IsMapSubset (bmh_Labels b) (is_BmhLabelSelector (spec_host i h))
            \<and> taken L ps ssh pw i (Some m') (hosts w') h b))
    \<and> gm_wf (Some m') \<and> (\<forall>h. h \<notin> set (gm_keys (spec_hosts i)) \<longrightarrow> gm_get (Some m') h = None)
    \<and> (\<forall>n ns. hosts w' (n, ns) = hosts w (n, ns)
         \<or> (\<exists>h b. bmh_Name b = n \<and> b \<in> set all \<and> bmhUsable i b \<and> taken L ps ssh pw i (Some m') (hosts w') h b))"
proof -
  let ?ns = "ts_BmhNamespace (set_Spec i)" and ?ls = "GetLabels L (set_Meta i) (GetGroupLabel L ServiceName) gm_empty"
  note ex = none_existing [OF fresh, of ?ns]
  obtain selected where sel: "VerifyBaremetalSetScaleUp i all [] = Ok selected"
    using scaleUp_iff [OF wf] pl by blast
  let ?xs = "gm_items (MergeMaps L selected gm_empty)"
  note f = merged_fresh [OF wf all sel a st]
  have i: "set_status_hosts (Some []) i = i" using st set_status_hosts_same [of i] by simp
  obtain m' w' env' where p: "provisionHosts L cl ps ssh pw ?xs (i, w, env) = (Ok (), set_status_hosts (Some m') i, w', env')"
    and t: "list_all (\<lambda>x. taken L ps ssh pw i (Some m') (hosts w') (fst x) (snd x)) ?xs"
    and wf': "gm_wf (Some ([] :: (string \<times> HostStatus) list)) \<longrightarrow> gm_wf (Some m')"
    and m': "\<And>h. h \<notin> fst ` set ?xs \<Longrightarrow> gm_get (Some m') h = gm_get (Some []) h"
    and w': "\<And>n ns. n \<notin> (\<lambda>x. bmh_Name (snd x)) ` set ?xs \<Longrightarrow> hosts w' (n, ns) = hosts w (n, ns)"
    using provisionHosts_succeeds [OF f(1,2,3), of ps ssh pw env] unfolding i by blast
  have sync: "VerifyAndSyncBaremetalStatusBmhRefs cl w i = (Ok (), i)"
    using list_ok [of w "[InNamespace ?ns]"] st i
    by (auto simp: VerifyAndSyncBaremetalStatusBmhRefs_def GetBaremetalHosts_def gm_len_def Let_def)
  have del: "deleteBmh L cl ?ls (i, w) = (Ok (), i, w)"
    using ex by (simp add: deleteBmh_def hostNamesToDeprovision_def)
  have ens: "ensureBaremetalHosts L cl ps ssh pw ?ls (i, w, env) = (Ok (), set_status_hosts (Some m') i, w', env')"
    using all ex sel p by (simp add: ensureBaremetalHosts_def Let_def buildExistingHostBMHMap_def)
  have "hostsPhase L C cl ps ssh pw (i, w, env) = (Continue (), set_status_hosts (Some m') i, w', env')"
    using sync del ens by (simp add: hostsPhase_def hostStep_def with_env_def Let_def)
  moreover have "\<exists>b. b \<in> set all \<and> bmhUsable i b \<and> IsMapSubset (bmh_Labels b) (is_BmhLabelSelector (spec_host i h))
      \<and> taken L ps ssh pw i (Some m') (hosts w') h b" if "h \<in> set (gm_keys (spec_hosts i))" for h
  proof -
    have "dom (gm_get selected) = set (gm_keys (newComputes i))"
      using scaleUp_placement [OF wf sel] by (simp add: placement_def)
    also have "newComputes i = Some (gm_items (spec_hosts i))" using st by (simp add: newComputes_def gm_get_def)
    finally have "h \<in> dom (gm_get selected)" using that by (simp add: gm_keys_def)
    then obtain b where b: "gm_get selected h = Some b" by blast
    have "(h, b) \<in> set ?xs" using f(4) b by blast
    with t have "taken L ps ssh pw i (Some m') (hosts w') h b" by (auto simp: list_all_iff)
    with scaleUp_selected [OF wf sel b] show ?thesis by (auto simp: spec_host_def)
  qed
  moreover have mem: "gm_get (spec_hosts i) (fst x) \<noteq> None \<and> snd x \<in> set all \<and> bmhUsable i (snd x)" if "x \<in> set ?xs" for x
  proof -
    have "gm_get selected (fst x) = Some (snd x)" using that f(4) [of "fst x" "snd x"] by simp
    from scaleUp_selected [OF wf sel this] show ?thesis by auto
  qed
  have "gm_get (Some m') h = None" if "h \<notin> set (gm_keys (spec_hosts i))" for h
  proof -
    have "h \<notin> fst ` set ?xs" using mem that gm_get_None_iff [of "spec_hosts i" h] by blast
    with m' show ?thesis by (simp add: gm_get_def)
  qed
  moreover have "gm_wf (Some m')" using wf' by (simp add: gm_wf_def gm_keys_def)
  moreover have "hosts w' (n, ns) = hosts w (n, ns)
      \<or> (\<exists>h b. bmh_Name b = n \<and> b \<in> set all \<and> bmhUsable i b \<and> taken L ps ssh pw i (Some m') (hosts w') h b)" for n ns
  proof (cases "n \<in> (\<lambda>x. bmh_Name (snd x)) ` set ?xs")
    case True
    then obtain x where "x \<in> set ?xs" "bmh_Name (snd x) = n" by blast
    with mem t show ?thesis unfolding list_all_iff by blast
  qed (use w' in blast)
  ultimately show ?thesis by blast
qed

text \<open>The host of an entry is consumed by the set and carries its label.\<close>

lemma taken_owned:
  assumes t: "taken L ps ssh pw i m H h b" and u: "bmhUsable i b" and b: "well_labelled L b"
  shows "\<exists>st b'. gm_get m h = Some st \<and> ip_Hostname st = h \<and> ip_BmhRef st = bmh_Name b
    \<and> H (bmh_Name b, ts_BmhNamespace (set_Spec i)) = Some b'
    \<and> bmh_ConsumerRef b' = Some (consumer_ref i) \<and> hostname_label (set_Name i) b' = Some h"
proof -
  from t obtain st u' n where st: "gm_get m h = Some st" "ip_Hostname st = h" "ip_BmhRef st = bmh_Name b"
    and k: "H (bmh_Name b, ts_BmhNamespace (set_Spec i)) = Some (provisionMutate L i h ps u' n b)"
    unfolding taken_def by blast
  have c: "bmh_ConsumerRef b = None" using u by (simp add: bmhUsable_iff)
  then have "hostname_label (set_Name i) b = None" using b by (auto simp: well_labelled_def)
  then have "bmh_ConsumerRef (provisionMutate L i h ps u' n b) = Some (consumer_ref i)"
    "hostname_label (set_Name i) (provisionMutate L i h ps u' n b) = Some h"
    using c by (simp_all add: patched_consumer patched_labels)
  with st k show ?thesis by blast
qed

end

lemma admitted_placement:
  assumes "gm_wf (spec_hosts r)" and "ValidateCreate_set L cl w r = Ok ()" and "set_Spec i = set_Spec r"
    and "\<And>h. gm_get (status_hosts r) h = None" and "status_hosts i = Some []"
    and "GetBaremetalHosts cl w (ts_BmhNamespace (set_Spec r)) (ts_BmhLabelSelector (set_Spec r)) = Ok all"
  shows "\<exists>f. placement (newComputes i) (filter (bmhUsable i) all) f"
proof -
  have "newComputes i = newComputes r" using assms(3-5) by (simp add: newComputes_def gm_get_def)
  moreover have "bmhUsable i = bmhUsable r"
    using assms(3) by (simp add: fun_eq_iff bmhUsable_def verifyBaremetalSetHardwareMatch_def)
  ultimately show ?thesis using ValidateCreate_set_iff [OF assms(1,6), of L] assms(2) by simp
qed

end
