(* ===== verification/AllocationProperties.thy ===== *)
theory AllocationProperties
  imports Allocation AdmissionProperties OwnershipProperties
begin

text \<open>
  The composition of the webhook and the controller: what is admitted is allocated.
\<close>

section \<open>The cluster in memory is responsive\<close>

interpretation rr: responsive_store ref_lib store_client view_host
proof unfold_locales
  fix w :: cluster and opts n ns b b0 b' f i ts env
  note sc = store_client_def
  show "\<exists>bs. List_bmhs store_client w opts = Ok bs" by (simp add: sc)
  show "Get_bmh store_client w n ns = Ok b" if "view_host w (n, ns) = Some b" using that by (simp add: sc found_or_Ok)
  show "\<exists>w'. CreateOrPatch_bmh store_client w b f = (Ok b', w') \<and> view_host w' = (view_host w)(bmh_key b \<mapsto> b')"
    if h: "view_host w (bmh_key b) = Some b0" "f b0 = Ok b'" "bmh_key b' = bmh_key b"
  proof -
    have "bmh_Name b' \<noteq> []" using h(1,3) view_hostD [OF h(1)] by (simp add: bmh_key_def)
    with view_host_put [of b' w] h show ?thesis by (simp add: sc store_patch_def)
  qed
  show "\<exists>env'. fst (EnsureSecrets store_client w i ts env) = Ok env'" by (simp add: sc ref_client_def)
qed

section \<open>From admission to allocation\<close>

text \<open>C7. A set that has passed the validation of the create webhook (and was not admitted by the annotation that
  skips it) gets its hosts: on a cluster whose calls succeed and that lists the hosts that were listed at the
  admission, the host phase of the first reconciliation runs to its end, and then every host of the specification
  has an entry in the status that names a bare metal host which was usable and had the labels of the host, and
  which is now consumed by the set and labelled with the name of the host. Provided that the address of every
  host parses or the host names its own network data, since the webhook does not check this; that a label
  of the operator is only on a host with a consumer; and that no host carries the UID of the new set.\<close>

theorem admitted_set_gets_hosts:
  assumes "responsive_store L cl hosts" and "ValidateCreate_set L cl w0 r = Ok ()"
    and "gm_wf (spec_hosts r)" and "\<forall>h. gm_get (status_hosts r) h = None"
    and "set_Spec i = set_Spec r" and "status_hosts i = Some []"
    and "GetBaremetalHosts cl w0 (ts_BmhNamespace (set_Spec r)) (ts_BmhLabelSelector (set_Spec r)) = Ok all"
    and "GetBaremetalHosts cl w (ts_BmhNamespace (set_Spec r)) (ts_BmhLabelSelector (set_Spec r)) = Ok all"
    and "labelled L (hosts w)"
    and "\<forall>k. pred_option (\<lambda>b. uid_label L b \<noteq> Some (om_UID (set_Meta i))) (hosts w k)"
    and "list_all (address_ok i) (gm_keys (spec_hosts r))"
  shows "\<exists>m' w' env'. hostsPhase L C cl ps ssh pw (i, w, env) = (Continue (), set_status_hosts (Some m') i, w', env')
    \<and> (\<forall>h. h \<in> set (gm_keys (spec_hosts r)) \<longrightarrow>
         (\<exists>b st b'. b \<in> set all \<and> bmhUsable i b \<and> IsMapSubset (bmh_Labels b) (is_BmhLabelSelector (spec_host i h))
           \<and> gm_get (Some m') h = Some st \<and> ip_Hostname st = h \<and> ip_BmhRef st = bmh_Name b
           \<and> hosts w' (bmh_Name b, ts_BmhNamespace (set_Spec i)) = Some b'
           \<and> bmh_ConsumerRef b' = Some (consumer_ref i) \<and> hostname_label (set_Name i) b' = Some h))"
proof -
  note rs = assms(1)
  note hs = responsive_store.axioms(1) [OF rs]
  have wf: "gm_wf (spec_hosts i)" using assms(3,5) by simp
  have all: "GetBaremetalHosts cl w (ts_BmhNamespace (set_Spec i)) (ts_BmhLabelSelector (set_Spec i)) = Ok all"
    using assms(5,8) by simp
  have fresh: "\<And>k. pred_option (\<lambda>b. uid_label L b \<noteq> Some (om_UID (set_Meta i))) (hosts w k)" using assms(10) by blast
  have a: "\<And>h. h \<in> set (gm_keys (spec_hosts i)) \<Longrightarrow> address_ok i h" using assms(5,11) by (simp add: list_all_iff)
  have none: "\<And>h. gm_get (status_hosts r) h = None" using assms(4) by blast
  note pl = admitted_placement [OF assms(3,2,5) none assms(6,7)]
  obtain m' w' env' where p: "hostsPhase L C cl ps ssh pw (i, w, env) = (Continue (), set_status_hosts (Some m') i, w', env')"
    and t: "\<And>h. h \<in> set (gm_keys (spec_hosts i)) \<Longrightarrow>
      \<exists>b. b \<in> set all \<and> bmhUsable i b \<and> IsMapSubset (bmh_Labels b) (is_BmhLabelSelector (spec_host i h))
        \<and> taken L ps ssh pw i (Some m') (hosts w') h b"
    using responsive_store.hostsPhase_allocates [OF rs wf assms(6) fresh a all pl, of C ps ssh pw env] by blast
  have wl: "well_labelled L b" if "b \<in> set all" for b
    using labelledD [OF assms(9) responsive_store.listed_stored [OF rs all that]] .
  from p t wl responsive_store.taken_owned [OF rs] assms(5) show ?thesis by metis
qed

text \<open>The admitted set of one host, and the one free host of the cluster.\<close>

lemma admit_store_hosts:
  "GetBaremetalHosts store_client admit_cluster (ts_BmhNamespace (set_Spec admit_set))
     (ts_BmhLabelSelector (set_Spec admit_set)) = Ok (k_bmhs admit_cluster)"
  by code_simp

lemma admit_store: "ValidateCreate_set ref_lib store_client admit_cluster admit_set = Ok ()"
proof -
  have "\<exists>f. placement (newComputes admit_set) (filter (bmhUsable admit_set) (k_bmhs admit_cluster)) f"
    using scaleUp_iff [OF admit_set_wf] admit_scaleUp by blast
  moreover have "hostname_rfc1123 ref_lib (set_Name admit_set)"
    by (simp add: admit_set_def sample_set_def sample_meta_def ref_lib_def)
  ultimately show ?thesis
    using ValidateCreate_set_iff [OF admit_set_wf admit_store_hosts, of ref_lib] admit_secrets by blast
qed

lemma admit_view: "view_host admit_cluster k = (if k = (''b0'', ''ns'') then Some (sample_bmh ''b0'' None StateAvailable) else None)"
  by (auto simp: view_host_def admit_cluster_def sample_bmh_key)

lemma admit_free:
  "labelled ref_lib (view_host admit_cluster)"
  "pred_option (\<lambda>b. uid_label ref_lib b \<noteq> Some (om_UID (set_Meta j))) (view_host admit_cluster k)"
proof -
  have l: "uid_label ref_lib (sample_bmh n None s) = None" "hostname_label m (sample_bmh n None s) = None" for n m s
    by (simp_all add: uid_label_def hostname_label_def sample_bmh_def)
  have "well_labelled ref_lib (sample_bmh n None s)" for n s by (simp add: l well_labelled_def)
  then show "labelled ref_lib (view_host admit_cluster)"
    by (simp only: labelled_def admit_view if_split option.pred_inject simp_thms)
  show "pred_option (\<lambda>b. uid_label ref_lib b \<noteq> Some (om_UID (set_Meta j))) (view_host admit_cluster k)"
    by (simp only: admit_view l if_split option.pred_inject option.distinct simp_thms)
qed

lemma admit_addresses: "list_all (address_ok (set_status_hosts (Some []) admit_set)) (gm_keys (spec_hosts admit_set))"
proof -
  have "dotted_quad 10 0 0 5 @ ''/'' @ itoa_nat 24 = ''10.0.0.5/24''" by code_simp
  then have "ParseCIDR ''10.0.0.5/24'' \<noteq> None" using ParseCIDR_quad [of 10 0 0 5 24] by simp
  then show ?thesis
    by (simp add: admit_set_def sample_set_def gm_keys_def address_ok_def spec_host_def gm_get_literal sample_host_def)
qed

theorem admitted_set_gets_hosts_witness:
  "\<exists>m' w' env' st. hostsPhase ref_lib ref_conds store_client zero_ProvisionServer sample_ssh None
       (set_status_hosts (Some []) admit_set, admit_cluster, gm_empty)
     = (Continue (), set_status_hosts (Some m') admit_set, w', env')
   \<and> gm_get (Some m') ''c0'' = Some st \<and> ip_BmhRef st = ''b0''"
proof -
  have k: "''c0'' \<in> set (gm_keys (spec_hosts admit_set))" by (simp add: admit_set_def sample_set_def gm_keys_def)
  have n: "\<forall>h. gm_get (status_hosts admit_set) h = None" by (simp add: admit_set_def sample_set_def)
  have b: "bmh_Name b = ''b0''" if "b \<in> set (k_bmhs admit_cluster)" for b
    using that by (simp add: admit_cluster_def sample_bmh_def sample_meta_def)
  from admitted_set_gets_hosts [OF rr.responsive_store_axioms admit_store admit_set_wf n _ _ admit_store_hosts
      admit_store_hosts admit_free(1) _ admit_addresses, of ref_conds zero_ProvisionServer sample_ssh None gm_empty]
    admit_free(2) k b
  show ?thesis by fastforce
qed

end
