(* ===== verification/ImageProperties.thy ===== *)
theory ImageProperties
  imports AgentProperties ServerProperties
begin

text \<open>
  The way of an image, across the components: the agent reports an address, the controller of the servers makes
  URLs of it, the controller of the sets waits for them, and a host is told to boot from them.
\<close>

lemma reported_url:
  assumes "getInterfaceIP L A intf w0 = Ok (cur, found)" and "cur \<noteq> []"
    and "\<forall>ip. pl_IsIPv6 P (Some ip) \<longleftrightarrow> To4 ip = None" and "pst_ProvisionIP (ps_Status p) = cur"
  shows "\<exists>ifs as a ip m. ag_Interfaces A w0 = Ok ifs \<and> (intf, Ok as) \<in> set ifs \<and> a \<in> set as
    \<and> ParseCIDR a = Some (ip, m) \<and> cur = IP_String ip
    \<and> (\<forall>f. file_url P p f = ''http://'' @ (if To4 ip = None then ''['' @ cur @ '']'' else cur)
         @ '':'' @ itoa (ps_Port p) @ ''/'' @ f)"
proof -
  from getInterfaceIP_spec [OF assms(1)] obtain ifs where i: "ag_Interfaces A w0 = Ok ifs"
    and f: "found_addr intf ifs cur" by blast
  with assms(2) obtain as a where a: "(intf, Ok as) \<in> set ifs" "a \<in> set as" "printed_from a cur"
    by (auto simp: found_addr_def)
  from printed_reads_back [OF a(3)] obtain ip m where p: "ParseCIDR a = Some (ip, m)" "cur = IP_String ip"
    "ParseIP cur = Some ip" by blast
  have "file_url P p f = ''http://'' @ (if To4 ip = None then ''['' @ cur @ '']'' else cur)
      @ '':'' @ itoa (ps_Port p) @ ''/'' @ f" for f
    using p(3) assms(3,4) by (simp add: file_url_def Let_def)
  with i a(1,2) p(1,2) show ?thesis by blast
qed

lemma provServerPhase_ready:
  assumes "ts_OSImageDeploymentType (set_Spec i) = OSImageDeploymentTypeSelfExtracting"
    and "acquireProvServer L cl (i, k, env) = (Ok p, s1)"
    and "pst_LocalImageURL (ps_Status p) \<noteq> []" and "pst_LocalImageChecksumURL (ps_Status p) \<noteq> []"
  shows "\<exists>s2. provServerPhase L C cl (i, k, env) = (Continue p, s2) \<and> set_Spec (fst s2) = set_Spec i"
proof -
  have "fst s1 = i" using rc.acquireProvServer_inst [of L cl "(i, k, env)"] assms(2) by simp
  with assms show ?thesis by (cases s1) (simp add: provServerPhase_def)
qed

text \<open>C13. A host boots from the address that the agent has read. When a server on whose status the agent has
  reported an address is reconciled and reported \<open>Ready\<close>, then a set that deploys from this server goes on with it, and
  the patch of a free host sets its image to the URL of the image of the server and its checksum to the URL of the checksum
  file, both at an address of the provisioning interface, in brackets exactly when it is an IPv6 address, and the
  port of the server.\<close>

theorem image_reaches_host:
  assumes "cond_laws C" and "rbac_frame pc"
    and "getInterfaceIP L A intf w0 = Ok (cur, found)" and "cur \<noteq> []"
    and "\<forall>ip. pl_IsIPv6 P (Some ip) \<longleftrightarrow> To4 ip = None"
    and "reconcileBody_ps L C P pc (inst, w) = (res, inst', w')"
    and "p = upd_ps_conds (deferredConditions C (ps_conds inst)) inst'"
    and "cond_status (ps_conds p) ReadyCondition = Some CTrue"
    and "pst_ProvisionIP (ps_Status p) = cur"
    and "ts_OSImageDeploymentType (set_Spec i) = OSImageDeploymentTypeSelfExtracting"
    and "acquireProvServer L cl (i, k, env) = (Ok p, s1)"
    and "bmh_ConsumerRef b = None"
  shows "\<exists>s2 ifs as a ip m. provServerPhase L C cl (i, k, env) = (Continue p, s2)
    \<and> ag_Interfaces A w0 = Ok ifs \<and> (intf, Ok as) \<in> set ifs \<and> a \<in> set as
    \<and> ParseCIDR a = Some (ip, m) \<and> cur = IP_String ip
    \<and> (let url = \<lambda>f. ''http://'' @ (if To4 ip = None then ''['' @ cur @ '']'' else cur)
                       @ '':'' @ itoa (ps_Port p) @ ''/'' @ f
       in bmh_Image (provisionMutate L (fst s2) h p u n b) =
            Some \<lparr>img_URL = url (pss_OSImage (ps_Spec p)),
                  img_Checksum = url (pst_OSImageChecksumFilename (ps_Status p)),
                  img_ChecksumType = pst_OSImageChecksumType (ps_Status p)\<rparr>)"
proof -
  have u: "urls_current P p"
    using cond_laws.ready_server_current(2) [OF assms(1,2,6)] assms(7,8) by simp
  then have url: "pst_LocalImageURL (ps_Status p) = file_url P p (pss_OSImage (ps_Spec p))"
    "pst_LocalImageChecksumURL (ps_Status p) = file_url P p (pst_OSImageChecksumFilename (ps_Status p))"
    using assms(4,9) by (simp_all add: urls_current_def image_url_current_def)
  from u have "pst_LocalImageURL (ps_Status p) \<noteq> []" "pst_LocalImageChecksumURL (ps_Status p) \<noteq> []"
    by (simp_all add: urls_current_def image_url_current_def)
  from provServerPhase_ready [OF assms(10,11) this] obtain s2 where
    s2: "provServerPhase L C cl (i, k, env) = (Continue p, s2)" "set_Spec (fst s2) = set_Spec i" by blast
  from reported_url [OF assms(3,4,5,9)] obtain ifs as a ip m where
    r: "ag_Interfaces A w0 = Ok ifs" "(intf, Ok as) \<in> set ifs" "a \<in> set as" "ParseCIDR a = Some (ip, m)" "cur = IP_String ip"
    and f: "\<And>f. file_url P p f = ''http://'' @ (if To4 ip = None then ''['' @ cur @ '']'' else cur)
         @ '':'' @ itoa (ps_Port p) @ ''/'' @ f" by blast
  have "OSImageDeploymentTypeSelfExtracting \<noteq> OSImageDeploymentTypePassThrough"
    by (simp add: OSImageDeploymentTypeSelfExtracting_def OSImageDeploymentTypePassThrough_def)
  then have "bmh_Image (provisionMutate L (fst s2) h p u n b) =
      Some \<lparr>img_URL = file_url P p (pss_OSImage (ps_Spec p)),
            img_Checksum = file_url P p (pst_OSImageChecksumFilename (ps_Status p)),
            img_ChecksumType = pst_OSImageChecksumType (ps_Status p)\<rparr>"
    using assms(10,12) s2(2) url by (simp add: provisionMutate_unclaimed provisionImage_def)
  with s2(1) r f show ?thesis unfolding Let_def by (intro exI conjI) (assumption | simp)+
qed

text \<open>A server with the address of the second interface of the reference agent, and a set that names it.\<close>

definition v6_server :: OpenStackProvisionServer where
  "v6_server = upd_ps_status (\<lambda>st. st\<lparr>pst_ProvisionIP := ''fd00::2:0:5''\<rparr>) ready_server"

definition extracting_set :: OpenStackBaremetalSet where
  "extracting_set = (let i = sample_set None None
     in i\<lparr>set_Spec := (set_Spec i)\<lparr>ts_OSImageDeploymentType := OSImageDeploymentTypeSelfExtracting,
          ts_ProvisionServerName := provisionServerName i\<rparr>\<rparr>)"

definition image_ref :: SecretReference where
  "image_ref = \<lparr>sr_Name = ''u'', sr_Namespace = ''ns''\<rparr>"

definition serving_client :: "OpenStackProvisionServer \<Rightarrow> cluster client" where
  "serving_client p = ref_client\<lparr>Get_ps := (\<lambda>w n ns. Ok p)\<rparr>"

lemma v6_server_like: "like_server ''fd00::2:0:5'' v6_server" "pst_Conditions (ps_Status v6_server) = Some []"
  by (simp_all add: like_server_def v6_server_def upd_ps_status_def server_defs)

lemma extracting_acquires:
  "acquireProvServer ref_lib (serving_client p) (extracting_set, w, env) = (Ok p, extracting_set, w, env)"
  by (simp add: acquireProvServer_def extracting_set_def Let_def provisionServerName_def sample_set_def serving_client_def)

theorem image_reaches_host_witness:
  "\<exists>p s2 ip. provServerPhase ref_lib ref_conds (serving_client p) (extracting_set, empty_cluster, gm_empty) = (Continue p, s2)
     \<and> ''fd00::2:0:5'' = IP_String ip
     \<and> map_option img_URL (bmh_Image (provisionMutate ref_lib (fst s2) ''c0'' p image_ref image_ref
          (sample_bmh ''b0'' None StateAvailable)))
       = Some (''http://'' @ (if To4 ip = None then ''[fd00::2:0:5]'' else ''fd00::2:0:5'') @ '':'' @ itoa 6190 @ ''/disk.qcow2'')"
proof -
  obtain q where r: "reconcileBody_ps ref_lib ref_conds ref_ps_lib ref_ps_client (v6_server, 0) = (Ok 0, q, 0)"
    and c: "cond_status (deferredConditions ref_conds (ps_conds v6_server) (ps_conds q)) ReadyCondition = Some CTrue"
    and l: "like_server ''fd00::2:0:5'' q"
    using server_run [OF v6_server_like] by blast
  let ?p = "upd_ps_conds (deferredConditions ref_conds (ps_conds v6_server)) q"
  have ip: "pst_ProvisionIP (ps_Status ?p) = ''fd00::2:0:5''" "ps_Port ?p = 6190" "pss_OSImage (ps_Spec ?p) = ''disk.qcow2''"
    using l by (simp_all add: like_server_def upd_ps_conds_def ready_server_def)
  have v: "\<forall>ip. pl_IsIPv6 ref_ps_lib (Some ip) \<longleftrightarrow> To4 ip = None" by (simp add: ref_ps_lib_def)
  have t: "ts_OSImageDeploymentType (set_Spec extracting_set) = OSImageDeploymentTypeSelfExtracting"
    by (simp add: extracting_set_def Let_def)
  have f: "bmh_ConsumerRef (sample_bmh ''b0'' None StateAvailable) = None" by (simp add: sample_bmh_def)
  have c': "cond_status (ps_conds ?p) ReadyCondition = Some CTrue" using c by simp
  from image_reaches_host [OF rc.cond_laws_axioms ref_ps_client_rbac sample_interface(2) [of sample_world] _ v r refl c'
      ip(1) t extracting_acquires f, of empty_cluster gm_empty "''c0''" image_ref image_ref]
  obtain s2 addr where p: "provServerPhase ref_lib ref_conds (serving_client ?p) (extracting_set, empty_cluster, gm_empty)
      = (Continue ?p, s2)" "''fd00::2:0:5'' = IP_String addr"
    and b: "\<exists>im. bmh_Image (provisionMutate ref_lib (fst s2) ''c0'' ?p image_ref image_ref (sample_bmh ''b0'' None StateAvailable))
        = Some im \<and> img_URL im = ''http://'' @ (if To4 addr = None then ''['' @ ''fd00::2:0:5'' @ '']'' else ''fd00::2:0:5'')
        @ '':'' @ itoa (ps_Port ?p) @ ''/'' @ pss_OSImage (ps_Spec ?p)"
    unfolding Let_def by (metis Image.select_convs(1) list.distinct(1))
  from b ip(2,3) have "map_option img_URL (bmh_Image (provisionMutate ref_lib (fst s2) ''c0'' ?p image_ref image_ref
        (sample_bmh ''b0'' None StateAvailable)))
      = Some (''http://'' @ (if To4 addr = None then ''[fd00::2:0:5]'' else ''fd00::2:0:5'') @ '':'' @ itoa 6190 @ ''/disk.qcow2'')"
    by auto
  with p show ?thesis by blast
qed

end
