(* ===== verification/GoHeap.thy ===== *)
theory GoHeap
  imports GoSlice "HOL-Library.AList"
begin

text \<open>
  Memory with sharing, for the code whose purpose is to undo it: the generated deep copies.

  A heap is the list of the objects allocated so far; an address is an index, and an allocation appends.
  Objects are what slices, maps and pointers refer to. Structs are values that hold addresses, as in Go. A
  pointer or a map is an optional address, a slice is a \<open>slice\<close> of \<open>GoSlice\<close> whose array is an object.

  The locale \<open>copier\<close> is the contract of a copy: \<open>rd\<close> reads the value that a piece of memory stands for
  (\<open>None\<close> if it is not well-formed), \<open>fp\<close> is the set of the addresses it reaches, and \<open>cp\<close> copies it. A copy
  only allocates, reads as the same value, and reaches new addresses only. The rules of the second
  section give the contract for pointers, slices, maps and structs from the contract of their parts.
\<close>

section \<open>The contract\<close>

type_synonym 'o heap = "'o list"
type_synonym ('o, 'r) copy = "'r \<Rightarrow> 'o heap \<Rightarrow> 'r \<times> 'o heap"
type_synonym ('o, 'r, 'v) reader = "'o heap \<Rightarrow> 'r \<Rightarrow> 'v option"
type_synonym ('o, 'r) footprint = "'o heap \<Rightarrow> 'r \<Rightarrow> nat set"

text \<open>\<open>h'\<close> has the objects of \<open>h\<close> at the addresses \<open>A\<close>.\<close>

definition agree :: "nat set \<Rightarrow> 'o heap \<Rightarrow> 'o heap \<Rightarrow> bool" where
  "agree A h h' \<longleftrightarrow> (\<forall>a \<in> A. a < length h' \<and> h' ! a = h ! a)"

lemma agree_Un [simp]: "agree (A \<union> B) h h' \<longleftrightarrow> agree A h h' \<and> agree B h h'"
  by (auto simp: agree_def)

lemma agree_empty [simp]: "agree {} h h'"
  by (simp add: agree_def)

lemma agree_insert [simp]: "agree (insert a A) h h' \<longleftrightarrow> a < length h' \<and> h' ! a = h ! a \<and> agree A h h'"
  by (auto simp: agree_def)

lemma agree_subset: "agree B h h' \<Longrightarrow> A \<subseteq> B \<Longrightarrow> agree A h h'"
  by (auto simp: agree_def)

lemma agree_append: "A \<subseteq> {..<length h} \<Longrightarrow> agree A h (h @ ys)"
  by (auto simp: agree_def nth_append)

locale copier =
  fixes rd :: "('o, 'r, 'v) reader" and fp :: "('o, 'r) footprint" and cp :: "('o, 'r) copy"
  assumes reach: "rd h r = Some v \<Longrightarrow> fp h r \<subseteq> {..<length h}"
    and local: "rd h r = Some v \<Longrightarrow> agree (fp h r) h h' \<Longrightarrow> rd h' r = Some v \<and> fp h' r = fp h r"
    and copied: "rd h r = Some v \<Longrightarrow> cp r h = (r', h') \<Longrightarrow>
      (\<exists>ys. h' = h @ ys) \<and> rd h' r' = Some v \<and> fp h' r' \<subseteq> {length h..<length h'}"
begin

lemma extended:
  assumes "rd h r = Some v"
  shows "rd (h @ ys) r = Some v" and "fp (h @ ys) r = fp h r"
  using local [OF assms agree_append [OF reach [OF assms]]] by simp_all

text \<open>After a copy the two share nothing: whatever is then written to what one reaches, the other
  reads as before.\<close>

lemma independent:
  assumes "rd h r = Some v" and "cp r h = (r', h')"
  shows "rd h' r = Some v" and "fp h' r \<inter> fp h' r' = {}"
    and "length k = length h' \<Longrightarrow> (\<And>a. a \<notin> fp h' r' \<Longrightarrow> k ! a = h' ! a) \<Longrightarrow> rd k r = Some v"
    and "length k = length h' \<Longrightarrow> (\<And>a. a \<notin> fp h' r \<Longrightarrow> k ! a = h' ! a) \<Longrightarrow> rd k r' = Some v"
proof -
  from copied [OF assms] obtain ys where h': "h' = h @ ys" and r': "rd h' r' = Some v"
    and new: "fp h' r' \<subseteq> {length h..<length h'}" by blast
  show r: "rd h' r = Some v" using extended(1) [OF assms(1)] h' by simp
  have old: "fp h' r \<subseteq> {..<length h}" using extended(2) [OF assms(1)] reach [OF assms(1)] h' by simp
  show dis: "fp h' r \<inter> fp h' r' = {}" using old new by force
  show "rd k r = Some v" if "length k = length h'" "\<And>a. a \<notin> fp h' r' \<Longrightarrow> k ! a = h' ! a"
  proof -
    have "agree (fp h' r) h' k" using that dis reach [OF r] by (auto simp: agree_def)
    with local [OF r] show ?thesis by blast
  qed
  show "rd k r' = Some v" if "length k = length h'" "\<And>a. a \<notin> fp h' r \<Longrightarrow> k ! a = h' ! a"
  proof -
    have "agree (fp h' r') h' k" using that dis reach [OF r'] by (auto simp: agree_def)
    with local [OF r'] show ?thesis by blast
  qed
qed

end

section \<open>The parts\<close>

text \<open>A value without references.\<close>

definition rd_flat :: "('r \<Rightarrow> 'v) \<Rightarrow> ('o, 'r, 'v) reader" where
  "rd_flat g h r = Some (g r)"

definition fp_flat :: "('o, 'r) footprint" where
  "fp_flat h r = {}"

definition cp_flat :: "('o, 'r) copy" where
  "cp_flat r h = (r, h)"

lemma copier_flat: "copier (rd_flat g) fp_flat cp_flat"
  by unfold_locales (auto simp: rd_flat_def fp_flat_def cp_flat_def)

text \<open>Two parts, one after the other.\<close>

definition rd_pair :: "('o, 'r, 'v) reader \<Rightarrow> ('o, 's, 'u) reader \<Rightarrow> ('o, 'r \<times> 's, 'v \<times> 'u) reader" where
  "rd_pair rd1 rd2 h p = (case (rd1 h (fst p), rd2 h (snd p)) of (Some v, Some u) \<Rightarrow> Some (v, u) | _ \<Rightarrow> None)"

definition fp_pair :: "('o, 'r) footprint \<Rightarrow> ('o, 's) footprint \<Rightarrow> ('o, 'r \<times> 's) footprint" where
  "fp_pair fp1 fp2 h p = fp1 h (fst p) \<union> fp2 h (snd p)"

definition cp_pair :: "('o, 'r) copy \<Rightarrow> ('o, 's) copy \<Rightarrow> ('o, 'r \<times> 's) copy" where
  "cp_pair cp1 cp2 p h = (case cp1 (fst p) h of (r, h) \<Rightarrow> case cp2 (snd p) h of (s, h) \<Rightarrow> ((r, s), h))"

lemma rd_pair_Some: "rd_pair rd1 rd2 h p = Some w \<longleftrightarrow> rd1 h (fst p) = Some (fst w) \<and> rd2 h (snd p) = Some (snd w)"
  by (cases w) (auto simp: rd_pair_def split: option.splits)

lemma copier_pair:
  assumes "copier rd1 fp1 cp1" and "copier rd2 fp2 cp2"
  shows "copier (rd_pair rd1 rd2) (fp_pair fp1 fp2) (cp_pair cp1 cp2)"
proof unfold_locales
  fix h h' p p' w assume r: "rd_pair rd1 rd2 h p = Some w"
  then have r1: "rd1 h (fst p) = Some (fst w)" and r2: "rd2 h (snd p) = Some (snd w)"
    by (simp_all add: rd_pair_Some)
  show "fp_pair fp1 fp2 h p \<subseteq> {..<length h}"
    using copier.reach [OF assms(1) r1] copier.reach [OF assms(2) r2] by (simp add: fp_pair_def)
  show "rd_pair rd1 rd2 h' p = Some w \<and> fp_pair fp1 fp2 h' p = fp_pair fp1 fp2 h p"
    if "agree (fp_pair fp1 fp2 h p) h h'"
    using that copier.local [OF assms(1) r1, of h'] copier.local [OF assms(2) r2, of h']
    by (simp add: fp_pair_def rd_pair_Some)
  show "(\<exists>ys. h' = h @ ys) \<and> rd_pair rd1 rd2 h' p' = Some w \<and> fp_pair fp1 fp2 h' p' \<subseteq> {length h..<length h'}"
    if c: "cp_pair cp1 cp2 p h = (p', h')"
  proof -
    obtain a h1 where c1: "cp1 (fst p) h = (a, h1)" by fastforce
    obtain b h2 where c2: "cp2 (snd p) h1 = (b, h2)" by fastforce
    from c c1 c2 have p': "p' = (a, b)" "h' = h2" by (simp_all add: cp_pair_def)
    from copier.copied [OF assms(1) r1 c1] obtain xs where
      1: "h1 = h @ xs" "rd1 h1 a = Some (fst w)" "fp1 h1 a \<subseteq> {length h..<length h1}" by blast
    have "rd2 h1 (snd p) = Some (snd w)" using copier.extended(1) [OF assms(2) r2] 1(1) by simp
    from copier.copied [OF assms(2) this c2] obtain ys where
      2: "h2 = h1 @ ys" "rd2 h2 b = Some (snd w)" "fp2 h2 b \<subseteq> {length h1..<length h2}" by blast
    have "rd1 h2 a = Some (fst w)" "fp1 h2 a = fp1 h1 a" using copier.extended [OF assms(1) 1(2)] 2(1) by simp_all
    with 1 2 p' show ?thesis by (force simp: rd_pair_Some fp_pair_def)
  qed
qed

text \<open>A struct: its references as a tuple, and the value from the struct and the values of the tuple.\<close>

definition rd_struct :: "('s \<Rightarrow> 'r) \<Rightarrow> ('s \<Rightarrow> 'v \<Rightarrow> 'u) \<Rightarrow> ('o, 'r, 'v) reader \<Rightarrow> ('o, 's, 'u) reader" where
  "rd_struct refs value rd h s = map_option (value s) (rd h (refs s))"

definition fp_struct :: "('s \<Rightarrow> 'r) \<Rightarrow> ('o, 'r) footprint \<Rightarrow> ('o, 's) footprint" where
  "fp_struct refs fp h s = fp h (refs s)"

lemma copier_struct:
  assumes c: "copier rd fp cp"
    and into: "\<And>s h. into s h = (case cp (refs s) h of (r, h) \<Rightarrow> (put r s, h))"
    and put: "\<And>r s. refs (put r s) = r" "\<And>r s. value (put r s) = value s"
  shows "copier (rd_struct refs value rd) (fp_struct refs fp) into"
proof unfold_locales
  fix h h' s s' u assume "rd_struct refs value rd h s = Some u"
  then obtain v where v: "rd h (refs s) = Some v" "u = value s v" by (auto simp: rd_struct_def)
  show "fp_struct refs fp h s \<subseteq> {..<length h}" using copier.reach [OF c v(1)] by (simp add: fp_struct_def)
  show "rd_struct refs value rd h' s = Some u \<and> fp_struct refs fp h' s = fp_struct refs fp h s"
    if "agree (fp_struct refs fp h s) h h'"
    using that copier.local [OF c v(1), of h'] v(2) by (simp add: rd_struct_def fp_struct_def)
  show "(\<exists>ys. h' = h @ ys) \<and> rd_struct refs value rd h' s' = Some u
      \<and> fp_struct refs fp h' s' \<subseteq> {length h..<length h'}" if i: "into s h = (s', h')"
  proof -
    obtain r where r: "cp (refs s) h = (r, h')" "s' = put r s" using i by (auto simp: into split: prod.splits)
    from copier.copied [OF c v(1) r(1)] r(2) v(2) put show ?thesis by (simp add: rd_struct_def fp_struct_def)
  qed
qed

text \<open>The elements of an array, in order.\<close>

fun rd_list :: "('o, 'r, 'v) reader \<Rightarrow> ('o, 'r list, 'v list) reader" where
  "rd_list rd h [] = Some []"
| "rd_list rd h (r # rs) = (case (rd h r, rd_list rd h rs) of (Some v, Some vs) \<Rightarrow> Some (v # vs) | _ \<Rightarrow> None)"

definition fp_list :: "('o, 'r) footprint \<Rightarrow> ('o, 'r list) footprint" where
  "fp_list fp h rs = (\<Union>r \<in> set rs. fp h r)"

fun cp_list :: "('o, 'r) copy \<Rightarrow> ('o, 'r list) copy" where
  "cp_list cp [] h = ([], h)"
| "cp_list cp (r # rs) h = (case cp r h of (r', h) \<Rightarrow> case cp_list cp rs h of (rs', h) \<Rightarrow> (r' # rs', h))"

lemma copier_list:
  assumes "copier rd fp cp"
  shows "copier (rd_list rd) (fp_list fp) (cp_list cp)"
proof unfold_locales
  fix h h' rs rs' vs
  show "rd_list rd h rs = Some vs \<Longrightarrow> fp_list fp h rs \<subseteq> {..<length h}"
  proof (induction rs arbitrary: vs)
    case (Cons r rs)
    then obtain v us where v: "rd h r = Some v" "rd_list rd h rs = Some us" by (auto split: option.splits)
    from copier.reach [OF assms v(1)] Cons.IH [OF v(2)] show ?case by (simp add: fp_list_def)
  qed (simp add: fp_list_def)
  show "rd_list rd h rs = Some vs \<Longrightarrow> agree (fp_list fp h rs) h h' \<Longrightarrow>
      rd_list rd h' rs = Some vs \<and> fp_list fp h' rs = fp_list fp h rs"
  proof (induction rs arbitrary: vs)
    case (Cons r rs)
    then obtain v us where v: "rd h r = Some v" "rd_list rd h rs = Some us" "vs = v # us"
      by (auto split: option.splits)
    from Cons.prems(2) have "agree (fp h r) h h'" "agree (fp_list fp h rs) h h'" by (simp_all add: fp_list_def)
    with copier.local [OF assms v(1), of h'] Cons.IH [OF v(2)] v(3) show ?case by (simp add: fp_list_def)
  qed (simp add: fp_list_def)
  show "rd_list rd h rs = Some vs \<Longrightarrow> cp_list cp rs h = (rs', h') \<Longrightarrow>
      (\<exists>ys. h' = h @ ys) \<and> rd_list rd h' rs' = Some vs \<and> fp_list fp h' rs' \<subseteq> {length h..<length h'}"
  proof (induction rs arbitrary: h h' rs' vs)
    case (Cons r rs)
    from Cons.prems(1) obtain v us where v: "rd h r = Some v" "rd_list rd h rs = Some us" "vs = v # us"
      by (auto split: option.splits)
    obtain r1 h1 where c1: "cp r h = (r1, h1)" by fastforce
    obtain rs1 h2 where c2: "cp_list cp rs h1 = (rs1, h2)" by fastforce
    have res: "rs' = r1 # rs1" "h' = h2" using Cons.prems(2) c1 c2 by simp_all
    from copier.copied [OF assms v(1) c1] obtain xs where
      1: "h1 = h @ xs" "rd h1 r1 = Some v" "fp h1 r1 \<subseteq> {length h..<length h1}" by blast
    have ext: "rd_list rd (h @ xs) qs = Some ws" if "rd_list rd h qs = Some ws" for qs ws
      using that by (induction qs arbitrary: ws)
        (auto simp: copier.extended(1) [OF assms] split: option.splits)
    from Cons.IH [OF _ c2, of us] ext [OF v(2)] 1(1) obtain ys where
      2: "h2 = h1 @ ys" "rd_list rd h2 rs1 = Some us" "fp_list fp h2 rs1 \<subseteq> {length h1..<length h2}" by blast
    have "rd h2 r1 = Some v" "fp h2 r1 = fp h1 r1" using copier.extended [OF assms 1(2)] 2(1) by simp_all
    with 1 2 res v(3) show ?case by (force simp: fp_list_def)
  qed (simp add: fp_list_def)
qed

section \<open>Pointers, slices and maps\<close>

text \<open>An object of the heap is of a kind: \<open>mk\<close> makes it and \<open>dest\<close> takes it apart. \<open>load\<close> is the object behind an
  address, of the wrong kind only where the program would not type-check.\<close>

definition load :: "('o \<Rightarrow> 'r option) \<Rightarrow> 'o heap \<Rightarrow> nat \<Rightarrow> 'r option" where
  "load dest h a = (if a < length h then dest (h ! a) else None)"

definition alloc :: "'o \<Rightarrow> 'o heap \<Rightarrow> nat \<times> 'o heap" where
  "alloc x h = (length h, h @ [x])"

lemma load_simps:
  "load dest (h @ [x]) (length h) = dest x" "load dest h a = Some r \<Longrightarrow> load dest (h @ ys) a = Some r"
  by (auto simp: load_def nth_append split: if_splits)

lemma load_agree: "agree A h h' \<Longrightarrow> a \<in> A \<Longrightarrow> load dest h a = Some r \<Longrightarrow> load dest h' a = Some r"
  by (auto simp: load_def agree_def split: if_splits)

text \<open>\<open>new(T)\<close> or \<open>make\<close>, then the copy into it: the object is allocated first, its address is fixed, and the
  parts are copied while it holds \<open>init r\<close>. The result is the address and what it finally holds.\<close>

definition cp_new ::
  "('r \<Rightarrow> 'r) \<Rightarrow> ('r \<Rightarrow> 'o) \<Rightarrow> ('o, 'r) copy \<Rightarrow> 'r \<Rightarrow> 'o heap \<Rightarrow> (nat \<times> 'r) \<times> 'o heap" where
  "cp_new init mk cp r h =
     (case alloc (mk (init r)) h of (a, h) \<Rightarrow>
      case cp r h of (r', h) \<Rightarrow> ((a, r'), h[a := mk r']))"

lemma copied_new:
  assumes c: "copier rd fp cp" and rd: "rd h r = Some v" and new: "cp_new init mk cp r h = ((a, r'), h')"
  obtains ys where "a = length h" "h' = h @ mk r' # ys" "rd h' r' = Some v" "fp h' r' \<subseteq> {Suc (length h)..<length h'}"
proof -
  obtain h2 where c2: "cp r (h @ [mk (init r)]) = (r', h2)" and a: "a = length h" and h': "h' = h2[length h := mk r']"
    using new by (auto simp: cp_new_def alloc_def split: prod.splits)
  from copier.copied [OF c copier.extended(1) [OF c rd] c2] obtain ys where
    2: "h2 = (h @ [mk (init r)]) @ ys" "rd h2 r' = Some v" "fp h2 r' \<subseteq> {Suc (length h)..<length h2}" by auto
  have "agree (fp h2 r') h2 h'" using 2(3) unfolding h' agree_def by (auto simp: nth_list_update)
  from copier.local [OF c 2(2) this] have r: "rd h' r' = Some v" "fp h' r' = fp h2 r'" by simp_all
  have "h' = h @ mk r' # ys" using h' 2(1) by simp
  from that [OF a this r(1)] r(2) 2(3) h' show thesis by simp
qed

text \<open>The copied value itself, when the new object is only dereferenced (\<open>*val.DeepCopy()\<close>).\<close>

definition cp_val :: "('r \<Rightarrow> 'o) \<Rightarrow> ('o, 'r) copy \<Rightarrow> ('o, 'r) copy" where
  "cp_val mk cp r h = (case cp_new id mk cp r h of ((_, r'), h) \<Rightarrow> (r', h))"

lemma copier_val:
  assumes "copier rd fp cp"
  shows "copier rd fp (cp_val mk cp)"
proof unfold_locales
  fix h h' r r' v assume r: "rd h r = Some v"
  show "fp h r \<subseteq> {..<length h}" by (rule copier.reach [OF assms r])
  show "rd h' r = Some v \<and> fp h' r = fp h r" if "agree (fp h r) h h'" by (rule copier.local [OF assms r that])
  assume "cp_val mk cp r h = (r', h')"
  then obtain a where "cp_new id mk cp r h = ((a, r'), h')" by (auto simp: cp_val_def split: prod.splits)
  from copied_new [OF assms r this] obtain ys where "h' = h @ mk r' # ys" "rd h' r' = Some v"
    "fp h' r' \<subseteq> {Suc (length h)..<length h'}" by blast
  then show "(\<exists>ys. h' = h @ ys) \<and> rd h' r' = Some v \<and> fp h' r' \<subseteq> {length h..<length h'}" by force
qed

text \<open>A reference to one object, nil or not.\<close>

definition rd_ref :: "('o \<Rightarrow> 'r option) \<Rightarrow> ('o, 'r, 'v) reader \<Rightarrow> ('o, nat option, 'v option) reader" where
  "rd_ref dest rd h p =
     (case p of None \<Rightarrow> Some None
      | Some a \<Rightarrow> (case load dest h a of None \<Rightarrow> None | Some r \<Rightarrow> map_option Some (rd h r)))"

definition fp_ref :: "('o \<Rightarrow> 'r option) \<Rightarrow> ('o, 'r) footprint \<Rightarrow> ('o, nat option) footprint" where
  "fp_ref dest fp h p =
     (case p of None \<Rightarrow> {}
      | Some a \<Rightarrow> insert a (case load dest h a of None \<Rightarrow> {} | Some r \<Rightarrow> fp h r))"

definition cp_ref :: "('r \<Rightarrow> 'r) \<Rightarrow> ('r \<Rightarrow> 'o) \<Rightarrow> ('o \<Rightarrow> 'r option) \<Rightarrow> ('o, 'r) copy \<Rightarrow> ('o, nat option) copy" where
  "cp_ref init mk dest cp p h =
     (case p of None \<Rightarrow> (None, h)
      | Some a \<Rightarrow>
          (case load dest h a of None \<Rightarrow> (p, h)
           | Some r \<Rightarrow> (case cp_new init mk cp r h of ((a', _), h) \<Rightarrow> (Some a', h))))"

lemma copier_ref:
  assumes c: "copier rd fp cp" and mk: "\<And>r. dest (mk r) = Some r"
  shows "copier (rd_ref dest rd) (fp_ref dest fp) (cp_ref init mk dest cp)"
proof unfold_locales
  fix h h' p p' w assume rd: "rd_ref dest rd h p = Some w"
  have cases: "thesis" if "p = None \<Longrightarrow> w = None \<Longrightarrow> thesis"
    "\<And>a r v. p = Some a \<Longrightarrow> load dest h a = Some r \<Longrightarrow> rd h r = Some v \<Longrightarrow> w = Some v \<Longrightarrow> thesis" for thesis
    using rd that by (auto simp: rd_ref_def split: option.splits)
  show "fp_ref dest fp h p \<subseteq> {..<length h}"
    by (rule cases) (use copier.reach [OF c] in \<open>auto simp: fp_ref_def load_def split: if_splits\<close>)
  show "rd_ref dest rd h' p = Some w \<and> fp_ref dest fp h' p = fp_ref dest fp h p"
    if ag: "agree (fp_ref dest fp h p) h h'"
  proof (rule cases)
    fix a r v assume p: "p = Some a" "load dest h a = Some r" and v: "rd h r = Some v" "w = Some v"
    from ag p have ar: "agree (fp h r) h h'" and l: "load dest h' a = Some r"
      by (auto simp: fp_ref_def load_def split: if_splits)
    from copier.local [OF c v(1) ar] l p v show ?thesis by (simp add: rd_ref_def fp_ref_def)
  qed (simp add: rd_ref_def fp_ref_def)
  show "(\<exists>ys. h' = h @ ys) \<and> rd_ref dest rd h' p' = Some w \<and> fp_ref dest fp h' p' \<subseteq> {length h..<length h'}"
    if cp: "cp_ref init mk dest cp p h = (p', h')"
  proof (rule cases)
    fix a r v assume p: "p = Some a" "load dest h a = Some r" and v: "rd h r = Some v" "w = Some v"
    obtain a' r' where n: "cp_new init mk cp r h = ((a', r'), h')" and p': "p' = Some a'"
      using cp p by (auto simp: cp_ref_def split: prod.splits)
    from copied_new [OF c v(1) n] obtain ys where
      1: "a' = length h" "h' = h @ mk r' # ys" "rd h' r' = Some v" "fp h' r' \<subseteq> {Suc (length h)..<length h'}" .
    have "load dest h' a' = Some r'" using 1(1,2) mk by (simp add: load_def)
    with 1 p' v(2) show ?thesis by (force simp: rd_ref_def fp_ref_def)
  qed (use cp in \<open>simp add: rd_ref_def fp_ref_def cp_ref_def\<close>)
qed

text \<open>A map: the loop ranges over the entries and assigns the copy of each value under its key.\<close>

fun copy_entries ::
  "('o, 'r) copy \<Rightarrow> ('k \<times> 'r) list \<Rightarrow> ('k \<times> 'r) list \<Rightarrow> 'o heap \<Rightarrow> ('k \<times> 'r) list \<times> 'o heap" where
  "copy_entries cp [] m h = (m, h)"
| "copy_entries cp ((key, val) # todo) m h =
     (case cp val h of (val', h) \<Rightarrow> copy_entries cp todo (AList.update key val' m) h)"

definition cp_entries :: "('o, 'r) copy \<Rightarrow> ('o, ('k \<times> 'r) list) copy" where
  "cp_entries cp es h = copy_entries cp es [] h"

definition rd_entries :: "('o, 'r, 'v) reader \<Rightarrow> ('o, ('k \<times> 'r) list, ('k \<times> 'v) list) reader" where
  "rd_entries rd h es =
     (if distinct (map fst es) then map_option (zip (map fst es)) (rd_list rd h (map snd es)) else None)"

definition fp_entries :: "('o, 'r) footprint \<Rightarrow> ('o, ('k \<times> 'r) list) footprint" where
  "fp_entries fp h es = fp_list fp h (map snd es)"

lemma update_new: "k \<notin> fst ` set m \<Longrightarrow> AList.update k v m = m @ [(k, v)]"
  by (induction m) auto

lemma copy_entries_list:
  "distinct (map fst (m @ es)) \<Longrightarrow>
   copy_entries cp es m h = (case cp_list cp (map snd es) h of (rs, h) \<Rightarrow> (m @ zip (map fst es) rs, h))"
proof (induction cp es m h rule: copy_entries.induct)
  case (2 cp key val todo m h)
  obtain r h1 where c: "cp val h = (r, h1)" by fastforce
  have "AList.update key r m = m @ [(key, r)]" using 2(2) by (intro update_new) auto
  with 2(1) [OF c [symmetric]] 2(2) c show ?case by (auto split: prod.splits)
qed simp

lemma cp_list_length: "cp_list cp rs h = (rs', h') \<Longrightarrow> length rs' = length rs"
  by (induction cp rs h arbitrary: rs' h' rule: cp_list.induct) (auto split: prod.splits)

lemma copier_entries:
  assumes "copier rd fp cp"
  shows "copier (rd_entries rd) (fp_entries fp) (cp_entries cp)"
proof -
  note cl = copier_list [OF assms]
  show ?thesis
  proof unfold_locales
    fix h h' es es' w assume "rd_entries rd h es = Some w"
    then obtain vs where d: "distinct (map fst es)" and v: "rd_list rd h (map snd es) = Some vs"
      and w: "w = zip (map fst es) vs" by (auto simp: rd_entries_def split: if_splits)
    show "fp_entries fp h es \<subseteq> {..<length h}" using copier.reach [OF cl v] by (simp add: fp_entries_def)
    show "rd_entries rd h' es = Some w \<and> fp_entries fp h' es = fp_entries fp h es"
      if "agree (fp_entries fp h es) h h'"
      using that copier.local [OF cl v, of h'] d w by (simp add: fp_entries_def rd_entries_def)
    show "(\<exists>ys. h' = h @ ys) \<and> rd_entries rd h' es' = Some w \<and> fp_entries fp h' es' \<subseteq> {length h..<length h'}"
      if e: "cp_entries cp es h = (es', h')"
    proof -
      obtain rs where c: "cp_list cp (map snd es) h = (rs, h')" and es': "es' = zip (map fst es) rs"
        using e d by (auto simp: cp_entries_def copy_entries_list split: prod.splits)
      have len: "length rs = length es" using cp_list_length [OF c] by simp
      then have "map fst es' = map fst es" "map snd es' = rs" by (simp_all add: es')
      with copier.copied [OF cl v c] d w show ?thesis by (simp add: rd_entries_def fp_entries_def)
    qed
  qed
qed

text \<open>A search through the entries finds what the same search through the values finds.\<close>

lemma rd_entries_find:
  assumes "rd_entries rd h es = Some w" and PQ: "\<And>r v. rd h r = Some v \<Longrightarrow> P r \<longleftrightarrow> Q v"
  shows "case find (\<lambda>(_, r). P r) es of
      None \<Rightarrow> find (\<lambda>(_, v). Q v) w = None
    | Some (k, r) \<Rightarrow> \<exists>v. find (\<lambda>(_, v). Q v) w = Some (k, v) \<and> rd h r = Some v \<and> fp h r \<subseteq> fp_entries fp h es"
proof -
  from assms(1) obtain vs where "rd_list rd h (map snd es) = Some vs" "w = zip (map fst es) vs"
    by (auto simp: rd_entries_def split: if_splits)
  then show ?thesis
  proof (induction es arbitrary: vs w)
    case (Cons e es)
    obtain k r where e: "e = (k, r)" by fastforce
    from Cons.prems(1) e obtain v us where v: "rd h r = Some v" "rd_list rd h (map snd es) = Some us" "vs = v # us"
      by (auto split: option.splits)
    from Cons.IH [OF v(2) refl] PQ [OF v(1)] show ?case
      using Cons.prems(2) e v by (auto simp: fp_entries_def fp_list_def split: option.splits)
  qed simp
qed

text \<open>A slice: an array of the length of the slice is made and the elements are copied one by one. The
  zeroed array is given the elements of the original at once: each copy starts with \<open>*out = *in\<close>, and
  nothing reads the array before.\<close>

definition rd_slice :: "('o \<Rightarrow> 'r list option) \<Rightarrow> ('o, 'r, 'v) reader \<Rightarrow> ('o, slice, 'v list option) reader" where
  "rd_slice dest rd h s =
     (case s of NilSlice \<Rightarrow> Some None
      | Slice a n \<Rightarrow>
          (case load dest h a of None \<Rightarrow> None
           | Some xs \<Rightarrow> if n \<le> length xs then map_option Some (rd_list rd h (take n xs)) else None))"

definition fp_slice :: "('o \<Rightarrow> 'r list option) \<Rightarrow> ('o, 'r) footprint \<Rightarrow> ('o, slice) footprint" where
  "fp_slice dest fp h s =
     (case s of NilSlice \<Rightarrow> {}
      | Slice a n \<Rightarrow> insert a (case load dest h a of None \<Rightarrow> {} | Some xs \<Rightarrow> fp_list fp h (take n xs)))"

definition cp_slice :: "('r list \<Rightarrow> 'o) \<Rightarrow> ('o \<Rightarrow> 'r list option) \<Rightarrow> ('o, 'r) copy \<Rightarrow> ('o, slice) copy" where
  "cp_slice mk dest cp s h =
     (case s of NilSlice \<Rightarrow> (NilSlice, h)
      | Slice a n \<Rightarrow>
          (case load dest h a of None \<Rightarrow> (s, h)
           | Some xs \<Rightarrow> (case cp_new id mk (cp_list cp) (take n xs) h of ((a', _), h) \<Rightarrow> (Slice a' n, h))))"

lemma cp_new_length: "cp_new id mk (cp_list cp) rs h = ((a, rs'), h') \<Longrightarrow> length rs' = length rs"
  by (auto simp: cp_new_def dest: cp_list_length split: prod.splits)

lemma copier_slice:
  assumes c0: "copier rd fp cp" and mk: "\<And>rs. dest (mk rs) = Some rs"
  shows "copier (rd_slice dest rd) (fp_slice dest fp) (cp_slice mk dest cp)"
proof unfold_locales
  note c = copier_list [OF c0]
  fix h h' s s' w assume rd: "rd_slice dest rd h s = Some w"
  have cases: "thesis" if "s = NilSlice \<Longrightarrow> w = None \<Longrightarrow> thesis"
    "\<And>a n xs vs. s = Slice a n \<Longrightarrow> load dest h a = Some xs \<Longrightarrow> n \<le> length xs \<Longrightarrow>
      rd_list rd h (take n xs) = Some vs \<Longrightarrow> w = Some vs \<Longrightarrow> thesis" for thesis
    using rd that by (auto simp: rd_slice_def split: slice.splits option.splits if_splits)
  show "fp_slice dest fp h s \<subseteq> {..<length h}"
    by (rule cases) (use copier.reach [OF c] in \<open>auto simp: fp_slice_def load_def split: if_splits\<close>)
  show "rd_slice dest rd h' s = Some w \<and> fp_slice dest fp h' s = fp_slice dest fp h s"
    if ag: "agree (fp_slice dest fp h s) h h'"
  proof (rule cases)
    fix a n xs vs assume s: "s = Slice a n" "load dest h a = Some xs" "n \<le> length xs"
      and v: "rd_list rd h (take n xs) = Some vs" "w = Some vs"
    from ag s have ar: "agree (fp_list fp h (take n xs)) h h'" and l: "load dest h' a = Some xs"
      by (auto simp: fp_slice_def load_def split: if_splits)
    from copier.local [OF c v(1) ar] l s v show ?thesis by (simp add: rd_slice_def fp_slice_def)
  qed (simp add: rd_slice_def fp_slice_def)
  show "(\<exists>ys. h' = h @ ys) \<and> rd_slice dest rd h' s' = Some w \<and> fp_slice dest fp h' s' \<subseteq> {length h..<length h'}"
    if cp: "cp_slice mk dest cp s h = (s', h')"
  proof (rule cases)
    fix a n xs vs assume s: "s = Slice a n" "load dest h a = Some xs" "n \<le> length xs"
      and v: "rd_list rd h (take n xs) = Some vs" "w = Some vs"
    obtain a' rs where k: "cp_new id mk (cp_list cp) (take n xs) h = ((a', rs), h')" and s': "s' = Slice a' n"
      using cp s by (auto simp: cp_slice_def split: prod.splits)
    have len: "length rs = n" using cp_new_length [OF k] s(3) by simp
    from copied_new [OF c v(1) k] obtain ys where 1: "a' = length h" "h' = h @ mk rs # ys"
      "rd_list rd h' rs = Some vs" "fp_list fp h' rs \<subseteq> {Suc (length h)..<length h'}" .
    have "load dest h' a' = Some rs" using 1(1,2) mk by (simp add: load_def)
    with 1 s' v(2) len show ?thesis by (force simp: rd_slice_def fp_slice_def)
  qed (use cp in \<open>simp add: rd_slice_def fp_slice_def cp_slice_def\<close>)
qed

text \<open>A value of one alternative of a sum.\<close>

definition rd_tag :: "('x \<Rightarrow> 'r option) \<Rightarrow> ('o, 'r, 'v) reader \<Rightarrow> ('o, 'x, 'v) reader" where
  "rd_tag dest rd h x = (case dest x of None \<Rightarrow> None | Some r \<Rightarrow> rd h r)"

definition fp_tag :: "('x \<Rightarrow> 'r option) \<Rightarrow> ('o, 'r) footprint \<Rightarrow> ('o, 'x) footprint" where
  "fp_tag dest fp h x = (case dest x of None \<Rightarrow> {} | Some r \<Rightarrow> fp h r)"

definition cp_tag :: "('r \<Rightarrow> 'x) \<Rightarrow> ('x \<Rightarrow> 'r option) \<Rightarrow> ('o, 'r) copy \<Rightarrow> ('o, 'x) copy" where
  "cp_tag mk dest cp x h = (case dest x of None \<Rightarrow> (x, h) | Some r \<Rightarrow> (case cp r h of (r', h) \<Rightarrow> (mk r', h)))"

lemma copier_tag:
  assumes c: "copier rd fp cp" and mk: "\<And>r. dest (mk r) = Some r"
  shows "copier (rd_tag dest rd) (fp_tag dest fp) (cp_tag mk dest cp)"
proof unfold_locales
  fix h h' x x' v assume "rd_tag dest rd h x = Some v"
  then obtain r where r: "dest x = Some r" "rd h r = Some v" by (auto simp: rd_tag_def split: option.splits)
  show "fp_tag dest fp h x \<subseteq> {..<length h}" using copier.reach [OF c r(2)] r(1) by (simp add: fp_tag_def)
  show "rd_tag dest rd h' x = Some v \<and> fp_tag dest fp h' x = fp_tag dest fp h x" if "agree (fp_tag dest fp h x) h h'"
    using that copier.local [OF c r(2), of h'] r(1) by (simp add: rd_tag_def fp_tag_def)
  assume "cp_tag mk dest cp x h = (x', h')"
  then obtain r' where "cp r h = (r', h')" "x' = mk r'" using r(1) by (auto simp: cp_tag_def split: prod.splits)
  with copier.copied [OF c r(2)] mk
  show "(\<exists>ys. h' = h @ ys) \<and> rd_tag dest rd h' x' = Some v \<and> fp_tag dest fp h' x' \<subseteq> {length h..<length h'}"
    by (simp add: rd_tag_def fp_tag_def)
qed

end
