(* ===== verification/DeepCopy.thy ===== *)
theory DeepCopy
  imports GoHeap ApiTypes
begin

text \<open>
  The deep copies of the API types (\<^verbatim>\<open>api/v1beta1/zz_generated.deepcopy.go\<close>) over a heap with sharing.

  The records \<open>mem_T\<close> are the structs as they lie in memory: a pointer or a map is an optional address, a
  slice an array and a length, an embedded struct a field. A struct without references is the record of
  \<open>ApiTypes\<close> itself. \<open>'x obj\<close> are the objects on the heap. The structs of other packages (\<open>metav1.ObjectMeta\<close>,
  \<open>metav1.ListMeta\<close>, \<open>condition.Condition\<close>, \<open>corev1.ResourceRequirements\<close>) are values of the type \<open>'x\<close>, and their
  \<open>DeepCopyInto\<close> functions are the parameters \<open>'x ext_copy\<close>; an array of them is an \<open>OExternals\<close> object.

  \<open>T_DeepCopyInto\<close> takes the struct and the heap and returns what is written to \<open>out\<close>, and the heap after the
  allocations; \<open>T_DeepCopy\<close> takes and returns a pointer.
\<close>

section \<open>Structs in memory\<close>

record mem_BondConfig =
  mbc_BondInterfaces :: slice
  mbc_BondMode :: string
  mbc_BondOptions :: "nat option"

record mem_InstanceSpec =
  mis_BmhLabelSelector :: "nat option"
  mis_CtlPlaneIP :: string
  mis_CtlplaneGateway :: string
  mis_CtlplaneInterface :: string
  mis_CtlplaneVlan :: "nat option"
  mis_UserData :: "nat option"
  mis_NetworkData :: "nat option"

record mem_OpenStackBaremetalSetTemplateSpec =
  mts_OSImage :: string
  mts_OSContainerImageURL :: string
  mts_OSImageDeploymentType :: string
  mts_ApacheImageURL :: string
  mts_AgentImageURL :: string
  mts_AutomatedCleaningMode :: string
  mts_ProvisionServerName :: string
  mts_ProvisonServerNodeSelector :: "nat option"
  mts_ProvisioningInterface :: string
  mts_DeploymentSSHSecret :: string
  mts_CtlplaneInterface :: string
  mts_CtlplaneBond :: "nat option"
  mts_BmhNamespace :: string
  mts_BmhLabelSelector :: "nat option"
  mts_HardwareReqs :: HardwareReqs
  mts_PasswordSecret :: "nat option"
  mts_CloudUserName :: string
  mts_DomainName :: string

record mem_OpenStackBaremetalSetSpec =
  mss_BaremetalHosts :: "nat option"
  mss_CtlplaneGateway :: string
  mss_CtlplaneVlan :: "nat option"
  mss_BootstrapDNS :: slice
  mss_DNSSearchDomains :: slice
  mss_Template :: mem_OpenStackBaremetalSetTemplateSpec

record mem_IPStatus =
  mip_Hostname :: string
  mip_BmhRef :: string
  mip_IPAddresses :: "nat option"

record mem_HostStatus =
  mhs_IPStatus :: mem_IPStatus
  mhs_ProvisioningState :: ProvState
  mhs_AnnotatedForDeletion :: bool
  mhs_UserDataSecretName :: string
  mhs_NetworkDataSecretName :: string

record mem_OpenStackBaremetalSetStatus =
  msst_Conditions :: slice
  msst_Hash :: "nat option"
  msst_BaremetalHosts :: "nat option"
  msst_ObservedGeneration :: int

record TypeMeta =
  tm_Kind :: string
  tm_APIVersion :: string

record 'x mem_OpenStackBaremetalSet =
  mset_TypeMeta :: TypeMeta
  mset_Meta :: 'x
  mset_Spec :: mem_OpenStackBaremetalSetSpec
  mset_Status :: mem_OpenStackBaremetalSetStatus

record 'x mem_OpenStackBaremetalSetList =
  msl_TypeMeta :: TypeMeta
  msl_ListMeta :: 'x
  msl_Items :: slice

record 'x mem_OpenStackProvisionServerSpec =
  mpss_Port :: int
  mpss_Interface :: string
  mpss_OSImage :: string
  mpss_OSImageDir :: "nat option"
  mpss_OSContainerImageURL :: string
  mpss_ApacheImageURL :: string
  mpss_AgentImageURL :: string
  mpss_NodeSelector :: "nat option"
  mpss_Resources :: 'x
  mpss_PreserveJobs :: bool

record mem_OpenStackProvisionServerStatus =
  mpst_ReadyCount :: int
  mpst_Conditions :: slice
  mpst_Hash :: "nat option"
  mpst_ProvisionIP :: string
  mpst_ProvisionIPError :: string
  mpst_LocalImageURL :: string
  mpst_OSImageChecksumFilename :: string
  mpst_OSImageChecksumType :: string
  mpst_LocalImageChecksumURL :: string

record 'x mem_OpenStackProvisionServer =
  mps_TypeMeta :: TypeMeta
  mps_Meta :: 'x
  mps_Spec :: "'x mem_OpenStackProvisionServerSpec"
  mps_Status :: mem_OpenStackProvisionServerStatus

record 'x mem_OpenStackProvisionServerList =
  mpl_TypeMeta :: TypeMeta
  mpl_ListMeta :: 'x
  mpl_Items :: slice

text \<open>The objects on the heap: arrays, maps, the targets of pointers in structs, and structs of every type that
  has a \<open>DeepCopy\<close>.\<close>

datatype 'x obj =
    is_Strings: OStrings (the_Strings: "string list")
  | is_StringMap: OStringMap (the_StringMap: "(string \<times> string) list")
  | is_Int: OInt (the_Int: int)
  | is_String: OString (the_String: string)
  | is_SecretReference: OSecretReference (the_SecretReference: SecretReference)
  | is_Instances: OInstances (the_Instances: "(string \<times> mem_InstanceSpec) list")
  | is_Hosts: OHosts (the_Hosts: "(string \<times> mem_HostStatus) list")
  | is_Externals: OExternals (the_Externals: "'x list")
  | is_Sets: OSets (the_Sets: "'x mem_OpenStackBaremetalSet list")
  | is_Servers: OServers (the_Servers: "'x mem_OpenStackProvisionServer list")
  | is_CPUCountReq: OCPUCountReq (the_CPUCountReq: CPUCountReq)
  | is_CPUMhzReq: OCPUMhzReq (the_CPUMhzReq: CPUMhzReq)
  | is_CPUReqs: OCPUReqs (the_CPUReqs: CPUReqs)
  | is_DiskGbReq: ODiskGbReq (the_DiskGbReq: DiskGbReq)
  | is_DiskReqs: ODiskReqs (the_DiskReqs: DiskReqs)
  | is_DiskSSDReq: ODiskSSDReq (the_DiskSSDReq: DiskSSDReq)
  | is_HardwareReqs: OHardwareReqs (the_HardwareReqs: HardwareReqs)
  | is_MemGbReq: OMemGbReq (the_MemGbReq: MemGbReq)
  | is_MemReqs: OMemReqs (the_MemReqs: MemReqs)
  | is_OpenStackProvisionServerDefaults: OOpenStackProvisionServerDefaults (the_OpenStackProvisionServerDefaults: OpenStackProvisionServerDefaults)
  | is_BondConfig: OBondConfig (the_BondConfig: mem_BondConfig)
  | is_HostStatus: OHostStatus (the_HostStatus: mem_HostStatus)
  | is_IPStatus: OIPStatus (the_IPStatus: mem_IPStatus)
  | is_InstanceSpec: OInstanceSpec (the_InstanceSpec: mem_InstanceSpec)
  | is_OpenStackBaremetalSet: OOpenStackBaremetalSet (the_OpenStackBaremetalSet: "'x mem_OpenStackBaremetalSet")
  | is_OpenStackBaremetalSetList: OOpenStackBaremetalSetList (the_OpenStackBaremetalSetList: "'x mem_OpenStackBaremetalSetList")
  | is_OpenStackBaremetalSetSpec: OOpenStackBaremetalSetSpec (the_OpenStackBaremetalSetSpec: mem_OpenStackBaremetalSetSpec)
  | is_OpenStackBaremetalSetStatus: OOpenStackBaremetalSetStatus (the_OpenStackBaremetalSetStatus: mem_OpenStackBaremetalSetStatus)
  | is_OpenStackBaremetalSetTemplateSpec: OOpenStackBaremetalSetTemplateSpec (the_OpenStackBaremetalSetTemplateSpec: mem_OpenStackBaremetalSetTemplateSpec)
  | is_OpenStackProvisionServer: OOpenStackProvisionServer (the_OpenStackProvisionServer: "'x mem_OpenStackProvisionServer")
  | is_OpenStackProvisionServerList: OOpenStackProvisionServerList (the_OpenStackProvisionServerList: "'x mem_OpenStackProvisionServerList")
  | is_OpenStackProvisionServerSpec: OOpenStackProvisionServerSpec (the_OpenStackProvisionServerSpec: "'x mem_OpenStackProvisionServerSpec")
  | is_OpenStackProvisionServerStatus: OOpenStackProvisionServerStatus (the_OpenStackProvisionServerStatus: mem_OpenStackProvisionServerStatus)

definition as_kind :: "('o \<Rightarrow> bool) \<Rightarrow> ('o \<Rightarrow> 'r) \<Rightarrow> 'o \<Rightarrow> 'r option" where
  "as_kind isK sel x = (if isK x then Some (sel x) else None)"

record 'x ext_copy =
  ObjectMeta_DeepCopyInto :: "('x obj, 'x) copy"
  ListMeta_DeepCopyInto :: "('x obj, 'x) copy"
  Condition_DeepCopyInto :: "('x obj, 'x) copy"
  ResourceRequirements_DeepCopyInto :: "('x obj, 'x) copy"

section \<open>The statements the generator emits\<close>

text \<open>\<open>*out = make(map[string]string, len(*in))\<close> and the loop of assignments; \<open>make([]string, len(*in))\<close> and \<open>copy\<close>;
  \<open>new(T)\<close> and \<open>**out = **in\<close> for a \<open>T\<close> without references. All under \<open>if in.F != nil\<close>.\<close>

definition copy_string_map :: "('x obj, nat option) copy" where
  "copy_string_map = cp_ref (\<lambda>_. []) OStringMap (as_kind is_StringMap the_StringMap) (cp_entries cp_flat)"

definition copy_strings :: "('x obj, slice) copy" where
  "copy_strings = cp_slice OStrings (as_kind is_Strings the_Strings) cp_flat"

definition copy_int :: "('x obj, nat option) copy" where
  "copy_int = cp_ref id OInt (as_kind is_Int the_Int) cp_flat"

definition copy_string :: "('x obj, nat option) copy" where
  "copy_string = cp_ref id OString (as_kind is_String the_String) cp_flat"

definition copy_secret_ref :: "('x obj, nat option) copy" where
  "copy_secret_ref = cp_ref id OSecretReference (as_kind is_SecretReference the_SecretReference) cp_flat"

text \<open>\<open>DeepCopy\<close>: nil for nil, otherwise a new struct, filled by \<open>DeepCopyInto\<close>.\<close>

definition deepCopy ::
  "('r \<Rightarrow> 'x obj) \<Rightarrow> ('x obj \<Rightarrow> bool) \<Rightarrow> ('x obj \<Rightarrow> 'r) \<Rightarrow> ('x obj, 'r) copy \<Rightarrow> ('x obj, nat option) copy" where
  "deepCopy mk isK sel into = cp_ref id mk (as_kind isK sel) into"

section \<open>The functions of the file\<close>

definition BondConfig_DeepCopyInto :: "('x obj, mem_BondConfig) copy" where
  "BondConfig_DeepCopyInto src h =
     (let out = src in
      case copy_strings (mbc_BondInterfaces src) h of (v, h) \<Rightarrow>
      let out = out\<lparr>mbc_BondInterfaces := v\<rparr> in
      case copy_string_map (mbc_BondOptions src) h of (v, h) \<Rightarrow>
      let out = out\<lparr>mbc_BondOptions := v\<rparr> in
      (out, h))"

definition BondConfig_DeepCopy :: "('x obj, nat option) copy" where
  "BondConfig_DeepCopy =
     deepCopy OBondConfig is_BondConfig the_BondConfig
       BondConfig_DeepCopyInto"

definition CPUCountReq_DeepCopyInto :: "('x obj, CPUCountReq) copy" where
  "CPUCountReq_DeepCopyInto src h =
     (let out = src in
      (out, h))"

definition CPUCountReq_DeepCopy :: "('x obj, nat option) copy" where
  "CPUCountReq_DeepCopy =
     deepCopy OCPUCountReq is_CPUCountReq the_CPUCountReq
       CPUCountReq_DeepCopyInto"

definition CPUMhzReq_DeepCopyInto :: "('x obj, CPUMhzReq) copy" where
  "CPUMhzReq_DeepCopyInto src h =
     (let out = src in
      (out, h))"

definition CPUMhzReq_DeepCopy :: "('x obj, nat option) copy" where
  "CPUMhzReq_DeepCopy =
     deepCopy OCPUMhzReq is_CPUMhzReq the_CPUMhzReq
       CPUMhzReq_DeepCopyInto"

definition CPUReqs_DeepCopyInto :: "('x obj, CPUReqs) copy" where
  "CPUReqs_DeepCopyInto src h =
     (let out = src in
      let out = out\<lparr>cr_CountReq := cr_CountReq src\<rparr> in
      let out = out\<lparr>cr_MhzReq := cr_MhzReq src\<rparr> in
      (out, h))"

definition CPUReqs_DeepCopy :: "('x obj, nat option) copy" where
  "CPUReqs_DeepCopy =
     deepCopy OCPUReqs is_CPUReqs the_CPUReqs
       CPUReqs_DeepCopyInto"

definition DiskGbReq_DeepCopyInto :: "('x obj, DiskGbReq) copy" where
  "DiskGbReq_DeepCopyInto src h =
     (let out = src in
      (out, h))"

definition DiskGbReq_DeepCopy :: "('x obj, nat option) copy" where
  "DiskGbReq_DeepCopy =
     deepCopy ODiskGbReq is_DiskGbReq the_DiskGbReq
       DiskGbReq_DeepCopyInto"

definition DiskReqs_DeepCopyInto :: "('x obj, DiskReqs) copy" where
  "DiskReqs_DeepCopyInto src h =
     (let out = src in
      let out = out\<lparr>dr_GbReq := dr_GbReq src\<rparr> in
      let out = out\<lparr>dr_SSDReq := dr_SSDReq src\<rparr> in
      (out, h))"

definition DiskReqs_DeepCopy :: "('x obj, nat option) copy" where
  "DiskReqs_DeepCopy =
     deepCopy ODiskReqs is_DiskReqs the_DiskReqs
       DiskReqs_DeepCopyInto"

definition DiskSSDReq_DeepCopyInto :: "('x obj, DiskSSDReq) copy" where
  "DiskSSDReq_DeepCopyInto src h =
     (let out = src in
      (out, h))"

definition DiskSSDReq_DeepCopy :: "('x obj, nat option) copy" where
  "DiskSSDReq_DeepCopy =
     deepCopy ODiskSSDReq is_DiskSSDReq the_DiskSSDReq
       DiskSSDReq_DeepCopyInto"

definition HardwareReqs_DeepCopyInto :: "('x obj, HardwareReqs) copy" where
  "HardwareReqs_DeepCopyInto src h =
     (let out = src in
      let out = out\<lparr>hr_CPUReqs := hr_CPUReqs src\<rparr> in
      let out = out\<lparr>hr_MemReqs := hr_MemReqs src\<rparr> in
      let out = out\<lparr>hr_DiskReqs := hr_DiskReqs src\<rparr> in
      (out, h))"

definition HardwareReqs_DeepCopy :: "('x obj, nat option) copy" where
  "HardwareReqs_DeepCopy =
     deepCopy OHardwareReqs is_HardwareReqs the_HardwareReqs
       HardwareReqs_DeepCopyInto"

definition IPStatus_DeepCopyInto :: "('x obj, mem_IPStatus) copy" where
  "IPStatus_DeepCopyInto src h =
     (let out = src in
      case copy_string_map (mip_IPAddresses src) h of (v, h) \<Rightarrow>
      let out = out\<lparr>mip_IPAddresses := v\<rparr> in
      (out, h))"

definition IPStatus_DeepCopy :: "('x obj, nat option) copy" where
  "IPStatus_DeepCopy =
     deepCopy OIPStatus is_IPStatus the_IPStatus
       IPStatus_DeepCopyInto"

definition HostStatus_DeepCopyInto :: "('x obj, mem_HostStatus) copy" where
  "HostStatus_DeepCopyInto src h =
     (let out = src in
      case IPStatus_DeepCopyInto (mhs_IPStatus src) h of (v, h) \<Rightarrow>
      let out = out\<lparr>mhs_IPStatus := v\<rparr> in
      (out, h))"

definition HostStatus_DeepCopy :: "('x obj, nat option) copy" where
  "HostStatus_DeepCopy =
     deepCopy OHostStatus is_HostStatus the_HostStatus
       HostStatus_DeepCopyInto"

definition InstanceSpec_DeepCopyInto :: "('x obj, mem_InstanceSpec) copy" where
  "InstanceSpec_DeepCopyInto src h =
     (let out = src in
      case copy_string_map (mis_BmhLabelSelector src) h of (v, h) \<Rightarrow>
      let out = out\<lparr>mis_BmhLabelSelector := v\<rparr> in
      case copy_int (mis_CtlplaneVlan src) h of (v, h) \<Rightarrow>
      let out = out\<lparr>mis_CtlplaneVlan := v\<rparr> in
      case copy_secret_ref (mis_UserData src) h of (v, h) \<Rightarrow>
      let out = out\<lparr>mis_UserData := v\<rparr> in
      case copy_secret_ref (mis_NetworkData src) h of (v, h) \<Rightarrow>
      let out = out\<lparr>mis_NetworkData := v\<rparr> in
      (out, h))"

definition InstanceSpec_DeepCopy :: "('x obj, nat option) copy" where
  "InstanceSpec_DeepCopy =
     deepCopy OInstanceSpec is_InstanceSpec the_InstanceSpec
       InstanceSpec_DeepCopyInto"

definition MemGbReq_DeepCopyInto :: "('x obj, MemGbReq) copy" where
  "MemGbReq_DeepCopyInto src h =
     (let out = src in
      (out, h))"

definition MemGbReq_DeepCopy :: "('x obj, nat option) copy" where
  "MemGbReq_DeepCopy =
     deepCopy OMemGbReq is_MemGbReq the_MemGbReq
       MemGbReq_DeepCopyInto"

definition MemReqs_DeepCopyInto :: "('x obj, MemReqs) copy" where
  "MemReqs_DeepCopyInto src h =
     (let out = src in
      let out = out\<lparr>mr_GbReq := mr_GbReq src\<rparr> in
      (out, h))"

definition MemReqs_DeepCopy :: "('x obj, nat option) copy" where
  "MemReqs_DeepCopy =
     deepCopy OMemReqs is_MemReqs the_MemReqs
       MemReqs_DeepCopyInto"

definition copy_bond :: "('x obj, nat option) copy" where
  "copy_bond = cp_ref id OBondConfig (as_kind is_BondConfig the_BondConfig) BondConfig_DeepCopyInto"

definition OpenStackBaremetalSetTemplateSpec_DeepCopyInto :: "('x obj, mem_OpenStackBaremetalSetTemplateSpec) copy" where
  "OpenStackBaremetalSetTemplateSpec_DeepCopyInto src h =
     (let out = src in
      case copy_string_map (mts_ProvisonServerNodeSelector src) h of (v, h) \<Rightarrow>
      let out = out\<lparr>mts_ProvisonServerNodeSelector := v\<rparr> in
      case copy_bond (mts_CtlplaneBond src) h of (v, h) \<Rightarrow>
      let out = out\<lparr>mts_CtlplaneBond := v\<rparr> in
      case copy_string_map (mts_BmhLabelSelector src) h of (v, h) \<Rightarrow>
      let out = out\<lparr>mts_BmhLabelSelector := v\<rparr> in
      let out = out\<lparr>mts_HardwareReqs := mts_HardwareReqs src\<rparr> in
      case copy_secret_ref (mts_PasswordSecret src) h of (v, h) \<Rightarrow>
      let out = out\<lparr>mts_PasswordSecret := v\<rparr> in
      (out, h))"

definition OpenStackBaremetalSetTemplateSpec_DeepCopy :: "('x obj, nat option) copy" where
  "OpenStackBaremetalSetTemplateSpec_DeepCopy =
     deepCopy OOpenStackBaremetalSetTemplateSpec is_OpenStackBaremetalSetTemplateSpec the_OpenStackBaremetalSetTemplateSpec
       OpenStackBaremetalSetTemplateSpec_DeepCopyInto"

text \<open>\<open>for key, val := range *in { (*out)[key] = *val.DeepCopy() }\<close>.\<close>

definition copy_instances :: "('x obj, nat option) copy" where
  "copy_instances =
     cp_ref (\<lambda>_. []) OInstances (as_kind is_Instances the_Instances)
       (cp_entries (cp_val OInstanceSpec InstanceSpec_DeepCopyInto))"

definition copy_hosts :: "('x obj, nat option) copy" where
  "copy_hosts =
     cp_ref (\<lambda>_. []) OHosts (as_kind is_Hosts the_Hosts) (cp_entries (cp_val OHostStatus HostStatus_DeepCopyInto))"

text \<open>\<open>for i := range *in { (*in)[i].DeepCopyInto(&(*out)[i]) }\<close>.\<close>

definition copy_conditions :: "'x ext_copy \<Rightarrow> ('x obj, slice) copy" where
  "copy_conditions E = cp_slice OExternals (as_kind is_Externals the_Externals) (Condition_DeepCopyInto E)"

definition OpenStackBaremetalSetSpec_DeepCopyInto :: "('x obj, mem_OpenStackBaremetalSetSpec) copy" where
  "OpenStackBaremetalSetSpec_DeepCopyInto src h =
     (let out = src in
      case copy_instances (mss_BaremetalHosts src) h of (v, h) \<Rightarrow>
      let out = out\<lparr>mss_BaremetalHosts := v\<rparr> in
      case copy_int (mss_CtlplaneVlan src) h of (v, h) \<Rightarrow>
      let out = out\<lparr>mss_CtlplaneVlan := v\<rparr> in
      case copy_strings (mss_BootstrapDNS src) h of (v, h) \<Rightarrow>
      let out = out\<lparr>mss_BootstrapDNS := v\<rparr> in
      case copy_strings (mss_DNSSearchDomains src) h of (v, h) \<Rightarrow>
      let out = out\<lparr>mss_DNSSearchDomains := v\<rparr> in
      case OpenStackBaremetalSetTemplateSpec_DeepCopyInto (mss_Template src) h of (v, h) \<Rightarrow>
      let out = out\<lparr>mss_Template := v\<rparr> in
      (out, h))"

definition OpenStackBaremetalSetSpec_DeepCopy :: "('x obj, nat option) copy" where
  "OpenStackBaremetalSetSpec_DeepCopy =
     deepCopy OOpenStackBaremetalSetSpec is_OpenStackBaremetalSetSpec the_OpenStackBaremetalSetSpec
       OpenStackBaremetalSetSpec_DeepCopyInto"

definition OpenStackBaremetalSetStatus_DeepCopyInto :: "'x ext_copy \<Rightarrow> ('x obj, mem_OpenStackBaremetalSetStatus) copy" where
  "OpenStackBaremetalSetStatus_DeepCopyInto E src h =
     (let out = src in
      case copy_conditions E (msst_Conditions src) h of (v, h) \<Rightarrow>
      let out = out\<lparr>msst_Conditions := v\<rparr> in
      case copy_string_map (msst_Hash src) h of (v, h) \<Rightarrow>
      let out = out\<lparr>msst_Hash := v\<rparr> in
      case copy_hosts (msst_BaremetalHosts src) h of (v, h) \<Rightarrow>
      let out = out\<lparr>msst_BaremetalHosts := v\<rparr> in
      (out, h))"

definition OpenStackBaremetalSetStatus_DeepCopy :: "'x ext_copy \<Rightarrow> ('x obj, nat option) copy" where
  "OpenStackBaremetalSetStatus_DeepCopy E =
     deepCopy OOpenStackBaremetalSetStatus is_OpenStackBaremetalSetStatus the_OpenStackBaremetalSetStatus
       (OpenStackBaremetalSetStatus_DeepCopyInto E)"

definition OpenStackBaremetalSet_DeepCopyInto :: "'x ext_copy \<Rightarrow> ('x obj, 'x mem_OpenStackBaremetalSet) copy" where
  "OpenStackBaremetalSet_DeepCopyInto E src h =
     (let out = src in
      let out = out\<lparr>mset_TypeMeta := mset_TypeMeta src\<rparr> in
      case ObjectMeta_DeepCopyInto E (mset_Meta src) h of (v, h) \<Rightarrow>
      let out = out\<lparr>mset_Meta := v\<rparr> in
      case OpenStackBaremetalSetSpec_DeepCopyInto (mset_Spec src) h of (v, h) \<Rightarrow>
      let out = out\<lparr>mset_Spec := v\<rparr> in
      case OpenStackBaremetalSetStatus_DeepCopyInto E (mset_Status src) h of (v, h) \<Rightarrow>
      let out = out\<lparr>mset_Status := v\<rparr> in
      (out, h))"

definition OpenStackBaremetalSet_DeepCopy :: "'x ext_copy \<Rightarrow> ('x obj, nat option) copy" where
  "OpenStackBaremetalSet_DeepCopy E =
     deepCopy OOpenStackBaremetalSet is_OpenStackBaremetalSet the_OpenStackBaremetalSet
       (OpenStackBaremetalSet_DeepCopyInto E)"

definition copy_set_items :: "'x ext_copy \<Rightarrow> ('x obj, slice) copy" where
  "copy_set_items E = cp_slice OSets (as_kind is_Sets the_Sets) (OpenStackBaremetalSet_DeepCopyInto E)"

definition OpenStackBaremetalSetList_DeepCopyInto :: "'x ext_copy \<Rightarrow> ('x obj, 'x mem_OpenStackBaremetalSetList) copy" where
  "OpenStackBaremetalSetList_DeepCopyInto E src h =
     (let out = src in
      let out = out\<lparr>msl_TypeMeta := msl_TypeMeta src\<rparr> in
      case ListMeta_DeepCopyInto E (msl_ListMeta src) h of (v, h) \<Rightarrow>
      let out = out\<lparr>msl_ListMeta := v\<rparr> in
      case copy_set_items E (msl_Items src) h of (v, h) \<Rightarrow>
      let out = out\<lparr>msl_Items := v\<rparr> in
      (out, h))"

definition OpenStackBaremetalSetList_DeepCopy :: "'x ext_copy \<Rightarrow> ('x obj, nat option) copy" where
  "OpenStackBaremetalSetList_DeepCopy E =
     deepCopy OOpenStackBaremetalSetList is_OpenStackBaremetalSetList the_OpenStackBaremetalSetList
       (OpenStackBaremetalSetList_DeepCopyInto E)"

definition OpenStackProvisionServerSpec_DeepCopyInto :: "'x ext_copy \<Rightarrow> ('x obj, 'x mem_OpenStackProvisionServerSpec) copy" where
  "OpenStackProvisionServerSpec_DeepCopyInto E src h =
     (let out = src in
      case copy_string (mpss_OSImageDir src) h of (v, h) \<Rightarrow>
      let out = out\<lparr>mpss_OSImageDir := v\<rparr> in
      case copy_string_map (mpss_NodeSelector src) h of (v, h) \<Rightarrow>
      let out = out\<lparr>mpss_NodeSelector := v\<rparr> in
      case ResourceRequirements_DeepCopyInto E (mpss_Resources src) h of (v, h) \<Rightarrow>
      let out = out\<lparr>mpss_Resources := v\<rparr> in
      (out, h))"

definition OpenStackProvisionServerSpec_DeepCopy :: "'x ext_copy \<Rightarrow> ('x obj, nat option) copy" where
  "OpenStackProvisionServerSpec_DeepCopy E =
     deepCopy OOpenStackProvisionServerSpec is_OpenStackProvisionServerSpec the_OpenStackProvisionServerSpec
       (OpenStackProvisionServerSpec_DeepCopyInto E)"

definition OpenStackProvisionServerStatus_DeepCopyInto :: "'x ext_copy \<Rightarrow> ('x obj, mem_OpenStackProvisionServerStatus) copy" where
  "OpenStackProvisionServerStatus_DeepCopyInto E src h =
     (let out = src in
      case copy_conditions E (mpst_Conditions src) h of (v, h) \<Rightarrow>
      let out = out\<lparr>mpst_Conditions := v\<rparr> in
      case copy_string_map (mpst_Hash src) h of (v, h) \<Rightarrow>
      let out = out\<lparr>mpst_Hash := v\<rparr> in
      (out, h))"

definition OpenStackProvisionServerStatus_DeepCopy :: "'x ext_copy \<Rightarrow> ('x obj, nat option) copy" where
  "OpenStackProvisionServerStatus_DeepCopy E =
     deepCopy OOpenStackProvisionServerStatus is_OpenStackProvisionServerStatus the_OpenStackProvisionServerStatus
       (OpenStackProvisionServerStatus_DeepCopyInto E)"

definition OpenStackProvisionServer_DeepCopyInto :: "'x ext_copy \<Rightarrow> ('x obj, 'x mem_OpenStackProvisionServer) copy" where
  "OpenStackProvisionServer_DeepCopyInto E src h =
     (let out = src in
      let out = out\<lparr>mps_TypeMeta := mps_TypeMeta src\<rparr> in
      case ObjectMeta_DeepCopyInto E (mps_Meta src) h of (v, h) \<Rightarrow>
      let out = out\<lparr>mps_Meta := v\<rparr> in
      case OpenStackProvisionServerSpec_DeepCopyInto E (mps_Spec src) h of (v, h) \<Rightarrow>
      let out = out\<lparr>mps_Spec := v\<rparr> in
      case OpenStackProvisionServerStatus_DeepCopyInto E (mps_Status src) h of (v, h) \<Rightarrow>
      let out = out\<lparr>mps_Status := v\<rparr> in
      (out, h))"

definition OpenStackProvisionServer_DeepCopy :: "'x ext_copy \<Rightarrow> ('x obj, nat option) copy" where
  "OpenStackProvisionServer_DeepCopy E =
     deepCopy OOpenStackProvisionServer is_OpenStackProvisionServer the_OpenStackProvisionServer
       (OpenStackProvisionServer_DeepCopyInto E)"

definition OpenStackProvisionServerDefaults_DeepCopyInto :: "('x obj, OpenStackProvisionServerDefaults) copy" where
  "OpenStackProvisionServerDefaults_DeepCopyInto src h =
     (let out = src in
      (out, h))"

definition OpenStackProvisionServerDefaults_DeepCopy :: "('x obj, nat option) copy" where
  "OpenStackProvisionServerDefaults_DeepCopy =
     deepCopy OOpenStackProvisionServerDefaults is_OpenStackProvisionServerDefaults the_OpenStackProvisionServerDefaults
       OpenStackProvisionServerDefaults_DeepCopyInto"

definition copy_server_items :: "'x ext_copy \<Rightarrow> ('x obj, slice) copy" where
  "copy_server_items E = cp_slice OServers (as_kind is_Servers the_Servers) (OpenStackProvisionServer_DeepCopyInto E)"

definition OpenStackProvisionServerList_DeepCopyInto :: "'x ext_copy \<Rightarrow> ('x obj, 'x mem_OpenStackProvisionServerList) copy" where
  "OpenStackProvisionServerList_DeepCopyInto E src h =
     (let out = src in
      let out = out\<lparr>mpl_TypeMeta := mpl_TypeMeta src\<rparr> in
      case ListMeta_DeepCopyInto E (mpl_ListMeta src) h of (v, h) \<Rightarrow>
      let out = out\<lparr>mpl_ListMeta := v\<rparr> in
      case copy_server_items E (mpl_Items src) h of (v, h) \<Rightarrow>
      let out = out\<lparr>mpl_Items := v\<rparr> in
      (out, h))"

definition OpenStackProvisionServerList_DeepCopy :: "'x ext_copy \<Rightarrow> ('x obj, nat option) copy" where
  "OpenStackProvisionServerList_DeepCopy E =
     deepCopy OOpenStackProvisionServerList is_OpenStackProvisionServerList the_OpenStackProvisionServerList
       (OpenStackProvisionServerList_DeepCopyInto E)"

text \<open>\<open>DeepCopyObject\<close> returns an interface value: nil, or a pointer with its type. A nil pointer with a type would
  not be equal to nil.\<close>

datatype object_iface = NilObject | SetObject "nat option" | SetListObject "nat option"
  | ServerObject "nat option" | ServerListObject "nat option"

definition OpenStackBaremetalSet_DeepCopyObject :: "'x ext_copy \<Rightarrow> nat option \<Rightarrow> 'x obj heap \<Rightarrow> object_iface \<times> 'x obj heap" where
  "OpenStackBaremetalSet_DeepCopyObject E src h =
     (case OpenStackBaremetalSet_DeepCopy E src h of (c, h) \<Rightarrow> if c \<noteq> None then (SetObject c, h) else (NilObject, h))"

definition OpenStackBaremetalSetList_DeepCopyObject :: "'x ext_copy \<Rightarrow> nat option \<Rightarrow> 'x obj heap \<Rightarrow> object_iface \<times> 'x obj heap" where
  "OpenStackBaremetalSetList_DeepCopyObject E src h =
     (case OpenStackBaremetalSetList_DeepCopy E src h of (c, h) \<Rightarrow> if c \<noteq> None then (SetListObject c, h) else (NilObject, h))"

definition OpenStackProvisionServer_DeepCopyObject :: "'x ext_copy \<Rightarrow> nat option \<Rightarrow> 'x obj heap \<Rightarrow> object_iface \<times> 'x obj heap" where
  "OpenStackProvisionServer_DeepCopyObject E src h =
     (case OpenStackProvisionServer_DeepCopy E src h of (c, h) \<Rightarrow> if c \<noteq> None then (ServerObject c, h) else (NilObject, h))"

definition OpenStackProvisionServerList_DeepCopyObject :: "'x ext_copy \<Rightarrow> nat option \<Rightarrow> 'x obj heap \<Rightarrow> object_iface \<times> 'x obj heap" where
  "OpenStackProvisionServerList_DeepCopyObject E src h =
     (case OpenStackProvisionServerList_DeepCopy E src h of (c, h) \<Rightarrow> if c \<noteq> None then (ServerListObject c, h) else (NilObject, h))"

end
