(* ===== verification/DeepCopyContract.thy ===== *)
theory DeepCopyContract
  imports DeepCopy
begin

text \<open>
  The contract of the deep copies. \<open>rd_T\<close> reads the value of \<open>ApiTypes\<close> that a struct in memory stands for (the rest of
  the development computes with these values), \<open>fp_T\<close> is the set of the addresses that it reaches. The lemmas
  \<open>T_copier\<close> show the contract \<open>copier\<close> of \<open>GoHeap\<close> for every type, given that of the four structs of other packages
  (the locale \<open>ext_copiers\<close>): each composes the rules of \<open>GoHeap\<close> along the fields of the struct.
\<close>

section \<open>The values read\<close>

definition slice_value :: "'a list option \<Rightarrow> 'a list" where
  "slice_value v = (case v of None \<Rightarrow> [] | Some xs \<Rightarrow> xs)"

definition rd_string_map :: "('x obj, nat option, (string, string) gomap) reader" where
  "rd_string_map = rd_ref (as_kind is_StringMap the_StringMap) (rd_entries (rd_flat id))"

definition fp_string_map :: "('x obj, nat option) footprint" where
  "fp_string_map = fp_ref (as_kind is_StringMap the_StringMap) (fp_entries fp_flat)"

definition rd_strings :: "('x obj, slice, string list option) reader" where
  "rd_strings = rd_slice (as_kind is_Strings the_Strings) (rd_flat id)"

definition fp_strings :: "('x obj, slice) footprint" where
  "fp_strings = fp_slice (as_kind is_Strings the_Strings) fp_flat"

definition rd_int :: "('x obj, nat option, int option) reader" where
  "rd_int = rd_ref (as_kind is_Int the_Int) (rd_flat id)"

definition fp_int :: "('x obj, nat option) footprint" where
  "fp_int = fp_ref (as_kind is_Int the_Int) fp_flat"

definition rd_string :: "('x obj, nat option, string option) reader" where
  "rd_string = rd_ref (as_kind is_String the_String) (rd_flat id)"

definition fp_string :: "('x obj, nat option) footprint" where
  "fp_string = fp_ref (as_kind is_String the_String) fp_flat"

definition rd_secret_ref :: "('x obj, nat option, SecretReference option) reader" where
  "rd_secret_ref = rd_ref (as_kind is_SecretReference the_SecretReference) (rd_flat id)"

definition fp_secret_ref :: "('x obj, nat option) footprint" where
  "fp_secret_ref = fp_ref (as_kind is_SecretReference the_SecretReference) fp_flat"

lemma as_kind_simps [simp]:
  "isK x \<Longrightarrow> as_kind isK sel x = Some (sel x)" "\<not> isK x \<Longrightarrow> as_kind isK sel x = None"
  by (simp_all add: as_kind_def)

lemma string_map_copier: "copier rd_string_map fp_string_map copy_string_map"
  unfolding rd_string_map_def fp_string_map_def copy_string_map_def
  by (rule copier_ref [OF copier_entries [OF copier_flat]]) simp

lemma strings_copier: "copier rd_strings fp_strings copy_strings"
  unfolding rd_strings_def fp_strings_def copy_strings_def by (rule copier_slice [OF copier_flat]) simp

lemma int_copier: "copier rd_int fp_int copy_int"
  unfolding rd_int_def fp_int_def copy_int_def by (rule copier_ref [OF copier_flat]) simp

lemma string_copier: "copier rd_string fp_string copy_string"
  unfolding rd_string_def fp_string_def copy_string_def by (rule copier_ref [OF copier_flat]) simp

lemma secret_ref_copier: "copier rd_secret_ref fp_secret_ref copy_secret_ref"
  unfolding rd_secret_ref_def fp_secret_ref_def copy_secret_ref_def by (rule copier_ref [OF copier_flat]) simp

definition rd_BondConfig :: "('x obj, mem_BondConfig, BondConfig) reader" where
  "rd_BondConfig = rd_struct (\<lambda>s. (mbc_BondInterfaces s, mbc_BondOptions s))
     (\<lambda>s (ifs, opts). \<lparr>bc_BondInterfaces = slice_value ifs, bc_BondMode = mbc_BondMode s, bc_BondOptions = opts\<rparr>)
     (rd_pair rd_strings rd_string_map)"

definition fp_BondConfig :: "('x obj, mem_BondConfig) footprint" where
  "fp_BondConfig = fp_struct (\<lambda>s. (mbc_BondInterfaces s, mbc_BondOptions s)) (fp_pair fp_strings fp_string_map)"

lemma BondConfig_copier: "copier rd_BondConfig fp_BondConfig BondConfig_DeepCopyInto"
  unfolding rd_BondConfig_def fp_BondConfig_def
  by (rule copier_struct [OF copier_pair [OF strings_copier string_map_copier],
        where put = "\<lambda>(a, b) s. s\<lparr>mbc_BondInterfaces := a, mbc_BondOptions := b\<rparr>"])
    (auto simp: BondConfig_DeepCopyInto_def cp_pair_def split: prod.splits)

definition rd_IPStatus :: "('x obj, mem_IPStatus, IPStatus) reader" where
  "rd_IPStatus = rd_struct mip_IPAddresses
     (\<lambda>s m. \<lparr>ip_Hostname = mip_Hostname s, ip_BmhRef = mip_BmhRef s, ip_IPAddresses = m\<rparr>) rd_string_map"

definition fp_IPStatus :: "('x obj, mem_IPStatus) footprint" where
  "fp_IPStatus = fp_struct mip_IPAddresses fp_string_map"

lemma IPStatus_copier: "copier rd_IPStatus fp_IPStatus IPStatus_DeepCopyInto"
  unfolding rd_IPStatus_def fp_IPStatus_def
  by (rule copier_struct [OF string_map_copier, where put = "\<lambda>v s. s\<lparr>mip_IPAddresses := v\<rparr>"])
    (auto simp: IPStatus_DeepCopyInto_def split: prod.splits)

definition rd_HostStatus :: "('x obj, mem_HostStatus, HostStatus) reader" where
  "rd_HostStatus = rd_struct mhs_IPStatus
     (\<lambda>s ip. IPStatus.extend ip (HostStatus.fields (mhs_ProvisioningState s) (mhs_AnnotatedForDeletion s)
        (mhs_UserDataSecretName s) (mhs_NetworkDataSecretName s))) rd_IPStatus"

definition fp_HostStatus :: "('x obj, mem_HostStatus) footprint" where
  "fp_HostStatus = fp_struct mhs_IPStatus fp_IPStatus"

lemma HostStatus_copier: "copier rd_HostStatus fp_HostStatus HostStatus_DeepCopyInto"
  unfolding rd_HostStatus_def fp_HostStatus_def
  by (rule copier_struct [OF IPStatus_copier, where put = "\<lambda>v s. s\<lparr>mhs_IPStatus := v\<rparr>"])
    (auto simp: HostStatus_DeepCopyInto_def split: prod.splits)

definition rd_InstanceSpec :: "('x obj, mem_InstanceSpec, InstanceSpec) reader" where
  "rd_InstanceSpec = rd_struct (\<lambda>s. (mis_BmhLabelSelector s, mis_CtlplaneVlan s, mis_UserData s, mis_NetworkData s))
     (\<lambda>s (sel, vlan, user, net). \<lparr>is_BmhLabelSelector = sel, is_CtlPlaneIP = mis_CtlPlaneIP s,
        is_CtlplaneGateway = mis_CtlplaneGateway s, is_CtlplaneInterface = mis_CtlplaneInterface s,
        is_CtlplaneVlan = vlan, is_UserData = user, is_NetworkData = net\<rparr>)
     (rd_pair rd_string_map (rd_pair rd_int (rd_pair rd_secret_ref rd_secret_ref)))"

definition fp_InstanceSpec :: "('x obj, mem_InstanceSpec) footprint" where
  "fp_InstanceSpec = fp_struct (\<lambda>s. (mis_BmhLabelSelector s, mis_CtlplaneVlan s, mis_UserData s, mis_NetworkData s))
     (fp_pair fp_string_map (fp_pair fp_int (fp_pair fp_secret_ref fp_secret_ref)))"

lemma InstanceSpec_copier: "copier rd_InstanceSpec fp_InstanceSpec InstanceSpec_DeepCopyInto"
  unfolding rd_InstanceSpec_def fp_InstanceSpec_def
  by (rule copier_struct [OF copier_pair [OF string_map_copier copier_pair [OF int_copier
          copier_pair [OF secret_ref_copier secret_ref_copier]]],
        where put = "\<lambda>(a, b, c, d) s. s\<lparr>mis_BmhLabelSelector := a, mis_CtlplaneVlan := b, mis_UserData := c,
          mis_NetworkData := d\<rparr>"])
    (auto simp: InstanceSpec_DeepCopyInto_def cp_pair_def split: prod.splits)

definition rd_bond :: "('x obj, nat option, BondConfig option) reader" where
  "rd_bond = rd_ref (as_kind is_BondConfig the_BondConfig) rd_BondConfig"

definition fp_bond :: "('x obj, nat option) footprint" where
  "fp_bond = fp_ref (as_kind is_BondConfig the_BondConfig) fp_BondConfig"

lemma bond_copier: "copier rd_bond fp_bond copy_bond"
  unfolding rd_bond_def fp_bond_def copy_bond_def by (rule copier_ref [OF BondConfig_copier]) simp

definition rd_OpenStackBaremetalSetTemplateSpec :: "('x obj, mem_OpenStackBaremetalSetTemplateSpec, OpenStackBaremetalSetTemplateSpec) reader" where
  "rd_OpenStackBaremetalSetTemplateSpec = rd_struct (\<lambda>s. (mts_ProvisonServerNodeSelector s, mts_CtlplaneBond s, mts_BmhLabelSelector s, mts_PasswordSecret s))
     (\<lambda>s (nodes, bond, sel, pw). \<lparr>ts_OSImage = mts_OSImage s, ts_OSContainerImageURL = mts_OSContainerImageURL s,
        ts_OSImageDeploymentType = mts_OSImageDeploymentType s, ts_ApacheImageURL = mts_ApacheImageURL s,
        ts_AgentImageURL = mts_AgentImageURL s, ts_AutomatedCleaningMode = mts_AutomatedCleaningMode s,
        ts_ProvisionServerName = mts_ProvisionServerName s, ts_ProvisonServerNodeSelector = nodes,
        ts_ProvisioningInterface = mts_ProvisioningInterface s, ts_DeploymentSSHSecret = mts_DeploymentSSHSecret s,
        ts_CtlplaneInterface = mts_CtlplaneInterface s, ts_CtlplaneBond = bond, ts_BmhNamespace = mts_BmhNamespace s,
        ts_BmhLabelSelector = sel, ts_HardwareReqs = mts_HardwareReqs s, ts_PasswordSecret = pw,
        ts_CloudUserName = mts_CloudUserName s, ts_DomainName = mts_DomainName s\<rparr>)
     (rd_pair rd_string_map (rd_pair rd_bond (rd_pair rd_string_map rd_secret_ref)))"

definition fp_OpenStackBaremetalSetTemplateSpec :: "('x obj, mem_OpenStackBaremetalSetTemplateSpec) footprint" where
  "fp_OpenStackBaremetalSetTemplateSpec = fp_struct (\<lambda>s. (mts_ProvisonServerNodeSelector s, mts_CtlplaneBond s, mts_BmhLabelSelector s, mts_PasswordSecret s))
     (fp_pair fp_string_map (fp_pair fp_bond (fp_pair fp_string_map fp_secret_ref)))"

lemma OpenStackBaremetalSetTemplateSpec_copier: "copier (rd_OpenStackBaremetalSetTemplateSpec) (fp_OpenStackBaremetalSetTemplateSpec) (OpenStackBaremetalSetTemplateSpec_DeepCopyInto)"
  unfolding rd_OpenStackBaremetalSetTemplateSpec_def fp_OpenStackBaremetalSetTemplateSpec_def
  by (rule copier_struct [OF copier_pair [OF string_map_copier copier_pair [OF bond_copier copier_pair [OF string_map_copier secret_ref_copier]]],
        where put = "\<lambda>(a, b, c, d) s. s\<lparr>mts_ProvisonServerNodeSelector := a, mts_CtlplaneBond := b, mts_BmhLabelSelector := c, mts_PasswordSecret := d\<rparr>"])
    (auto simp: OpenStackBaremetalSetTemplateSpec_DeepCopyInto_def cp_pair_def split: prod.splits)

definition rd_instances :: "('x obj, nat option, (string, InstanceSpec) gomap) reader" where
  "rd_instances = rd_ref (as_kind is_Instances the_Instances) (rd_entries rd_InstanceSpec)"

definition fp_instances :: "('x obj, nat option) footprint" where
  "fp_instances = fp_ref (as_kind is_Instances the_Instances) (fp_entries fp_InstanceSpec)"

lemma instances_copier: "copier rd_instances fp_instances copy_instances"
  unfolding rd_instances_def fp_instances_def copy_instances_def
  by (rule copier_ref [OF copier_entries [OF copier_val [OF InstanceSpec_copier]]]) simp

definition rd_hosts :: "('x obj, nat option, (string, HostStatus) gomap) reader" where
  "rd_hosts = rd_ref (as_kind is_Hosts the_Hosts) (rd_entries rd_HostStatus)"

definition fp_hosts :: "('x obj, nat option) footprint" where
  "fp_hosts = fp_ref (as_kind is_Hosts the_Hosts) (fp_entries fp_HostStatus)"

lemma hosts_copier: "copier rd_hosts fp_hosts copy_hosts"
  unfolding rd_hosts_def fp_hosts_def copy_hosts_def
  by (rule copier_ref [OF copier_entries [OF copier_val [OF HostStatus_copier]]]) simp

definition rd_OpenStackBaremetalSetSpec :: "('x obj, mem_OpenStackBaremetalSetSpec, OpenStackBaremetalSetSpec) reader" where
  "rd_OpenStackBaremetalSetSpec = rd_struct (\<lambda>s. (mss_BaremetalHosts s, mss_CtlplaneVlan s, mss_BootstrapDNS s, mss_DNSSearchDomains s, mss_Template s))
     (\<lambda>s (hosts, vlan, dns, search, tpl). OpenStackBaremetalSetTemplateSpec.extend tpl
        (OpenStackBaremetalSetSpec.fields hosts (mss_CtlplaneGateway s) vlan (slice_value dns) (slice_value search)))
     (rd_pair rd_instances (rd_pair rd_int (rd_pair rd_strings (rd_pair rd_strings rd_OpenStackBaremetalSetTemplateSpec))))"

definition fp_OpenStackBaremetalSetSpec :: "('x obj, mem_OpenStackBaremetalSetSpec) footprint" where
  "fp_OpenStackBaremetalSetSpec = fp_struct (\<lambda>s. (mss_BaremetalHosts s, mss_CtlplaneVlan s, mss_BootstrapDNS s, mss_DNSSearchDomains s, mss_Template s))
     (fp_pair fp_instances (fp_pair fp_int (fp_pair fp_strings (fp_pair fp_strings fp_OpenStackBaremetalSetTemplateSpec))))"

lemma OpenStackBaremetalSetSpec_copier: "copier (rd_OpenStackBaremetalSetSpec) (fp_OpenStackBaremetalSetSpec) (OpenStackBaremetalSetSpec_DeepCopyInto)"
  unfolding rd_OpenStackBaremetalSetSpec_def fp_OpenStackBaremetalSetSpec_def
  by (rule copier_struct [OF copier_pair [OF instances_copier copier_pair [OF int_copier copier_pair [OF strings_copier copier_pair [OF strings_copier OpenStackBaremetalSetTemplateSpec_copier]]]],
        where put = "\<lambda>(a, b, c, d, e) s. s\<lparr>mss_BaremetalHosts := a, mss_CtlplaneVlan := b, mss_BootstrapDNS := c, mss_DNSSearchDomains := d, mss_Template := e\<rparr>"])
    (auto simp: OpenStackBaremetalSetSpec_DeepCopyInto_def cp_pair_def split: prod.splits)

section \<open>The structs of other packages\<close>

text \<open>What the heap holds for them (\<open>'x ext_mem\<close>), and the contract that the \<open>DeepCopyInto\<close> functions of \<open>metav1\<close>,
  \<open>corev1\<close> and lib-common's \<open>condition\<close> have: \<open>DeepCopyInto\<close> is documented to copy the receiver deeply.\<close>

record ListMeta =
  lm_ResourceVersion :: string
  lm_Continue :: string
  lm_RemainingItemCount :: "int option"

record 'x ext_mem =
  rd_ObjectMeta :: "('x obj, 'x, ObjectMeta) reader"
  fp_ObjectMeta :: "('x obj, 'x) footprint"
  rd_ListMeta :: "('x obj, 'x, ListMeta) reader"
  fp_ListMeta :: "('x obj, 'x) footprint"
  rd_Condition :: "('x obj, 'x, Condition) reader"
  fp_Condition :: "('x obj, 'x) footprint"
  rd_ResourceRequirements :: "('x obj, 'x, ResourceRequirements) reader"
  fp_ResourceRequirements :: "('x obj, 'x) footprint"

definition rd_conditions :: "'x ext_mem \<Rightarrow> ('x obj, slice, Conditions option) reader" where
  "rd_conditions M = rd_slice (as_kind is_Externals the_Externals) (rd_Condition M)"

definition fp_conditions :: "'x ext_mem \<Rightarrow> ('x obj, slice) footprint" where
  "fp_conditions M = fp_slice (as_kind is_Externals the_Externals) (fp_Condition M)"

definition rd_OpenStackBaremetalSetStatus :: "'x ext_mem \<Rightarrow> ('x obj, mem_OpenStackBaremetalSetStatus, OpenStackBaremetalSetStatus) reader" where
  "rd_OpenStackBaremetalSetStatus M = rd_struct (\<lambda>s. (msst_Conditions s, msst_Hash s, msst_BaremetalHosts s))
     (\<lambda>s (conds, hash, hosts). \<lparr>sst_Conditions = conds, sst_Hash = hash, sst_BaremetalHosts = hosts,
        sst_ObservedGeneration = msst_ObservedGeneration s\<rparr>)
     (rd_pair (rd_conditions M) (rd_pair rd_string_map rd_hosts))"

definition fp_OpenStackBaremetalSetStatus :: "'x ext_mem \<Rightarrow> ('x obj, mem_OpenStackBaremetalSetStatus) footprint" where
  "fp_OpenStackBaremetalSetStatus M = fp_struct (\<lambda>s. (msst_Conditions s, msst_Hash s, msst_BaremetalHosts s))
     (fp_pair (fp_conditions M) (fp_pair fp_string_map fp_hosts))"

definition rd_OpenStackBaremetalSet :: "'x ext_mem \<Rightarrow> ('x obj, 'x mem_OpenStackBaremetalSet, OpenStackBaremetalSet) reader" where
  "rd_OpenStackBaremetalSet M = rd_struct (\<lambda>s. (mset_Meta s, mset_Spec s, mset_Status s))
     (\<lambda>s (meta, spec, status). \<lparr>set_Kind = tm_Kind (mset_TypeMeta s), set_Meta = meta, set_Spec = spec, set_Status = status\<rparr>)
     (rd_pair (rd_ObjectMeta M) (rd_pair rd_OpenStackBaremetalSetSpec (rd_OpenStackBaremetalSetStatus M)))"

definition fp_OpenStackBaremetalSet :: "'x ext_mem \<Rightarrow> ('x obj, 'x mem_OpenStackBaremetalSet) footprint" where
  "fp_OpenStackBaremetalSet M = fp_struct (\<lambda>s. (mset_Meta s, mset_Spec s, mset_Status s))
     (fp_pair (fp_ObjectMeta M) (fp_pair fp_OpenStackBaremetalSetSpec (fp_OpenStackBaremetalSetStatus M)))"

definition rd_set_items :: "'x ext_mem \<Rightarrow> ('x obj, slice, OpenStackBaremetalSet list option) reader" where
  "rd_set_items M = rd_slice (as_kind is_Sets the_Sets) (rd_OpenStackBaremetalSet M)"

definition fp_set_items :: "'x ext_mem \<Rightarrow> ('x obj, slice) footprint" where
  "fp_set_items M = fp_slice (as_kind is_Sets the_Sets) (fp_OpenStackBaremetalSet M)"

definition rd_OpenStackBaremetalSetList :: "'x ext_mem \<Rightarrow> ('x obj, 'x mem_OpenStackBaremetalSetList, TypeMeta \<times> ListMeta \<times> OpenStackBaremetalSet list option) reader" where
  "rd_OpenStackBaremetalSetList M = rd_struct (\<lambda>s. (msl_ListMeta s, msl_Items s))
     (\<lambda>s (meta, items). (msl_TypeMeta s, meta, items))
     (rd_pair (rd_ListMeta M) (rd_set_items M))"

definition fp_OpenStackBaremetalSetList :: "'x ext_mem \<Rightarrow> ('x obj, 'x mem_OpenStackBaremetalSetList) footprint" where
  "fp_OpenStackBaremetalSetList M = fp_struct (\<lambda>s. (msl_ListMeta s, msl_Items s))
     (fp_pair (fp_ListMeta M) (fp_set_items M))"

definition rd_OpenStackProvisionServerSpec :: "'x ext_mem \<Rightarrow> ('x obj, 'x mem_OpenStackProvisionServerSpec, OpenStackProvisionServerSpec) reader" where
  "rd_OpenStackProvisionServerSpec M = rd_struct (\<lambda>s. (mpss_OSImageDir s, mpss_NodeSelector s, mpss_Resources s))
     (\<lambda>s (dir, nodes, res). \<lparr>pss_Port = mpss_Port s, pss_Interface = mpss_Interface s, pss_OSImage = mpss_OSImage s,
        pss_OSImageDir = dir, pss_OSContainerImageURL = mpss_OSContainerImageURL s,
        pss_ApacheImageURL = mpss_ApacheImageURL s, pss_AgentImageURL = mpss_AgentImageURL s, pss_NodeSelector = nodes,
        pss_Resources = res, pss_PreserveJobs = mpss_PreserveJobs s\<rparr>)
     (rd_pair rd_string (rd_pair rd_string_map (rd_ResourceRequirements M)))"

definition fp_OpenStackProvisionServerSpec :: "'x ext_mem \<Rightarrow> ('x obj, 'x mem_OpenStackProvisionServerSpec) footprint" where
  "fp_OpenStackProvisionServerSpec M = fp_struct (\<lambda>s. (mpss_OSImageDir s, mpss_NodeSelector s, mpss_Resources s))
     (fp_pair fp_string (fp_pair fp_string_map (fp_ResourceRequirements M)))"

definition rd_OpenStackProvisionServerStatus :: "'x ext_mem \<Rightarrow> ('x obj, mem_OpenStackProvisionServerStatus, OpenStackProvisionServerStatus) reader" where
  "rd_OpenStackProvisionServerStatus M = rd_struct (\<lambda>s. (mpst_Conditions s, mpst_Hash s))
     (\<lambda>s (conds, hash). \<lparr>pst_ReadyCount = mpst_ReadyCount s, pst_Conditions = conds, pst_Hash = hash,
        pst_ProvisionIP = mpst_ProvisionIP s, pst_ProvisionIPError = mpst_ProvisionIPError s,
        pst_LocalImageURL = mpst_LocalImageURL s, pst_OSImageChecksumFilename = mpst_OSImageChecksumFilename s,
        pst_OSImageChecksumType = mpst_OSImageChecksumType s, pst_LocalImageChecksumURL = mpst_LocalImageChecksumURL s\<rparr>)
     (rd_pair (rd_conditions M) rd_string_map)"

definition fp_OpenStackProvisionServerStatus :: "'x ext_mem \<Rightarrow> ('x obj, mem_OpenStackProvisionServerStatus) footprint" where
  "fp_OpenStackProvisionServerStatus M = fp_struct (\<lambda>s. (mpst_Conditions s, mpst_Hash s))
     (fp_pair (fp_conditions M) fp_string_map)"

definition rd_OpenStackProvisionServer :: "'x ext_mem \<Rightarrow> ('x obj, 'x mem_OpenStackProvisionServer, OpenStackProvisionServer) reader" where
  "rd_OpenStackProvisionServer M = rd_struct (\<lambda>s. (mps_Meta s, mps_Spec s, mps_Status s))
     (\<lambda>s (meta, spec, status). \<lparr>ps_Kind = tm_Kind (mps_TypeMeta s), ps_Meta = meta, ps_Spec = spec, ps_Status = status\<rparr>)
     (rd_pair (rd_ObjectMeta M) (rd_pair (rd_OpenStackProvisionServerSpec M) (rd_OpenStackProvisionServerStatus M)))"

definition fp_OpenStackProvisionServer :: "'x ext_mem \<Rightarrow> ('x obj, 'x mem_OpenStackProvisionServer) footprint" where
  "fp_OpenStackProvisionServer M = fp_struct (\<lambda>s. (mps_Meta s, mps_Spec s, mps_Status s))
     (fp_pair (fp_ObjectMeta M) (fp_pair (fp_OpenStackProvisionServerSpec M) (fp_OpenStackProvisionServerStatus M)))"

definition rd_server_items :: "'x ext_mem \<Rightarrow> ('x obj, slice, OpenStackProvisionServer list option) reader" where
  "rd_server_items M = rd_slice (as_kind is_Servers the_Servers) (rd_OpenStackProvisionServer M)"

definition fp_server_items :: "'x ext_mem \<Rightarrow> ('x obj, slice) footprint" where
  "fp_server_items M = fp_slice (as_kind is_Servers the_Servers) (fp_OpenStackProvisionServer M)"

definition rd_OpenStackProvisionServerList :: "'x ext_mem \<Rightarrow> ('x obj, 'x mem_OpenStackProvisionServerList, TypeMeta \<times> ListMeta \<times> OpenStackProvisionServer list option) reader" where
  "rd_OpenStackProvisionServerList M = rd_struct (\<lambda>s. (mpl_ListMeta s, mpl_Items s))
     (\<lambda>s (meta, items). (mpl_TypeMeta s, meta, items))
     (rd_pair (rd_ListMeta M) (rd_server_items M))"

definition fp_OpenStackProvisionServerList :: "'x ext_mem \<Rightarrow> ('x obj, 'x mem_OpenStackProvisionServerList) footprint" where
  "fp_OpenStackProvisionServerList M = fp_struct (\<lambda>s. (mpl_ListMeta s, mpl_Items s))
     (fp_pair (fp_ListMeta M) (fp_server_items M))"

locale ext_copiers =
  fixes E :: "'x ext_copy" and M :: "'x ext_mem"
  assumes om: "copier (rd_ObjectMeta M) (fp_ObjectMeta M) (ObjectMeta_DeepCopyInto E)"
    and lm: "copier (rd_ListMeta M) (fp_ListMeta M) (ListMeta_DeepCopyInto E)"
    and cond: "copier (rd_Condition M) (fp_Condition M) (Condition_DeepCopyInto E)"
    and rr: "copier (rd_ResourceRequirements M) (fp_ResourceRequirements M) (ResourceRequirements_DeepCopyInto E)"
begin

lemma conditions_copier: "copier (rd_conditions M) (fp_conditions M) (copy_conditions E)"
  unfolding rd_conditions_def fp_conditions_def copy_conditions_def by (rule copier_slice [OF cond]) simp

lemma OpenStackBaremetalSetStatus_copier: "copier (rd_OpenStackBaremetalSetStatus M) (fp_OpenStackBaremetalSetStatus M) (OpenStackBaremetalSetStatus_DeepCopyInto E)"
  unfolding rd_OpenStackBaremetalSetStatus_def fp_OpenStackBaremetalSetStatus_def
  by (rule copier_struct [OF copier_pair [OF conditions_copier copier_pair [OF string_map_copier hosts_copier]],
        where put = "\<lambda>(a, b, c) s. s\<lparr>msst_Conditions := a, msst_Hash := b, msst_BaremetalHosts := c\<rparr>"])
    (auto simp: OpenStackBaremetalSetStatus_DeepCopyInto_def cp_pair_def split: prod.splits)

lemma OpenStackBaremetalSet_copier: "copier (rd_OpenStackBaremetalSet M) (fp_OpenStackBaremetalSet M) (OpenStackBaremetalSet_DeepCopyInto E)"
  unfolding rd_OpenStackBaremetalSet_def fp_OpenStackBaremetalSet_def
  by (rule copier_struct [OF copier_pair [OF om copier_pair [OF OpenStackBaremetalSetSpec_copier OpenStackBaremetalSetStatus_copier]],
        where put = "\<lambda>(a, b, c) s. s\<lparr>mset_Meta := a, mset_Spec := b, mset_Status := c\<rparr>"])
    (auto simp: OpenStackBaremetalSet_DeepCopyInto_def cp_pair_def split: prod.splits)

lemma set_items_copier: "copier (rd_set_items M) (fp_set_items M) (copy_set_items E)"
  unfolding rd_set_items_def fp_set_items_def copy_set_items_def by (rule copier_slice [OF OpenStackBaremetalSet_copier]) simp

lemma OpenStackBaremetalSetList_copier: "copier (rd_OpenStackBaremetalSetList M) (fp_OpenStackBaremetalSetList M) (OpenStackBaremetalSetList_DeepCopyInto E)"
  unfolding rd_OpenStackBaremetalSetList_def fp_OpenStackBaremetalSetList_def
  by (rule copier_struct [OF copier_pair [OF lm set_items_copier],
        where put = "\<lambda>(a, b) s. s\<lparr>msl_ListMeta := a, msl_Items := b\<rparr>"])
    (auto simp: OpenStackBaremetalSetList_DeepCopyInto_def cp_pair_def split: prod.splits)

lemma OpenStackProvisionServerSpec_copier: "copier (rd_OpenStackProvisionServerSpec M) (fp_OpenStackProvisionServerSpec M) (OpenStackProvisionServerSpec_DeepCopyInto E)"
  unfolding rd_OpenStackProvisionServerSpec_def fp_OpenStackProvisionServerSpec_def
  by (rule copier_struct [OF copier_pair [OF string_copier copier_pair [OF string_map_copier rr]],
        where put = "\<lambda>(a, b, c) s. s\<lparr>mpss_OSImageDir := a, mpss_NodeSelector := b, mpss_Resources := c\<rparr>"])
    (auto simp: OpenStackProvisionServerSpec_DeepCopyInto_def cp_pair_def split: prod.splits)

lemma OpenStackProvisionServerStatus_copier: "copier (rd_OpenStackProvisionServerStatus M) (fp_OpenStackProvisionServerStatus M) (OpenStackProvisionServerStatus_DeepCopyInto E)"
  unfolding rd_OpenStackProvisionServerStatus_def fp_OpenStackProvisionServerStatus_def
  by (rule copier_struct [OF copier_pair [OF conditions_copier string_map_copier],
        where put = "\<lambda>(a, b) s. s\<lparr>mpst_Conditions := a, mpst_Hash := b\<rparr>"])
    (auto simp: OpenStackProvisionServerStatus_DeepCopyInto_def cp_pair_def split: prod.splits)

lemma OpenStackProvisionServer_copier: "copier (rd_OpenStackProvisionServer M) (fp_OpenStackProvisionServer M) (OpenStackProvisionServer_DeepCopyInto E)"
  unfolding rd_OpenStackProvisionServer_def fp_OpenStackProvisionServer_def
  by (rule copier_struct [OF copier_pair [OF om copier_pair [OF OpenStackProvisionServerSpec_copier OpenStackProvisionServerStatus_copier]],
        where put = "\<lambda>(a, b, c) s. s\<lparr>mps_Meta := a, mps_Spec := b, mps_Status := c\<rparr>"])
    (auto simp: OpenStackProvisionServer_DeepCopyInto_def cp_pair_def split: prod.splits)

lemma server_items_copier: "copier (rd_server_items M) (fp_server_items M) (copy_server_items E)"
  unfolding rd_server_items_def fp_server_items_def copy_server_items_def by (rule copier_slice [OF OpenStackProvisionServer_copier]) simp

lemma OpenStackProvisionServerList_copier: "copier (rd_OpenStackProvisionServerList M) (fp_OpenStackProvisionServerList M) (OpenStackProvisionServerList_DeepCopyInto E)"
  unfolding rd_OpenStackProvisionServerList_def fp_OpenStackProvisionServerList_def
  by (rule copier_struct [OF copier_pair [OF lm server_items_copier],
        where put = "\<lambda>(a, b) s. s\<lparr>mpl_ListMeta := a, mpl_Items := b\<rparr>"])
    (auto simp: OpenStackProvisionServerList_DeepCopyInto_def cp_pair_def split: prod.splits)

end
section \<open>Types without references, and pointers\<close>

text \<open>A struct without references is copied by its first assignment; the later ones repeat it.\<close>

lemma flat_DeepCopyInto:
  "CPUCountReq_DeepCopyInto = cp_flat" "CPUMhzReq_DeepCopyInto = cp_flat" "CPUReqs_DeepCopyInto = cp_flat"
  "DiskGbReq_DeepCopyInto = cp_flat" "DiskSSDReq_DeepCopyInto = cp_flat" "DiskReqs_DeepCopyInto = cp_flat"
  "MemGbReq_DeepCopyInto = cp_flat" "MemReqs_DeepCopyInto = cp_flat" "HardwareReqs_DeepCopyInto = cp_flat"
  "OpenStackProvisionServerDefaults_DeepCopyInto = cp_flat"
  by (simp_all add: fun_eq_iff cp_flat_def CPUCountReq_DeepCopyInto_def CPUMhzReq_DeepCopyInto_def
      CPUReqs_DeepCopyInto_def DiskGbReq_DeepCopyInto_def DiskSSDReq_DeepCopyInto_def DiskReqs_DeepCopyInto_def
      MemGbReq_DeepCopyInto_def MemReqs_DeepCopyInto_def HardwareReqs_DeepCopyInto_def
      OpenStackProvisionServerDefaults_DeepCopyInto_def)

text \<open>\<open>DeepCopy\<close> keeps the contract of its \<open>DeepCopyInto\<close>, and returns nil for nil only.\<close>

lemma deepCopy_copier:
  assumes "copier rd fp into" and "\<And>r. isK (mk r)" and "\<And>r. sel (mk r) = r"
  shows "copier (rd_ref (as_kind isK sel) rd) (fp_ref (as_kind isK sel) fp) (deepCopy mk isK sel into)"
  unfolding deepCopy_def by (rule copier_ref [OF assms(1)]) (simp add: assms)

lemma deepCopy_nil:
  assumes "deepCopy mk isK sel into p h = (p', h')"
  shows "p' = None \<longleftrightarrow> p = None"
  using assms by (auto simp: deepCopy_def cp_ref_def split: option.splits prod.splits)

definition rd_set_ptr :: "'x ext_mem \<Rightarrow> ('x obj, nat option, OpenStackBaremetalSet option) reader" where
  "rd_set_ptr M = rd_ref (as_kind is_OpenStackBaremetalSet the_OpenStackBaremetalSet) (rd_OpenStackBaremetalSet M)"

definition fp_set_ptr :: "'x ext_mem \<Rightarrow> ('x obj, nat option) footprint" where
  "fp_set_ptr M = fp_ref (as_kind is_OpenStackBaremetalSet the_OpenStackBaremetalSet) (fp_OpenStackBaremetalSet M)"

definition rd_server_list_ptr ::
  "'x ext_mem \<Rightarrow>
   ('x obj, nat option, (TypeMeta \<times> ListMeta \<times> OpenStackProvisionServer list option) option) reader" where
  "rd_server_list_ptr M =
     rd_ref (as_kind is_OpenStackProvisionServerList the_OpenStackProvisionServerList) (rd_OpenStackProvisionServerList M)"

definition fp_server_list_ptr :: "'x ext_mem \<Rightarrow> ('x obj, nat option) footprint" where
  "fp_server_list_ptr M =
     fp_ref (as_kind is_OpenStackProvisionServerList the_OpenStackProvisionServerList) (fp_OpenStackProvisionServerList M)"

context ext_copiers
begin

lemma set_ptr_copier: "copier (rd_set_ptr M) (fp_set_ptr M) (OpenStackBaremetalSet_DeepCopy E)"
  unfolding rd_set_ptr_def fp_set_ptr_def OpenStackBaremetalSet_DeepCopy_def
  by (rule deepCopy_copier [OF OpenStackBaremetalSet_copier]) simp_all

lemma server_list_ptr_copier:
  "copier (rd_server_list_ptr M) (fp_server_list_ptr M) (OpenStackProvisionServerList_DeepCopy E)"
  unfolding rd_server_list_ptr_def fp_server_list_ptr_def OpenStackProvisionServerList_DeepCopy_def
  by (rule deepCopy_copier [OF OpenStackProvisionServerList_copier]) simp_all

end

section \<open>A status entry by host reference\<close>

text \<open>\<open>GetBmhRefStatus\<close> as it runs on memory: the status is copied, and the loop ranges over the map of the copy. An
  absent map is ranged over as an empty one.\<close>

definition map_entries :: "('x obj \<Rightarrow> ('k \<times> 'r) list option) \<Rightarrow> nat option \<Rightarrow> 'x obj heap \<Rightarrow> ('k \<times> 'r) list" where
  "map_entries dest p h = (case p of None \<Rightarrow> [] | Some a \<Rightarrow> (case load dest h a of None \<Rightarrow> [] | Some es \<Rightarrow> es))"

definition mem_GetBmhRefStatus ::
  "'x ext_copy \<Rightarrow> 'x mem_OpenStackBaremetalSet \<Rightarrow> string \<Rightarrow> 'x obj heap \<Rightarrow> mem_HostStatus result \<times> 'x obj heap" where
  "mem_GetBmhRefStatus E inst bmh h =
     (case cp_val OOpenStackBaremetalSetStatus (OpenStackBaremetalSetStatus_DeepCopyInto E) (mset_Status inst) h of
        (status, h) \<Rightarrow>
          (case find (\<lambda>(_, bmhStatus). mip_BmhRef (mhs_IPStatus bmhStatus) = bmh)
                  (map_entries (as_kind is_Hosts the_Hosts) (msst_BaremetalHosts status) h) of
             Some (_, bmhStatus) \<Rightarrow> (Ok bmhStatus, h)
           | None \<Rightarrow> (Err (NotFound ''OpenStackBaremetalHostStatus''), h)))"

lemma HostStatus_ref: "rd_HostStatus h r = Some v \<Longrightarrow> ip_BmhRef v = mip_BmhRef (mhs_IPStatus r)"
  by (auto simp: rd_HostStatus_def rd_IPStatus_def rd_struct_def IPStatus.defs HostStatus.defs)

lemma Status_hosts:
  assumes "rd_OpenStackBaremetalSetStatus M h s = Some v"
  shows "rd_hosts h (msst_BaremetalHosts s) = Some (sst_BaremetalHosts v)"
    and "fp_hosts h (msst_BaremetalHosts s) \<subseteq> fp_OpenStackBaremetalSetStatus M h s"
  using assms by (auto simp: rd_OpenStackBaremetalSetStatus_def fp_OpenStackBaremetalSetStatus_def rd_struct_def
      fp_struct_def rd_pair_Some fp_pair_def)

lemma Set_status:
  assumes "rd_OpenStackBaremetalSet M h s = Some v"
  shows "rd_OpenStackBaremetalSetStatus M h (mset_Status s) = Some (set_Status v)"
  using assms by (auto simp: rd_OpenStackBaremetalSet_def rd_struct_def rd_pair_Some)

context ext_copiers
begin

lemma GetBmhRefStatus_mem:
  assumes rd: "rd_OpenStackBaremetalSetStatus M h (mset_Status s) = Some v"
    and run: "mem_GetBmhRefStatus E s bmh h = (r, h')"
  shows "\<exists>ys. h' = h @ ys"
    and "case find (\<lambda>(_, st). ip_BmhRef st = bmh) (gm_items (sst_BaremetalHosts v)) of
        None \<Rightarrow> r = Err (NotFound ''OpenStackBaremetalHostStatus'')
      | Some (_, u) \<Rightarrow>
          \<exists>st. r = Ok st \<and> rd_HostStatus h' st = Some u \<and> fp_HostStatus h' st \<subseteq> {length h..<length h'}"
proof -
  obtain status where c: "cp_val OOpenStackBaremetalSetStatus (OpenStackBaremetalSetStatus_DeepCopyInto E) (mset_Status s) h
      = (status, h')"
    using run by (auto simp: mem_GetBmhRefStatus_def split: prod.splits option.splits)
  from copier.copied [OF copier_val [OF OpenStackBaremetalSetStatus_copier] rd c]
  have ys: "\<exists>ys. h' = h @ ys" and v': "rd_OpenStackBaremetalSetStatus M h' status = Some v"
    and new: "fp_OpenStackBaremetalSetStatus M h' status \<subseteq> {length h..<length h'}" by blast+
  show "\<exists>ys. h' = h @ ys" by (rule ys)
  let ?es = "map_entries (as_kind is_Hosts the_Hosts) (msst_BaremetalHosts status) h'"
  note hosts = Status_hosts [OF v']
  have es: "gm_items (sst_BaremetalHosts v) = [] \<and> ?es = [] \<or>
      (rd_entries rd_HostStatus h' ?es = Some (gm_items (sst_BaremetalHosts v))
        \<and> fp_entries fp_HostStatus h' ?es \<subseteq> {length h..<length h'})"
    using hosts new by (auto simp: rd_hosts_def fp_hosts_def rd_ref_def fp_ref_def map_entries_def gm_items_def
        split: option.splits)
  have r: "r = (case find (\<lambda>(_, x). mip_BmhRef (mhs_IPStatus x) = bmh) ?es of
      Some (_, x) \<Rightarrow> Ok x | None \<Rightarrow> Err (NotFound ''OpenStackBaremetalHostStatus''))"
    using run c by (auto simp: mem_GetBmhRefStatus_def split: option.splits)
  from es show "case find (\<lambda>(_, st). ip_BmhRef st = bmh) (gm_items (sst_BaremetalHosts v)) of
        None \<Rightarrow> r = Err (NotFound ''OpenStackBaremetalHostStatus'')
      | Some (_, u) \<Rightarrow>
          \<exists>st. r = Ok st \<and> rd_HostStatus h' st = Some u \<and> fp_HostStatus h' st \<subseteq> {length h..<length h'}"
  proof
    assume e: "rd_entries rd_HostStatus h' ?es = Some (gm_items (sst_BaremetalHosts v))
        \<and> fp_entries fp_HostStatus h' ?es \<subseteq> {length h..<length h'}"
    have "mip_BmhRef (mhs_IPStatus x) = bmh \<longleftrightarrow> ip_BmhRef u = bmh" if "rd_HostStatus h' x = Some u" for x u
      using HostStatus_ref [OF that] by simp
    from rd_entries_find [OF conjunct1 [OF e] this, where fp = fp_HostStatus] e r
    show ?thesis by (fastforce split: option.splits prod.splits)
  qed (use r in simp)
qed

end

end
