(* ===== verification/SampleMemory.thy ===== *)
theory SampleMemory
  imports DeepCopyContract
begin

text \<open>
  A reference instance of the structs of other packages: \<open>metav1.ObjectMeta\<close> with its label and annotation maps and
  its finalizer slice in memory, \<open>metav1.ListMeta\<close> with its pointer, and conditions and resource requirements as values
  without references. Their copies are the generated ones of \<open>metav1\<close>, and have the contract. A sample heap shares on
  purpose: the selector of the set, the selector of one host and the node selector are one map.
\<close>

section \<open>Structs of other packages\<close>

record mem_ObjectMeta =
  mom_Name :: string
  mom_Namespace :: string
  mom_UID :: string
  mom_Labels :: "nat option"
  mom_Annotations :: "nat option"
  mom_Generation :: int
  mom_Finalizers :: slice
  mom_Deleting :: bool

record mem_ListMeta =
  mlm_ResourceVersion :: string
  mlm_Continue :: string
  mlm_RemainingItemCount :: "nat option"

datatype ref_ext =
    is_XMeta: XMeta (the_XMeta: mem_ObjectMeta)
  | is_XList: XList (the_XList: mem_ListMeta)
  | is_XCond: XCond (the_XCond: Condition)
  | is_XRes: XRes (the_XRes: ResourceRequirements)

definition ref_meta_into :: "(ref_ext obj, mem_ObjectMeta) copy" where
  "ref_meta_into src h =
     (case copy_string_map (mom_Labels src) h of (l, h) \<Rightarrow>
      case copy_string_map (mom_Annotations src) h of (a, h) \<Rightarrow>
      case copy_strings (mom_Finalizers src) h of (f, h) \<Rightarrow>
      (src\<lparr>mom_Labels := l, mom_Annotations := a, mom_Finalizers := f\<rparr>, h))"

definition ref_list_into :: "(ref_ext obj, mem_ListMeta) copy" where
  "ref_list_into src h = (case copy_int (mlm_RemainingItemCount src) h of (c, h) \<Rightarrow> (src\<lparr>mlm_RemainingItemCount := c\<rparr>, h))"

definition ref_meta_refs :: "mem_ObjectMeta \<Rightarrow> nat option \<times> nat option \<times> slice" where
  "ref_meta_refs s = (mom_Labels s, mom_Annotations s, mom_Finalizers s)"

definition ref_meta_value ::
  "mem_ObjectMeta \<Rightarrow> labels \<times> labels \<times> string list option \<Rightarrow> ObjectMeta" where
  "ref_meta_value s v = (case v of (ls, as, fs) \<Rightarrow> \<lparr>om_Name = mom_Name s, om_Namespace = mom_Namespace s,
     om_UID = mom_UID s, om_Labels = ls, om_Annotations = as, om_Generation = mom_Generation s,
     om_Finalizers = slice_value fs, om_Deleting = mom_Deleting s\<rparr>)"

definition ref_list_value :: "mem_ListMeta \<Rightarrow> int option \<Rightarrow> ListMeta" where
  "ref_list_value s n = \<lparr>lm_ResourceVersion = mlm_ResourceVersion s, lm_Continue = mlm_Continue s,
     lm_RemainingItemCount = n\<rparr>"

definition ref_ext_copy :: "ref_ext ext_copy" where
  "ref_ext_copy = \<lparr>
     ObjectMeta_DeepCopyInto = cp_tag XMeta (as_kind is_XMeta the_XMeta) ref_meta_into,
     ListMeta_DeepCopyInto = cp_tag XList (as_kind is_XList the_XList) ref_list_into,
     Condition_DeepCopyInto = cp_tag XCond (as_kind is_XCond the_XCond) cp_flat,
     ResourceRequirements_DeepCopyInto = cp_tag XRes (as_kind is_XRes the_XRes) cp_flat\<rparr>"

definition ref_ext_mem :: "ref_ext ext_mem" where
  "ref_ext_mem = \<lparr>
     rd_ObjectMeta = rd_tag (as_kind is_XMeta the_XMeta)
       (rd_struct ref_meta_refs ref_meta_value (rd_pair rd_string_map (rd_pair rd_string_map rd_strings))),
     fp_ObjectMeta = fp_tag (as_kind is_XMeta the_XMeta)
       (fp_struct ref_meta_refs (fp_pair fp_string_map (fp_pair fp_string_map fp_strings))),
     rd_ListMeta = rd_tag (as_kind is_XList the_XList) (rd_struct mlm_RemainingItemCount ref_list_value rd_int),
     fp_ListMeta = fp_tag (as_kind is_XList the_XList) (fp_struct mlm_RemainingItemCount fp_int),
     rd_Condition = rd_tag (as_kind is_XCond the_XCond) (rd_flat id),
     fp_Condition = fp_tag (as_kind is_XCond the_XCond) fp_flat,
     rd_ResourceRequirements = rd_tag (as_kind is_XRes the_XRes) (rd_flat id),
     fp_ResourceRequirements = fp_tag (as_kind is_XRes the_XRes) fp_flat\<rparr>"

lemma ref_meta_copier:
  "copier (rd_struct ref_meta_refs ref_meta_value (rd_pair rd_string_map (rd_pair rd_string_map rd_strings)))
    (fp_struct ref_meta_refs (fp_pair fp_string_map (fp_pair fp_string_map fp_strings))) ref_meta_into"
  by (rule copier_struct [OF copier_pair [OF string_map_copier copier_pair [OF string_map_copier strings_copier]],
        where put = "\<lambda>(a, b, c) s. s\<lparr>mom_Labels := a, mom_Annotations := b, mom_Finalizers := c\<rparr>"])
    (auto simp: ref_meta_into_def ref_meta_refs_def ref_meta_value_def cp_pair_def fun_eq_iff split: prod.splits)

lemma ref_list_copier:
  "copier (rd_struct mlm_RemainingItemCount ref_list_value rd_int) (fp_struct mlm_RemainingItemCount fp_int) ref_list_into"
  by (rule copier_struct [OF int_copier, where put = "\<lambda>v s. s\<lparr>mlm_RemainingItemCount := v\<rparr>"])
    (auto simp: ref_list_into_def ref_list_value_def fun_eq_iff split: prod.splits)

interpretation ref_mem: ext_copiers ref_ext_copy ref_ext_mem
  by (rule ext_copiers.intro)
    (simp_all add: ref_ext_copy_def ref_ext_mem_def copier_tag ref_meta_copier ref_list_copier copier_flat)

section \<open>A sample heap\<close>

definition sample_mem_template :: mem_OpenStackBaremetalSetTemplateSpec where
  "sample_mem_template = \<lparr>mts_OSImage = ''edpm.qcow2'', mts_OSContainerImageURL = [], mts_OSImageDeploymentType = [],
     mts_ApacheImageURL = [], mts_AgentImageURL = [], mts_AutomatedCleaningMode = ''metadata'',
     mts_ProvisionServerName = [], mts_ProvisonServerNodeSelector = Some 0, mts_ProvisioningInterface = [],
     mts_DeploymentSSHSecret = ''ssh'', mts_CtlplaneInterface = ''eth0'', mts_CtlplaneBond = None,
     mts_BmhNamespace = ''openstack'', mts_BmhLabelSelector = Some 0, mts_HardwareReqs = zero_HardwareReqs,
     mts_PasswordSecret = None, mts_CloudUserName = ''cloud-admin'', mts_DomainName = []\<rparr>"

definition sample_mem_set :: "ref_ext mem_OpenStackBaremetalSet" where
  "sample_mem_set = \<lparr>mset_TypeMeta = \<lparr>tm_Kind = ''OpenStackBaremetalSet'', tm_APIVersion = ''baremetal.openstack.org/v1beta1''\<rparr>,
     mset_Meta = XMeta \<lparr>mom_Name = ''compute'', mom_Namespace = ''openstack'', mom_UID = ''u1'', mom_Labels = None,
       mom_Annotations = None, mom_Generation = 1, mom_Finalizers = NilSlice, mom_Deleting = False\<rparr>,
     mset_Spec = \<lparr>mss_BaremetalHosts = Some 2, mss_CtlplaneGateway = [], mss_CtlplaneVlan = Some 1,
       mss_BootstrapDNS = Slice 6 1, mss_DNSSearchDomains = NilSlice, mss_Template = sample_mem_template\<rparr>,
     mset_Status = \<lparr>msst_Conditions = Slice 5 1, msst_Hash = None, msst_BaremetalHosts = Some 4,
       msst_ObservedGeneration = 1\<rparr>\<rparr>"

definition sample_heap :: "ref_ext obj heap" where
  "sample_heap = [
     OStringMap [(''role'', ''compute'')],
     OInt 20,
     OInstances [(''c0'', \<lparr>mis_BmhLabelSelector = Some 0, mis_CtlPlaneIP = ''192.168.1.10/24'', mis_CtlplaneGateway = [],
       mis_CtlplaneInterface = [], mis_CtlplaneVlan = Some 1, mis_UserData = None, mis_NetworkData = None\<rparr>)],
     OStringMap [(''ctlplane'', ''192.168.1.10/24'')],
     OHosts [(''c0'', \<lparr>mhs_IPStatus = \<lparr>mip_Hostname = ''c0'', mip_BmhRef = ''bmh0'', mip_IPAddresses = Some 3\<rparr>,
       mhs_ProvisioningState = StateProvisioned, mhs_AnnotatedForDeletion = False,
       mhs_UserDataSecretName = ''u'', mhs_NetworkDataSecretName = ''n''\<rparr>)],
     OExternals [XCond \<lparr>c_Type = ''Ready'', c_Status = CTrue, c_Severity = [], c_LastTransitionTime = 1,
       c_Reason = ''Ready'', c_Message = []\<rparr>],
     OStrings [''10.0.0.1'', ''10.0.0.2''],
     OOpenStackBaremetalSet sample_mem_set,
     OServers [],
     OOpenStackProvisionServerList \<lparr>mpl_TypeMeta = \<lparr>tm_Kind = ''OpenStackProvisionServerList'', tm_APIVersion = []\<rparr>,
       mpl_ListMeta = XList \<lparr>mlm_ResourceVersion = ''7'', mlm_Continue = [], mlm_RemainingItemCount = Some 1\<rparr>,
       mpl_Items = Slice 8 0\<rparr>]"

definition sample_mem_value :: OpenStackBaremetalSet where
  "sample_mem_value = the (rd_OpenStackBaremetalSet ref_ext_mem sample_heap sample_mem_set)"

text \<open>Two values of the copy: the shared map is there several times.\<close>

lemma sample_heap_reads:
  "rd_OpenStackBaremetalSet ref_ext_mem sample_heap sample_mem_set = Some sample_mem_value"
  "rd_set_ptr ref_ext_mem sample_heap (Some 7) = Some (Some sample_mem_value)"
proof -
  show r: "rd_OpenStackBaremetalSet ref_ext_mem sample_heap sample_mem_set = Some sample_mem_value"
    unfolding sample_mem_value_def by code_simp
  have "load (as_kind is_OpenStackBaremetalSet the_OpenStackBaremetalSet) sample_heap 7 = Some sample_mem_set"
    by (simp add: load_def sample_heap_def)
  with r show "rd_set_ptr ref_ext_mem sample_heap (Some 7) = Some (Some sample_mem_value)"
    by (simp add: rd_set_ptr_def rd_ref_def)
qed

end
