(* ===== verification/DeepCopyProperties.thy ===== *)
theory DeepCopyProperties
  imports SampleMemory HostProvision
begin

text \<open>
  The properties of the deep copies: a copy stands for the same value as the original, shares nothing with it, and
  the look-up that ranges over a copied status is the one that the rest of the development computes with.
\<close>

text \<open>C17. A deep copy of a bare metal set is the same set, and a different one. \<open>DeepCopy\<close> returns nil for nil only, and
  otherwise a pointer to a set of the same value, while the original keeps its value; the heap changes by new objects
  only. The two sets reach no common object, and whatever is then written to the objects that one of them
  reaches, the other still has the value that was copied. The assumption is the contract of the \<open>DeepCopyInto\<close>
  functions of the structs of other packages.\<close>

theorem set_deep_copy_independent:
  assumes "ext_copiers E M" and "rd_set_ptr M h p = Some v" and "OpenStackBaremetalSet_DeepCopy E p h = (p', h')"
  shows "(p' = None \<longleftrightarrow> p = None) \<and> rd_set_ptr M h' p' = Some v \<and> rd_set_ptr M h' p = Some v
    \<and> take (length h) h' = h \<and> fp_set_ptr M h' p \<inter> fp_set_ptr M h' p' = {}
    \<and> (\<forall>k. length k = length h' \<longrightarrow> (\<forall>a. a \<notin> fp_set_ptr M h' p' \<longrightarrow> k ! a = h' ! a) \<longrightarrow> rd_set_ptr M k p = Some v)
    \<and> (\<forall>k. length k = length h' \<longrightarrow> (\<forall>a. a \<notin> fp_set_ptr M h' p \<longrightarrow> k ! a = h' ! a) \<longrightarrow> rd_set_ptr M k p' = Some v)"
proof -
  note c = ext_copiers.set_ptr_copier [OF assms(1)]
  have "take (length h) h' = h" using copier.copied [OF c assms(2,3)] by auto
  moreover have "p' = None \<longleftrightarrow> p = None"
    using assms(3) deepCopy_nil by (simp add: OpenStackBaremetalSet_DeepCopy_def)
  ultimately show ?thesis using copier.copied [OF c assms(2,3)] copier.independent [OF c assms(2,3)] by blast
qed

theorem set_deep_copy_independent_witness:
  "rd_set_ptr ref_ext_mem (snd (OpenStackBaremetalSet_DeepCopy ref_ext_copy (Some 7) sample_heap)) (Some 10)
     = Some (Some sample_mem_value)
   \<and> rd_set_ptr ref_ext_mem
     ((snd (OpenStackBaremetalSet_DeepCopy ref_ext_copy (Some 7) sample_heap)) [18 := OStringMap []]) (Some 7)
   = Some (Some sample_mem_value)"
proof -
  let ?h = "snd (OpenStackBaremetalSet_DeepCopy ref_ext_copy (Some 7) sample_heap)"
  let ?p = "fst (OpenStackBaremetalSet_DeepCopy ref_ext_copy (Some 7) sample_heap)"
  have p: "?p = Some 10" by code_simp
  have "18 \<in> fp_set_ptr ref_ext_mem ?h ?p" by code_simp
  then have k: "?h[18 := OStringMap []] ! a = ?h ! a" if "a \<notin> fp_set_ptr ref_ext_mem ?h ?p" for a
    using that by (metis nth_list_update_neq)
  note d = set_deep_copy_independent [OF ref_mem.ext_copiers_axioms sample_heap_reads(2) surjective_pairing]
  have "rd_set_ptr ref_ext_mem (?h[18 := OStringMap []]) (Some 7) = Some (Some sample_mem_value)"
    using d k by (metis length_list_update)
  moreover have "rd_set_ptr ref_ext_mem ?h (Some 10) = Some (Some sample_mem_value)" using d p by simp
  ultimately show ?thesis by simp
qed

text \<open>C22. \<open>GetBmhRefStatus\<close> ranges over a copy of the status of the set. What it returns is an entry of the copy
  with the value that the look-up on values returns, or the same error; the entry shares nothing with the set,
  which keeps its value. So a caller that changes the returned status does not change the set.\<close>

theorem status_lookup_refines:
  assumes "ext_copiers E M" and "rd_OpenStackBaremetalSet M h s = Some inst"
    and "mem_GetBmhRefStatus E s bmh h = (r, h')"
  shows "rd_OpenStackBaremetalSet M h' s = Some inst
    \<and> (case GetBmhRefStatus inst bmh of
         Ok u \<Rightarrow> \<exists>st. r = Ok st \<and> rd_HostStatus h' st = Some u
           \<and> fp_HostStatus h' st \<inter> fp_OpenStackBaremetalSet M h' s = {}
       | Err e \<Rightarrow> r = Err e
       | Panic m \<Rightarrow> False)"
proof -
  note c = ext_copiers.OpenStackBaremetalSet_copier [OF assms(1)]
  note g = ext_copiers.GetBmhRefStatus_mem [OF assms(1) Set_status [OF assms(2)] assms(3)]
  from g(1) obtain ys where h': "h' = h @ ys" by blast
  have s: "rd_OpenStackBaremetalSet M h' s = Some inst" "fp_OpenStackBaremetalSet M h' s \<subseteq> {..<length h}"
    using copier.extended [OF c assms(2)] copier.reach [OF c assms(2)] h' by simp_all
  have "A \<inter> fp_OpenStackBaremetalSet M h' s = {}" if "A \<subseteq> {length h..<length h'}" for A
    using s(2) that by force
  with s(1) g(2) show ?thesis
    by (fastforce simp: GetBmhRefStatus_def split: option.splits)
qed

theorem status_lookup_refines_witness:
  "\<exists>st u. fst (mem_GetBmhRefStatus ref_ext_copy sample_mem_set ''bmh0'' sample_heap) = Ok st
    \<and> GetBmhRefStatus sample_mem_value ''bmh0'' = Ok u \<and> ip_Hostname u = ''c0''
    \<and> rd_HostStatus (snd (mem_GetBmhRefStatus ref_ext_copy sample_mem_set ''bmh0'' sample_heap)) st = Some u"
proof -
  have v: "map_option ip_Hostname (case GetBmhRefStatus sample_mem_value ''bmh0'' of Ok u \<Rightarrow> Some u | _ \<Rightarrow> None)
      = Some ''c0''" by code_simp
  then obtain u where u: "GetBmhRefStatus sample_mem_value ''bmh0'' = Ok u" "ip_Hostname u = ''c0''"
    by (auto split: outcome.splits)
  with status_lookup_refines [where bmh = "''bmh0''", OF ref_mem.ext_copiers_axioms sample_heap_reads(1)
      surjective_pairing]
  show ?thesis by auto
qed

text \<open>The same for a list of provision servers.\<close>

theorem server_list_deep_copy:
  assumes "ext_copiers E M" and "rd_server_list_ptr M h p = Some v"
    and "OpenStackProvisionServerList_DeepCopy E p h = (p', h')"
  shows "rd_server_list_ptr M h' p' = Some v \<and> rd_server_list_ptr M h' p = Some v
    \<and> fp_server_list_ptr M h' p \<inter> fp_server_list_ptr M h' p' = {}"
  using copier.copied [OF ext_copiers.server_list_ptr_copier [OF assms(1)] assms(2,3)]
    copier.independent(1,2) [OF ext_copiers.server_list_ptr_copier [OF assms(1)] assms(2,3)] by blast

text \<open>\<open>DeepCopyObject\<close> returns the nil interface for a nil pointer, and never an interface that holds a nil pointer.\<close>

theorem deep_copy_object_nil:
  assumes "OpenStackBaremetalSet_DeepCopyObject E p h = (c, h')"
  shows "c \<noteq> SetObject None \<and> (c = NilObject \<longleftrightarrow> p = None)"
  using assms deepCopy_nil [of OOpenStackBaremetalSet is_OpenStackBaremetalSet the_OpenStackBaremetalSet]
  by (fastforce simp: OpenStackBaremetalSet_DeepCopyObject_def OpenStackBaremetalSet_DeepCopy_def
      split: prod.splits if_splits)

end
