(* ===== verification/RbacSharing.thy ===== *)
theory RbacSharing
  imports SampleMemory ProvServerSafety
begin

text \<open>
  How the conditions of the roles reach the instance. \<open>RbacConditionsSet\<close> (\<^verbatim>\<open>api/v1beta1/openstackprovisionserver_types.go\<close>)
  has a value receiver: lib-common's \<open>ReconcileRbac\<close> sets a condition on a copy of the server, whose condition slice
  has the array of the original. \<open>Conditions.Set\<close> writes to the array in place when a condition of the type exists, and
  otherwise appends, and the new slice is lost with the copy. The controller initialises these conditions before, so
  that they exist. The locale \<open>cond_memory\<close> states what \<open>Set\<close> does to memory.
\<close>

definition RbacConditionsSet ::
  "('x \<Rightarrow> slice \<Rightarrow> 'x obj heap \<Rightarrow> slice \<times> 'x obj heap) \<Rightarrow> 'x mem_OpenStackProvisionServer \<Rightarrow> 'x \<Rightarrow> 'x obj heap \<Rightarrow>
   'x obj heap" where
  "RbacConditionsSet cset inst c h =
     (case cset c (mpst_Conditions (mps_Status inst)) h of (s, h) \<Rightarrow>
      let inst = inst\<lparr>mps_Status := (mps_Status inst)\<lparr>mpst_Conditions := s\<rparr>\<rparr> in h)"

definition RbacNamespace :: "OpenStackProvisionServer \<Rightarrow> string" where
  "RbacNamespace inst = ps_Namespace inst"

definition rbac_types :: "string set" where
  "rbac_types = {ServiceAccountReadyCondition, RoleReadyCondition, RoleBindingReadyCondition}"

locale cond_memory = cond_laws C for C :: cond_ops +
  fixes M :: "'x ext_mem" and cset :: "'x \<Rightarrow> slice \<Rightarrow> 'x obj heap \<Rightarrow> slice \<times> 'x obj heap"
  assumes set_value: "rd_conditions M h s = Some (Some cs) \<Longrightarrow> rd_Condition M h c = Some v \<Longrightarrow>
      cset c s h = (s', h') \<Longrightarrow> rd_conditions M h' s' = Some (Some (cond_Set C cs v))"
    and set_in_place: "rd_conditions M h s = Some (Some cs) \<Longrightarrow> rd_Condition M h c = Some v \<Longrightarrow>
      cond_status cs (c_Type v) \<noteq> None \<Longrightarrow> cset c s h = (s', h') \<Longrightarrow> s' = s"
begin

lemma rbac_set:
  assumes "rd_conditions M h (mpst_Conditions (mps_Status inst)) = Some (Some cs)" and "rd_Condition M h c = Some v"
    and "cond_status cs (c_Type v) \<noteq> None"
  shows "rd_conditions M (RbacConditionsSet cset inst c h) (mpst_Conditions (mps_Status inst)) = Some (Some (cond_Set C cs v))"
proof -
  obtain s' h' where r: "cset c (mpst_Conditions (mps_Status inst)) h = (s', h')" by fastforce
  with set_value [OF assms(1,2) r] set_in_place [OF assms r] show ?thesis by (simp add: RbacConditionsSet_def Let_def)
qed

text \<open>A number of conditions, one after the other; \<open>xs\<close> pairs them with their values.\<close>

lemma rbac_sets:
  assumes "rd_conditions M h (mpst_Conditions (mps_Status inst)) = Some (Some cs)"
    and "\<And>t. t \<in> T \<Longrightarrow> cond_status cs t \<noteq> None"
    and "list_all (\<lambda>x. (\<forall>h. rd_Condition M h (fst x) = Some (snd x)) \<and> c_Type (snd x) \<in> T) xs"
  shows "rd_conditions M (foldl (\<lambda>h x. RbacConditionsSet cset inst (fst x) h) h xs) (mpst_Conditions (mps_Status inst))
    = Some (Some (foldl (\<lambda>cs x. cond_Set C cs (snd x)) cs xs))"
  using assms
proof (induction xs arbitrary: h cs)
  case (Cons x xs)
  from Cons.prems have x: "rd_Condition M h (fst x) = Some (snd x)" "cond_status cs (c_Type (snd x)) \<noteq> None" by auto
  from rbac_set [OF Cons.prems(1) x] have r: "rd_conditions M (RbacConditionsSet cset inst (fst x) h)
      (mpst_Conditions (mps_Status inst)) = Some (Some (cond_Set C cs (snd x)))" .
  have "\<And>t. t \<in> T \<Longrightarrow> cond_status (cond_Set C cs (snd x)) t \<noteq> None" using Cons.prems(2) by (simp add: status_Set)
  from Cons.IH [OF r this] Cons.prems(3) show ?case by simp
qed simp

lemma sets_elsewhere:
  assumes "list_all (\<lambda>x. c_Type (snd x) \<in> T) xs" and "t \<notin> T"
  shows "cond_status (foldl (\<lambda>cs x. cond_Set C cs (snd x)) cs xs) t = cond_status cs t"
  using assms by (induction xs arbitrary: cs) (auto simp: status_Set)

end

context cond_laws
begin

lemma initial_has_rbac:
  assumes "t \<in> rbac_types"
  shows "cond_status (cond_Init C cs (initialConditions_ps C)) t \<noteq> None"
proof -
  have d: "distinct (map c_Type (initialConditions_ps C))"
    by (simp add: initialConditions_ps_def UnknownCondition_simps)
  have "\<exists>c \<in> set (initialConditions_ps C). c_Type c = t"
    using assms by (auto simp: rbac_types_def initialConditions_ps_def UnknownCondition_simps)
  with status_Init [OF d, of _ cs] show ?thesis by auto
qed

end

text \<open>The roles' conditions reach the instance. Once the controller has initialised the conditions, setting any
  number of conditions of the roles through the value receiver changes the conditions of the instance as if they were
  set on it, and leaves the status of every other condition.\<close>

theorem rbac_conditions_reach_instance:
  assumes "cond_memory C M cset"
    and "rd_conditions M h (mpst_Conditions (mps_Status inst)) = Some (Some (cond_Init C old (initialConditions_ps C)))"
    and "list_all (\<lambda>x. (\<forall>h. rd_Condition M h (fst x) = Some (snd x)) \<and> c_Type (snd x) \<in> rbac_types) xs"
  shows "\<exists>cs. rd_conditions M (foldl (\<lambda>h x. RbacConditionsSet cset inst (fst x) h) h xs)
        (mpst_Conditions (mps_Status inst)) = Some (Some cs)
    \<and> cs = foldl (\<lambda>cs x. cond_Set C cs (snd x)) (cond_Init C old (initialConditions_ps C)) xs
    \<and> (\<forall>t. t \<notin> rbac_types \<longrightarrow> cond_status cs t = cond_status (cond_Init C old (initialConditions_ps C)) t)"
proof -
  note m = assms(1) and l = cond_memory.axioms(1) [OF assms(1)]
  have "list_all (\<lambda>x. c_Type (snd x) \<in> rbac_types) xs" using assms(3) by (simp add: list_all_iff)
  with cond_memory.rbac_sets [OF m assms(2) cond_laws.initial_has_rbac [OF l] assms(3)]
    cond_memory.sets_elsewhere [OF m] show ?thesis by blast
qed

section \<open>A reference instance\<close>

text \<open>\<open>Set\<close> on conditions without references: the element of the type is overwritten, or a new array is made.\<close>

definition has_type :: "string \<Rightarrow> ref_ext \<Rightarrow> bool" where
  "has_type t x = (case x of XCond c \<Rightarrow> c_Type c = t | _ \<Rightarrow> False)"

fun set_elem :: "string \<Rightarrow> ref_ext \<Rightarrow> ref_ext list \<Rightarrow> ref_ext list" where
  "set_elem t c [] = [c]"
| "set_elem t c (x # xs) = (if has_type t x then c # xs else x # set_elem t c xs)"

definition ref_cset :: "ref_ext \<Rightarrow> slice \<Rightarrow> ref_ext obj heap \<Rightarrow> slice \<times> ref_ext obj heap" where
  "ref_cset c s h =
     (case (c, s) of
        (XCond v, Slice a n) \<Rightarrow>
          (case load (as_kind is_Externals the_Externals) h a of
             None \<Rightarrow> (s, h)
           | Some xs \<Rightarrow>
               (let ys = set_elem (c_Type v) c (take n xs)
                in if list_ex (has_type (c_Type v)) (take n xs) then (s, h[a := OExternals (ys @ drop n xs)])
                   else (Slice (length h) (Suc n), h @ [OExternals ys])))
      | _ \<Rightarrow> (s, h))"

lemma rd_ref_cond: "rd_Condition ref_ext_mem h x = Some v \<longleftrightarrow> x = XCond v"
  by (cases x) (auto simp: ref_ext_mem_def rd_tag_def rd_flat_def)

lemma rd_ref_conds: "rd_list (rd_Condition ref_ext_mem) h xs = Some cs \<longleftrightarrow> xs = map XCond cs"
proof
  show "rd_list (rd_Condition ref_ext_mem) h xs = Some cs \<Longrightarrow> xs = map XCond cs"
    by (induction xs arbitrary: cs) (auto simp: rd_ref_cond split: option.splits)
  have "rd_Condition ref_ext_mem h (XCond v) = Some v" for v by (simp add: rd_ref_cond)
  then have "rd_list (rd_Condition ref_ext_mem) h (map XCond cs) = Some cs" by (induction cs) simp_all
  then show "xs = map XCond cs \<Longrightarrow> rd_list (rd_Condition ref_ext_mem) h xs = Some cs" by simp
qed

lemma rd_ref_slice:
  "rd_conditions ref_ext_mem h s = Some (Some cs) \<longleftrightarrow>
     (\<exists>a n xs. s = Slice a n \<and> load (as_kind is_Externals the_Externals) h a = Some xs \<and> n \<le> length xs
        \<and> take n xs = map XCond cs)"
  by (auto simp: rd_conditions_def rd_slice_def rd_ref_conds split: slice.splits option.splits if_splits)

lemma has_type_cond [simp]: "has_type t (XCond c) \<longleftrightarrow> c_Type c = t"
  by (simp add: has_type_def)

lemma set_elem_conds: "set_elem (c_Type v) (XCond v) (map XCond cs) = map XCond (ref_set cs v)"
  by (induction cs) auto

lemma has_type_iff: "list_ex (has_type t) (map XCond cs) \<longleftrightarrow> cond_status cs t \<noteq> None"
  by (induction cs) (auto simp: cond_status_def cond_get_def)

lemma ref_set_length: "length (ref_set cs v) = (if cond_status cs (c_Type v) = None then Suc (length cs) else length cs)"
  by (induction cs v rule: ref_set.induct) (auto simp: cond_status_def cond_get_def)

interpretation ref_cm: cond_memory ref_conds ref_ext_mem ref_cset
proof unfold_locales
  fix h h' :: "ref_ext obj heap" and s s' c v and cs :: Conditions
  assume r: "rd_conditions ref_ext_mem h s = Some (Some cs)" and c: "rd_Condition ref_ext_mem h c = Some v"
    and e: "ref_cset c s h = (s', h')"
  from r obtain a n xs where s: "s = Slice a n" "load (as_kind is_Externals the_Externals) h a = Some xs" "n \<le> length xs"
    "take n xs = map XCond cs" by (auto simp: rd_ref_slice)
  have c': "c = XCond v" using c by (simp add: rd_ref_cond)
  have n: "n = length cs" using s(3,4) by (metis length_map length_take min.absorb2)
  have a: "a < length h" using s(2) by (auto simp: load_def split: if_splits)
  let ?new = "map XCond (ref_set cs v)"
  have res: "(s', h') = (if cond_status cs (c_Type v) \<noteq> None then (s, h[a := OExternals (?new @ drop n xs)])
      else (Slice (length h) (Suc n), h @ [OExternals ?new]))"
    using e s(1,2) c' has_type_iff [of "c_Type v" cs, folded s(4)] set_elem_conds [of v cs, folded s(4)]
    by (auto simp: ref_cset_def Let_def split: if_splits)
  have "cond_Set ref_conds cs v = ref_set cs v" by (simp add: ref_conds_def)
  moreover have "rd_conditions ref_ext_mem h' s' = Some (Some (ref_set cs v))"
    unfolding rd_ref_slice using res a n s(1) ref_set_length [of cs v]
    by (cases "cond_status cs (c_Type v)") (auto simp: load_def)
  ultimately show "rd_conditions ref_ext_mem h' s' = Some (Some (cond_Set ref_conds cs v))" by simp
  show "s' = s" if "cond_status cs (c_Type v) \<noteq> None" using res that by simp
qed

text \<open>A server with the initial conditions, and the condition of the service account.\<close>

definition rbac_server :: "ref_ext mem_OpenStackProvisionServer" where
  "rbac_server = \<lparr>mps_TypeMeta = \<lparr>tm_Kind = [], tm_APIVersion = []\<rparr>, mps_Meta = XRes \<lparr>res_Rest = []\<rparr>,
     mps_Spec = \<lparr>mpss_Port = 6190, mpss_Interface = [], mpss_OSImage = [], mpss_OSImageDir = None,
       mpss_OSContainerImageURL = [], mpss_ApacheImageURL = [], mpss_AgentImageURL = [], mpss_NodeSelector = None,
       mpss_Resources = XRes \<lparr>res_Rest = []\<rparr>, mpss_PreserveJobs = False\<rparr>,
     mps_Status = \<lparr>mpst_ReadyCount = 0, mpst_Conditions = Slice 0 9, mpst_Hash = None, mpst_ProvisionIP = [],
       mpst_ProvisionIPError = [], mpst_LocalImageURL = [], mpst_OSImageChecksumFilename = [],
       mpst_OSImageChecksumType = [], mpst_LocalImageChecksumURL = []\<rparr>\<rparr>"

theorem rbac_conditions_reach_instance_witness:
  "\<exists>cs. rd_conditions ref_ext_mem
      (RbacConditionsSet ref_cset rbac_server (XCond (ref_cond RoleReadyCondition CTrue [] [] []))
         [OExternals (map XCond (cond_Init ref_conds [] (initialConditions_ps ref_conds)))])
      (Slice 0 9) = Some (Some cs)
    \<and> cond_status cs RoleReadyCondition = Some CTrue"
proof -
  let ?v = "ref_cond RoleReadyCondition CTrue [] [] []" and ?i = "cond_Init ref_conds [] (initialConditions_ps ref_conds)"
  have len: "length ?i = 9" by (simp add: ref_conds_def initialConditions_ps_def ref_cond_def)
  have s: "mpst_Conditions (mps_Status rbac_server) = Slice 0 9" by (simp add: rbac_server_def)
  have r: "rd_conditions ref_ext_mem [OExternals (map XCond ?i)] (mpst_Conditions (mps_Status rbac_server)) = Some (Some ?i)"
    unfolding s rd_ref_slice using len by (simp add: load_def)
  have x: "list_all (\<lambda>x. (\<forall>h. rd_Condition ref_ext_mem h (fst x) = Some (snd x)) \<and> c_Type (snd x) \<in> rbac_types)
      [(XCond ?v, ?v)]"
    by (simp add: rd_ref_cond rbac_types_def ref_cond_def)
  from rbac_conditions_reach_instance [OF ref_cm.cond_memory_axioms r x] s show ?thesis
    by (auto simp: rc.status_Set) (simp_all add: ref_cond_def)
qed

end
