(* ===== verification/AgentMain.thy ===== *)
theory AgentMain
  imports AgentSafety
begin

text \<open>
  The program of the agent (\<^verbatim>\<open>containers/agent/main.go\<close> and the \<open>init\<close> functions beside it): the
  commands, their flags, and \<open>main\<close>, which hands the arguments to cobra and runs the command that cobra
  finds.

  The package variables are the state \<open>agent_program\<close>: the four commands under their variables, since
  \<open>AddCommand\<close> and \<open>PersistentFlags\<close> work on pointers, and the two structs of options. Cobra is
  outside: \<open>Execute\<close> stands for the parsing of \<open>rootCmd.Execute\<close> and says which command runs with which
  values of its flags. The locale \<open>cobra_cli\<close> holds what the agent relies on, and it is interpreted on the
  table look-up of \<open>ref_Execute\<close>. The second half is about the two containers in which the controller of
  the provision servers starts the agent.
\<close>

section \<open>Commands and flags\<close>

datatype command_var = RootCmd | ChecksumStartCmd | ProvisionIPStartCmd | VersionCmd

datatype run_func = RunChecksumStartCmd | RunProvisionIPStartCmd | RunVersionCmd

datatype option_var =
    ChecksumOSImageDir | ChecksumProvServerName | ChecksumProvServerNamespace
  | ProvisionIPProvIntf | ProvisionIPProvServerName | ProvisionIPProvServerNamespace

record string_flag =
  sf_Var :: option_var
  sf_Name :: string
  sf_Value :: string
  sf_Usage :: string

record command =
  cmd_Use :: string
  cmd_Short :: string
  cmd_Long :: string
  cmd_Run :: "run_func option"
  cmd_Commands :: "command_var list"
  cmd_PersistentFlags :: "string_flag list"
  cmd_GoFlags :: bool

record agent_program =
  ap_Command :: "command_var \<Rightarrow> command"
  ap_checksumStartOpts :: agent_opts
  ap_provisionIPStartOpts :: agent_opts

definition new_command :: "string \<Rightarrow> string \<Rightarrow> string \<Rightarrow> run_func option \<Rightarrow> command" where
  "new_command use short long run =
     \<lparr>cmd_Use = use, cmd_Short = short, cmd_Long = long, cmd_Run = run, cmd_Commands = [],
      cmd_PersistentFlags = [], cmd_GoFlags = False\<rparr>"

definition componentName :: string where
  "componentName = ''openstack-baremetal-agent''"

definition rootCmd :: command where
  "rootCmd = new_command componentName ''Run OpenStack Agent''
     ''Runs the OpenStack Baremetal Operator Agent'' None"

definition checksumStartCmd :: command where
  "checksumStartCmd = new_command ''checksum-discovery'' ''Start Checksum Discovery Agent'' []
     (Some RunChecksumStartCmd)"

definition provisionIPStartCmd :: command where
  "provisionIPStartCmd = new_command ''provision-ip-discovery'' ''Start Provision IP Discovery Agent'' []
     (Some RunProvisionIPStartCmd)"

definition versionCmd :: command where
  "versionCmd = new_command ''version''
     ''Print the version number of OpenStack Baremetal Operator Agent''
     ''All software has versions.  This is that of the OpenStack Baremetal Operator Agent.''
     (Some RunVersionCmd)"

text \<open>The options of both commands are zero; the field \<open>kubeconfig\<close> of the two structs is never used.\<close>

definition zero_opts :: agent_opts where [zero_defs]:
  "zero_opts = \<lparr>ao_Name = [], ao_Namespace = [], ao_ImageDir = [], ao_Intf = []\<rparr>"

definition program_vars :: agent_program where
  "program_vars =
     \<lparr>ap_Command = (\<lambda>c. case c of RootCmd \<Rightarrow> rootCmd | ChecksumStartCmd \<Rightarrow> checksumStartCmd
        | ProvisionIPStartCmd \<Rightarrow> provisionIPStartCmd | VersionCmd \<Rightarrow> versionCmd),
      ap_checksumStartOpts = zero_opts, ap_provisionIPStartOpts = zero_opts\<rparr>"

definition upd_command :: "command_var \<Rightarrow> (command \<Rightarrow> command) \<Rightarrow> agent_program \<Rightarrow> agent_program" where
  "upd_command p f prog = prog\<lparr>ap_Command := (ap_Command prog)(p := f (ap_Command prog p))\<rparr>"

definition set_option_var :: "option_var \<Rightarrow> string \<Rightarrow> agent_program \<Rightarrow> agent_program" where
  "set_option_var var v prog = (case var of
      ChecksumOSImageDir \<Rightarrow> prog\<lparr>ap_checksumStartOpts := (ap_checksumStartOpts prog)\<lparr>ao_ImageDir := v\<rparr>\<rparr>
    | ChecksumProvServerName \<Rightarrow> prog\<lparr>ap_checksumStartOpts := (ap_checksumStartOpts prog)\<lparr>ao_Name := v\<rparr>\<rparr>
    | ChecksumProvServerNamespace \<Rightarrow> prog\<lparr>ap_checksumStartOpts := (ap_checksumStartOpts prog)\<lparr>ao_Namespace := v\<rparr>\<rparr>
    | ProvisionIPProvIntf \<Rightarrow> prog\<lparr>ap_provisionIPStartOpts := (ap_provisionIPStartOpts prog)\<lparr>ao_Intf := v\<rparr>\<rparr>
    | ProvisionIPProvServerName \<Rightarrow> prog\<lparr>ap_provisionIPStartOpts := (ap_provisionIPStartOpts prog)\<lparr>ao_Name := v\<rparr>\<rparr>
    | ProvisionIPProvServerNamespace \<Rightarrow>
        prog\<lparr>ap_provisionIPStartOpts := (ap_provisionIPStartOpts prog)\<lparr>ao_Namespace := v\<rparr>\<rparr>)"

text \<open>\<open>rootCmd.AddCommand\<close>, and \<open>PersistentFlags().StringVar\<close>, which also stores the default in the
  variable.\<close>

definition AddCommand :: "command_var \<Rightarrow> agent_program \<Rightarrow> agent_program" where
  "AddCommand c = upd_command RootCmd (\<lambda>r. r\<lparr>cmd_Commands := cmd_Commands r @ [c]\<rparr>)"

definition StringVar ::
  "command_var \<Rightarrow> option_var \<Rightarrow> string \<Rightarrow> string \<Rightarrow> string \<Rightarrow> agent_program \<Rightarrow> agent_program" where
  "StringVar c var name value usage prog =
     upd_command c (\<lambda>k. k\<lparr>cmd_PersistentFlags := cmd_PersistentFlags k
         @ [\<lparr>sf_Var = var, sf_Name = name, sf_Value = value, sf_Usage = usage\<rparr>]\<rparr>)
       (set_option_var var value prog)"

definition init_checksum :: "agent_program \<Rightarrow> agent_program" where
  "init_checksum prog =
     (let prog = AddCommand ChecksumStartCmd prog;
          prog = StringVar ChecksumStartCmd ChecksumOSImageDir ''os-image-dir'' []
            ''OS image directory on the associated host'' prog;
          prog = StringVar ChecksumStartCmd ChecksumProvServerName ''prov-server-name'' []
            ''Provisioning server resource name'' prog
      in StringVar ChecksumStartCmd ChecksumProvServerNamespace ''prov-server-namespace'' []
            ''Provisioning server resource namespace'' prog)"

definition init_main :: "agent_program \<Rightarrow> agent_program" where
  "init_main = upd_command RootCmd (\<lambda>r. r\<lparr>cmd_GoFlags := True\<rparr>)"

definition init_provisionIP :: "agent_program \<Rightarrow> agent_program" where
  "init_provisionIP prog =
     (let prog = AddCommand ProvisionIPStartCmd prog;
          prog = StringVar ProvisionIPStartCmd ProvisionIPProvIntf ''prov-intf'' []
            ''Provisioning interface name on the associated host'' prog;
          prog = StringVar ProvisionIPStartCmd ProvisionIPProvServerName ''prov-server-name'' []
            ''Provisioning server resource name'' prog
      in StringVar ProvisionIPStartCmd ProvisionIPProvServerNamespace ''prov-server-namespace'' []
            ''Provisioning server resource namespace'' prog)"

definition init_version :: "agent_program \<Rightarrow> agent_program" where
  "init_version = AddCommand VersionCmd"

text \<open>The state in which \<open>main\<close> begins: the \<open>init\<close> functions run in the order of the file names.\<close>

definition agent_program_init :: agent_program where
  "agent_program_init = init_version (init_provisionIP (init_main (init_checksum program_vars)))"

section \<open>The entry point\<close>

text \<open>What cobra makes of the arguments: the command that runs with the flags that are given, or a text
  that it prints itself.\<close>

datatype parsed_args = RunCommand command_var "(string \<times> string) list" | PrintText string

type_synonym execute = "agent_program \<Rightarrow> string list \<Rightarrow> (string, parsed_args) outcome"

definition set_flag :: "command_var \<Rightarrow> string \<times> string \<Rightarrow> agent_program \<Rightarrow> agent_program" where
  "set_flag c nv prog =
     (case find (\<lambda>f. sf_Name f = fst nv) (cmd_PersistentFlags (ap_Command prog c)) of
        None \<Rightarrow> prog | Some f \<Rightarrow> set_option_var (sf_Var f) (snd nv) prog)"

text \<open>The call of the \<open>Run\<close> field; the result carries what is printed.\<close>

definition call_run ::
  "run_func \<Rightarrow> lib \<Rightarrow> 'w agent \<Rightarrow> agent_program \<Rightarrow> 'w \<Rightarrow> ((string, string) outcome \<times> 'w) option" where
  "call_run f L A prog w = (case f of
      RunChecksumStartCmd \<Rightarrow>
        map_option (\<lambda>(r, w). (map_outcome id (\<lambda>_. []) r, w)) (runChecksumStartCmd L A (ap_checksumStartOpts prog) w)
    | RunProvisionIPStartCmd \<Rightarrow>
        map_option (\<lambda>(r, _, w). (map_outcome id (\<lambda>_. []) r, w))
          (runProvisionIPStartCmd L A (ap_provisionIPStartOpts prog) w)
    | RunVersionCmd \<Rightarrow> Some (runVersionCmd L A, w))"

definition agent_main ::
  "execute \<Rightarrow> lib \<Rightarrow> 'w agent \<Rightarrow> agent_program \<Rightarrow> string list \<Rightarrow> 'w \<Rightarrow> ((string, string) outcome \<times> 'w) option" where
  "agent_main Execute L A prog args w =
     (case Execute prog args of
        Err e \<Rightarrow> Some (Err (''Error executing cmd: '' @ e), w)
      | Panic m \<Rightarrow> Some (Panic m, w)
      | Ok (PrintText t) \<Rightarrow> Some (Ok t, w)
      | Ok (RunCommand c fs) \<Rightarrow>
          (case cmd_Run (ap_Command prog c) of
             None \<Rightarrow> Some (Ok [], w)
           | Some f \<Rightarrow> call_run f L A (fold (set_flag c) fs prog) w))"

section \<open>The containers of the agent\<close>

text \<open>The arguments of the process that a container starts: the command and its arguments; of \<open>bash -c\<close>, the
  words into which the shell splits the text. \<open>words\<close> is the splitting of the shell.\<close>

definition container_argv :: "(string \<Rightarrow> string list) \<Rightarrow> Container \<Rightarrow> string list" where
  "container_argv words c =
     (case ct_Command c @ ct_Args c of
        [sh, opt, txt] \<Rightarrow> if sh = ''/bin/bash'' \<and> opt = ''-c'' then words txt else [sh, opt, txt]
      | argv \<Rightarrow> argv)"

text \<open>The agent \<open>A\<close> runs in the container: it is the program of the image, started with \<open>args\<close>, and its
  environment has the variables of the container.\<close>

definition started_as :: "(string \<Rightarrow> string list) \<Rightarrow> Container \<Rightarrow> string list \<Rightarrow> 'w agent \<Rightarrow> bool" where
  "started_as words c args A \<longleftrightarrow>
     container_argv words c = (''/'' @ componentName) # args
     \<and> (\<forall>(k, v) \<in> set (ct_Env c). ag_LookupEnv A k = Some v)"

definition plain_word :: "string \<Rightarrow> bool" where
  "plain_word w \<longleftrightarrow> w \<noteq> [] \<and> set w \<subseteq> set ''abcdefghijklmnopqrstuvwxyz-/''"

fun join_words :: "string list \<Rightarrow> string" where
  "join_words [] = []"
| "join_words [w] = w"
| "join_words (w # ws) = w @ '' '' @ join_words ws"

text \<open>A simple command of plain words whose first is a path is split at its spaces.\<close>

definition shell_splits :: "(string \<Rightarrow> string list) \<Rightarrow> bool" where
  "shell_splits words \<longleftrightarrow>
     (\<forall>ws. ws \<noteq> [] \<longrightarrow> CHR ''/'' \<in> set (hd ws) \<longrightarrow> (\<forall>w \<in> set ws. plain_word w) \<longrightarrow> words (join_words ws) = ws)"

text \<open>Merging the entries of a map into no variables yields one variable for each entry.\<close>

definition env_merges :: "merge_envs \<Rightarrow> bool" where
  "env_merges me \<longleftrightarrow> (\<forall>m. gm_wf m \<longrightarrow> set (me [] m) = set (gm_items m))"

definition rule_permits :: "string \<Rightarrow> string \<Rightarrow> string \<Rightarrow> PolicyRule \<Rightarrow> bool" where
  "rule_permits grp res verb r \<longleftrightarrow>
     grp \<in> set (rule_APIGroups r) \<and> res \<in> set (rule_Resources r) \<and> verb \<in> set (rule_Verbs r)
     \<and> rule_ResourceNames r = []"

section \<open>The interface of cobra\<close>

definition plain_name :: "string \<Rightarrow> bool" where
  "plain_name n \<longleftrightarrow> n \<noteq> [] \<and> set n \<subseteq> set ''abcdefghijklmnopqrstuvwxyz-'' \<and> hd n \<noteq> CHR ''-''"

definition flag_arg :: "string \<times> string \<Rightarrow> string" where
  "flag_arg nv = ''--'' @ fst nv @ ''='' @ snd nv"

definition sub_names :: "agent_program \<Rightarrow> string list" where
  "sub_names prog = map (\<lambda>c. cmd_Use (ap_Command prog c)) (cmd_Commands (ap_Command prog RootCmd))"

definition flag_names :: "agent_program \<Rightarrow> command_var \<Rightarrow> string list" where
  "flag_names prog c = map sf_Name (cmd_PersistentFlags (ap_Command prog c))"

definition flag_value :: "(string \<times> string) list \<Rightarrow> string \<Rightarrow> string" where
  "flag_value fs n = (case map_of (rev fs) n of None \<Rightarrow> [] | Some v \<Rightarrow> v)"

text \<open>The program after its initialisation.\<close>

lemmas program_defs = agent_program_init_def init_version_def init_provisionIP_def init_main_def init_checksum_def
  AddCommand_def StringVar_def upd_command_def set_option_var_def program_vars_def new_command_def rootCmd_def
  checksumStartCmd_def provisionIPStartCmd_def versionCmd_def zero_opts_def Let_def

lemma program_commands [simp]:
  "cmd_Commands (ap_Command agent_program_init RootCmd) = [ChecksumStartCmd, ProvisionIPStartCmd, VersionCmd]"
  "cmd_Commands (ap_Command agent_program_init ChecksumStartCmd) = []"
  "cmd_Commands (ap_Command agent_program_init ProvisionIPStartCmd) = []"
  "cmd_Commands (ap_Command agent_program_init VersionCmd) = []"
  "cmd_Use (ap_Command agent_program_init ChecksumStartCmd) = ''checksum-discovery''"
  "cmd_Use (ap_Command agent_program_init ProvisionIPStartCmd) = ''provision-ip-discovery''"
  "cmd_Use (ap_Command agent_program_init VersionCmd) = ''version''"
  "cmd_Run (ap_Command agent_program_init ChecksumStartCmd) = Some RunChecksumStartCmd"
  "cmd_Run (ap_Command agent_program_init ProvisionIPStartCmd) = Some RunProvisionIPStartCmd"
  "cmd_Run (ap_Command agent_program_init VersionCmd) = Some RunVersionCmd"
  by (simp_all add: program_defs)

lemma program_flags [simp]:
  "map (\<lambda>f. (sf_Name f, sf_Var f)) (cmd_PersistentFlags (ap_Command agent_program_init ChecksumStartCmd)) =
     [(''os-image-dir'', ChecksumOSImageDir), (''prov-server-name'', ChecksumProvServerName),
      (''prov-server-namespace'', ChecksumProvServerNamespace)]"
  "map (\<lambda>f. (sf_Name f, sf_Var f)) (cmd_PersistentFlags (ap_Command agent_program_init ProvisionIPStartCmd)) =
     [(''prov-intf'', ProvisionIPProvIntf), (''prov-server-name'', ProvisionIPProvServerName),
      (''prov-server-namespace'', ProvisionIPProvServerNamespace)]"
  "cmd_PersistentFlags (ap_Command agent_program_init VersionCmd) = []"
  by (simp_all add: program_defs)

lemma program_opts [simp]:
  "ap_checksumStartOpts agent_program_init = zero_opts" "ap_provisionIPStartOpts agent_program_init = zero_opts"
  by (simp_all add: program_defs)

lemma flag_names_map: "flag_names prog c = map fst (map (\<lambda>f. (sf_Name f, sf_Var f)) (cmd_PersistentFlags (ap_Command prog c)))"
  by (simp add: flag_names_def)

lemma program_names [simp]:
  "sub_names agent_program_init = [''checksum-discovery'', ''provision-ip-discovery'', ''version'']"
  "flag_names agent_program_init ChecksumStartCmd = [''os-image-dir'', ''prov-server-name'', ''prov-server-namespace'']"
  "flag_names agent_program_init ProvisionIPStartCmd = [''prov-intf'', ''prov-server-name'', ''prov-server-namespace'']"
  "flag_names agent_program_init VersionCmd = []"
  by (simp_all add: sub_names_def flag_names_map del: map_map)

lemma set_flag_var:
  "set_flag c nv prog =
     (case map_of (map (\<lambda>f. (sf_Name f, sf_Var f)) (cmd_PersistentFlags (ap_Command prog c))) (fst nv) of
        None \<Rightarrow> prog | Some var \<Rightarrow> set_option_var var (snd nv) prog)"
proof -
  have *: "map_of (map (\<lambda>f. (sf_Name f, sf_Var f)) fs) n = map_option sf_Var (find (\<lambda>f. sf_Name f = n) fs)" for fs n
    by (induction fs) auto
  show ?thesis unfolding set_flag_def * by (simp split: option.split)
qed

lemma set_option_var_commands [simp]: "ap_Command (set_option_var var v prog) = ap_Command prog"
  by (cases var) (simp_all add: set_option_var_def)

lemma fold_flags_commands [simp]: "ap_Command (fold (set_flag c) fs prog) = ap_Command prog"
  by (induction fs arbitrary: prog) (auto simp: set_flag_def split: option.split)

lemma flag_value_simps [simp]:
  "flag_value [] n = []" "flag_value (fs @ [(k, v)]) n = (if n = k then v else flag_value fs n)"
  by (simp_all add: flag_value_def)

text \<open>The last value of a flag is the one that counts; a flag that is not given stays empty.\<close>

lemma checksum_flags:
  "ap_checksumStartOpts (fold (set_flag ChecksumStartCmd) fs agent_program_init) =
     \<lparr>ao_Name = flag_value fs ''prov-server-name'', ao_Namespace = flag_value fs ''prov-server-namespace'',
      ao_ImageDir = flag_value fs ''os-image-dir'', ao_Intf = []\<rparr>"
proof (induction fs rule: rev_induct)
  case (snoc nv fs)
  then show ?case by (cases nv) (simp add: set_flag_var [of _ _ "fold _ _ _"] set_option_var_def)
qed (simp add: zero_opts_def)

lemma provisionIP_flags:
  "ap_provisionIPStartOpts (fold (set_flag ProvisionIPStartCmd) fs agent_program_init) =
     \<lparr>ao_Name = flag_value fs ''prov-server-name'', ao_Namespace = flag_value fs ''prov-server-namespace'',
      ao_ImageDir = [], ao_Intf = flag_value fs ''prov-intf''\<rparr>"
proof (induction fs rule: rev_induct)
  case (snoc nv fs)
  then show ?case by (cases nv) (simp add: set_flag_var [of _ _ "fold _ _ _"] set_option_var_def)
qed (simp add: zero_opts_def)

text \<open>A runnable command below the root runs when its name is the first argument, with the flags in the
  form \<^verbatim>\<open>--name=value\<close> that follow; any other name is an error, except for the commands that cobra
  adds by itself.\<close>

locale cobra_cli =
  fixes Execute :: execute
  assumes runs: "c \<in> set (cmd_Commands (ap_Command prog RootCmd)) \<Longrightarrow> distinct (sub_names prog) \<Longrightarrow>
      cmd_Run (ap_Command prog c) \<noteq> None \<Longrightarrow> cmd_Commands (ap_Command prog c) = [] \<Longrightarrow>
      plain_name (cmd_Use (ap_Command prog c)) \<Longrightarrow> list_all plain_name (flag_names prog c) \<Longrightarrow>
      set (map fst fs) \<subseteq> set (flag_names prog c) \<Longrightarrow>
      Execute prog (cmd_Use (ap_Command prog c) # map flag_arg fs) = Ok (RunCommand c fs)"
    and unknown: "cmd_Commands (ap_Command prog RootCmd) \<noteq> [] \<Longrightarrow> x \<notin> set (sub_names prog) \<Longrightarrow> plain_name x \<Longrightarrow>
      x \<notin> {''help'', ''completion''} \<Longrightarrow> \<exists>e. Execute prog (x # args) = Err e"
begin

lemma main_checksum:
  assumes "set (map fst fs) \<subseteq> {''os-image-dir'', ''prov-server-name'', ''prov-server-namespace''}"
  shows "agent_main Execute L A agent_program_init (''checksum-discovery'' # map flag_arg fs) w =
    map_option (\<lambda>(r, w). (map_outcome id (\<lambda>_. []) r, w)) (runChecksumStartCmd L A
      \<lparr>ao_Name = flag_value fs ''prov-server-name'', ao_Namespace = flag_value fs ''prov-server-namespace'',
       ao_ImageDir = flag_value fs ''os-image-dir'', ao_Intf = []\<rparr> w)"
  using runs [of ChecksumStartCmd agent_program_init fs] assms
  by (simp add: agent_main_def call_run_def checksum_flags plain_name_def)

lemma main_provisionIP:
  assumes "set (map fst fs) \<subseteq> {''prov-intf'', ''prov-server-name'', ''prov-server-namespace''}"
  shows "agent_main Execute L A agent_program_init (''provision-ip-discovery'' # map flag_arg fs) w =
    map_option (\<lambda>(r, _, w). (map_outcome id (\<lambda>_. []) r, w)) (runProvisionIPStartCmd L A
      \<lparr>ao_Name = flag_value fs ''prov-server-name'', ao_Namespace = flag_value fs ''prov-server-namespace'',
       ao_ImageDir = [], ao_Intf = flag_value fs ''prov-intf''\<rparr> w)"
  using runs [of ProvisionIPStartCmd agent_program_init fs] assms
  by (simp add: agent_main_def call_run_def provisionIP_flags plain_name_def)

lemma main_version: "agent_main Execute L A agent_program_init [''version''] w = Some (runVersionCmd L A, w)"
  using runs [of VersionCmd agent_program_init "[]"] by (simp add: agent_main_def call_run_def plain_name_def)

lemma main_unknown:
  assumes "plain_name x" and "x \<notin> {''checksum-discovery'', ''provision-ip-discovery'', ''version'', ''help'', ''completion''}"
  shows "\<exists>e. agent_main Execute L A agent_program_init (x # args) w = Some (Err (''Error executing cmd: '' @ e), w)"
  using unknown [of agent_program_init x args] assms by (auto simp: agent_main_def)

end

section \<open>A reference for cobra and the shell\<close>

definition parse_flag :: "string \<Rightarrow> (string \<times> string) option" where
  "parse_flag s =
     (if take 2 s = ''--''
      then (case dropWhile (\<lambda>c. c \<noteq> CHR ''='') (drop 2 s) of
              [] \<Rightarrow> None
            | _ # v \<Rightarrow> Some (takeWhile (\<lambda>c. c \<noteq> CHR ''='') (drop 2 s), v))
      else None)"

definition ref_Execute :: execute where
  "ref_Execute prog args =
     (case args of
        [] \<Rightarrow> Ok (PrintText (cmd_Long (ap_Command prog RootCmd)))
      | x # as \<Rightarrow>
          (case find (\<lambda>c. cmd_Use (ap_Command prog c) = x) (cmd_Commands (ap_Command prog RootCmd)) of
             None \<Rightarrow> Err (''unknown command '' @ x)
           | Some c \<Rightarrow>
               (case those (map parse_flag as) of
                  None \<Rightarrow> Err ''bad flag syntax''
                | Some fs \<Rightarrow>
                    if list_all (\<lambda>nv. fst nv \<in> set (flag_names prog c)) fs then Ok (RunCommand c fs)
                    else Err ''unknown flag'')))"

fun ref_words :: "string \<Rightarrow> string list" where
  "ref_words [] = [[]]"
| "ref_words (c # s) =
     (if c = CHR '' '' then [] # ref_words s
      else (case ref_words s of [] \<Rightarrow> [[c]] | w # ws \<Rightarrow> (c # w) # ws))"

lemma parse_flag_arg: "plain_name (fst nv) \<Longrightarrow> parse_flag (flag_arg nv) = Some nv"
proof -
  assume "plain_name (fst nv)"
  then have "\<forall>c \<in> set (fst nv). c \<noteq> CHR ''=''" by (auto simp: plain_name_def)
  then show ?thesis by (cases nv) (simp add: parse_flag_def flag_arg_def dropWhile_append takeWhile_append)
qed

lemma parse_flag_args: "list_all (\<lambda>nv. plain_name (fst nv)) fs \<Longrightarrow> those (map parse_flag (map flag_arg fs)) = Some fs"
  by (induction fs) (simp_all add: parse_flag_arg)

interpretation ref_cobra: cobra_cli ref_Execute
proof
  fix c prog and fs :: "(string \<times> string) list"
  assume c: "c \<in> set (cmd_Commands (ap_Command prog RootCmd))" and d: "distinct (sub_names prog)"
    and p: "list_all plain_name (flag_names prog c)" and s: "set (map fst fs) \<subseteq> set (flag_names prog c)"
  let ?use = "\<lambda>c. cmd_Use (ap_Command prog c)"
  have "find (\<lambda>k. ?use k = ?use c) ks = Some c" if "distinct (map ?use ks)" "c \<in> set ks" for ks
    using that by (induction ks) (auto simp: image_iff)
  with c d have f: "find (\<lambda>k. ?use k = ?use c) (cmd_Commands (ap_Command prog RootCmd)) = Some c"
    by (simp add: sub_names_def)
  from p s have "list_all (\<lambda>nv. plain_name (fst nv)) fs" "list_all (\<lambda>nv. fst nv \<in> set (flag_names prog c)) fs"
    by (auto simp: list_all_iff)
  with f parse_flag_args [of fs]
  show "ref_Execute prog (?use c # map flag_arg fs) = Ok (RunCommand c fs)" by (simp add: ref_Execute_def)
next
  fix prog x args
  assume "x \<notin> set (sub_names prog)"
  then have "find (\<lambda>k. cmd_Use (ap_Command prog k) = x) (cmd_Commands (ap_Command prog RootCmd)) = None"
    by (auto simp: sub_names_def find_None_iff)
  then show "\<exists>e. ref_Execute prog (x # args) = Err e" by (simp add: ref_Execute_def)
qed

lemma ref_words_word: "CHR '' '' \<notin> set w \<Longrightarrow> ref_words w = [w]"
  by (induction w) auto

lemma ref_words_Cons: "CHR '' '' \<notin> set w \<Longrightarrow> ref_words (w @ '' '' @ s) = w # ref_words s"
  by (induction w) auto

lemma ref_shell_splits: "shell_splits ref_words"
proof -
  have "ref_words (join_words ws) = ws" if "ws \<noteq> []" "\<forall>w \<in> set ws. plain_word w" for ws
    using that
  proof (induction ws rule: join_words.induct)
    case (2 w)
    then have "CHR '' '' \<notin> set w" by (auto simp: plain_word_def)
    then show ?case by (simp add: ref_words_word)
  next
    case (3 w v ws)
    then have "CHR '' '' \<notin> set w" by (auto simp: plain_word_def)
    from ref_words_Cons [OF this, of "join_words (v # ws)"] 3 show ?case by simp
  qed simp
  then show ?thesis by (simp add: shell_splits_def)
qed

end
