(* ===== verification/PodProperties.thy ===== *)
theory PodProperties
  imports AgentMain AgentProperties Scheme
begin

text \<open>
  The agent in its pods: the objects that the controller of the provision servers builds start the program of
  the agent with a command that it has and with the options that it asks for, so what holds of a run of the
  agent holds of the job and of the container. The lemmas on the program are in \<open>AgentMain\<close>.
\<close>

section \<open>The containers\<close>

text \<open>The rules let the agent read and update the status of the resource that it asks for, which is one of the
  registered group and version.\<close>

definition agent_rights :: "PolicyRule list \<Rightarrow> bool" where
  "agent_rights rules \<longleftrightarrow>
     gvr_Group openstackProvisionServerGVR = gv_Group GroupVersion
     \<and> gvr_Version openstackProvisionServerGVR = gv_Version GroupVersion
     \<and> (\<forall>verb \<in> {''get'', ''update''}. list_ex (rule_permits (gvr_Group openstackProvisionServerGVR)
        (gvr_Resource openstackProvisionServerGVR @ ''/status'') verb) rules)"

definition server_opts :: "OpenStackProvisionServer \<Rightarrow> string \<Rightarrow> string \<Rightarrow> agent_opts" where
  "server_opts inst dir intf =
     \<lparr>ao_Name = ps_Name inst, ao_Namespace = ps_Namespace inst, ao_ImageDir = dir, ao_Intf = intf\<rparr>"

lemma rbac_agent_rights: "agent_rights rbacRules"
  by (simp add: agent_rights_def rbacRules_def rule_permits_def openstackProvisionServerGVR_def GroupVersion_def)

lemma checksum_words: "shell_splits words \<Longrightarrow> words ChecksumCommand = [''/openstack-baremetal-agent'', ''checksum-discovery'']"
  unfolding shell_splits_def ChecksumCommand_def
  by (drule spec [of _ "[''/openstack-baremetal-agent'', ''checksum-discovery'']"]) (simp add: plain_word_def)

lemma job_started:
  assumes "shell_splits words" and "env_merges me" and "ChecksumJob me inst ls an = Ok j"
    and "c \<in> set (po_Containers (jb_Pod j))" and "started_as words c args A" and "pss_OSImageDir (ps_Spec inst) = Some dir"
  shows "args = [''checksum-discovery''] \<and> ag_LookupEnv A ''OS_IMAGE_DIR'' = Some dir
    \<and> ag_LookupEnv A ''PROV_SERVER_NAME'' = Some (ps_Name inst)
    \<and> ag_LookupEnv A ''PROV_SERVER_NAMESPACE'' = Some (ps_Namespace inst)"
proof -
  let ?m = "gm_put ''PROV_SERVER_NAMESPACE'' (ps_Namespace inst)
    (gm_put ''PROV_SERVER_NAME'' (ps_Name inst) (gm_put ''OS_IMAGE_DIR'' dir gm_empty))"
  have m: "set (me [] ?m) = {(''OS_IMAGE_DIR'', dir), (''PROV_SERVER_NAME'', ps_Name inst),
      (''PROV_SERVER_NAMESPACE'', ps_Namespace inst)}"
    using assms(2) by (auto simp: env_merges_def gm_put_def gm_wf_def gm_keys_def)
  from assms(3,4,6) have c: "ct_Command c = [''/bin/bash'']" "ct_Args c = [''-c'', ChecksumCommand]" "ct_Env c = me [] ?m"
    by (auto simp: ChecksumJob_def Let_def)
  with assms(5) m checksum_words [OF assms(1)] show ?thesis
    by (simp add: started_as_def container_argv_def componentName_def)
qed

lemma discovery_started:
  assumes "Deployment me inst h ls intf = Ok d" and "c \<in> set (po_Containers (dp_Pod d))"
    and "ct_Name c = ''osp-provision-ip-discovery-agent''" and "started_as words c args A"
  shows "intf \<noteq> [] \<and> args = [''provision-ip-discovery''] \<and> ag_LookupEnv A ''PROV_INTF'' = Some intf
    \<and> ag_LookupEnv A ''PROV_SERVER_NAME'' = Some (ps_Name inst)
    \<and> ag_LookupEnv A ''PROV_SERVER_NAMESPACE'' = Some (ps_Namespace inst)"
proof -
  from assms(1-3) have "c = discoveryContainer inst intf" "intf \<noteq> []"
    by (auto simp: Deployment_def Let_def httpdContainer_def split: option.splits if_splits)
  with assms(4) show ?thesis
    by (simp add: started_as_def container_argv_def componentName_def discoveryContainer_def zero_Container_def)
qed

text \<open>Options that are given in the environment only.\<close>

lemma env_checksumOptions:
  assumes "ag_LookupEnv A ''OS_IMAGE_DIR'' = Some dir" and "ag_LookupEnv A ''PROV_SERVER_NAME'' = Some name"
    and "ag_LookupEnv A ''PROV_SERVER_NAMESPACE'' = Some ns" and "dir \<noteq> []" and "name \<noteq> []" and "ns \<noteq> []"
  shows "checksumOptions A zero_opts = Ok \<lparr>ao_Name = name, ao_Namespace = ns, ao_ImageDir = dir, ao_Intf = []\<rparr>"
  using assms by (simp add: checksumOptions_def checksumOption_def zero_opts_def)

lemma env_provisionIPOptions:
  assumes "ag_LookupEnv A ''PROV_INTF'' = Some intf" and "ag_LookupEnv A ''PROV_SERVER_NAME'' = Some name"
    and "ag_LookupEnv A ''PROV_SERVER_NAMESPACE'' = Some ns" and "intf \<noteq> []" and "name \<noteq> []" and "ns \<noteq> []"
  shows "provisionIPOptions A zero_opts = Ok \<lparr>ao_Name = name, ao_Namespace = ns, ao_ImageDir = [], ao_Intf = intf\<rparr>"
  using assms by (simp add: provisionIPOptions_def getEnvOrFail_def zero_opts_def)

section \<open>The job\<close>

text \<open>C20. The job of a provision server reports the checksum of its image. A container of the job starts the agent with
  the command that the agent has for it and the name, the namespace and the image directory of the server; its
  service account may read and update the status of servers. When the client and the image directory are available and
  the API server refuses an update only finitely often, the program ends: with a panic if no file of the directory
  has a checksum marker in its name; otherwise successfully, either because this server is gone or after an
  update of its status that names the first marked file and its type and keeps every other field of
  the object that was read; or with the panic of a round in which reading the server failed with another error than that
  it was not found, the status that was read was not a map, or a call panicked.\<close>

theorem checksum_job_reports:
  assumes "cobra_cli Execute" and "shell_splits words" and "env_merges me"
    and "ps_Name inst \<noteq> []" and "ps_Namespace inst \<noteq> []" and "pss_OSImageDir (ps_Spec inst) = Some dir" and "dir \<noteq> []"
    and "ChecksumJob me inst ls an = Ok j" and "c \<in> set (po_Containers (jb_Pod j))" and "started_as words c args A"
    and "startFlags L A = Ok ()" and "startClient L A = Ok ()" and "imageItems L A dir w = Ok items"
    and "agent_retries A (server_opts inst dir []) pending"
  shows "agent_rights rbacRules \<and> po_ServiceAccountName (jb_Pod j) = RbacResourceName inst
    \<and> (if \<forall>x \<in> set items. \<not> has_marker x
       then \<exists>m. agent_main Execute L A agent_program_init args w = Some (Panic m, w)
       else \<exists>pre x post r w'. items = pre @ x # post \<and> (\<forall>y \<in> set pre. \<not> has_marker y) \<and> has_marker x
         \<and> agent_main Execute L A agent_program_init args w = Some (r, w')
         \<and> (r = Ok [] \<and> (server_gone A (server_opts inst dir []) w' \<or> checksum_reported A (server_opts inst dir []) x w')
            \<or> (\<exists>m w0. r = Panic m \<and> round_panics L A (server_opts inst dir []) w0 m)))"
proof -
  note s = job_started [OF assms(2,3,8,9,10,6)]
  have o: "checksumOptions A zero_opts = Ok (server_opts inst dir [])"
    unfolding server_opts_def by (rule env_checksumOptions) (use s assms(4,5,7) in auto)
  have i: "imageItems L A (ao_ImageDir (server_opts inst dir [])) w = Ok items"
    using assms(13) by (simp add: server_opts_def)
  have m: "agent_main Execute L A agent_program_init args w =
      map_option (\<lambda>(r, w). (map_outcome id (\<lambda>_. []) r, w)) (runChecksumStartCmd L A zero_opts w)"
    using cobra_cli.main_checksum [OF assms(1), of "[]" L A w] s by (simp add: zero_opts_def)
  have a: "po_ServiceAccountName (jb_Pod j) = RbacResourceName inst"
    using assms(6,8) by (auto simp: ChecksumJob_def Let_def)
  have r: "runChecksumStartCmd L A zero_opts w = Some (Panic e, w') \<Longrightarrow>
      agent_main Execute L A agent_program_init args w = Some (Panic e, w')"
    "runChecksumStartCmd L A zero_opts w = Some (Ok (), w') \<Longrightarrow>
      agent_main Execute L A agent_program_init args w = Some (Ok [], w')" for e w'
    by (simp_all add: m)
  note run = checksum_agent_run [OF assms(14,11) o assms(12) i]
  show ?thesis
  proof (cases "\<forall>x \<in> set items. \<not> has_marker x")
    case True
    with run r(1) a rbac_agent_rights show ?thesis by auto
  next
    case False
    with run obtain pre x post q w' where p: "items = pre @ x # post" "\<forall>y \<in> set pre. \<not> has_marker y" "has_marker x"
      and q: "runChecksumStartCmd L A zero_opts w = Some (q, w')"
      and e: "q = Ok () \<and> (server_gone A (server_opts inst dir []) w' \<or> checksum_reported A (server_opts inst dir []) x w')
       \<or> (\<exists>m w0. q = Panic m \<and> round_panics L A (server_opts inst dir []) w0 m)"
      by (simp only: if_False) blast
    from e q r have "\<exists>r. agent_main Execute L A agent_program_init args w = Some (r, w')
        \<and> (r = Ok [] \<and> (server_gone A (server_opts inst dir []) w' \<or> checksum_reported A (server_opts inst dir []) x w')
           \<or> (\<exists>m w0. r = Panic m \<and> round_panics L A (server_opts inst dir []) w0 m))"
      by blast
    with False p a rbac_agent_rights show ?thesis by (simp only: if_False) blast
  qed
qed

text \<open>A server with the names of the environment of the reference agent.\<close>

definition pod_server :: OpenStackProvisionServer where
  "pod_server = ready_server\<lparr>ps_Meta := (sample_meta ''ps'')\<lparr>om_Namespace := ''openstack''\<rparr>,
     ps_Spec := (ps_Spec ready_server)\<lparr>pss_OSImageDir := Some ''/images''\<rparr>\<rparr>"

definition ref_merge :: merge_envs where
  "ref_merge = pl_MergeEnvs ref_ps_lib"

lemma pod_server_names [simp]:
  "ps_Name pod_server = ''ps''" "ps_Namespace pod_server = ''openstack''"
  "pss_OSImageDir (ps_Spec pod_server) = Some ''/images''"
  by (simp_all add: pod_server_def sample_meta_def)

lemma ref_merge_law: "env_merges ref_merge"
  by (simp add: env_merges_def ref_merge_def ref_ps_lib_def)

lemma pod_agent_calls:
  "startFlags ref_lib ref_agent = Ok ()" "startClient ref_lib ref_agent = Ok ()"
  "imageItems ref_lib ref_agent dir w = Ok [''image.qcow2'', ''image.qcow2.sha256'', ''old.md5'']"
  by (simp_all add: startFlags_def startClient_def imageItems_def getKubeConfig_def Getenv_def ref_agent_def must_def)

lemma pod_job:
  "\<exists>j c. ChecksumJob ref_merge pod_server ls an = Ok j \<and> po_Containers (jb_Pod j) = [c]
     \<and> started_as ref_words c [''checksum-discovery''] ref_agent"
proof -
  have "started_as ref_words c [''checksum-discovery''] ref_agent"
    if "ct_Command c = [''/bin/bash'']" "ct_Args c = [''-c'', ChecksumCommand]"
      "ct_Env c = [(''OS_IMAGE_DIR'', ''/images''), (''PROV_SERVER_NAME'', ''ps''), (''PROV_SERVER_NAMESPACE'', ''openstack'')]"
    for c
    using that by (simp add: started_as_def container_argv_def componentName_def checksum_words [OF ref_shell_splits] ref_agent_def)
  then show ?thesis
    by (simp add: ChecksumJob_def Let_def ref_merge_def ref_ps_lib_def gm_put_def)
qed

theorem checksum_job_reports_witness:
  "\<exists>x w'. has_marker x
     \<and> agent_main ref_Execute ref_lib ref_agent agent_program_init [''checksum-discovery''] sample_world = Some (Ok [], w')
     \<and> (server_gone ref_agent (server_opts pod_server ''/images'' []) w'
         \<or> checksum_reported ref_agent (server_opts pod_server ''/images'' []) x w')"
proof -
  obtain j c where j: "ChecksumJob ref_merge pod_server None None = Ok j" "c \<in> set (po_Containers (jb_Pod j))"
    "started_as ref_words c [''checksum-discovery''] ref_agent"
    using pod_job by fastforce
  let ?items = "[''image.qcow2'', ''image.qcow2.sha256'', ''old.md5'']"
  have "has_marker ''old.md5''"
    unfolding has_marker_def by (intro bexI [of _ "''md5''"]) (simp_all add: strings_Contains_iff [symmetric])
  then have "\<not> (\<forall>x \<in> set ?items. \<not> has_marker x)" by simp
  with checksum_job_reports [OF ref_cobra.cobra_cli_axioms ref_shell_splits ref_merge_law _ _ pod_server_names(3) _ j
      pod_agent_calls ref_retries.agent_retries_axioms, of sample_world]
  have "\<exists>x r w'. has_marker x
      \<and> agent_main ref_Execute ref_lib ref_agent agent_program_init [''checksum-discovery''] sample_world = Some (r, w')
      \<and> (r = Ok [] \<and> (server_gone ref_agent (server_opts pod_server ''/images'' []) w'
            \<or> checksum_reported ref_agent (server_opts pod_server ''/images'' []) x w')
         \<or> (\<exists>m w0. r = Panic m \<and> round_panics ref_lib ref_agent (server_opts pod_server ''/images'' []) w0 m))"
    by (simp only: if_False) auto
  with ref_agent_no_panic show ?thesis by blast
qed

section \<open>The container of the deployment\<close>

text \<open>C23. The deployment keeps the address of the server current. When there is a provisioning interface, the deployment
  has a container that starts the agent with the command that the agent has for it and the name, the namespace and
  the interface of the server, and its service account may read and update the status of servers.
  When the client of the agent is available and the others leave the two fields of the report alone, the program
  runs its loop for this server, and it ends only by a panic; after any number of rounds, if it remembers an
  address, the server object was there at the beginning of every round and exists, then that address was read from the interface, it is the one in the status of the server, and the
  error text there is empty. (A deletion of the server does not end the loop, unlike a comment in
  updateProvisioningStatus says, and a server that is created again while the address stays gets no report.)\<close>

theorem discovery_container_serves:
  assumes "cobra_cli Execute" and "ps_Name inst \<noteq> []" and "ps_Namespace inst \<noteq> []" and "intf \<noteq> []"
    and "Deployment me inst h ls intf = Ok d"
    and "\<forall>c \<in> set (po_Containers (dp_Pod d)). ct_Name c = ''osp-provision-ip-discovery-agent'' \<longrightarrow> started_as words c args A"
    and "startFlags L A = Ok ()" and "startClient L A = Ok ()" and "agent_store A (server_opts inst [] intf) obj"
  shows "agent_rights rbacRules \<and> po_ServiceAccountName (dp_Pod d) = RbacResourceName inst
    \<and> (case agent_main Execute L A agent_program_init args w of
         None \<Rightarrow> go_loop (provisionIPRound L A (server_opts inst [] intf)) ([], w) = None
       | Some (r, w') \<Rightarrow> (\<exists>m ip. r = Panic m
           \<and> go_loop (provisionIPRound L A (server_opts inst [] intf)) ([], w) = Some (Panic m, ip, w')))
    \<and> (\<forall>n ip w' x. rounds (provisionIPRound L A (server_opts inst [] intf)) n ([], w) = (Continue (), ip, w')
         \<and> (\<forall>k s. k < n \<and> rounds (provisionIPRound L A (server_opts inst [] intf)) k ([], w) = (Continue (), s) \<longrightarrow>
              obj (snd s) \<noteq> None)
         \<and> ip \<noteq> [] \<and> obj w' = Some x \<longrightarrow>
           reported x = (Some ip, Some []) \<and> (\<exists>w0 found. getInterfaceIP L A intf w0 = Ok (ip, found)))"
proof (intro conjI allI impI)
  let ?opts = "server_opts inst [] intf"
  show "agent_rights rbacRules" by (rule rbac_agent_rights)
  show "po_ServiceAccountName (dp_Pod d) = RbacResourceName inst"
    using assms(5) by (auto simp: Deployment_def Let_def split: option.splits)
  have "discoveryContainer inst intf \<in> set (po_Containers (dp_Pod d))"
    using assms(4,5) by (auto simp: Deployment_def Let_def split: option.splits)
  moreover have n: "ct_Name (discoveryContainer inst intf) = ''osp-provision-ip-discovery-agent''"
    by (simp add: discoveryContainer_def)
  ultimately have s: "args = [''provision-ip-discovery'']" "ag_LookupEnv A ''PROV_INTF'' = Some intf"
    "ag_LookupEnv A ''PROV_SERVER_NAME'' = Some (ps_Name inst)"
    "ag_LookupEnv A ''PROV_SERVER_NAMESPACE'' = Some (ps_Namespace inst)"
    using discovery_started [OF assms(5), of "discoveryContainer inst intf" words args A] assms(6) by auto
  have o: "provisionIPOptions A zero_opts = Ok ?opts"
    unfolding server_opts_def using s(2-4) assms(2-4) by (intro env_provisionIPOptions)
  have "agent_main Execute L A agent_program_init args w =
      map_option (\<lambda>(r, _, w). (map_outcome id (\<lambda>_. []) r, w)) (runProvisionIPStartCmd L A zero_opts w)"
    using cobra_cli.main_provisionIP [OF assms(1), of "[]" L A w] s(1) by (simp add: zero_opts_def)
  with o assms(7,8) have m: "agent_main Execute L A agent_program_init args w =
      map_option (\<lambda>(r, _, w). (map_outcome id (\<lambda>_. []) r, w)) (go_loop (provisionIPRound L A ?opts) ([], w))"
    by (simp add: runProvisionIPStartCmd_def)
  show "case agent_main Execute L A agent_program_init args w of
      None \<Rightarrow> go_loop (provisionIPRound L A ?opts) ([], w) = None
    | Some (r, w') \<Rightarrow> (\<exists>m ip. r = Panic m \<and> go_loop (provisionIPRound L A ?opts) ([], w) = Some (Panic m, ip, w'))"
  proof (cases "go_loop (provisionIPRound L A ?opts) ([], w)")
    case (Some q)
    obtain r ip w' where q: "q = (r, ip, w')" by (cases q) auto
    with Some provision_loop_panics obtain e where "r = Panic e" by fastforce
    with Some q m show ?thesis by simp
  qed (simp add: m)
next
  fix n ip w' x
  assume r: "rounds (provisionIPRound L A (server_opts inst [] intf)) n ([], w) = (Continue (), ip, w')
    \<and> (\<forall>k s. k < n \<and> rounds (provisionIPRound L A (server_opts inst [] intf)) k ([], w) = (Continue (), s) \<longrightarrow>
         obj (snd s) \<noteq> None)
    \<and> ip \<noteq> [] \<and> obj w' = Some x"
  from reported_address_current [OF assms(9), of L n w ip w' x] r
  show "reported x = (Some ip, Some [])" "\<exists>w0 found. getInterfaceIP L A intf w0 = Ok (ip, found)"
    by (simp_all add: server_opts_def)
qed

lemma pod_deployment:
  "\<exists>d. Deployment ref_merge pod_server h ls ''eth1'' = Ok d
     \<and> (\<forall>c \<in> set (po_Containers (dp_Pod d)). ct_Name c = ''osp-provision-ip-discovery-agent'' \<longrightarrow>
          started_as ref_words c [''provision-ip-discovery''] ref_agent)"
  by (simp add: Deployment_def Let_def httpdContainer_def discoveryContainer_def started_as_def container_argv_def
      componentName_def zero_Container_def ref_agent_def)

theorem discovery_container_serves_witness:
  "\<exists>w' x. rounds (provisionIPRound ref_lib ref_agent (server_opts pod_server [] ''eth1'')) 3 ([], sample_world)
       = (Continue (), ''192.168.122.5'', w')
     \<and> aw_object w' = Some x \<and> reported x = (Some ''192.168.122.5'', Some [])
     \<and> (\<forall>r w'. agent_main ref_Execute ref_lib ref_agent agent_program_init [''provision-ip-discovery''] sample_world
          = Some (r, w') \<longrightarrow> (\<exists>m. r = Panic m))"
proof -
  let ?opts = "server_opts pod_server [] ''eth1''"
  obtain d where d: "Deployment ref_merge pod_server [] None ''eth1'' = Ok d"
    "\<forall>c \<in> set (po_Containers (dp_Pod d)). ct_Name c = ''osp-provision-ip-discovery-agent'' \<longrightarrow>
       started_as ref_words c [''provision-ip-discovery''] ref_agent"
    using pod_deployment by blast
  have f: "ao_Name ?opts = ao_Name full_opts" "ao_Namespace ?opts = ao_Namespace full_opts" "ao_Intf ?opts = ao_Intf full_opts"
    by (simp_all add: server_opts_def full_opts_def)
  have o: "provisionIPRound ref_lib ref_agent ?opts = provisionIPRound ref_lib ref_agent full_opts"
    unfolding provisionIPRound_def updateProvisioningStatus_def f ..
  obtain w' where r: "rounds (provisionIPRound ref_lib ref_agent ?opts) 3 ([], sample_world) = (Continue (), ''192.168.122.5'', w')"
    and "aw_Server w' \<noteq> None"
    by (simp add: o numeral_3_eq_3 sample_round sample_world_def)
  then obtain x where x: "aw_object w' = Some x" by (auto simp: aw_object_def)
  have e: "''eth1'' \<noteq> []" by simp
  have n: "ps_Name pod_server \<noteq> []" "ps_Namespace pod_server \<noteq> []" by simp_all
  note run = discovery_container_serves [OF ref_cobra.cobra_cli_axioms n e d pod_agent_calls(1,2)
      ref_store.agent_store_axioms, of sample_world]
  from run have "reported x = (Some ''192.168.122.5'', Some [])"
    using r x sample_server_stays [folded o] by blast
  moreover from run have "\<forall>r w'. agent_main ref_Execute ref_lib ref_agent agent_program_init [''provision-ip-discovery'']
      sample_world = Some (r, w') \<longrightarrow> (\<exists>m. r = Panic m)" by (auto split: option.splits)
  ultimately show ?thesis using r x by blast
qed

end
