(* ===== verification/Settled.thy ===== *)
theory Settled
  imports Allocation
begin

text \<open>
  The fixed point of the host phase. A set is settled when every host of its specification has an entry in its
  status that is up to date, the bare metal host of the entry is as the patch leaves it, and no other
  host carries the identifier of the set. The host phase of a settled set changes neither the set nor
  a field of any host, and what the phase makes of a set that was admitted is settled.

  A Go map has no order, so hosts are compared up to the representation of their labels (\<open>alike\<close>).
\<close>

section \<open>Definitions\<close>

definition alike :: "BareMetalHost \<Rightarrow> BareMetalHost \<Rightarrow> bool" where
  "alike b b' \<longleftrightarrow> (\<exists>ls. b' = b\<lparr>bmh_Meta := (bmh_Meta b)\<lparr>om_Labels := ls\<rparr>\<rparr> \<and> gm_get ls = gm_get (bmh_Labels b))"

definition alike_hosts :: "host_view \<Rightarrow> host_view \<Rightarrow> bool" where
  "alike_hosts H H' \<longleftrightarrow> (\<forall>k. rel_option alike (H k) (H' k))"

text \<open>The entry of \<open>h\<close> and the host it names are those that provisioning \<open>h\<close> again would write.\<close>

definition settled_host ::
  "lib \<Rightarrow> OpenStackProvisionServer \<Rightarrow> Secret \<Rightarrow> Secret option \<Rightarrow> OpenStackBaremetalSet \<Rightarrow> host_view \<Rightarrow> string \<Rightarrow> bool" where
  "settled_host L ps ssh pw i H h \<longleftrightarrow>
     (\<exists>st b sts u n. gm_get (status_hosts i) h = Some st
       \<and> H (ip_BmhRef st, ts_BmhNamespace (set_Spec i)) = Some b
       \<and> cloudInit L i h (is_CtlPlaneIP (spec_host i h)) ssh pw = Ok (sts, u, n)
       \<and> hs_UserDataSecretName st = sr_Name u \<and> hs_NetworkDataSecretName st = sr_Name n
       \<and> hs_ProvisioningState st = bmh_State b \<and> alike b (provisionMutate L i h ps u n b))"

definition settled ::
  "lib \<Rightarrow> OpenStackProvisionServer \<Rightarrow> Secret \<Rightarrow> Secret option \<Rightarrow> OpenStackBaremetalSet \<Rightarrow> host_view \<Rightarrow> bool" where
  "settled L ps ssh pw i H \<longleftrightarrow>
     gm_wf (spec_hosts i) \<and> gm_wf (status_hosts i) \<and> set (gm_keys (status_hosts i)) = set (gm_keys (spec_hosts i))
     \<and> list_all (settled_host L ps ssh pw i H) (gm_keys (spec_hosts i))
     \<and> (\<forall>n. pred_option (\<lambda>b. uid_label L b = Some (om_UID (set_Meta i)) \<longrightarrow>
          (\<exists>h st. gm_get (status_hosts i) h = Some st \<and> ip_BmhRef st = n \<and> hostname_label (set_Name i) b = Some h))
          (H (n, ts_BmhNamespace (set_Spec i))))"

text \<open>A responsive cluster that lists every host that matches.\<close>

locale listing_store = responsive_store L cl hosts for L and cl :: "'w client" and hosts +
  assumes list_complete: "List_bmhs cl w opts = Ok bs \<Longrightarrow> hosts w k = Some b \<Longrightarrow>
      (\<And>ns. InNamespace ns \<in> set opts \<Longrightarrow> snd k = ns) \<Longrightarrow>
      (\<And>ls. MatchingLabels ls \<in> set opts \<Longrightarrow> gm_wf ls) \<Longrightarrow>
      (\<And>ls x v. MatchingLabels ls \<in> set opts \<Longrightarrow> gm_get ls x = Some v \<Longrightarrow> gm_get (bmh_Labels b) x = Some v) \<Longrightarrow>
      b \<in> set bs"

section \<open>Hosts up to the order of their labels\<close>

lemma alike_refl [simp]: "alike b b"
  unfolding alike_def by (intro exI [of _ "bmh_Labels b"]) simp

lemma alikeD: "alike b b' \<Longrightarrow> gm_get (bmh_Labels b') = gm_get (bmh_Labels b)"
  "alike b b' \<Longrightarrow> bmh_Status b' = bmh_Status b" "alike b b' \<Longrightarrow> bmh_key b' = bmh_key b"
  by (auto simp: alike_def bmh_key_def)

lemma alike_trans: "alike a b \<Longrightarrow> alike b c \<Longrightarrow> alike a c"
  unfolding alike_def by auto

lemma alike_hosts_refl [simp]: "alike_hosts H H"
  unfolding alike_hosts_def by (simp add: option.rel_refl)

lemma alike_hosts_upd:
  assumes "alike_hosts H H'" and "H k = Some b" and "alike b b'"
  shows "alike_hosts H (H'(k \<mapsto> b'))"
  using assms unfolding alike_hosts_def by simp

lemma alike_hosts_get: "alike_hosts H H' \<Longrightarrow> H k = Some b \<Longrightarrow> \<exists>b'. H' k = Some b' \<and> alike b b'"
  unfolding alike_hosts_def by (metis option.rel_cases option.simps(1) option.distinct(1))

context lib_laws
begin

lemma alike_patch:
  assumes "alike b b'"
  shows "alike (provisionMutate L i h ps u n b) (provisionMutate L i h ps u n b')"
proof -
  from assms obtain ls where b': "b' = b\<lparr>bmh_Meta := (bmh_Meta b)\<lparr>om_Labels := ls\<rparr>\<rparr>"
    and g: "gm_get ls = gm_get (bmh_Labels b)" unfolding alike_def by blast
  let ?ls = "MergeStringMaps L [ls, hostLabels L i h]"
  have "provisionMutate L i h ps u n b' =
      (provisionMutate L i h ps u n b)\<lparr>bmh_Meta := (bmh_Meta (provisionMutate L i h ps u n b))\<lparr>om_Labels := ?ls\<rparr>\<rparr>"
    by (simp add: b' provisionMutate_def Let_def)
  moreover have "gm_get ?ls = gm_get (bmh_Labels (provisionMutate L i h ps u n b))"
    by (rule ext) (simp add: MergeStringMaps_get g)
  ultimately show ?thesis unfolding alike_def by blast
qed

text \<open>A second patch, whatever secrets it names, leaves a host alike.\<close>

lemma patched_settled:
  fixes i h ps u n b
  defines "b1 \<equiv> provisionMutate L i h ps u n b"
  shows "alike b1 (provisionMutate L i h ps u' n' b1)"
proof -
  have "bmh_ConsumerRef b1 \<noteq> None"
    using provisionMutate_claimed(1) [of b] provisionMutate_unclaimed(1) [of b]
    by (cases "bmh_ConsumerRef b") (auto simp: b1_def)
  then have "provisionMutate L i h ps u' n' b1 = provisionMutate L i h ps u n b1"
    by (auto simp: provisionMutate_def Let_def)
  then have "provisionMutate L i h ps u' n' b1 =
      b1\<lparr>bmh_Meta := (bmh_Meta b1)\<lparr>om_Labels := MergeStringMaps L [bmh_Labels b1, hostLabels L i h]\<rparr>\<rparr>"
    using provisionMutate_twice [of L i h ps u n b] by (simp add: b1_def)
  moreover have "gm_get (MergeStringMaps L [bmh_Labels b1, hostLabels L i h]) = gm_get (bmh_Labels b1)"
    unfolding b1_def by (rule ext) (simp add: MergeStringMaps_get split: option.split)
  ultimately show ?thesis unfolding alike_def by blast
qed

end

section \<open>The parts of the phase\<close>

lemma syncRefs_all:
  "list_all (\<lambda>(_, st). ip_BmhRef st \<in> bmh_Name ` set bs) todo \<Longrightarrow> syncRefs bs todo m = m"
proof (induction bs todo m rule: syncRefs.induct)
  case (2 bs c st todo m)
  then have "list_ex (\<lambda>b. bmh_Name b = ip_BmhRef st) bs" by (auto simp: list_ex_iff)
  with 2 show ?case by simp
qed simp

lemma settled_keys:
  "settled L ps ssh pw i H \<Longrightarrow> gm_get (status_hosts i) h = None \<longleftrightarrow> h \<notin> set (gm_keys (spec_hosts i))"
  unfolding settled_def gm_get_None_iff by simp

lemma gm_put_same: "gm_get m h = Some v \<Longrightarrow> gm_put h v m = m"
  by (cases m) (simp_all add: gm_get_def gm_put_def update_triv)

context listing_store
begin

lemma provision_settled:
  assumes s: "settled_host L ps ssh pw i H h" and w: "alike_hosts H (hosts w)"
    and st: "gm_get (status_hosts i) h = Some st"
  shows "\<exists>w' env'. BaremetalHostProvision L cl (i, w, env) (ip_BmhRef st) h (is_CtlPlaneIP (spec_host i h)) ps ssh pw
      = (Ok (), i, w', env') \<and> alike_hosts H (hosts w')"
proof -
  let ?k = "(ip_BmhRef st, ts_BmhNamespace (set_Spec i))" and ?ip = "is_CtlPlaneIP (spec_host i h)"
  from s st obtain b sts u n where b: "H ?k = Some b" and c: "cloudInit L i h ?ip ssh pw = Ok (sts, u, n)"
    and f: "hs_UserDataSecretName st = sr_Name u" "hs_NetworkDataSecretName st = sr_Name n" "hs_ProvisioningState st = bmh_State b"
    and a: "alike b (provisionMutate L i h ps u n b)" unfolding settled_host_def by auto
  let ?f = "provisionMutate L i h ps u n"
  obtain w1 env1 where e: "ensureCloudInit cl sts (i, w, env) = (Ok (), i, w1, env1)" "hosts w1 = hosts w"
    using secrets_ensured by blast
  from alike_hosts_get [OF w b] obtain b' where b': "hosts w1 ?k = Some b'" "alike b b'" using e(2) by auto
  have k: "bmh_key b' = ?k" using stored_key [OF b'(1)] by simp
  obtain w2 where p: "CreateOrPatch_bmh cl w1 b' (\<lambda>b. Ok (?f b)) = (Ok (?f b'), w2)" "hosts w2 = (hosts w1)(?k \<mapsto> ?f b')"
    using patch_ok [of w1 b' b' "\<lambda>b. Ok (?f b)" "?f b'"] k b'(1) by auto
  have q: "patchHost L cl (ip_BmhRef st) h ps u n (i, w1, env1) = (Ok (?f b'), i, w2, env1)"
    using get_ok [OF b'(1)] p(1) by (simp add: patchHost_def)
  have "bmh_State (?f b') = hs_ProvisioningState st" using alikeD(2) [OF b'(2)] f(3) by simp
  then have "(initialHostStatus i (ip_BmhRef st) h ?ip)\<lparr>hs_UserDataSecretName := sr_Name u,
      hs_NetworkDataSecretName := sr_Name n, hs_ProvisioningState := bmh_State (?f b')\<rparr> = st"
    using st f(1,2) by (simp add: initialHostStatus_def)
  moreover obtain m where m: "status_hosts i = Some m" using st by (cases "status_hosts i") auto
  ultimately have "BaremetalHostProvision L cl (i, w, env) (ip_BmhRef st) h ?ip ps ssh pw = (Ok (), i, w2, env1)"
    using c e(1) q gm_put_same [OF st] set_status_hosts_same [of i]
    by (simp add: BaremetalHostProvision_def Let_def recordHost_def gm_assign_def)
  moreover have "alike_hosts H (hosts w2)"
    unfolding p(2) using alike_hosts_upd [OF w [folded e(2)] b] a alike_patch [OF b'(2)] alike_trans by blast
  ultimately show ?thesis by blast
qed

lemma provisionHosts_settled:
  assumes "alike_hosts H (hosts w)"
    and "list_all (\<lambda>(h, b). settled_host L ps ssh pw i H h
      \<and> (\<exists>st. gm_get (status_hosts i) h = Some st \<and> ip_BmhRef st = bmh_Name b)) xs"
  shows "\<exists>w' env'. provisionHosts L cl ps ssh pw xs (i, w, env) = (Ok (), i, w', env') \<and> alike_hosts H (hosts w')"
  using assms
proof (induction xs arbitrary: w env)
  case (Cons x xs)
  obtain h b where x: "x = (h, b)" by (cases x)
  from Cons.prems(2) x obtain st where s: "settled_host L ps ssh pw i H h" "gm_get (status_hosts i) h = Some st"
    "ip_BmhRef st = bmh_Name b" by auto
  from provision_settled [OF s(1) Cons.prems(1) s(2), of env] obtain w1 env1 where
    p: "BaremetalHostProvision L cl (i, w, env) (bmh_Name b) h (is_CtlPlaneIP (spec_host i h)) ps ssh pw = (Ok (), i, w1, env1)"
    and w1: "alike_hosts H (hosts w1)" using s(3) by auto
  from Cons.IH [OF w1, of env1] Cons.prems(2) x p show ?case by auto
qed auto

lemma own_listed:
  assumes "GetBaremetalHosts cl w ns (GetLabels L (set_Meta i) (GetGroupLabel L ServiceName) gm_empty) = Ok bs" and "b \<in> set bs"
  shows "uid_label L b = Some (om_UID (set_Meta i)) \<and> hosts w (bmh_Name b, ns) = Some b"
proof -
  let ?ls = "GetLabels L (set_Meta i) (GetGroupLabel L ServiceName) gm_empty"
  have g: "gm_get ?ls (uid_key L) = Some (om_UID (set_Meta i))" by (simp add: GetLabels_get uid_key_def)
  then have "gm_items ?ls \<noteq> []" using gm_get_SomeD by fastforce
  then have "gm_len ?ls > 0" by (simp add: gm_len_def)
  with assms(1) have l: "List_bmhs cl w [InNamespace ns, MatchingLabels ?ls] = Ok bs"
    by (simp add: GetBaremetalHosts_def Let_def del: gm_len_0)
  from list_labels [OF l assms(2) _ g] listed_stored [OF assms] show ?thesis by (simp add: uid_label_def)
qed

text \<open>What a settled set knows of its hosts.\<close>

lemma settled_owned:
  assumes "settled L ps ssh pw i H" and "H (n, ts_BmhNamespace (set_Spec i)) = Some b"
    and "uid_label L b = Some (om_UID (set_Meta i))"
  shows "\<exists>h st. h \<in> set (gm_keys (spec_hosts i)) \<and> settled_host L ps ssh pw i H h
    \<and> gm_get (status_hosts i) h = Some st \<and> ip_BmhRef st = n \<and> hostname_label (set_Name i) b = Some h"
proof -
  from assms(1) have "pred_option (\<lambda>b. uid_label L b = Some (om_UID (set_Meta i)) \<longrightarrow>
      (\<exists>h st. gm_get (status_hosts i) h = Some st \<and> ip_BmhRef st = n \<and> hostname_label (set_Name i) b = Some h))
      (H (n, ts_BmhNamespace (set_Spec i)))" unfolding settled_def by blast
  with assms(2,3) obtain h st where h: "gm_get (status_hosts i) h = Some st" "ip_BmhRef st = n"
    "hostname_label (set_Name i) b = Some h" by auto
  then have "h \<in> set (gm_keys (spec_hosts i))" using assms(1) by (auto simp: settled_def gm_keys_iff)
  with h assms(1) show ?thesis unfolding settled_def list_all_iff by blast
qed

lemma settled_sync:
  assumes "settled L ps ssh pw i (hosts w)"
  shows "VerifyAndSyncBaremetalStatusBmhRefs cl w i = (Ok (), i)"
proof -
  let ?ns = "ts_BmhNamespace (set_Spec i)"
  obtain bs where bs: "List_bmhs cl w [InNamespace ?ns] = Ok bs" using list_ok by blast
  have "ip_BmhRef st \<in> bmh_Name ` set bs" if e: "(h, st) \<in> set (gm_items (status_hosts i))" for h st
  proof -
    have wf: "gm_wf (status_hosts i)" using assms by (simp add: settled_def)
    have g: "gm_get (status_hosts i) h = Some st" using gm_wf_get_iff [OF wf] e by blast
    then have "h \<in> set (gm_keys (spec_hosts i))" using settled_keys [OF assms, of h] by simp
    with g assms obtain b where b: "hosts w (ip_BmhRef st, ?ns) = Some b"
      by (auto simp: settled_def list_all_iff settled_host_def)
    have "b \<in> set bs" by (rule list_complete [OF bs b]) auto
    with stored_key [OF b] show ?thesis by (auto simp: bmh_key_def intro: rev_image_eqI)
  qed
  then have "syncRefs bs (gm_items (status_hosts i)) (status_hosts i) = status_hosts i"
    by (intro syncRefs_all) (auto simp: list_all_iff)
  with bs set_status_hosts_same [of i] show ?thesis
    by (simp add: VerifyAndSyncBaremetalStatusBmhRefs_def GetBaremetalHosts_def gm_len_def Let_def)
qed

lemma hostsPhase_settled:
  assumes s: "settled L ps ssh pw i (hosts w)"
  shows "\<exists>w' env'. hostsPhase L C cl ps ssh pw (i, w, env) = (Continue (), i, w', env') \<and> alike_hosts (hosts w) (hosts w')"
proof -
  let ?ns = "ts_BmhNamespace (set_Spec i)" and ?ls = "GetLabels L (set_Meta i) (GetGroupLabel L ServiceName) gm_empty"
  have wf: "gm_wf (spec_hosts i)" using s by (simp add: settled_def)
  obtain all where all: "GetBaremetalHosts cl w ?ns (ts_BmhLabelSelector (set_Spec i)) = Ok all"
    using list_ok by (fastforce simp: GetBaremetalHosts_def Let_def)
  obtain ex where ex: "GetBaremetalHosts cl w ?ns ?ls = Ok ex"
    using list_ok by (fastforce simp: GetBaremetalHosts_def Let_def)
  have own: "\<exists>h st. h \<in> set (gm_keys (spec_hosts i)) \<and> settled_host L ps ssh pw i (hosts w) h
      \<and> gm_get (status_hosts i) h = Some st \<and> ip_BmhRef st = bmh_Name b \<and> hostname_label (set_Name i) b = Some h"
    if "b \<in> set ex" for b using own_listed [OF ex that] settled_owned [OF s] by blast
  have none: "hostNamesToDeprovision i ex = []"
  proof (rule ccontr)
    assume "hostNamesToDeprovision i ex \<noteq> []"
    then obtain h where "h \<in> set (hostNamesToDeprovision i ex)" by (cases "hostNamesToDeprovision i ex") auto
    then obtain b where "b \<in> set ex" "h \<notin> set (gm_keys (spec_hosts i))" "label_of (bmh_Labels b) (ownershipLabelKey i) = h"
      unfolding hostNamesToDeprovision_iff by blast
    with own [of b] show False by (auto simp: hostname_label_def ownershipLabelKey_def label_of_def)
  qed
  have "set (gm_keys (newComputes i)) = {}"
    unfolding newComputes_keys using settled_keys [OF s] by blast
  then have "gm_len (newComputes i) = 0" by (simp add: gm_len_def gm_keys_def)
  with placement_empty [of "newComputes i"] have sel: "VerifyBaremetalSetScaleUp i all ex = Ok None"
    unfolding scaleUp_cases [OF wf] by (auto simp: Let_def)
  let ?xs = "gm_items (MergeMaps L None (buildExistingHostBMHMap i ex))"
  have "settled_host L ps ssh pw i (hosts w) h \<and> (\<exists>st. gm_get (status_hosts i) h = Some st \<and> ip_BmhRef st = bmh_Name b)"
    if "(h, b) \<in> set ?xs" for h b
  proof -
    from that have "gm_get (MergeMaps L None (buildExistingHostBMHMap i ex)) h = Some b"
      using gm_wf_get_iff [OF MergeMaps_wf] by blast
    then have "gm_get (buildExistingHostBMHMap i ex) h = Some b" by (simp add: MergeMaps_get split: option.splits)
    from existingHosts_get [OF this [unfolded buildExistingHostBMHMap_def]] have "b \<in> set ex" "hostname_label (set_Name i) b = Some h"
      by (auto simp: hostname_label_def ownershipLabelKey_def)
    with own [of b] show ?thesis by auto
  qed
  then have xs: "list_all (\<lambda>(h, b). settled_host L ps ssh pw i (hosts w) h
      \<and> (\<exists>st. gm_get (status_hosts i) h = Some st \<and> ip_BmhRef st = bmh_Name b)) ?xs" by (auto simp: list_all_iff)
  from provisionHosts_settled [OF alike_hosts_refl xs, of env] obtain w' env' where
    p: "provisionHosts L cl ps ssh pw ?xs (i, w, env) = (Ok (), i, w', env')" "alike_hosts (hosts w) (hosts w')" by blast
  have "hostsPhase L C cl ps ssh pw (i, w, env) = (Continue (), i, w', env')"
    using settled_sync [OF s] ex none all sel p(1)
    by (simp add: hostsPhase_def hostStep_def with_env_def Let_def deleteBmh_def ensureBaremetalHosts_def)
  with p(2) show ?thesis by blast
qed

lemma taken_settled:
  assumes "taken L ps ssh pw i (Some m) H h b"
  shows "settled_host L ps ssh pw (set_status_hosts (Some m) i) H h"
proof -
  from assms obtain st sts u n where t: "gm_get (Some m) h = Some st" "ip_BmhRef st = bmh_Name b"
    "cloudInit L i h (is_CtlPlaneIP (spec_host i h)) ssh pw = Ok (sts, u, n)"
    "hs_UserDataSecretName st = sr_Name u" "hs_NetworkDataSecretName st = sr_Name n" "hs_ProvisioningState st = bmh_State b"
    "H (bmh_Name b, ts_BmhNamespace (set_Spec i)) = Some (provisionMutate L i h ps u n b)"
    unfolding taken_def by blast
  show ?thesis unfolding settled_host_def
    by (intro exI [of _ st] exI [of _ "provisionMutate L i h ps u n b"] exI [of _ sts] exI [of _ u] exI [of _ n])
      (simp add: t patched_settled)
qed

lemma allocation_settles:
  assumes wf: "gm_wf (spec_hosts i)" and st: "status_hosts i = Some []" and lab: "labelled L (hosts w)"
    and fresh: "\<And>k. pred_option (\<lambda>b. uid_label L b \<noteq> Some (om_UID (set_Meta i))) (hosts w k)"
    and a: "\<And>h. h \<in> set (gm_keys (spec_hosts i)) \<Longrightarrow> address_ok i h"
    and all: "GetBaremetalHosts cl w (ts_BmhNamespace (set_Spec i)) (ts_BmhLabelSelector (set_Spec i)) = Ok all"
    and pl: "\<exists>f. placement (newComputes i) (filter (bmhUsable i) all) f"
  shows "\<exists>i' w' env'. hostsPhase L C cl ps ssh pw (i, w, env) = (Continue (), i', w', env')
    \<and> settled L ps ssh pw i' (hosts w')"
proof -
  let ?ns = "ts_BmhNamespace (set_Spec i)"
  obtain m w' env' where run: "hostsPhase L C cl ps ssh pw (i, w, env) = (Continue (), set_status_hosts (Some m) i, w', env')"
    and t: "\<And>h. h \<in> set (gm_keys (spec_hosts i)) \<Longrightarrow> \<exists>b. taken L ps ssh pw i (Some m) (hosts w') h b"
    and mwf: "gm_wf (Some m)" and none: "\<And>h. h \<notin> set (gm_keys (spec_hosts i)) \<Longrightarrow> gm_get (Some m) h = None"
    and w': "\<And>n ns. hosts w' (n, ns) = hosts w (n, ns)
      \<or> (\<exists>h b. bmh_Name b = n \<and> b \<in> set all \<and> bmhUsable i b \<and> taken L ps ssh pw i (Some m) (hosts w') h b)"
    using hostsPhase_allocates [OF wf st fresh a all pl, of C ps ssh pw env] by blast
  have keys: "gm_get (Some m) h = None \<longleftrightarrow> h \<notin> set (gm_keys (spec_hosts i))" for h
    using none t [of h] by (auto simp: taken_def)
  have own: "\<exists>h st. gm_get (Some m) h = Some st \<and> ip_BmhRef st = n \<and> hostname_label (set_Name i) b' = Some h"
    if b': "hosts w' (n, ?ns) = Some b'" and u: "uid_label L b' = Some (om_UID (set_Meta i))" for n b'
  proof -
    have "hosts w (n, ?ns) \<noteq> Some b'" using fresh [of "(n, ?ns)"] u by (cases "hosts w (n, ?ns)") auto
    with b' have "hosts w' (n, ?ns) \<noteq> hosts w (n, ?ns)" by metis
    with w' [of n ?ns] obtain h b where b: "bmh_Name b = n" "b \<in> set all" "bmhUsable i b"
      and k: "taken L ps ssh pw i (Some m) (hosts w') h b" by blast
    have "well_labelled L b" using labelledD [OF lab listed_stored [OF all b(2)]] .
    from taken_owned [OF k b(3) this] b(1) b' show ?thesis by auto
  qed
  have "settled L ps ssh pw (set_status_hosts (Some m) i) (hosts w')"
    unfolding settled_def set_status_hosts_simps
  proof (intro conjI allI)
    show "set (gm_keys (Some m)) = set (gm_keys (spec_hosts i))" using keys by (auto simp: gm_get_None_iff)
    show "list_all (settled_host L ps ssh pw (set_status_hosts (Some m) i) (hosts w')) (gm_keys (spec_hosts i))"
      unfolding list_all_iff using t taken_settled by blast
    show "pred_option (\<lambda>b. uid_label L b = Some (om_UID (set_Meta i)) \<longrightarrow>
        (\<exists>h st. gm_get (Some m) h = Some st \<and> ip_BmhRef st = n \<and> hostname_label (set_Name i) b = Some h))
        (hosts w' (n, ?ns))" for n
      using own by (cases "hosts w' (n, ?ns)") auto
  qed (fact wf mwf)+
  with run show ?thesis by blast
qed

end

end
