(* ===== verification/SettledProperties.thy ===== *)
theory SettledProperties
  imports Settled AllocationProperties
begin

text \<open>
  The reconciliation has a fixed point and reaches it: a settled set stays as it is, and the first run for an
  admitted set settles it. The lemmas are in \<open>Settled\<close>.
\<close>

section \<open>The cluster in memory lists every host\<close>

interpretation rlist: listing_store ref_lib store_client view_host
proof unfold_locales
  fix w :: cluster and opts bs k b
  assume l: "List_bmhs store_client w opts = Ok bs" and v: "view_host w k = Some b"
    and n: "\<And>ns. InNamespace ns \<in> set opts \<Longrightarrow> snd k = ns"
    and wf: "\<And>ls. MatchingLabels ls \<in> set opts \<Longrightarrow> gm_wf ls"
    and m: "\<And>ls x v. MatchingLabels ls \<in> set opts \<Longrightarrow> gm_get ls x = Some v \<Longrightarrow> gm_get (bmh_Labels b) x = Some v"
  have k: "bmh_key b = k" using view_hostD [OF v] by simp
  have "opt_matches b opt" if o: "opt \<in> set opts" for opt
  proof (cases opt)
    case (InNamespace ns)
    with n [of ns] o k show ?thesis by (auto simp: opt_matches_def bmh_key_def)
  next
    case (MatchingLabels ls)
    with m [of ls] wf [of ls] o show ?thesis by (auto simp: opt_matches_def list_all_iff gm_wf_get_iff)
  qed
  moreover have "b \<in> set (k_bmhs w)" using v by (auto simp: view_host_def find_Some_iff split: if_splits)
  ultimately show "b \<in> set bs" using l v k by (auto simp: store_client_def list_all_iff)
qed

section \<open>Settled sets\<close>

text \<open>C12. A settled set is left alone: on a cluster whose calls succeed, when every host of the specification and no other has
  an entry in the status that is up to date, every such entry names a bare metal host that is as the patch leaves
  it, and no further host carries the identifier of the set, the host phase of the reconciliation runs to its end
  and changes neither the instance nor a field or a label of any host.\<close>

theorem settled_set_stable:
  assumes "listing_store L cl hosts" and "settled L ps ssh pw i (hosts w)"
  shows "\<exists>w' env'. hostsPhase L C cl ps ssh pw (i, w, env) = (Continue (), i, w', env')
    \<and> (\<forall>k. case hosts w k of
         None \<Rightarrow> hosts w' k = None
       | Some b \<Rightarrow> \<exists>ls. hosts w' k = Some (b\<lparr>bmh_Meta := (bmh_Meta b)\<lparr>om_Labels := ls\<rparr>\<rparr>) \<and> gm_get ls = gm_get (bmh_Labels b))"
proof -
  from listing_store.hostsPhase_settled [OF assms] obtain w' env' where
    h: "hostsPhase L C cl ps ssh pw (i, w, env) = (Continue (), i, w', env')" and a: "alike_hosts (hosts w) (hosts w')" by blast
  have "case hosts w k of None \<Rightarrow> hosts w' k = None
     | Some b \<Rightarrow> \<exists>ls. hosts w' k = Some (b\<lparr>bmh_Meta := (bmh_Meta b)\<lparr>om_Labels := ls\<rparr>\<rparr>) \<and> gm_get ls = gm_get (bmh_Labels b)" for k
  proof (cases "hosts w k")
    case None
    then show ?thesis using a [unfolded alike_hosts_def, rule_format, of k] by simp
  next
    case (Some b)
    from alike_hosts_get [OF a Some] Some show ?thesis by (auto simp: alike_def)
  qed
  with h show ?thesis by blast
qed

text \<open>C8. The first reconciliation of a set that has passed the validation of the create webhook settles it: on a
  cluster whose calls succeed and that lists the hosts that were listed at the admission, the host phase runs to
  its end and leaves a set that is settled, with one entry for every host of the specification; and a further run of
  the phase changes neither the instance nor a field or a label of any host. Provided that the address of every
  host parses or the host names its own network data, since the webhook does not check this and the phase fails
  otherwise; that a label of the operator is only on a host with a consumer; and that no host carries the UID
  of the new set.\<close>

theorem admitted_set_settles:
  assumes "listing_store L cl hosts" and "ValidateCreate_set L cl w0 r = Ok ()"
    and "gm_wf (spec_hosts r)" and "\<forall>h. gm_get (status_hosts r) h = None"
    and "set_Spec i = set_Spec r" and "status_hosts i = Some []"
    and "GetBaremetalHosts cl w0 (ts_BmhNamespace (set_Spec r)) (ts_BmhLabelSelector (set_Spec r)) = Ok all"
    and "GetBaremetalHosts cl w (ts_BmhNamespace (set_Spec r)) (ts_BmhLabelSelector (set_Spec r)) = Ok all"
    and "labelled L (hosts w)"
    and "\<forall>k. pred_option (\<lambda>b. uid_label L b \<noteq> Some (om_UID (set_Meta i))) (hosts w k)"
    and "list_all (address_ok i) (gm_keys (spec_hosts r))"
  shows "\<exists>i1 w1 env1 w2 env2. hostsPhase L C cl ps ssh pw (i, w, env) = (Continue (), i1, w1, env1)
    \<and> settled L ps ssh pw i1 (hosts w1)
    \<and> hostsPhase L C cl ps ssh pw (i1, w1, env1) = (Continue (), i1, w2, env2) \<and> alike_hosts (hosts w1) (hosts w2)"
proof -
  have all: "GetBaremetalHosts cl w (ts_BmhNamespace (set_Spec i)) (ts_BmhLabelSelector (set_Spec i)) = Ok all"
    and wf: "gm_wf (spec_hosts i)" using assms(3,5,8) by simp_all
  have a: "\<And>h. h \<in> set (gm_keys (spec_hosts i)) \<Longrightarrow> address_ok i h" using assms(5,11) by (simp add: list_all_iff)
  have fresh: "\<And>k. pred_option (\<lambda>b. uid_label L b \<noteq> Some (om_UID (set_Meta i))) (hosts w k)" using assms(10) by blast
  have none: "\<And>h. gm_get (status_hosts r) h = None" using assms(4) by blast
  note pl = admitted_placement [OF assms(3,2,5) none assms(6,7)]
  from listing_store.allocation_settles [OF assms(1) wf assms(6,9) fresh a all pl, of C ps ssh pw env]
  obtain i1 w1 env1 where r: "hostsPhase L C cl ps ssh pw (i, w, env) = (Continue (), i1, w1, env1)"
    and s: "settled L ps ssh pw i1 (hosts w1)" by blast
  from listing_store.hostsPhase_settled [OF assms(1) s, of C env1] r s show ?thesis by blast
qed

lemma admit_empty:
  "\<forall>h. gm_get (status_hosts admit_set) h = None" "set_Spec (set_status_hosts (Some []) admit_set) = set_Spec admit_set"
  "status_hosts (set_status_hosts (Some []) admit_set) = Some []"
  "\<forall>k. pred_option (\<lambda>b. uid_label ref_lib b \<noteq> Some (om_UID (set_Meta (set_status_hosts (Some []) admit_set))))
    (view_host admit_cluster k)"
  using admit_free(2) [of "set_status_hosts (Some []) admit_set"] by (simp_all add: admit_set_def sample_set_def)

theorem admitted_set_settles_witness:
  "\<exists>i1 w1 env1 w2 env2. hostsPhase ref_lib ref_conds store_client zero_ProvisionServer sample_ssh None
       (set_status_hosts (Some []) admit_set, admit_cluster, gm_empty) = (Continue (), i1, w1, env1)
     \<and> settled ref_lib zero_ProvisionServer sample_ssh None i1 (view_host w1)
     \<and> hostsPhase ref_lib ref_conds store_client zero_ProvisionServer sample_ssh None (i1, w1, env1)
       = (Continue (), i1, w2, env2)"
  using admitted_set_settles [OF rlist.listing_store_axioms admit_store admit_set_wf admit_empty(1) admit_empty(2,3)
      admit_store_hosts admit_store_hosts admit_free(1) admit_empty(4) admit_addresses,
      of ref_conds zero_ProvisionServer sample_ssh None gm_empty] by blast

lemma settled_sample:
  "\<exists>i w. settled ref_lib zero_ProvisionServer sample_ssh None i (view_host w) \<and> gm_keys (spec_hosts i) \<noteq> []"
proof -
  let ?i = "set_status_hosts (Some []) admit_set"
  have wf: "gm_wf (spec_hosts ?i)" using admit_set_wf by simp
  have h: "GetBaremetalHosts store_client admit_cluster (ts_BmhNamespace (set_Spec ?i)) (ts_BmhLabelSelector (set_Spec ?i))
      = Ok (k_bmhs admit_cluster)" using admit_store_hosts by simp
  have a: "\<And>h. h \<in> set (gm_keys (spec_hosts ?i)) \<Longrightarrow> address_ok ?i h" using admit_addresses by (simp add: list_all_iff)
  have none: "\<And>h. gm_get (status_hosts admit_set) h = None" using admit_empty(1) by blast
  have fresh: "\<And>k. pred_option (\<lambda>b. uid_label ref_lib b \<noteq> Some (om_UID (set_Meta ?i))) (view_host admit_cluster k)"
    using admit_empty(4) by blast
  note pl = admitted_placement [OF admit_set_wf admit_store admit_empty(2) none admit_empty(3) admit_store_hosts]
  from rlist.allocation_settles [OF wf admit_empty(3) admit_free(1) fresh a h pl, of ref_conds zero_ProvisionServer sample_ssh
      None gm_empty]
  obtain i w env where r: "hostsPhase ref_lib ref_conds store_client zero_ProvisionServer sample_ssh None (?i, admit_cluster, gm_empty)
      = (Continue (), i, w, env)"
    and s: "settled ref_lib zero_ProvisionServer sample_ssh None i (view_host w)" by blast
  have "spec_hosts i = spec_hosts ?i" using rl.hostsPhase_covers [OF _ r] admit_set_wf by simp
  then have "gm_keys (spec_hosts i) \<noteq> []" by (simp add: admit_set_def sample_set_def gm_keys_def)
  with s show ?thesis by blast
qed

theorem settled_set_stable_witness:
  "\<exists>i w w' env'. gm_keys (spec_hosts i) \<noteq> []
     \<and> hostsPhase ref_lib ref_conds store_client zero_ProvisionServer sample_ssh None (i, w, gm_empty) = (Continue (), i, w', env')"
proof -
  obtain i w where s: "settled ref_lib zero_ProvisionServer sample_ssh None i (view_host w)" "gm_keys (spec_hosts i) \<noteq> []"
    using settled_sample by blast
  from settled_set_stable [OF rlist.listing_store_axioms s(1), of ref_conds gm_empty] s(2) show ?thesis by blast
qed

end
