(* ===== verification/Spec2Isabelle.thy ===== *)
theory Spec2Isabelle
  imports SelectionProperties AdmissionProperties SetProperties ServerProperties AgentProperties
    ManagerProperties OwnershipProperties AllocationProperties ImageProperties DeepCopyProperties RbacSharing PodProperties
    SettledProperties
begin

text \<open>
  \<^bold>\<open>A verification of the OpenStack bare metal operator\<close>

  The operator manages two custom resources. An \<open>OpenStackBaremetalSet\<close> asks for a number of named
  hosts; the operator selects Metal3 \<open>BareMetalHost\<close> objects for them, provisions them with an image and
  cloud-init secrets, and releases them again. An \<open>OpenStackProvisionServer\<close> runs an HTTP server that serves
  the image; an agent in its pods reports the checksum file and the address of the provisioning interface.
  Admission webhooks default and validate both resources. The program is Go; the sources are under
  \<^verbatim>\<open>src/\<close>.

  \<^bold>\<open>How the parts interact.\<close> The API server calls the webhooks (\<open>Admission\<close>, \<open>PortAssign\<close>) before it stores an
  object; the check of a new or grown set runs the same selection (\<open>ScaleUp\<close>) as the controller. The
  controller of the sets (\<open>SetController\<close>) creates or finds a provision server, waits until it is ready,
  selects hosts and provisions them (\<open>HostProvision\<close>); the labels it puts on a host map the events of
  the host back to the set. The controller of the servers (\<open>ProvServerController\<close>) creates a deployment and a
  job (\<open>ProvResources\<close>), and reads from the status what the agent (\<open>Agent\<close>) writes there. \<open>Manager\<close> is the process
  that runs the controllers and the webhooks.

  \<^bold>\<open>Foundations\<close>
  \<^item> \<open>Prelude\<close>: Go maps as optional association lists whose order is the order of a \<open>range\<close> loop; outcomes
    (value, error, panic); sequencing of bodies with early returns (\<open>and_then\<close>, \<open>flow_then\<close>).
  \<^item> \<open>GoStd\<close>: wrap-around of \<open>int32\<close>, conversion to \<open>float64\<close>, decimal formatting, string functions.
    \<open>GoNet\<close> and \<open>GoNetPrint\<close>: parsing and printing of addresses, with the round trip \<open>ParseIP_String\<close>, and
    regular expressions with their language. \<open>GoLoop\<close>: the endless loop as a
    \<^theory_text>\<open>partial_function (option)\<close>, with locales for invariants and progress. \<open>GoSlice\<close>: slices over
    an explicit store of arrays, with \<open>append\<close> in place or into a new array. \<open>GoHeap\<close>: memory with
    sharing, and the locale \<open>copier\<close>, the contract of a copy, with rules that give it for pointers, slices, maps and
    structs.
  \<^item> \<open>ApiTypes\<close>: the resources (\<^verbatim>\<open>api/v1beta1/*_types.go\<close>) and the fields of Kubernetes and Metal3 objects that
    the sources use. \<open>External\<close>: the Kubernetes client, lib-common and the condition library as parameters, with
    their documented laws as the locales \<open>lib_laws\<close> and \<open>cond_laws\<close> and a reference instance of each.
    \<open>Conditions\<close>: condition types, messages and the deferred update (\<^verbatim>\<open>api/v1beta1/conditions.go\<close>).

  \<^bold>\<open>Components\<close>
  \<^item> \<open>HardwareMatch\<close>, \<open>LabelAssign\<close>, \<open>ScaleUp\<close> (\<^verbatim>\<open>api/v1beta1/openstackbaremetalset.go\<close>): the hardware check over
    \<open>int\<close> and \<open>float64\<close>, the backtracking assignment of hosts to label selectors, the scale-up check, and the
    synchronisation of the status. Shown: the search is sound and complete, the scale-up check succeeds
    exactly when a placement exists, what it selects is usable, and the hardware check refines the request
    read over the integers.
  \<^item> \<open>PortAssign\<close> (\<^verbatim>\<open>api/v1beta1/openstackprovisionserver.go\<close>, \<^verbatim>\<open>_webhook.go\<close>) and \<open>Admission\<close>
    (\<^verbatim>\<open>api/v1beta1/openstackbaremetalset_webhook.go\<close>, \<^verbatim>\<open>internal/webhook/v1beta1\<close>): defaulting, port allocation and
    validation. Shown: the allocation loop returns before its \<open>int32\<close> counter wraps around, a new server
    gets the least free port, servers admitted one after the other never share a port (an inductive
    reachability relation), and the webhooks of the sets decide exactly the stated conditions, the annotation that
    skips the validation and the lists of hosts included.
  \<^item> \<open>HostProvision\<close> (\<^verbatim>\<open>internal/openstackbaremetalset\<close>): cloud-init data, the patch of a host, its release. Shown:
    the outcome of a provisioning on every branch, that the patch is idempotent and that a release undoes it.
  \<^item> \<open>SetController\<close>, \<open>SetSafety\<close> (\<^verbatim>\<open>internal/controller/openstackbaremetalset_controller.go\<close>): the whole
    reconciliation, cut at its early returns into parts that are composed again. Shown: a set is reported ready
    only when every host is provisioned, a reconciliation does not panic on its own, the status keeps its
    entries under their own names, and the effects of removal and deletion. \<open>SetLiveness\<close>: a reconciliation that
    runs to its end with every host provisioned makes the set ready.
  \<^item> \<open>Ownership\<close>, \<open>OwnershipKept\<close>, \<open>World\<close>: several sets over the same hosts. The locales \<open>host_store\<close> and
    \<open>set_store\<close> state what a cluster stores and which calls change it, not when a call succeeds; \<open>world_step\<close> interleaves
    whole reconciliations of any sets with what others do to hosts and sets. A reconciliation is one step, as
    the controller runs one at a time. Shown: a reconciliation leaves the hosts of other sets alone, whatever fails in it
    (\<open>Reconcile_touched\<close>); an orderly one keeps hosts, labels and statuses in agreement (\<open>Reconcile_own\<close>), so that no
    host is allocated twice. A reconciliation is \<open>orderly\<close> when it returns no error, or when the deletion of secrets and the
    patch of an instance never fail, a failed update of a host is not applied and no call panics; \<open>failed_deprovision_releases\<close> shows what happens
    without this. The others do not change the consumer of a host nor the labels of this operator, do not register a
    host under a name that a status still has, and do not change the namespace of the hosts of a set.
  \<^item> \<open>ProvResources\<close>, \<open>ProvServerController\<close>, \<open>ProvServerSafety\<close> (\<^verbatim>\<open>internal/openstackprovisionserver\<close>,
    \<^verbatim>\<open>internal/controller/openstackprovisionserver_controller.go\<close>): the deployment, the job and the reconciliation.
    Shown: a server is reported ready only when both URLs are set and are those of the reported address, and the
    pods are well-formed.
  \<^item> \<open>Agent\<close>, \<open>AgentSafety\<close> (\<^verbatim>\<open>containers/agent\<close>): both commands with their loops. Shown: when only finitely
    many updates are refused, the checksum command ends and reports the first marked file unless the server is gone or a
    round panics because a call failed (\<open>round_panics\<close>); the reported address is current as long as the server
    exists without a break; and what the controller makes of the report.
    \<open>AgentMain\<close> (\<^verbatim>\<open>main.go\<close> and the \<open>init\<close> functions): the commands, their flags and \<open>main\<close>; what cobra makes of the
    arguments is a parameter, with the locale \<open>cobra_cli\<close> as its contract. \<open>PodProperties\<close> composes the
    agent with the job and the deployment that start it: the containers run commands that the agent has, with the
    options that it asks for and with the rights that it needs.
  \<^item> \<open>DeepCopy\<close>, \<open>DeepCopyContract\<close> (\<^verbatim>\<open>api/v1beta1/zz_generated.deepcopy.go\<close>): every \<open>DeepCopyInto\<close>, \<open>DeepCopy\<close> and
    \<open>DeepCopyObject\<close> over a heap, on the structs as they lie in memory, and the readers \<open>rd_T\<close> that relate these to the
    values of \<open>ApiTypes\<close>; the readers leave out the API version and do not tell a nil from an empty list of
    name servers. Shown: a copy has the value of the original and shares nothing with it, so that the other
    components may compute with values; \<open>GetBmhRefStatus\<close>, which ranges over a copied status, refines its version on
    values. \<open>RbacSharing\<close>: the conditions that \<open>RbacConditionsSet\<close> sets on a copy of the server reach the server through the
    shared array, because the controller has initialised them before.
  \<^item> \<open>Allocation\<close>: the composition of the webhook and the controller. The locale \<open>responsive_store\<close> extends \<open>host_store\<close> by
    the success of the calls. Shown (\<open>AllocationProperties\<close>): a set that was admitted gets its hosts. \<open>Settled\<close>: the fixed
    point of the host phase, with the locale \<open>listing_store\<close>, in which lists are complete. Shown (\<open>SettledProperties\<close>): the phase
    leaves a settled set and the hosts as they are, and the first run settles an admitted set.
    \<open>ImageProperties\<close> composes the agent, the controller of the servers and the controller of the sets: a host boots from an
    address that the agent has read.
  \<^item> \<open>Manager\<close> (\<^verbatim>\<open>cmd/main.go\<close>, the \<open>SetupWithManager\<close> functions): flags, TLS options in a shared slice, and the
    registration of controllers and webhooks. \<open>Scheme\<close> (\<^verbatim>\<open>api/v1beta1/groupversion_info.go\<close>, the \<open>init\<close> functions of the
    types and of \<^verbatim>\<open>cmd/main.go\<close>): the registration of the types, with the contract of schemes as the locale
    \<open>scheme_laws\<close> (a builder adds the registered kinds, maybe others, and keeps the known ones). Shown: the manager starts only when everything is set up, its scheme knows every kind that it
    watches, and each server has its own certificate with the capacities that the runtime gives to short slices.

  \<^bold>\<open>Properties.\<close> The theorems with a claim number are in \<open>SelectionProperties\<close>, \<open>AdmissionProperties\<close>,
  \<open>SetProperties\<close>, \<open>OwnershipProperties\<close>, \<open>AllocationProperties\<close>, \<open>SettledProperties\<close>, \<open>ServerProperties\<close>, \<open>AgentProperties\<close>, \<open>PodProperties\<close>,
  \<open>ImageProperties\<close>, \<open>DeepCopyProperties\<close> and \<open>ManagerProperties\<close>. A theorem with hypotheses is followed by a witness that applies it to concrete
  objects; the objects, a small cluster, a reference agent, a heap and reference instances of the parameters are in
  \<open>RefClient\<close>, \<open>SampleRun\<close>, \<open>SampleWorld\<close>, \<open>SampleServer\<close>, \<open>SampleAgent\<close> and \<open>SampleMemory\<close>. Some
  theorems state where the code departs from what it means to do: a Metal3 interface is never found
  (\<open>interface_never_found\<close>), secrets survive deprovisioning (\<open>deprovision_leaves_secrets\<close>), a deprovisioning that fails half way
  leaves an entry for a host that is free (\<open>failed_deprovision_releases\<close>), a missing host ends a deletion
  early (\<open>delete_stops_at_missing_host\<close>), the checksum condition does not wait for the checksum
  (\<open>checksum_ready_without_file\<close>), an empty list of pods panics (\<open>missing_pod_panics\<close>), only the first disk of the
  right size is checked for its type (\<open>first_disk_decides\<close>), requests handled at the same time may get the same
  port (\<open>concurrent_creates_share_port\<close>), and the agent does not report to a server that was created again
  (\<open>recreated_server_not_reported\<close>).

  \<^bold>\<open>Conventions.\<close> A call out of the repository is a field of a record of operations over an abstract world \<open>'w\<close>;
  nothing is assumed of it except where a hypothesis says so. A pointer is an \<open>option\<close> (an address where
  sharing matters: the deep copies, the TLS options and the conditions of the roles); a write to a nil map,
  an index out of range and a failed type assertion are panics. Loops over lists and maps are structural
  recursions; the port loop and the loops of the agent are option-valued, and no theorem uses fuel. Log output is not
  modelled, neither are times beyond the number of seconds of a requeue.

  \<^bold>\<open>Not modelled.\<close> The libraries the sources call, the version variables of
  \<^verbatim>\<open>internal/openstackprovisionserver/version.go\<close>, which nothing reads, loggers and log output, and the structs that only
  carry the clients of the reconcilers and the receivers of the webhooks.
\<close>

end
